(* ===== verification/Prelude.thy ===== *)
theory Prelude
  imports Main "HOL-Library.Multiset" "HOL-Library.AList" "HOL-Library.List_Lexorder"
    "HOL-Library.Char_ord"
begin

text \<open>
  Shared vocabulary of the development: the exceptions the modelled code raises, the
  result type that carries them, the traversals a Python loop with an early exit turns
  into, and the string operations of the source (\<open>str.strip\<close>).  A Python \<open>dict\<close> is an
  association list updated with \<open>AList.update\<close>, which keeps insertion order exactly as a
  \<open>dict\<close> does.
\<close>

named_theorems res_simps \<open>inversion of successful results\<close>

subsection \<open>Exceptions and results\<close>

text \<open>
  One constructor per exception class that the modelled functions raise or let through:
  first the built-in and standard-library classes, then the classes of
  \<open>execution/errors.py\<close>, \<open>analytics/models.py\<close>, \<open>ingestion/normalization.py\<close>,
  \<open>persistence/sqlite.py\<close>, \<open>ingestion/dhan_catalog.py\<close> and \<open>brokers/dhan_live.py\<close>.  The string is the message.
\<close>

datatype py_error =
    ValueError string
  | TypeError string
  | AssertionError string
  | OverflowError string
  | StopIteration
  | InvalidOperation
  | DivisionByZero
  | ZeroDivisionError
  | IntegrityError
  | TimeoutError
  | OtherException string
  | ExecutionError string
  | ExecutionBlockedError string
  | PlanValidationError string
  | DuplicateSignalError string
  | DuplicatePositionError string
  | ApprovalError string
  | KillSwitchError string
  | LiveExecutionDisabledError string
  | ExecutionUncertainError string
  | AnalyticsInputError string
  | KeyError string
  | NormalizationError string
  | PersistenceError string
  | UnsafeSchemaError string
  | InstrumentMasterError string
  | ContractIntegrityError string
  | ValidationBindingError string
  | SnapshotOrderingError string
  | ChangeOIProvenanceError string
  | DhanCatalogError string
  | RuntimeError string
  | DhanFeedDisconnected int
  | DhanFeedDependencyError
  | DhanFeedTransportError
  | DhanFeedReceiveTimeout
  | DhanFeedIdleError
  | DhanFeedProtocolError
  | DhanFeedConsumerError

type_synonym 'a res = "py_error + 'a"

definition bindr :: "'a res \<Rightarrow> ('a \<Rightarrow> 'b res) \<Rightarrow> 'b res" where
  "bindr m f = (case m of Inl e \<Rightarrow> Inl e | Inr a \<Rightarrow> f a)"

lemma bindr_simps [simp]:
  "bindr (Inl e) f = Inl e"
  "bindr (Inr a) f = f a"
  by (simp_all add: bindr_def)

lemma bindr_eq_Inr [res_simps]: "bindr m f = Inr y \<longleftrightarrow> (\<exists>x. m = Inr x \<and> f x = Inr y)"
  by (cases m) simp_all

lemma bindr_eq_Inl: "bindr m f = Inl e \<longleftrightarrow> m = Inl e \<or> (\<exists>x. m = Inr x \<and> f x = Inl e)"
  by (cases m) simp_all

lemma if_Inl_eq_Inr [res_simps]: "(if P then Inl e else m) = Inr y \<longleftrightarrow> \<not> P \<and> m = Inr y"
  by simp

lemma if_Inl_eq_Inr' [res_simps]: "(if P then m else Inl e) = Inr y \<longleftrightarrow> P \<and> m = Inr y"
  by simp

lemma Let_eq_Inr [res_simps]: "(let x = v in f x) = Inr y \<longleftrightarrow> f v = Inr y"
  by (simp add: Let_def)

definition is_ok :: "'a res \<Rightarrow> bool" where
  "is_ok r = (case r of Inl _ \<Rightarrow> False | Inr _ \<Rightarrow> True)"

lemma is_ok_simps [simp]: "is_ok (Inr a)" "\<not> is_ok (Inl e)"
  by (simp_all add: is_ok_def)

lemma is_ok_iff: "is_ok r \<longleftrightarrow> (\<exists>a. r = Inr a)"
  by (cases r) simp_all

text \<open>A loop body that may raise, over a list: the first exception ends the loop.\<close>

fun traverse :: "('a \<Rightarrow> 'b res) \<Rightarrow> 'a list \<Rightarrow> 'b list res" where
  "traverse f [] = Inr []"
| "traverse f (x # xs) = bindr (f x) (\<lambda>y. bindr (traverse f xs) (\<lambda>ys. Inr (y # ys)))"

fun fold_res :: "('a \<Rightarrow> 's \<Rightarrow> 's res) \<Rightarrow> 'a list \<Rightarrow> 's \<Rightarrow> 's res" where
  "fold_res f [] s = Inr s"
| "fold_res f (x # xs) s = bindr (f x s) (fold_res f xs)"

lemma traverse_eq_Inr [res_simps]:
  "traverse f xs = Inr ys \<longleftrightarrow> list_all2 (\<lambda>x y. f x = Inr y) xs ys"
proof (induction xs arbitrary: ys)
  case Nil
  then show ?case by auto
next
  case (Cons x xs)
  then show ?case by (auto simp: bindr_eq_Inr list_all2_Cons1)
qed

lemma fold_res_append: "fold_res f (xs @ ys) s = bindr (fold_res f xs s) (fold_res f ys)"
proof (induction xs arbitrary: s)
  case Nil
  then show ?case by simp
next
  case (Cons x xs)
  then show ?case by (cases "f x s") simp_all
qed

text \<open>An invariant of the body is an invariant of the loop.\<close>

lemma fold_res_invariant:
  assumes "fold_res f xs s = Inr t" and "I s"
    and "\<And>x s t. x \<in> set xs \<Longrightarrow> I s \<Longrightarrow> f x s = Inr t \<Longrightarrow> I t"
  shows "I t"
  using assms
proof (induction xs arbitrary: s)
  case Nil
  then show ?case by simp
next
  case (Cons x xs)
  from Cons.prems(1) obtain u where u: "f x s = Inr u" "fold_res f xs u = Inr t"
    by (auto simp: bindr_eq_Inr)
  from Cons.prems(2,3) u(1) have "I u" by auto
  show ?case
    by (rule Cons.IH[OF u(2) \<open>I u\<close>]) (use Cons.prems(3) in auto)
qed

text \<open>A body that never raises under an invariant of the rest of the list makes a total loop.\<close>

lemma fold_res_total:
  assumes "I xs s" and "\<And>x ys s. I (x # ys) s \<Longrightarrow> \<exists>t. f x s = Inr t \<and> I ys t"
  shows "\<exists>t. fold_res f xs s = Inr t \<and> I [] t"
  using assms(1)
proof (induction xs arbitrary: s)
  case Nil
  then show ?case by simp
next
  case (Cons x xs)
  from assms(2)[OF Cons.prems] obtain u where "f x s = Inr u" "I xs u" by blast
  with Cons.IH[of u] show ?case by simp
qed

subsection \<open>Strings\<close>

text \<open>
  A \<open>char\<close> is a code point below 256; \<open>is_space\<close> is \<open>str.isspace\<close> on that range, the
  characters \<open>str.strip\<close> removes.
\<close>

definition is_space :: "char \<Rightarrow> bool" where
  "is_space c \<longleftrightarrow> c \<in> set [CHR 0x09, CHR 0x0A, CHR 0x0B, CHR 0x0C, CHR 0x0D, CHR 0x1C, CHR 0x1D,
     CHR 0x1E, CHR 0x1F, CHR 0x20, CHR 0x85, CHR 0xA0]"

definition py_strip :: "string \<Rightarrow> string" where
  "py_strip s = rev (dropWhile is_space (rev (dropWhile is_space s)))"

text \<open>\<open>str.upper\<close>, on ASCII.\<close>

definition upper_char :: "char \<Rightarrow> char" where
  "upper_char c = (if CHR ''a'' \<le> c \<and> c \<le> CHR ''z'' then char_of (of_char c - 32 :: nat) else c)"

definition py_upper :: "string \<Rightarrow> string" where
  "py_upper s = List.map upper_char s"

lemma dropWhile_rev_dropWhile_Nil:
  "dropWhile P (rev (dropWhile P xs)) = [] \<longleftrightarrow> (\<forall>x\<in>set xs. P x)"
proof -
  have "(\<forall>x\<in>set (dropWhile P xs). P x) \<longleftrightarrow> (\<forall>x\<in>set xs. P x)"
    by (induction xs) auto
  then show ?thesis by simp
qed

lemma py_strip_Nil_iff: "py_strip s = [] \<longleftrightarrow> (\<forall>c\<in>set s. is_space c)"
  unfolding py_strip_def by (simp only: rev_is_Nil_conv dropWhile_rev_dropWhile_Nil)

lemma py_strip_empty [simp]: "py_strip [] = []"
  by (simp add: py_strip_def)

lemma hd_dropWhile_rev: "xs \<noteq> [] \<Longrightarrow> \<not> P (last xs) \<Longrightarrow> dropWhile P (rev xs) = rev xs"
  by (cases xs rule: rev_cases) auto

lemma py_strip_idem [simp]: "py_strip (py_strip s) = py_strip s"
proof (cases "py_strip s = []")
  case True
  then show ?thesis by simp
next
  case False
  define t where "t = dropWhile is_space s"
  define u where "u = dropWhile is_space (rev t)"
  have strip: "py_strip s = rev u" by (simp add: py_strip_def t_def u_def)
  from False strip have u: "u \<noteq> []" by simp
  then have last_ok: "\<not> is_space (hd u)"
    unfolding u_def using hd_dropWhile by blast
  have "t \<noteq> []" using u by (auto simp: u_def)
  then have "\<not> is_space (hd t)" unfolding t_def using hd_dropWhile by blast
  moreover have "last u = hd t"
  proof -
    have "rev t = takeWhile is_space (rev t) @ u" unfolding u_def by simp
    then obtain zs where "rev t = zs @ u" by blast
    then have "last (rev t) = last u" using u by simp
    then show ?thesis using \<open>t \<noteq> []\<close> by (simp add: last_rev)
  qed
  ultimately have "\<not> is_space (last u)" by simp
  then have "dropWhile is_space (rev u) = rev u" using u by (rule hd_dropWhile_rev[rotated])
  moreover have "dropWhile is_space u = u"
    using last_ok u by (cases u) auto
  ultimately have "py_strip (rev u) = rev u" by (simp add: py_strip_def)
  then show ?thesis by (simp only: strip)
qed

subsection \<open>Association lists as Python dictionaries\<close>

lemma distinct_fst_update: "distinct (map fst xs) \<Longrightarrow> distinct (map fst (AList.update k v xs))"
  by (rule distinct_update)

lemma map_of_AList_update: "map_of (AList.update k v xs) = (map_of xs)(k \<mapsto> v)"
  by (rule update_conv')

lemma map_of_AList_delete: "map_of (AList.delete k xs) = (map_of xs)(k := None)"
  by (rule delete_conv')

subsection \<open>Lists\<close>

lemma takeWhile_length_le_filter: "length (takeWhile P xs) \<le> length (filter P xs)"
  by (induction xs) auto

lemma distinct_map_filter: "distinct (map f xs) \<Longrightarrow> distinct (map f (filter P xs))"
  by (induction xs) auto

end
