(* ===== verification/Enums.thy ===== *)
theory Enums
  imports Prelude
begin

text \<open>
  The enumerations of \<open>domain/enums.py\<close>, with their persisted string values, and the order
  of score bands.
\<close>

datatype Exchange = NSE | BSE | MCX

datatype MarketKind = INDEX | STOCK | COMMODITY

datatype PricingModel = BLACK_SCHOLES | BLACK_76

datatype OptionType = CALL | PUT

datatype TradingStyle = INTRADAY | POSITIONAL

datatype OperatingMode = QUICK | PRO

datatype DataSource = DHAN_REST | DHAN_LIVE | CSV | MANUAL | REPLAY

datatype DecisionState = BUY_CALL | BUY_PUT | WAIT | NO_TRADE | INSUFFICIENT_DATA

datatype DecisionReason =
    DATA_INCOMPLETE | DATA_STALE | INVALID_EXPIRY | EXTREME_EXPIRY_RISK | EVENT_RISK
  | NO_LIQUID_STRIKE | NOT_AFFORDABLE | BELOW_WATCHLIST_SCORE | WATCHLIST_ONLY
  | CONFLICTING_SCORES | PRICE_ACTION_PENDING | QUICK_MODE_ONLY | BULLISH_CONFIRMED
  | BEARISH_CONFIRMED

datatype ScoreBand = STRONG | TRADABLE | WATCHLIST | REJECTED_BAND

datatype ValidationSeverity = ERROR | WARNING

datatype SnapshotStatus = ACCEPTED | REJECTED_SNAPSHOT

fun market_kind_value :: "MarketKind \<Rightarrow> string" where
  "market_kind_value INDEX = ''INDEX''"
| "market_kind_value STOCK = ''STOCK''"
| "market_kind_value COMMODITY = ''COMMODITY''"

fun option_type_value :: "OptionType \<Rightarrow> string" where
  "option_type_value CALL = ''CE''"
| "option_type_value PUT = ''PE''"

fun score_band_value :: "ScoreBand \<Rightarrow> string" where
  "score_band_value STRONG = ''STRONG''"
| "score_band_value TRADABLE = ''TRADABLE''"
| "score_band_value WATCHLIST = ''WATCHLIST''"
| "score_band_value REJECTED_BAND = ''REJECTED''"

text \<open>Bands are ordered by quality.\<close>

fun band_rank :: "ScoreBand \<Rightarrow> nat" where
  "band_rank REJECTED_BAND = 0"
| "band_rank WATCHLIST = 1"
| "band_rank TRADABLE = 2"
| "band_rank STRONG = 3"

lemma band_rank_inj: "band_rank a = band_rank b \<longleftrightarrow> a = b"
  by (cases a; cases b) simp_all

instantiation ScoreBand :: linorder
begin

definition less_eq_ScoreBand :: "ScoreBand \<Rightarrow> ScoreBand \<Rightarrow> bool" where
  "less_eq_ScoreBand a b \<longleftrightarrow> band_rank a \<le> band_rank b"

definition less_ScoreBand :: "ScoreBand \<Rightarrow> ScoreBand \<Rightarrow> bool" where
  "less_ScoreBand a b \<longleftrightarrow> band_rank a < band_rank b"

instance
  by standard (auto simp: less_eq_ScoreBand_def less_ScoreBand_def band_rank_inj[symmetric])

end

lemmas band_order = less_eq_ScoreBand_def less_ScoreBand_def

end
