(* ===== verification/Rounding.thy ===== *)
theory Rounding
  imports Prelude Complex_Main
begin

text \<open>
  Rounded arithmetic.  A finite Python \<open>Decimal\<close> or \<open>float\<close> is a rational number; every
  arithmetic operation computes the exact rational result and rounds it, half to even, to
  the format: 28 significant decimal digits for \<open>Decimal\<close> (the default context), 53
  significant bits with gradual underflow at \<open>2^-1074\<close> for \<open>float\<close>.  The locale
  \<open>fp_format\<close> proves once that such a rounding is monotone, odd and idempotent; the locale
  \<open>rounding\<close> is the interface the components use, so none of their proofs unfolds the
  rounding function.
\<close>

subsection \<open>Rounding a rational to an integer, half to even\<close>

definition rhe_step :: "int \<Rightarrow> rat \<Rightarrow> int" where
  "rhe_step f d = (if d < 1 / 2 then f else if 1 / 2 < d then f + 1
     else if even f then f else f + 1)"

definition rhe :: "rat \<Rightarrow> int" where
  "rhe x = rhe_step \<lfloor>x\<rfloor> (x - of_int \<lfloor>x\<rfloor>)"

lemma rhe_of_int [simp]: "rhe (of_int n) = n"
  by (simp add: rhe_def rhe_step_def)

lemma rhe_ge_floor: "\<lfloor>x\<rfloor> \<le> rhe x"
  by (simp add: rhe_def rhe_step_def)

lemma rhe_le_floor: "rhe x \<le> \<lfloor>x\<rfloor> + 1"
  by (simp add: rhe_def rhe_step_def)

lemma rhe_mono: "x \<le> y \<Longrightarrow> rhe x \<le> rhe y"
proof -
  assume xy: "x \<le> y"
  then have "\<lfloor>x\<rfloor> \<le> \<lfloor>y\<rfloor>" by (rule floor_mono)
  then consider "\<lfloor>x\<rfloor> < \<lfloor>y\<rfloor>" | "\<lfloor>x\<rfloor> = \<lfloor>y\<rfloor>" by linarith
  then show ?thesis
  proof cases
    case 1
    then show ?thesis using rhe_le_floor[of x] rhe_ge_floor[of y] by linarith
  next
    case 2
    then show ?thesis using xy by (auto simp: rhe_def rhe_step_def)
  qed
qed

lemma rhe_error: "\<bar>of_int (rhe x) - x\<bar> \<le> 1 / 2"
proof -
  have "of_int \<lfloor>x\<rfloor> \<le> x" "x < of_int \<lfloor>x\<rfloor> + 1" by linarith+
  then show ?thesis by (auto simp: rhe_def rhe_step_def abs_le_iff)
qed

lemma rhe_minus: "rhe (- x) = - rhe x"
proof (cases "of_int \<lfloor>x\<rfloor> = x")
  case True
  then have "rhe (- x) = - \<lfloor>x\<rfloor>" by (metis of_int_minus rhe_of_int)
  moreover have "rhe x = \<lfloor>x\<rfloor>" using True by (metis rhe_of_int)
  ultimately show ?thesis by simp
next
  case False
  then have fl: "\<lfloor>- x\<rfloor> = - \<lfloor>x\<rfloor> - 1"
    by (intro floor_unique) (linarith, use False in linarith)
  show ?thesis unfolding rhe_def rhe_step_def fl by auto
qed

subsection \<open>Order of magnitude\<close>

text \<open>\<open>mag b x\<close> is the exponent \<open>e\<close> with \<open>b^(e-1) \<le> |x| < b^e\<close>.\<close>

function idigits :: "int \<Rightarrow> int \<Rightarrow> int" where
  "idigits b n = (if b \<le> 1 \<or> n < b then 1 else 1 + idigits b (n div b))"
  by pat_completeness auto
termination
  by (relation "measure (\<lambda>(b, n). nat n)") (auto simp: int_div_less_self)

declare idigits.simps [simp del]

definition mag_step :: "rat \<Rightarrow> rat \<Rightarrow> int \<Rightarrow> int" where
  "mag_step B x e = (if B powi e \<le> x then e + 1 else e)"

definition mag :: "nat \<Rightarrow> rat \<Rightarrow> int" where
  "mag b x = mag_step (of_nat b) \<bar>x\<bar>
     (idigits (int b) (fst (quotient_of \<bar>x\<bar>)) - idigits (int b) (snd (quotient_of \<bar>x\<bar>)))"

lemma idigits_ge_1: "1 \<le> idigits b n"
proof (induction b n rule: idigits.induct)
  case (1 b n)
  then show ?case by (subst idigits.simps) auto
qed

lemma idigits_bounds:
  assumes "0 < n" and "1 < b"
  shows "(of_int b :: rat) powi (idigits b n - 1) \<le> of_int n
    \<and> of_int n < (of_int b :: rat) powi (idigits b n)"
  using assms
proof (induction b n rule: idigits.induct)
  case (1 b n)
  let ?B = "of_int b :: rat"
  have B: "1 < ?B" using "1.prems" by simp
  show ?case
  proof (cases "n < b")
    case True
    then show ?thesis using "1.prems" by (simp add: idigits.simps[of b n])
  next
    case False
    let ?m = "n div b"
    have m: "0 < ?m" using False "1.prems" by (simp add: pos_imp_zdiv_pos_iff)
    have IH: "?B powi (idigits b ?m - 1) \<le> of_int ?m" "of_int ?m < ?B powi (idigits b ?m)"
      using "1.IH" False m "1.prems" by auto
    have d: "idigits b n = 1 + idigits b ?m" using False "1.prems" by (simp add: idigits.simps[of b n])
    have up: "?B powi (1 + k) = ?B * ?B powi k" for k using B by (simp add: power_int_add)
    have eq: "n = b * ?m + n mod b" "0 \<le> n mod b" "n mod b < b" using "1.prems" by simp_all
    have "?B powi (idigits b n - 1) = ?B * ?B powi (idigits b ?m - 1)"
      using up[of "idigits b ?m - 1"] d by (simp add: algebra_simps)
    also have "\<dots> \<le> ?B * of_int ?m" using IH(1) B by (intro mult_left_mono) auto
    also have "\<dots> = of_int (b * ?m)" by simp
    also have "\<dots> \<le> of_int n" using eq by (simp only: of_int_le_iff)
    finally have lo: "?B powi (idigits b n - 1) \<le> of_int n" .
    have pow: "?B powi (idigits b ?m) = of_int (b ^ nat (idigits b ?m))"
      using idigits_ge_1[of b ?m] by (simp add: power_int_def)
    with IH(2) have "?m + 1 \<le> b ^ nat (idigits b ?m)" by (simp only: of_int_less_iff)
    then have "of_int (?m + 1) \<le> ?B powi (idigits b ?m)" by (simp only: pow of_int_le_iff)
    then have "?B * of_int (?m + 1) \<le> ?B powi (idigits b n)"
      using B up[of "idigits b ?m"] d by (simp add: mult_left_mono)
    moreover have "of_int n < ?B * of_int (?m + 1)"
    proof -
      have "n < b * (?m + 1)" using eq unfolding distrib_left by linarith
      then show ?thesis by (metis of_int_less_iff of_int_mult)
    qed
    ultimately show ?thesis using lo by linarith
  qed
qed

lemma mag_bounds:
  assumes b: "1 < b" and x: "x \<noteq> 0"
  shows "(of_nat b :: rat) powi (mag b x - 1) \<le> \<bar>x\<bar>"
    and "\<bar>x\<bar> < (of_nat b :: rat) powi (mag b x)"
proof -
  obtain n d where q: "quotient_of \<bar>x\<bar> = (n, d)" by (cases "quotient_of \<bar>x\<bar>") auto
  then have d: "0 < d" and eq: "\<bar>x\<bar> = of_int n / of_int d"
    by (auto dest: quotient_of_denom_pos quotient_of_div)
  have "0 < (of_int n / of_int d :: rat)" using x eq by (metis zero_less_abs_iff)
  then have n: "0 < n" using d by (simp add: zero_less_divide_iff)
  let ?B = "of_nat b :: rat"
  have B: "1 < ?B" using b by simp
  define ln where "ln = idigits (int b) n"
  define ld where "ld = idigits (int b) d"
  define e where "e = ln - ld"
  have nb: "?B powi (ln - 1) \<le> of_int n" "of_int n < ?B powi ln"
    and db: "?B powi (ld - 1) \<le> of_int d" "of_int d < ?B powi ld"
    using idigits_bounds[of n "int b"] idigits_bounds[of d "int b"] n d b
    by (simp_all add: ln_def ld_def)
  have B0: "?B \<noteq> 0" using B by simp
  have "?B powi (e - 1) = ?B powi (ln - 1) / ?B powi (ld)"
  proof -
    have "?B powi (e - 1) = ?B powi ((ln - 1) - ld)"
      by (simp add: e_def algebra_simps)
    then show ?thesis by (simp only: power_int_diff[OF disjI1[OF B0]])
  qed
  also have "\<dots> \<le> of_int n / of_int d"
    using nb(1) db(2) n d by (intro frac_le) auto
  finally have lo: "?B powi (e - 1) \<le> \<bar>x\<bar>" by (simp add: eq)
  have "of_int n / of_int d
      < ?B powi (ln) / ?B powi (ld - 1)"
    using nb(2) db(1) n d B by (intro frac_less) (auto simp: zero_less_power_int)
  also have "\<dots> = ?B powi (e + 1)"
  proof -
    have "?B powi (e + 1) = ?B powi (ln - (ld - 1))"
      by (simp add: e_def algebra_simps)
    then show ?thesis by (simp only: power_int_diff[OF disjI1[OF B0]])
  qed
  finally have hi: "\<bar>x\<bar> < ?B powi (e + 1)" by (simp add: eq)
  have m: "mag b x = (if ?B powi e \<le> \<bar>x\<bar> then e + 1 else e)"
    by (simp add: mag_def mag_step_def q e_def ln_def ld_def)
  show "?B powi (mag b x - 1) \<le> \<bar>x\<bar>" using lo m by simp
  show "\<bar>x\<bar> < ?B powi (mag b x)" using hi m by (simp split: if_splits)
qed

lemma mag_minus [simp]: "mag b (- x) = mag b x"
  by (simp add: mag_def)

lemma mag_mono:
  assumes "1 < b" and "0 < x" and "x \<le> y"
  shows "mag b x \<le> mag b y"
proof (rule ccontr)
  assume "\<not> mag b x \<le> mag b y"
  then have "mag b y \<le> mag b x - 1" by simp
  then have "(of_nat b :: rat) powi mag b y \<le> of_nat b powi (mag b x - 1)"
    using assms(1) by (intro power_int_increasing) auto
  with mag_bounds[of b x] mag_bounds[of b y] assms show False by simp
qed

subsection \<open>Rounding to a format\<close>

text \<open>
  A format is a base and a function that gives, for an order of magnitude, the exponent of
  the last digit kept.  The two laws are those of a valid format: the exponent grows with
  the magnitude, and where it exceeds the magnitude (below the smallest subnormal) it is
  constant.
\<close>

definition round_at :: "nat \<Rightarrow> int \<Rightarrow> rat \<Rightarrow> rat" where
  "round_at b q x = of_int (rhe (x / of_nat b powi q)) * of_nat b powi q"

definition fround_gen :: "nat \<Rightarrow> (int \<Rightarrow> int) \<Rightarrow> rat \<Rightarrow> rat" where
  "fround_gen b q x = (if x = 0 then 0 else round_at b (q (mag b x)) x)"

lemma round_at_mono: "1 < b \<Longrightarrow> x \<le> y \<Longrightarrow> round_at b q x \<le> round_at b q y"
  unfolding round_at_def
  by (intro mult_right_mono) (auto intro!: rhe_mono divide_right_mono zero_le_power_int)

lemma round_at_minus: "round_at b q (- x) = - round_at b q x"
  by (simp add: round_at_def rhe_minus)

lemma round_at_exact:
  assumes "1 < b" and "x = of_int n * of_nat b powi q"
  shows "round_at b q x = x"
  using assms by (simp add: round_at_def)

lemma powi_multiple:
  assumes "1 < b" and "q \<le> e"
  shows "(of_nat b :: rat) powi e = of_int (int b ^ nat (e - q)) * of_nat b powi q"
proof -
  have "(of_nat b :: rat) powi e = of_nat b powi (int (nat (e - q)) + q)"
    using assms(2) by simp
  also have "\<dots> = of_nat b powi int (nat (e - q)) * of_nat b powi q"
    using assms(1) by (intro power_int_add) simp
  also have "(of_nat b :: rat) powi int (nat (e - q)) = of_int (int b ^ nat (e - q))"
    by (simp only: power_int_of_nat of_int_power of_int_of_nat_eq)
  finally show ?thesis .
qed

lemma round_at_pow: "1 < b \<Longrightarrow> q \<le> e \<Longrightarrow> round_at b q (of_nat b powi e) = of_nat b powi e"
  by (rule round_at_exact[OF _ powi_multiple])

locale fp_format =
  fixes b :: nat and q :: "int \<Rightarrow> int"
  assumes base: "1 < b"
    and q_mono: "e \<le> e' \<Longrightarrow> q e \<le> q e'"
    and q_valid: "e' \<le> q e' \<Longrightarrow> e \<le> e' \<Longrightarrow> q e = q e'"
begin

lemma fround_pos_mono:
  assumes "0 < x" and "x \<le> y"
  shows "fround_gen b q x \<le> fround_gen b q y"
proof -
  let ?B = "of_nat b :: rat"
  let ?e = "mag b x" and ?e' = "mag b y"
  have le: "?e \<le> ?e'" using assms base by (intro mag_mono) auto
  have same: "fround_gen b q x \<le> fround_gen b q y" if "q ?e = q ?e'"
    using that assms base by (auto simp: fround_gen_def intro: round_at_mono)
  show ?thesis
  proof (cases "q ?e = q ?e'")
    case False
    then have "\<not> ?e' \<le> q ?e'" using q_valid[of ?e' ?e] le by blast
    then have q': "q ?e' \<le> ?e' - 1" by simp
    from False le have lt: "?e \<le> ?e' - 1" by (cases "?e = ?e'") auto
    have qe: "q ?e \<le> ?e' - 1" using q_mono[OF le] q' by linarith
    have "round_at b (q ?e) x \<le> round_at b (q ?e) (?B powi (?e' - 1))"
    proof (rule round_at_mono[OF base])
      have "x < ?B powi ?e" using mag_bounds(2)[OF base, of x] assms(1) by simp
      also have "\<dots> \<le> ?B powi (?e' - 1)" using lt base by (intro power_int_increasing) auto
      finally show "x \<le> ?B powi (?e' - 1)" by simp
    qed
    also have "\<dots> = ?B powi (?e' - 1)" by (rule round_at_pow[OF base qe])
    also have "\<dots> = round_at b (q ?e') (?B powi (?e' - 1))"
      by (rule round_at_pow[OF base q', symmetric])
    also have "\<dots> \<le> round_at b (q ?e') y"
      using mag_bounds(1)[OF base, of y] assms by (intro round_at_mono[OF base]) simp
    finally show ?thesis using assms by (simp add: fround_gen_def)
  qed (rule same)
qed

lemma fround_minus: "fround_gen b q (- x) = - fround_gen b q x"
  by (simp add: fround_gen_def round_at_minus)

lemma fround_nonneg: "0 \<le> x \<Longrightarrow> 0 \<le> fround_gen b q x"
proof -
  assume "0 \<le> x"
  then have "round_at b (q (mag b x)) 0 \<le> round_at b (q (mag b x)) x"
    by (rule round_at_mono[OF base])
  moreover have "rhe 0 = 0" using rhe_of_int[of 0] by simp
  ultimately show ?thesis by (simp add: fround_gen_def round_at_def)
qed

lemma fround_mono: "x \<le> y \<Longrightarrow> fround_gen b q x \<le> fround_gen b q y"
proof -
  assume xy: "x \<le> y"
  consider "0 < x" | "x \<le> 0" "0 \<le> y" | "y < 0" using xy by linarith
  then show ?thesis
  proof cases
    case 1
    then show ?thesis by (rule fround_pos_mono[OF _ xy])
  next
    case 2
    have "0 \<le> fround_gen b q (- x)" using 2 by (intro fround_nonneg) simp
    then have "fround_gen b q x \<le> 0" by (simp add: fround_minus)
    also have "0 \<le> fround_gen b q y" using 2 by (intro fround_nonneg)
    finally show ?thesis .
  next
    case 3
    then have "fround_gen b q (- y) \<le> fround_gen b q (- x)"
      using xy by (intro fround_pos_mono) auto
    then show ?thesis by (simp add: fround_minus)
  qed
qed

lemma fround_exact:
  assumes "x = of_int n * of_nat b powi q (mag b x)"
  shows "fround_gen b q x = x"
  using round_at_exact[OF base assms] by (simp add: fround_gen_def)

lemma mag_le: "x \<noteq> 0 \<Longrightarrow> \<bar>x\<bar> < of_nat b powi e \<Longrightarrow> mag b x \<le> e"
proof (rule ccontr)
  assume x: "x \<noteq> 0" "\<bar>x\<bar> < of_nat b powi e" and "\<not> mag b x \<le> e"
  then have "e \<le> mag b x - 1" by simp
  then have "(of_nat b :: rat) powi e \<le> of_nat b powi (mag b x - 1)"
    using base by (intro power_int_increasing) auto
  with mag_bounds(1)[OF base x(1)] x(2) show False by simp
qed

lemma fround_multiple:
  assumes "x = of_int n * of_nat b powi k" and "q (mag b x) \<le> k"
  shows "fround_gen b q x = x"
proof (rule fround_exact)
  show "x = of_int (n * int b ^ nat (k - q (mag b x))) * of_nat b powi q (mag b x)"
    using assms(1) powi_multiple[OF base assms(2)] by (simp add: mult.assoc)
qed

lemma round_at_small:
  assumes x: "\<bar>x\<bar> < of_nat b powi e" and e: "e < k"
  shows "round_at b k x = 0"
proof -
  let ?B = "of_nat b :: rat"
  have B: "2 \<le> ?B" "?B \<noteq> 0" using base by simp_all
  have "2 * ?B powi e \<le> ?B * ?B powi e" using B by (intro mult_right_mono) auto
  also have "\<dots> = ?B powi (e + 1)" using B by (simp add: power_int_add)
  also have "\<dots> \<le> ?B powi k" using e base by (intro power_int_increasing) auto
  finally have "2 * \<bar>x\<bar> < ?B powi k" using x by simp
  then have "\<bar>x / ?B powi k\<bar> < 1 / 2" using B by (simp add: abs_divide pos_divide_less_eq)
  with rhe_error[of "x / ?B powi k"] have "\<bar>of_int (rhe (x / ?B powi k)) :: rat\<bar> < 1"
    by linarith
  then have "rhe (x / ?B powi k) = 0" by linarith
  then show ?thesis by (simp add: round_at_def)
qed

lemma fround_idem_pos:
  assumes x: "0 < x"
  shows "fround_gen b q (fround_gen b q x) = fround_gen b q x"
proof -
  let ?B = "of_nat b :: rat"
  define e where "e = mag b x"
  define y where "y = fround_gen b q x"
  have xe: "\<bar>x\<bar> < ?B powi e" unfolding e_def using mag_bounds(2)[OF base, of x] x by simp
  have y: "y = of_int (rhe (x / ?B powi q e)) * ?B powi q e"
    using x by (simp add: y_def fround_gen_def round_at_def e_def)
  have y0: "0 \<le> y" unfolding y_def using x by (intro fround_nonneg) simp
  consider "y = 0" | "y \<noteq> 0" "y < ?B powi e" | "y \<noteq> 0" "?B powi e \<le> y" by linarith
  then have "fround_gen b q y = y"
  proof cases
    case 1
    then show ?thesis by (simp add: fround_gen_def)
  next
    case 2
    then have "mag b y \<le> e" using y0 by (intro mag_le) auto
    then have "q (mag b y) \<le> q e" by (rule q_mono)
    then show ?thesis by (rule fround_multiple[OF y])
  next
    case 3
    have qe: "q e \<le> e"
    proof (rule ccontr)
      assume "\<not> q e \<le> e"
      then have "round_at b (q e) x = 0" by (intro round_at_small[OF xe]) simp
      with y 3 show False by (simp add: round_at_def)
    qed
    have "y \<le> round_at b (q e) (?B powi e)"
      using xe x unfolding y_def fround_gen_def e_def[symmetric]
      by (auto intro: round_at_mono[OF base])
    also have "\<dots> = ?B powi e" by (rule round_at_pow[OF base qe])
    finally have yB: "y = ?B powi e" using 3 by simp
    have "mag b y \<le> e + 1"
      using 3 y0 base unfolding yB by (intro mag_le) (auto simp: power_int_add)
    then have "q (mag b y) \<le> q (e + 1)" by (rule q_mono)
    also have "q (e + 1) \<le> e"
      using q_valid[of "e + 1" e] qe by linarith
    finally show ?thesis by (intro fround_multiple[of _ 1 e]) (auto simp: yB)
  qed
  then show ?thesis by (simp add: y_def)
qed

lemma fround_idem: "fround_gen b q (fround_gen b q x) = fround_gen b q x"
proof -
  consider "x = 0" | "0 < x" | "0 < - x" by linarith
  then show ?thesis
  proof cases
    case 1
    then show ?thesis by (simp add: fround_gen_def)
  next
    case 2
    then show ?thesis by (rule fround_idem_pos)
  next
    case 3
    from fround_idem_pos[OF 3] show ?thesis by (simp add: fround_minus)
  qed
qed

end

subsection \<open>The interface the components use\<close>

locale rounding =
  fixes rnd :: "rat \<Rightarrow> rat"
  assumes rnd_mono: "x \<le> y \<Longrightarrow> rnd x \<le> rnd y"
    and rnd_minus: "rnd (- x) = - rnd x"
    and rnd_idem: "rnd (rnd x) = rnd x"
    and rnd_1: "rnd 1 = 1"
begin

lemma rnd_0: "rnd 0 = 0"
  using rnd_minus[of 0] by simp

lemma rnd_nonneg: "0 \<le> x \<Longrightarrow> 0 \<le> rnd x"
  using rnd_mono[of 0 x] by (simp add: rnd_0)

lemma rnd_nonpos: "x \<le> 0 \<Longrightarrow> rnd x \<le> 0"
  using rnd_mono[of x 0] by (simp add: rnd_0)

lemma rnd_ge: "rnd a = a \<Longrightarrow> a \<le> x \<Longrightarrow> a \<le> rnd x"
  using rnd_mono[of a x] by simp

lemma rnd_le: "rnd a = a \<Longrightarrow> x \<le> a \<Longrightarrow> rnd x \<le> a"
  using rnd_mono[of x a] by simp

lemma rnd_le_1: "x \<le> 1 \<Longrightarrow> rnd x \<le> 1"
  by (rule rnd_le[OF rnd_1])

lemma rnd_ge_1: "1 \<le> x \<Longrightarrow> 1 \<le> rnd x"
  by (rule rnd_ge[OF rnd_1])

lemma rnd_abs: "rnd \<bar>x\<bar> = \<bar>rnd x\<bar>"
proof (cases "0 \<le> x")
  case True
  then show ?thesis using rnd_nonneg[of x] by simp
next
  case False
  then show ?thesis using rnd_nonpos[of x] by (simp add: rnd_minus)
qed

lemma rnd_strict: "rnd x < rnd y \<Longrightarrow> x < y"
  using rnd_mono[of y x] by (meson not_less)

end

text \<open>Formats without underflow also bound the relative error of every operation.\<close>

locale precise_rounding = rounding +
  fixes u :: rat
  assumes u_bounds: "0 \<le> u" "u < 1"
    and rnd_error: "\<bar>rnd x - x\<bar> \<le> u * \<bar>x\<bar>"
begin

lemma rnd_pos: "0 < x \<Longrightarrow> 0 < rnd x"
proof -
  assume x: "0 < x"
  have "x - rnd x \<le> u * x" using rnd_error[of x] x by simp
  moreover have "u * x < x" using u_bounds x by simp
  ultimately show ?thesis by linarith
qed

lemma rnd_pos_iff: "0 < rnd x \<longleftrightarrow> 0 < x"
  using rnd_pos[of x] rnd_nonpos[of x] by linarith

lemma rnd_eq_0_iff: "rnd x = 0 \<longleftrightarrow> x = 0"
proof -
  consider "x = 0" | "0 < x" | "0 < - x" by linarith
  then show ?thesis
    using rnd_pos[of x] rnd_pos[of "- x"] rnd_0 by cases (auto simp: rnd_minus)
qed

lemma rnd_upper: "0 \<le> x \<Longrightarrow> rnd x \<le> (1 + u) * x"
  using rnd_error[of x] by (simp add: algebra_simps)

lemma rnd_lower: "0 \<le> x \<Longrightarrow> (1 - u) * x \<le> rnd x"
  using rnd_error[of x] by (simp add: algebra_simps)

end

text \<open>A format that represents 1 is a rounding.\<close>

locale unit_format = fp_format +
  assumes q_one: "q 1 \<le> 0"

sublocale unit_format \<subseteq> rounding "fround_gen b q"
proof
  show "fround_gen b q x \<le> fround_gen b q y" if "x \<le> y" for x y
    using that by (rule fround_mono)
  show "fround_gen b q (- x) = - fround_gen b q x" for x by (rule fround_minus)
  show "fround_gen b q (fround_gen b q x) = fround_gen b q x" for x by (rule fround_idem)
  have "mag b 1 \<le> 1" using base by (intro mag_le) auto
  then have "q (mag b 1) \<le> 0" using q_mono[of "mag b 1" 1] q_one by linarith
  then show "fround_gen b q 1 = 1" by (intro fround_multiple[of _ 1 0]) auto
qed

subsection \<open>The two formats of the program\<close>

text \<open>
  \<open>Decimal\<close>: 28 digits (\<open>decimal.DefaultContext\<close>); its exponent limits of plus and minus
  999999 are not modelled.  \<open>float\<close>: binary64 with subnormals; overflow to infinity is
  not modelled.
\<close>

definition dec_digit :: "int \<Rightarrow> int" where
  "dec_digit e = e - 28"

definition flt_digit :: "int \<Rightarrow> int" where
  "flt_digit e = max (e - 53) (- 1074)"

definition dround :: "rat \<Rightarrow> rat" where
  "dround x = fround_gen 10 dec_digit x"

definition fround :: "rat \<Rightarrow> rat" where
  "fround x = fround_gen 2 flt_digit x"

interpretation dec: unit_format 10 dec_digit
  rewrites "fround_gen 10 dec_digit = dround"
  by unfold_locales (auto simp: dec_digit_def dround_def fun_eq_iff)

interpretation flt: unit_format 2 flt_digit
  rewrites "fround_gen 2 flt_digit = fround"
  by unfold_locales (auto simp: flt_digit_def fround_def fun_eq_iff)

lemma dround_error: "\<bar>dround x - x\<bar> \<le> 5 / 10 ^ 28 * \<bar>x\<bar>"
proof (cases "x = 0")
  case True
  then show ?thesis by (simp add: dec.rnd_0)
next
  case False
  let ?e = "mag 10 x"
  let ?P = "(10::rat) powi (?e - 28)"
  have P: "0 < ?P" by simp
  have lo: "(10::rat) powi (?e - 1) \<le> \<bar>x\<bar>" using mag_bounds(1)[of 10 x] False by simp
  have "dround x - x = (of_int (rhe (x / ?P)) - x / ?P) * ?P"
    using False P by (simp add: dround_def fround_gen_def round_at_def dec_digit_def left_diff_distrib)
  then have "\<bar>dround x - x\<bar> = \<bar>of_int (rhe (x / ?P)) - x / ?P\<bar> * ?P"
    using P by (simp add: abs_mult)
  also have "\<dots> \<le> 1 / 2 * ?P" using P rhe_error by (intro mult_right_mono) auto
  also have "?P = (10::rat) powi ((?e - 1) - 27)" by simp
  also have "\<dots> = (10::rat) powi (?e - 1) / 10 ^ 27"
    by (subst power_int_diff) auto
  also have "1 / 2 * \<dots> \<le> 1 / 2 * (\<bar>x\<bar> / 10 ^ 27)"
    using lo by (intro mult_left_mono divide_right_mono) auto
  finally show ?thesis by simp
qed

interpretation decp: precise_rounding dround "5 / 10 ^ 28"
  by unfold_locales (use dround_error in auto)

text \<open>Values with at most 28 digits (53 bits) are left alone.\<close>

lemma dround_scaled:
  assumes "x = of_int n * 10 powi k" and "\<bar>n\<bar> < 10 ^ 28"
  shows "dround x = x"
proof (cases "x = 0")
  case True
  then show ?thesis by (simp add: dec.rnd_0)
next
  case False
  have n: "\<bar>of_int n\<bar> < (10::rat) ^ 28"
    using assms(2) by (metis of_int_abs of_int_less_iff of_int_numeral of_int_power)
  have "\<bar>x\<bar> = \<bar>of_int n\<bar> * 10 powi k" by (simp add: assms(1) abs_mult)
  also have "\<dots> < 10 ^ 28 * 10 powi k" using n by (intro mult_strict_right_mono) auto
  also have "\<dots> = 10 powi (k + 28)" by (simp add: power_int_add)
  finally have "mag 10 x \<le> k + 28" using False by (intro dec.mag_le) auto
  then show ?thesis using assms(1) by (intro dec.fround_multiple[of _ n k]) (auto simp: dec_digit_def)
qed

lemma fround_scaled:
  assumes "x = of_int n * 2 powi k" and "\<bar>n\<bar> < 2 ^ 53" and "- 1074 \<le> k"
  shows "fround x = x"
proof (cases "x = 0")
  case True
  then show ?thesis by (simp add: flt.rnd_0)
next
  case False
  have n: "\<bar>of_int n\<bar> < (2::rat) ^ 53"
    using assms(2) by (metis of_int_abs of_int_less_iff of_int_numeral of_int_power)
  have "\<bar>x\<bar> = \<bar>of_int n\<bar> * 2 powi k" by (simp add: assms(1) abs_mult)
  also have "\<dots> < 2 ^ 53 * 2 powi k" using n by (intro mult_strict_right_mono) auto
  also have "\<dots> = 2 powi (k + 53)" by (simp add: power_int_add)
  finally have "mag 2 x \<le> k + 53" using False by (intro flt.mag_le) auto
  then show ?thesis
    using assms(1,3) by (intro flt.fround_multiple[of _ n k]) (auto simp: flt_digit_def)
qed

lemma dround_of_int: "\<bar>n\<bar> < 10 ^ 28 \<Longrightarrow> dround (of_int n) = of_int n"
  by (rule dround_scaled[of _ n 0]) auto

lemma fround_of_int: "\<bar>n\<bar> < 2 ^ 53 \<Longrightarrow> fround (of_int n) = of_int n"
  by (rule fround_scaled[of _ n 0]) auto

lemma dround_numeral [simp]: "numeral n < (10::int) ^ 28 \<Longrightarrow> dround (numeral n) = numeral n"
  using dround_of_int[of "numeral n"] by simp

lemma fround_numeral [simp]: "numeral n < (2::int) ^ 53 \<Longrightarrow> fround (numeral n) = numeral n"
  using fround_of_int[of "numeral n"] by simp

lemmas round_const [simp] = dec.rnd_0 dec.rnd_1 flt.rnd_0 flt.rnd_1

subsection \<open>Evaluation\<close>

text \<open>
  Code equations that round with integer arithmetic on the numerator and denominator and return
  a fraction in lowest terms; values that fit the format with a small denominator are returned
  at once.
\<close>

function ipow :: "int \<Rightarrow> int \<Rightarrow> int" where
  "ipow b k = (if k \<le> 0 then 1 else b * ipow b (k - 1))"
  by pat_completeness auto
termination
  by (relation "measure (\<lambda>(b, k). nat k)") auto

declare ipow.simps [simp del]

lemma ipow_eq: "ipow b k = b ^ nat k"
proof (induction b k rule: ipow.induct)
  case (1 b k)
  show ?case
  proof (cases "k \<le> 0")
    case True
    then show ?thesis by (simp add: ipow.simps[of b k])
  next
    case False
    then have "nat k = Suc (nat (k - 1))" by simp
    then show ?thesis using 1[OF False] False by (simp add: ipow.simps[of b k])
  qed
qed

text \<open>Fewer steps: powers by squaring, digits sixteen at a time.\<close>

lemma ipow_code [code]:
  "ipow b k = (if k \<le> 0 then 1 else let r = ipow (b * b) (k div 2) in if even k then r else b * r)"
proof (cases "k \<le> 0")
  case False
  define m where "m = nat (k div 2)"
  have sq: "ipow (b * b) (k div 2) = b ^ (2 * m)" by (simp add: ipow_eq m_def power_mult power2_eq_square)
  show ?thesis
  proof (cases "even k")
    case True
    then have "nat k = 2 * m" using False by (auto simp: m_def elim!: evenE)
    then show ?thesis using True False sq by (simp add: Let_def ipow_eq[of b k])
  next
    case odd: False
    then have "nat k = Suc (2 * m)" using False by (auto simp: m_def elim!: oddE)
    then show ?thesis using odd False sq by (simp add: Let_def ipow_eq[of b k])
  qed
qed (simp add: ipow_eq)

lemma idigits_div:
  "1 < b \<Longrightarrow> b ^ k \<le> n \<Longrightarrow> idigits b n = int k + idigits b (n div b ^ k)"
proof (induction k arbitrary: n)
  case 0
  then show ?case by simp
next
  case (Suc k)
  have b: "b \<le> b ^ Suc k" using Suc.prems(1) by (intro self_le_power) auto
  then have "b \<le> n" using Suc.prems(2) by linarith
  then have step: "idigits b n = 1 + idigits b (n div b)" using Suc.prems(1) by (simp add: idigits.simps[of b n])
  have "b ^ k \<le> n div b"
    using zdiv_mono1[OF Suc.prems(2), of b] Suc.prems(1) by simp
  from Suc.IH[OF Suc.prems(1) this] step show ?case
    using Suc.prems(1) by (simp add: zdiv_zmult2_eq)
qed

lemma idigits_code [code]:
  "idigits b n = (let b2 = b * b; b4 = b2 * b2; b8 = b4 * b4; b16 = b8 * b8 in
     if 1 < b \<and> b16 \<le> n then 16 + idigits b (n div b16)
     else if b \<le> 1 \<or> n < b then 1 else 1 + idigits b (n div b))"
proof -
  have p: "(b * b) * (b * b) * ((b * b) * (b * b)) * ((b * b) * (b * b) * ((b * b) * (b * b))) = b ^ 16"
    by (simp add: power_numeral_reduce)
  show ?thesis unfolding Let_def p using idigits_div[of b 16 n] by (simp add: idigits.simps[of b n])
qed

lemma powi_ipow: "(of_nat b :: rat) powi e = (if 0 \<le> e then of_int (ipow (int b) e) else 1 / of_int (ipow (int b) (- e)))"
  by (simp add: ipow_eq power_int_def power_inverse field_simps)

definition rdiv :: "int \<Rightarrow> int \<Rightarrow> int" where
  "rdiv n d = (let f = n div d; r = 2 * (n mod d) in
     if r < d then f else if d < r then f + 1 else if even f then f else f + 1)"

lemma rhe_rdiv:
  assumes "0 < d"
  shows "rhe (of_int n / of_int d) = rdiv n d"
proof -
  have d: "(0::rat) < of_int d" using assms by simp
  have "(of_int n :: rat) = of_int (n div d * d + n mod d)" by (simp only: div_mult_mod_eq)
  then have n: "(of_int n :: rat) = of_int (n div d) * of_int d + of_int (n mod d)"
    by (simp only: of_int_add of_int_mult)
  have r: "of_int n / of_int d - of_int (n div d) = (of_int (n mod d) / of_int d :: rat)"
    using d by (subst n) (simp add: add_divide_distrib)
  have "of_int (n mod d) / of_int d < (1 / 2 :: rat) \<longleftrightarrow> of_int (2 * (n mod d)) < (of_int d :: rat)"
    and "(1 / 2 :: rat) < of_int (n mod d) / of_int d \<longleftrightarrow> of_int d < (of_int (2 * (n mod d)) :: rat)"
    using d by (simp_all add: divide_less_eq less_divide_eq mult.commute)
  then have "of_int n / of_int d - of_int (n div d) < (1 / 2 :: rat) \<longleftrightarrow> 2 * (n mod d) < d"
    and "(1 / 2 :: rat) < of_int n / of_int d - of_int (n div d) \<longleftrightarrow> d < 2 * (n mod d)"
    unfolding r of_int_less_iff by blast+
  note c = this
  show ?thesis
    unfolding rhe_def rhe_step_def rdiv_def Let_def floor_divide_of_int_eq c by (rule refl)
qed

lemma quotient_ofE:
  obtains n d where "quotient_of x = (n, d)" "0 < d" "x = of_int n / of_int d"
  using that[of "fst (quotient_of x)" "snd (quotient_of x)"] quotient_of_denom_pos'[of x]
    quotient_of_div[of x, OF prod.collapse[symmetric]] by simp

lemma mag_code [code]:
  "mag b x = (let (n, d) = quotient_of \<bar>x\<bar>; B = int b; e = idigits B n - idigits B d in
     if (if 0 \<le> e then d * ipow B e \<le> n else d \<le> n * ipow B (- e)) then e + 1 else e)"
proof -
  obtain n d where q: "quotient_of \<bar>x\<bar> = (n, d)" "0 < d" "\<bar>x\<bar> = of_int n / of_int d"
    by (rule quotient_ofE)
  define e where "e = idigits (int b) n - idigits (int b) d"
  have d: "(0::rat) < of_int d" using q(2) by simp
  have "(of_nat b :: rat) powi e \<le> \<bar>x\<bar> \<longleftrightarrow> (if 0 \<le> e then d * ipow (int b) e \<le> n else d \<le> n * ipow (int b) (- e))"
  proof (cases "0 \<le> e")
    case True
    then show ?thesis unfolding q(3) powi_ipow using d
      by (simp add: field_simps flip: of_int_mult)
  next
    case False
    then have "b \<noteq> 0" by (intro notI) (simp add: e_def idigits.simps[of 0])
    then have "0 < ipow (int b) (- e)" by (simp add: ipow_eq)
    then show ?thesis unfolding q(3) powi_ipow using d False
      by (simp add: field_simps flip: of_int_mult)
  qed
  then show ?thesis by (simp add: mag_def mag_step_def q(1) e_def Let_def)
qed

text \<open>Both formats have a positive base; the equation falls back on the definition otherwise.\<close>

lemma round_at_code [code]:
  "round_at b q x = (if b = 0 then of_int (rhe (x / 0 powi q)) * 0 powi q
     else let (n, d) = quotient_of x; B = int b in
       if 0 \<le> q then of_int (rdiv n (d * ipow B q) * ipow B q)
       else of_int (rdiv (n * ipow B (- q)) d) / of_int (ipow B (- q)))"
proof (cases "b = 0")
  case False
  obtain n d where q: "quotient_of x = (n, d)" "0 < d" "x = of_int n / of_int d"
    by (rule quotient_ofE)
  have pos: "0 < ipow (int b) k" for k using False by (simp add: ipow_eq)
  show ?thesis
  proof (cases "0 \<le> q")
    case True
    have "rhe (x / of_nat b powi q) = rdiv n (d * ipow (int b) q)"
      using True pos[of q] q(2) rhe_rdiv[of "d * ipow (int b) q" n] by (simp add: q(3) powi_ipow)
    then show ?thesis using True False q(1) by (simp add: round_at_def powi_ipow Let_def)
  next
    case neg: False
    have "rhe (x / of_nat b powi q) = rdiv (n * ipow (int b) (- q)) d"
      using neg pos[of "- q"] q(2) rhe_rdiv[of d "n * ipow (int b) (- q)"] by (simp add: q(3) powi_ipow)
    then show ?thesis using neg False q(1) by (simp add: round_at_def powi_ipow Let_def)
  qed
qed (simp add: round_at_def)

definition of_ratio :: "int \<Rightarrow> int \<Rightarrow> rat" where
  "of_ratio n d = of_int n / of_int d"

definition lowest_terms :: "rat \<Rightarrow> rat" where
  "lowest_terms x = (let (n, d) = quotient_of x in of_ratio n d)"

lemma lowest_terms_eq: "lowest_terms x = x"
  using quotient_of_div[of x] by (cases "quotient_of x") (simp add: of_ratio_def lowest_terms_def)

text \<open>A fraction whose denominator divides \<open>b\<close> is a multiple of \<open>1 / b\<close>.\<close>

lemma small_denominator:
  assumes "0 < d" "b mod d = 0" "0 < b" "\<bar>n\<bar> < c"
  shows "\<exists>k. of_int n / of_int d = (of_int k / of_int b :: rat) \<and> \<bar>k\<bar> < c * b"
proof -
  obtain m where m: "b = d * m" using assms(2) by (auto simp: mod_eq_0_iff_dvd elim: dvdE)
  then have pos: "0 < m" using assms(1,3) by (metis zero_less_mult_pos)
  have le: "m \<le> b" using m assms(1) pos by (simp add: mult_le_cancel_right1)
  have "of_int n / of_int d = (of_int (n * m) / of_int b :: rat)"
    using m assms(1) pos by (simp add: field_simps)
  moreover have "\<bar>n * m\<bar> < c * b"
  proof -
    have "\<bar>n * m\<bar> = \<bar>n\<bar> * m" using pos by (simp add: abs_mult)
    also have "\<dots> < c * m" using assms(4) pos by simp
    also have "\<dots> \<le> c * b" using le assms(4) by (intro mult_left_mono) auto
    finally show ?thesis .
  qed
  ultimately show ?thesis by blast
qed

lemma dround_code [code]:
  "dround x = (let (n, d) = quotient_of x in
     if 10000 mod d = 0 \<and> \<bar>n\<bar> < 1000000000000000000000000 then of_ratio n d
     else lowest_terms (fround_gen 10 dec_digit x))"
proof -
  obtain n d where q: "quotient_of x = (n, d)" "0 < d" "x = of_int n / of_int d"
    by (rule quotient_ofE)
  have "dround x = x" if g: "10000 mod d = 0" "\<bar>n\<bar> < 1000000000000000000000000"
  proof -
    from small_denominator[OF q(2) g(1) _ g(2)] obtain k where "x = of_int k / 10000" "\<bar>k\<bar> < 10 ^ 28"
      by (auto simp: q(3))
    then show ?thesis by (intro dround_scaled[of x k "- 4"]) (simp_all add: power_int_minus)
  qed
  then show ?thesis unfolding lowest_terms_eq q(1) Let_def prod.case of_ratio_def q(3)[symmetric] dround_def[symmetric]
    by auto
qed

lemma divides_two_power:
  fixes d :: int
  shows "d dvd 2 ^ k \<Longrightarrow> 0 < d \<Longrightarrow> \<exists>j\<le>k. d = 2 ^ j"
proof (induction k arbitrary: d)
  case 0
  then show ?case by simp
next
  case (Suc k)
  show ?case
  proof (cases "even d")
    case True
    then obtain c where c: "d = 2 * c" by (elim evenE)
    with Suc.prems have "c dvd 2 ^ k" "0 < c" by simp_all
    with Suc.IH obtain j where "j \<le> k" "c = 2 ^ j" by blast
    with c show ?thesis by (intro exI[of _ "Suc j"]) simp
  next
    case False
    then have "coprime d 2" by simp
    with Suc.prems(1) have "d dvd 2 ^ k" by (simp add: coprime_dvd_mult_right_iff)
    with Suc.IH Suc.prems(2) show ?thesis using le_SucI by blast
  qed
qed

lemma fround_code [code]:
  "fround x = (let (n, d) = quotient_of x in
     if 1152921504606846976 mod d = 0 \<and> \<bar>n\<bar> < 9007199254740992 then of_ratio n d
     else lowest_terms (fround_gen 2 flt_digit x))"
proof -
  obtain n d where q: "quotient_of x = (n, d)" "0 < d" "x = of_int n / of_int d"
    by (rule quotient_ofE)
  have "fround x = x" if g: "1152921504606846976 mod d = 0" "\<bar>n\<bar> < 9007199254740992"
  proof -
    have "d dvd 2 ^ 60" using g(1) by (simp add: mod_eq_0_iff_dvd)
    then obtain j where j: "j \<le> 60" "d = 2 ^ j"
      using divides_two_power q(2) by blast
    then have "x = of_int n * 2 powi (- int j)" by (simp add: q(3) power_int_minus field_simps)
    then show ?thesis using g(2) j(1) by (intro fround_scaled[of x n "- int j"]) auto
  qed
  then show ?thesis unfolding lowest_terms_eq q(1) Let_def prod.case of_ratio_def q(3)[symmetric] fround_def[symmetric]
    by auto
qed

end
