(* ===== verification/Numbers.thy ===== *)
theory Numbers
  imports Rounding
begin

text \<open>
  The program's numbers.  A \<open>Decimal\<close> or \<open>float\<close> that may still be a NaN or an infinity is
  a value of \<open>decimal\<close> or \<open>float64\<close>; once the code has checked it with \<open>is_finite\<close> or
  \<open>isfinite\<close> it is the rational number it denotes, and arithmetic on it rounds with
  \<open>dround\<close> or \<open>fround\<close>.  Signs of zero and trailing zeros are not modelled: no modelled
  operation depends on them.  The flag of an infinity is its sign, \<open>True\<close> for a negative one.
\<close>

datatype decimal = Finite rat | Infinite bool | NaN

datatype float64 = FFinite rat | FInfinite bool | FNaN

definition dec_is_finite :: "decimal \<Rightarrow> bool" where
  "dec_is_finite d = (case d of Finite _ \<Rightarrow> True | _ \<Rightarrow> False)"

definition isfinite :: "float64 \<Rightarrow> bool" where
  "isfinite f = (case f of FFinite _ \<Rightarrow> True | _ \<Rightarrow> False)"

fun dec_val :: "decimal \<Rightarrow> rat" where
  "dec_val (Finite x) = x"
| "dec_val _ = 0"

fun flt_val :: "float64 \<Rightarrow> rat" where
  "flt_val (FFinite x) = x"
| "flt_val _ = 0"

lemma dec_is_finite_simps [simp]:
  "dec_is_finite (Finite x)" "\<not> dec_is_finite (Infinite b)" "\<not> dec_is_finite NaN"
  by (simp_all add: dec_is_finite_def)

lemma isfinite_simps [simp]:
  "isfinite (FFinite x)" "\<not> isfinite (FInfinite b)" "\<not> isfinite FNaN"
  by (simp_all add: isfinite_def)

lemma dec_is_finiteE: "dec_is_finite d \<Longrightarrow> (\<And>x. d = Finite x \<Longrightarrow> P) \<Longrightarrow> P"
  by (cases d) auto

lemma isfiniteE: "isfinite f \<Longrightarrow> (\<And>x. f = FFinite x \<Longrightarrow> P) \<Longrightarrow> P"
  by (cases f) auto

lemma dec_is_finite_iff: "dec_is_finite d \<longleftrightarrow> d = Finite (dec_val d)"
  by (cases d) auto

lemma isfinite_iff: "isfinite f \<longleftrightarrow> f = FFinite (flt_val f)"
  by (cases f) auto

subsection \<open>Decimal arithmetic on finite values\<close>

definition dadd :: "rat \<Rightarrow> rat \<Rightarrow> rat" where "dadd x y = dround (x + y)"
definition dsub :: "rat \<Rightarrow> rat \<Rightarrow> rat" where "dsub x y = dround (x - y)"
definition dmul :: "rat \<Rightarrow> rat \<Rightarrow> rat" where "dmul x y = dround (x * y)"

text \<open>Division is only used where the code has excluded a zero divisor.\<close>

definition ddiv :: "rat \<Rightarrow> rat \<Rightarrow> rat" where "ddiv x y = dround (x / y)"

text \<open>\<open>x / y\<close> on Decimals, with the exceptions of the default context.\<close>

definition ddivr :: "rat \<Rightarrow> rat \<Rightarrow> rat res" where
  "ddivr x y = (if y \<noteq> 0 then Inr (ddiv x y) else if x = 0 then Inl InvalidOperation else Inl DivisionByZero)"

lemma ddivr_Inr [simp]: "y \<noteq> 0 \<Longrightarrow> ddivr x y = Inr (ddiv x y)"
  by (simp add: ddivr_def)

definition dneg :: "rat \<Rightarrow> rat" where "dneg x = dround (- x)"
definition dabs :: "rat \<Rightarrow> rat" where "dabs x = dround \<bar>x\<bar>"

text \<open>\<open>sum(values, Decimal(0))\<close>: a left fold of rounded additions.\<close>

definition dsum :: "rat list \<Rightarrow> rat" where "dsum xs = foldl dadd 0 xs"

lemmas dec_arith = dadd_def dsub_def dmul_def ddiv_def dneg_def dabs_def

lemma dsum_Nil [simp]: "dsum [] = 0"
  by (simp add: dsum_def)

lemma foldl_dadd_nonneg: "0 \<le> a \<Longrightarrow> \<forall>x\<in>set xs. 0 \<le> x \<Longrightarrow> 0 \<le> foldl dadd a xs"
  by (induction xs arbitrary: a) (auto simp: dadd_def dec.rnd_nonneg)

lemma foldl_dadd_nonpos: "a \<le> 0 \<Longrightarrow> \<forall>x\<in>set xs. x \<le> 0 \<Longrightarrow> foldl dadd a xs \<le> 0"
  by (induction xs arbitrary: a) (auto simp: dadd_def dec.rnd_nonpos)

lemma dsum_nonneg: "\<forall>x\<in>set xs. 0 \<le> x \<Longrightarrow> 0 \<le> dsum xs"
  by (simp add: dsum_def foldl_dadd_nonneg)

lemma dsum_nonpos: "\<forall>x\<in>set xs. x \<le> 0 \<Longrightarrow> dsum xs \<le> 0"
  by (simp add: dsum_def foldl_dadd_nonpos)

text \<open>\<open>int(x.to_integral_value(rounding=ROUND_FLOOR))\<close>, exact.\<close>

definition dec_floor :: "rat \<Rightarrow> int" where "dec_floor x = \<lfloor>x\<rfloor>"

definition dec_ceiling :: "rat \<Rightarrow> int" where "dec_ceiling x = \<lceil>x\<rceil>"

text \<open>
  \<open>x.quantize(Decimal("0.0001"))\<close>: the nearest multiple of \<open>10^-4\<close>, half to even;
  \<open>InvalidOperation\<close> when its coefficient needs more than 28 digits.
\<close>

definition quantize4 :: "rat \<Rightarrow> rat res" where
  "quantize4 x = (let n = rhe (x * 10000) in
     if \<bar>n\<bar> < 10 ^ 28 then Inr (of_int n / 10000) else Inl InvalidOperation)"

lemma quantize4_ok: "quantize4 x = Inr y \<Longrightarrow> \<bar>y - x\<bar> \<le> 1 / 20000"
proof -
  assume "quantize4 x = Inr y"
  then have "y * 10000 = of_int (rhe (x * 10000))"
    by (auto simp: quantize4_def Let_def split: if_splits)
  with rhe_error[of "x * 10000"] have "\<bar>y * 10000 - x * 10000\<bar> \<le> 1 / 2" by simp
  then show ?thesis by linarith
qed

lemma quantize4_fits: "0 \<le> x \<Longrightarrow> x < 10 ^ 23 \<Longrightarrow> \<exists>y. quantize4 x = Inr y"
proof -
  assume x: "0 \<le> x" "x < 10 ^ 23"
  have "\<bar>of_int (rhe (x * 10000)) - x * 10000\<bar> \<le> 1 / 2" by (rule rhe_error)
  then have "\<bar>of_int (rhe (x * 10000)) :: rat\<bar> \<le> x * 10000 + 1 / 2"
    using x(1) by linarith
  also have "\<dots> < 10 ^ 28" using x by simp
  finally have "of_int \<bar>rhe (x * 10000)\<bar> < (of_int (10 ^ 28) :: rat)" by simp
  then have "\<bar>rhe (x * 10000)\<bar> < 10 ^ 28" by (simp only: of_int_less_iff)
  then show ?thesis
    by (intro exI[of _ "of_int (rhe (x * 10000)) / 10000"]) (simp add: quantize4_def Let_def)
qed

lemma quantize4_nonneg: "0 \<le> x \<Longrightarrow> quantize4 x = Inr y \<Longrightarrow> 0 \<le> y"
  using rhe_mono[of 0 "x * 10000"] rhe_of_int[of 0]
  by (auto simp: quantize4_def Let_def split: if_splits)

subsection \<open>Float arithmetic on finite values\<close>

definition fadd :: "rat \<Rightarrow> rat \<Rightarrow> rat" where "fadd x y = fround (x + y)"
definition fsub :: "rat \<Rightarrow> rat \<Rightarrow> rat" where "fsub x y = fround (x - y)"
definition fmul :: "rat \<Rightarrow> rat \<Rightarrow> rat" where "fmul x y = fround (x * y)"
definition fdiv :: "rat \<Rightarrow> rat \<Rightarrow> rat" where "fdiv x y = fround (x / y)"

text \<open>\<open>x / y\<close> on floats, with the exception of a zero divisor.\<close>

definition fdivr :: "rat \<Rightarrow> rat \<Rightarrow> rat res" where
  "fdivr x y = (if y \<noteq> 0 then Inr (fdiv x y) else Inl ZeroDivisionError)"

lemma fdivr_Inr [simp]: "y \<noteq> 0 \<Longrightarrow> fdivr x y = Inr (fdiv x y)"
  by (simp add: fdivr_def)

lemmas flt_arith = fadd_def fsub_def fmul_def fdiv_def

text \<open>\<open>sum(values)\<close> on floats: a left fold (CPython 3.11, the version the project targets).\<close>

definition fsum :: "rat list \<Rightarrow> rat" where "fsum xs = foldl fadd 0 xs"

lemma foldl_fadd_nonneg: "0 \<le> a \<Longrightarrow> \<forall>x\<in>set xs. 0 \<le> x \<Longrightarrow> 0 \<le> foldl fadd a xs"
  by (induction xs arbitrary: a) (auto simp: fadd_def flt.rnd_nonneg)

lemma fsum_nonneg: "\<forall>x\<in>set xs. 0 \<le> x \<Longrightarrow> 0 \<le> fsum xs"
  by (simp add: fsum_def foldl_fadd_nonneg)

text \<open>
  \<open>Decimal(str(x))\<close> for a float \<open>x\<close>: \<open>repr\<close> prints the shortest decimal that reads back as
  \<open>x\<close>, the nearest one of that length.  With \<open>k\<close> the exponent of the last digit, the two
  neighbours of \<open>x\<close> on the grid are tried from one digit upwards; seventeen digits always
  suffice for binary64, and the last equation is the exact value.
\<close>

definition repr_choose :: "rat \<Rightarrow> rat \<Rightarrow> rat \<Rightarrow> bool \<Rightarrow> bool \<Rightarrow> bool \<Rightarrow> rat option" where
  "repr_choose x lo hi ev lo_ok hi_ok =
     (if lo_ok \<and> hi_ok
      then Some (if x - lo < hi - x then lo else if hi - x < x - lo then hi
                 else if ev then lo else hi)
      else if lo_ok then Some lo else if hi_ok then Some hi else None)"

definition repr_around :: "rat \<Rightarrow> rat \<Rightarrow> int \<Rightarrow> rat option" where
  "repr_around x g m = repr_choose x (of_int m * g) (of_int (m + 1) * g) (even m)
     (fround (of_int m * g) = x) (fround (of_int (m + 1) * g) = x)"

definition repr_pick :: "rat \<Rightarrow> int \<Rightarrow> rat option" where
  "repr_pick x k = repr_around x (10 powi k) \<lfloor>x / 10 powi k\<rfloor>"

fun repr_digits :: "nat \<Rightarrow> rat \<Rightarrow> int \<Rightarrow> rat" where
  "repr_digits 0 x e = x"
| "repr_digits (Suc n) x e =
     (case repr_pick x (e - 17 + int n) of Some d \<Rightarrow> d | None \<Rightarrow> repr_digits n x e)"

definition float_repr :: "rat \<Rightarrow> rat" where
  "float_repr x = (if x = 0 then 0
     else if 0 < x then repr_digits 17 x (mag 10 x)
     else - repr_digits 17 (- x) (mag 10 x))"

text \<open>Evaluation with the grid in lowest terms.\<close>

lemma repr_around_code [code]:
  "repr_around x g m = (let lo = lowest_terms (of_int m * g); hi = lowest_terms (of_int (m + 1) * g) in
     repr_choose x lo hi (even m) (fround lo = x) (fround hi = x))"
  by (simp only: repr_around_def lowest_terms_eq Let_def)

lemma repr_pick_code [code]:
  "repr_pick x k = (let g = lowest_terms (if 0 \<le> k then of_int (ipow 10 k) else 1 / of_int (ipow 10 (- k)))
     in repr_around x g \<lfloor>x / g\<rfloor>)"
  using powi_ipow[of 10 k] by (simp add: repr_pick_def lowest_terms_eq Let_def)

lemma repr_pick_fround: "repr_pick x k = Some d \<Longrightarrow> fround d = x"
  by (auto simp: repr_pick_def repr_around_def repr_choose_def split: if_splits)

lemma repr_digits_fround: "fround x = x \<Longrightarrow> fround (repr_digits n x e) = x"
  by (induction n) (auto split: option.splits dest: repr_pick_fround)

text \<open>The printed decimal reads back as the float, so printing is injective and monotone.\<close>

lemma float_repr_roundtrip: "fround x = x \<Longrightarrow> fround (float_repr x) = x"
  using repr_digits_fround[of x 17 "mag 10 x"] repr_digits_fround[of "- x" 17 "mag 10 x"]
  by (auto simp: float_repr_def flt.rnd_minus)

lemma float_repr_pos: "fround x = x \<Longrightarrow> 0 < x \<Longrightarrow> 0 < float_repr x"
  using float_repr_roundtrip[of x] flt.rnd_nonpos[of "float_repr x"] by linarith

lemma float_repr_nonneg: "fround x = x \<Longrightarrow> 0 \<le> x \<Longrightarrow> 0 \<le> float_repr x"
  using float_repr_pos[of x] by (cases "x = 0") (auto simp: float_repr_def)

lemma float_repr_strict_mono:
  "fround x = x \<Longrightarrow> fround y = y \<Longrightarrow> x < y \<Longrightarrow> float_repr x < float_repr y"
  using float_repr_roundtrip[of x] float_repr_roundtrip[of y] flt.rnd_strict by metis

lemma float_repr_le_1: "fround x = x \<Longrightarrow> x \<le> 1 \<Longrightarrow> float_repr x \<le> 1"
proof -
  assume x: "fround x = x" "x \<le> 1"
  have "float_repr 1 = 1" by code_simp
  then show ?thesis using float_repr_strict_mono[OF x(1) flt.rnd_1] x(2) by (cases "x = 1") auto
qed

end
