(* ===== verification/Clock.thy ===== *)
theory Clock
  imports Numbers
begin

text \<open>
  Python \<open>datetime\<close> values.  An aware value is its instant (microseconds since the epoch,
  UTC) and its UTC offset; a naive value is a wall-clock reading.  Comparison and subtraction
  of aware values go by the instant, as in Python for fixed offsets.  The range of years
  (1 to 9999) is not modelled.  A \<open>timedelta\<close> is its number of microseconds.
\<close>

datatype datetime = Naive int | Aware int int

fun is_aware :: "datetime \<Rightarrow> bool" where
  "is_aware (Naive _) = False"
| "is_aware (Aware _ _) = True"

fun instant :: "datetime \<Rightarrow> int" where
  "instant (Naive w) = w"
| "instant (Aware u _) = u"

definition at_utc :: "int \<Rightarrow> datetime" where
  "at_utc u = Aware u 0"

lemma at_utc_simps [simp]: "is_aware (at_utc u)" "instant (at_utc u) = u"
  by (simp_all add: at_utc_def)

text \<open>\<open>==\<close> on datetimes: a naive and an aware value are never equal.\<close>

definition dt_eq :: "datetime \<Rightarrow> datetime \<Rightarrow> bool" where
  "dt_eq a b \<longleftrightarrow> is_aware a = is_aware b \<and> instant a = instant b"

lemma dt_eq_refl [simp]: "dt_eq a a"
  by (simp add: dt_eq_def)

text \<open>\<open><\<close> on datetimes: mixing naive and aware values raises \<open>TypeError\<close>.\<close>

definition dt_less :: "datetime \<Rightarrow> datetime \<Rightarrow> bool res" where
  "dt_less a b = (if is_aware a = is_aware b then Inr (instant a < instant b)
     else Inl (TypeError ''can't compare offset-naive and offset-aware datetimes''))"

text \<open>\<open>a - b\<close> on datetimes, in microseconds.\<close>

definition dt_minus :: "datetime \<Rightarrow> datetime \<Rightarrow> int res" where
  "dt_minus a b = (if is_aware a = is_aware b then Inr (instant a - instant b)
     else Inl (TypeError ''can't subtract offset-naive and offset-aware datetimes''))"

lemma dt_minus_eq_Inr [res_simps]:
  "dt_minus a b = Inr d \<longleftrightarrow> is_aware a = is_aware b \<and> d = instant a - instant b"
  by (auto simp: dt_minus_def)

text \<open>\<open>timedelta.total_seconds()\<close>: a correctly rounded division by a million.\<close>

definition total_seconds :: "int \<Rightarrow> rat" where
  "total_seconds us = fround (of_int us / 1000000)"

definition seconds :: "int \<Rightarrow> int" where
  "seconds n = n * 1000000"

lemma total_seconds_mono: "a \<le> b \<Longrightarrow> total_seconds a \<le> total_seconds b"
  unfolding total_seconds_def by (intro flt.rnd_mono) (simp add: divide_right_mono)

lemma total_seconds_nonneg: "0 \<le> a \<Longrightarrow> 0 \<le> total_seconds a"
  unfolding total_seconds_def by (intro flt.rnd_nonneg) simp

lemma total_seconds_whole: "\<bar>n\<bar> < 2 ^ 53 \<Longrightarrow> total_seconds (seconds n) = of_int n"
  unfolding total_seconds_def seconds_def using fround_of_int[of n] by simp

text \<open>\<open>t + timedelta\<close>, which keeps the offset, and \<open>min\<close> of two datetimes.\<close>

fun plus_us :: "datetime \<Rightarrow> int \<Rightarrow> datetime" where
  "plus_us (Naive w) d = Naive (w + d)"
| "plus_us (Aware u off) d = Aware (u + d) off"

definition dt_min :: "datetime \<Rightarrow> datetime \<Rightarrow> datetime res" where
  "dt_min a b = bindr (dt_less b a) (\<lambda>less. Inr (if less then b else a))"

lemma plus_us_simps [simp]: "is_aware (plus_us t d) = is_aware t" "instant (plus_us t d) = instant t + d"
  by (cases t; simp)+

lemma dt_min_eq_Inr [res_simps]:
  "dt_min a b = Inr t \<longleftrightarrow> is_aware a = is_aware b \<and> t = (if instant b < instant a then b else a)"
  by (auto simp: dt_min_def dt_less_def)

definition day_us :: int where "day_us = 86400000000"

text \<open>The UTC calendar day (\<open>astimezone(UTC).date()\<close>) and the local hour.\<close>

definition utc_day :: "datetime \<Rightarrow> int" where
  "utc_day d = instant d div day_us"

fun local_hour :: "datetime \<Rightarrow> int" where
  "local_hour (Naive w) = (w div 3600000000) mod 24"
| "local_hour (Aware u off) = ((u + off) div 3600000000) mod 24"

end
