(* ===== verification/Strategy.thy ===== *)
theory Strategy
  imports Enums Clock "HOL-Library.Product_Lexorder"
begin

text \<open>
  The strategy policy of \<open>strategy/spec.py\<close>: the versioned configuration and its
  validation, the weighted evidence score, the liquidity score, the decision precedence,
  price-action confirmation and position sizing.  The configuration records are
  polymorphic in the type of their float fields: \<open>float64\<close> as the caller passes them,
  \<open>rat\<close> once the constructor has checked them.
\<close>

subsection \<open>Score weights\<close>

record 'f score_weights =
  w_trend :: 'f
  w_premium :: 'f
  w_open_interest :: 'f
  w_liquidity :: 'f
  w_greeks :: 'f
  w_volatility :: 'f
  w_risk_reward :: 'f

definition weights_mapping :: "'f score_weights \<Rightarrow> (string \<times> 'f) list" where
  "weights_mapping w =
     [(''trend'', w_trend w), (''premium'', w_premium w),
      (''open_interest'', w_open_interest w), (''liquidity'', w_liquidity w),
      (''greeks'', w_greeks w), (''volatility'', w_volatility w),
      (''risk_reward'', w_risk_reward w)]"

definition weights_vals :: "float64 score_weights \<Rightarrow> rat score_weights" where
  "weights_vals w = \<lparr>w_trend = flt_val (w_trend w), w_premium = flt_val (w_premium w),
     w_open_interest = flt_val (w_open_interest w), w_liquidity = flt_val (w_liquidity w),
     w_greeks = flt_val (w_greeks w), w_volatility = flt_val (w_volatility w),
     w_risk_reward = flt_val (w_risk_reward w)\<rparr>"

definition mk_score_weights :: "float64 score_weights \<Rightarrow> rat score_weights res" where
  "mk_score_weights w =
     (let values = map snd (weights_mapping w); v = weights_vals w;
          vs = map snd (weights_mapping v)
      in if \<not> list_all isfinite values then Inl (ValueError ''score weights must be finite'')
         else if list_ex (\<lambda>x. x < 0) vs then Inl (ValueError ''score weights cannot be negative'')
         else if fround (1 / 10 ^ 9) < \<bar>fsub (fsum vs) 100\<bar>
         then Inl (ValueError ''score weights must sum to 100'')
         else Inr v)"

definition weights_ok :: "rat score_weights \<Rightarrow> bool" where
  "weights_ok w \<longleftrightarrow> list_all (\<lambda>x. 0 \<le> x) (map snd (weights_mapping w))"

lemma mk_score_weights_ok: "mk_score_weights w = Inr v \<Longrightarrow> weights_ok v"
  by (auto simp: mk_score_weights_def weights_ok_def Let_def list_all_iff list_ex_iff not_less
      split: if_splits)

subsection \<open>The strategy configuration\<close>

record 'f strategy_config =
  version :: string
  risk_free_rate :: 'f
  dividend_yield :: 'f
  maximum_risk_per_trade :: 'f
  intraday_delta_minimum :: 'f
  intraday_delta_maximum :: 'f
  positional_delta_minimum :: 'f
  positional_delta_maximum :: 'f
  minimum_volume :: int
  minimum_open_interest :: int
  maximum_spread_ratio :: 'f
  minimum_liquidity_score :: 'f
  watchlist_score :: 'f
  minimum_tradable_score :: 'f
  strong_setup_score :: 'f
  conflict_gap :: 'f
  live_max_age_seconds :: 'f
  component_skew_seconds :: 'f
  future_clock_skew_seconds :: 'f
  instrument_master_max_age_seconds :: 'f
  extreme_expiry_seconds :: 'f
  premium_stop_ratio :: 'f
  atr_stop_multiple :: 'f
  target_r_multiples :: "'f list"
  event_risk_blocks_new_trades :: bool
  weights :: "rat score_weights"

definition HARD_MAXIMUM_RISK_PER_TRADE :: rat where
  "HARD_MAXIMUM_RISK_PER_TRADE = fround (2 / 100)"

definition config_vals :: "float64 strategy_config \<Rightarrow> rat strategy_config" where
  "config_vals c = \<lparr>version = version c,
     risk_free_rate = flt_val (risk_free_rate c),
     dividend_yield = flt_val (dividend_yield c),
     maximum_risk_per_trade = flt_val (maximum_risk_per_trade c),
     intraday_delta_minimum = flt_val (intraday_delta_minimum c),
     intraday_delta_maximum = flt_val (intraday_delta_maximum c),
     positional_delta_minimum = flt_val (positional_delta_minimum c),
     positional_delta_maximum = flt_val (positional_delta_maximum c),
     minimum_volume = minimum_volume c,
     minimum_open_interest = minimum_open_interest c,
     maximum_spread_ratio = flt_val (maximum_spread_ratio c),
     minimum_liquidity_score = flt_val (minimum_liquidity_score c),
     watchlist_score = flt_val (watchlist_score c),
     minimum_tradable_score = flt_val (minimum_tradable_score c),
     strong_setup_score = flt_val (strong_setup_score c),
     conflict_gap = flt_val (conflict_gap c),
     live_max_age_seconds = flt_val (live_max_age_seconds c),
     component_skew_seconds = flt_val (component_skew_seconds c),
     future_clock_skew_seconds = flt_val (future_clock_skew_seconds c),
     instrument_master_max_age_seconds = flt_val (instrument_master_max_age_seconds c),
     extreme_expiry_seconds = flt_val (extreme_expiry_seconds c),
     premium_stop_ratio = flt_val (premium_stop_ratio c),
     atr_stop_multiple = flt_val (atr_stop_multiple c),
     target_r_multiples = map flt_val (target_r_multiples c),
     event_risk_blocks_new_trades = event_risk_blocks_new_trades c,
     weights = weights c\<rparr>"

definition numeric_fields :: "float64 strategy_config \<Rightarrow> (string \<times> float64) list" where
  "numeric_fields c =
     [(''risk_free_rate'', risk_free_rate c),
      (''dividend_yield'', dividend_yield c),
      (''maximum_risk_per_trade'', maximum_risk_per_trade c),
      (''intraday_delta_minimum'', intraday_delta_minimum c),
      (''intraday_delta_maximum'', intraday_delta_maximum c),
      (''positional_delta_minimum'', positional_delta_minimum c),
      (''positional_delta_maximum'', positional_delta_maximum c),
      (''maximum_spread_ratio'', maximum_spread_ratio c),
      (''minimum_liquidity_score'', minimum_liquidity_score c),
      (''watchlist_score'', watchlist_score c),
      (''minimum_tradable_score'', minimum_tradable_score c),
      (''strong_setup_score'', strong_setup_score c),
      (''conflict_gap'', conflict_gap c),
      (''live_max_age_seconds'', live_max_age_seconds c),
      (''component_skew_seconds'', component_skew_seconds c),
      (''future_clock_skew_seconds'', future_clock_skew_seconds c),
      (''instrument_master_max_age_seconds'', instrument_master_max_age_seconds c),
      (''extreme_expiry_seconds'', extreme_expiry_seconds c),
      (''premium_stop_ratio'', premium_stop_ratio c),
      (''atr_stop_multiple'', atr_stop_multiple c)]"

fun join_comma :: "string list \<Rightarrow> string" where
  "join_comma [] = ''''"
| "join_comma [x] = x"
| "join_comma (x # xs) = x @ '', '' @ join_comma xs"

definition delta_range_ok :: "rat \<Rightarrow> rat \<Rightarrow> bool" where
  "delta_range_ok lo hi \<longleftrightarrow> 0 < lo \<and> lo \<le> hi \<and> hi \<le> 1"

text \<open>\<open>StrategyConfig.__post_init__\<close>, check by check; the two integer fields are finite.\<close>

definition mk_strategy_config :: "float64 strategy_config \<Rightarrow> rat strategy_config res" where
  "mk_strategy_config c =
    (let v = config_vals c;
         non_finite = map fst (filter (\<lambda>(_, x). \<not> isfinite x) (numeric_fields c));
         rs = target_r_multiples v
     in if non_finite \<noteq> []
        then Inl (ValueError (''strategy configuration values must be finite: '' @ join_comma non_finite))
        else if \<not> (- 1 < risk_free_rate v \<and> risk_free_rate v \<le> 1)
        then Inl (ValueError ''risk-free rate must be within (-1, 1]'')
        else if \<not> (0 \<le> dividend_yield v \<and> dividend_yield v \<le> 1)
        then Inl (ValueError ''dividend yield must be within [0, 1]'')
        else if list_ex (\<lambda>x. \<not> isfinite x) (target_r_multiples c)
        then Inl (ValueError ''target R multiples must be finite'')
        else if list_ex (\<lambda>x. x \<le> 0 \<or> 1 < x) [maximum_spread_ratio v, premium_stop_ratio v]
        then Inl (ValueError ''configured rates must be within (0, 1]'')
        else if \<not> (0 < maximum_risk_per_trade v \<and> maximum_risk_per_trade v \<le> HARD_MAXIMUM_RISK_PER_TRADE)
        then Inl (ValueError ''maximum risk per trade cannot exceed the hard 2% ceiling'')
        else if \<not> (0 \<le> watchlist_score v \<and> watchlist_score v < minimum_tradable_score v
               \<and> minimum_tradable_score v \<le> strong_setup_score v \<and> strong_setup_score v \<le> 100)
        then Inl (ValueError ''score thresholds must be ordered within 0..100'')
        else if conflict_gap v < 0 then Inl (ValueError ''conflict gap cannot be negative'')
        else if \<not> delta_range_ok (intraday_delta_minimum v) (intraday_delta_maximum v)
        then Inl (ValueError ''intraday delta range must satisfy 0 < minimum <= maximum <= 1'')
        else if \<not> delta_range_ok (positional_delta_minimum v) (positional_delta_maximum v)
        then Inl (ValueError ''positional delta range must satisfy 0 < minimum <= maximum <= 1'')
        else if minimum_volume v \<le> 0 \<or> minimum_open_interest v \<le> 0
        then Inl (ValueError ''minimum volume and open interest must be positive'')
        else if \<not> (0 \<le> minimum_liquidity_score v \<and> minimum_liquidity_score v \<le> 100)
        then Inl (ValueError ''minimum liquidity score must be within 0..100'')
        else if \<not> (0 \<le> conflict_gap v \<and> conflict_gap v \<le> 100)
        then Inl (ValueError ''conflict gap must be within 0..100'')
        else if live_max_age_seconds v \<le> 0
        then Inl (ValueError ''live maximum age must be positive'')
        else if component_skew_seconds v < 0 \<or> future_clock_skew_seconds v < 0
        then Inl (ValueError ''clock-skew tolerances cannot be negative'')
        else if instrument_master_max_age_seconds v \<le> 0
        then Inl (ValueError ''instrument-master maximum age must be positive'')
        else if extreme_expiry_seconds v \<le> 0
        then Inl (ValueError ''extreme-expiry window must be positive'')
        else if atr_stop_multiple v \<le> 0 then Inl (ValueError ''ATR stop multiple must be positive'')
        else if rs = [] \<or> list_ex (\<lambda>x. x \<le> 0) rs
        then Inl (ValueError ''target R multiples must be positive'')
        else if list_ex (\<lambda>(l, r). r \<le> l) (zip rs (tl rs))
        then Inl (ValueError ''target R multiples must be strictly increasing'')
        else Inr v)"

definition delta_range :: "rat strategy_config \<Rightarrow> TradingStyle \<Rightarrow> rat \<times> rat" where
  "delta_range c style =
     (if style = POSITIONAL then (positional_delta_minimum c, positional_delta_maximum c)
      else (intraday_delta_minimum c, intraday_delta_maximum c))"

definition flit :: "rat \<Rightarrow> float64" where
  "flit x = FFinite (fround x)"

definition default_weights :: "float64 score_weights" where
  "default_weights = \<lparr>w_trend = flit 20, w_premium = flit 15, w_open_interest = flit 15,
     w_liquidity = flit 15, w_greeks = flit 15, w_volatility = flit 10, w_risk_reward = flit 10\<rparr>"

definition DEFAULT_STRATEGY_CONFIG :: "float64 strategy_config" where
  "DEFAULT_STRATEGY_CONFIG = \<lparr>version = ''teco-canonical-1.0.0'',
     risk_free_rate = flit (6 / 100), dividend_yield = flit 0,
     maximum_risk_per_trade = flit (2 / 100),
     intraday_delta_minimum = flit (45 / 100), intraday_delta_maximum = flit (70 / 100),
     positional_delta_minimum = flit (55 / 100), positional_delta_maximum = flit (75 / 100),
     minimum_volume = 1000, minimum_open_interest = 1000,
     maximum_spread_ratio = flit (3 / 100), minimum_liquidity_score = flit 60,
     watchlist_score = flit 65, minimum_tradable_score = flit 75, strong_setup_score = flit 85,
     conflict_gap = flit 8, live_max_age_seconds = flit 30, component_skew_seconds = flit 5,
     future_clock_skew_seconds = flit 2,
     instrument_master_max_age_seconds = flit (36 * 60 * 60),
     extreme_expiry_seconds = flit (9 * 60 * 60), premium_stop_ratio = flit (20 / 100),
     atr_stop_multiple = flit 1, target_r_multiples = [flit 1, flit 2, flit 3],
     event_risk_blocks_new_trades = True, weights = weights_vals default_weights\<rparr>"

text \<open>What a constructed configuration guarantees to the functions below.\<close>

definition config_ok :: "rat strategy_config \<Rightarrow> bool" where
  "config_ok c \<longleftrightarrow>
     0 < maximum_risk_per_trade c \<and> maximum_risk_per_trade c \<le> HARD_MAXIMUM_RISK_PER_TRADE
   \<and> 0 \<le> watchlist_score c \<and> watchlist_score c < minimum_tradable_score c
   \<and> minimum_tradable_score c \<le> strong_setup_score c \<and> strong_setup_score c \<le> 100
   \<and> 0 \<le> conflict_gap c \<and> conflict_gap c \<le> 100
   \<and> 0 < maximum_spread_ratio c \<and> maximum_spread_ratio c \<le> 1
   \<and> 0 < premium_stop_ratio c \<and> premium_stop_ratio c \<le> 1
   \<and> 0 < minimum_volume c \<and> 0 < minimum_open_interest c
   \<and> 0 \<le> minimum_liquidity_score c \<and> minimum_liquidity_score c \<le> 100
   \<and> 0 < live_max_age_seconds c \<and> 0 \<le> future_clock_skew_seconds c
   \<and> 0 < extreme_expiry_seconds c \<and> 0 < atr_stop_multiple c
   \<and> target_r_multiples c \<noteq> [] \<and> (\<forall>r\<in>set (target_r_multiples c). 0 < r)
   \<and> sorted_wrt (<) (target_r_multiples c)
   \<and> delta_range_ok (intraday_delta_minimum c) (intraday_delta_maximum c)
   \<and> delta_range_ok (positional_delta_minimum c) (positional_delta_maximum c)"

lemma sorted_wrt_zip_tl:
  fixes xs :: "rat list"
  assumes "\<not> list_ex (\<lambda>(l, r). r \<le> l) (zip xs (tl xs))"
  shows "sorted_wrt (<) xs"
  using assms
proof (induction xs rule: induct_list012)
  case (3 x y zs)
  then have "x < y" and "sorted_wrt (<) (y # zs)" by (auto simp: not_le)
  then show ?case by (auto intro: less_trans)
qed simp_all

lemma mk_strategy_config_eq:
  "mk_strategy_config c = Inr v \<Longrightarrow> v = config_vals c"
  unfolding mk_strategy_config_def Let_def by (auto split: if_splits)

lemma mk_strategy_config_ok: "mk_strategy_config c = Inr v \<Longrightarrow> config_ok v"
  unfolding mk_strategy_config_def Let_def res_simps config_ok_def
  by (auto simp: not_le not_less list_ex_iff intro: sorted_wrt_zip_tl)

subsection \<open>Score bands and the weighted score\<close>

definition score_band :: "rat strategy_config \<Rightarrow> rat \<Rightarrow> ScoreBand" where
  "score_band c score =
     (if strong_setup_score c \<le> score then STRONG
      else if minimum_tradable_score c \<le> score then TRADABLE
      else if watchlist_score c \<le> score then WATCHLIST
      else REJECTED_BAND)"

record score_result =
  sr_total :: rat
  sr_points :: "(string \<times> rat) list"
  sr_band :: ScoreBand

fun factor_in_range :: "float64 \<Rightarrow> bool" where
  "factor_in_range (FFinite x) = (0 \<le> x \<and> x \<le> 1)"
| "factor_in_range _ = False"

definition score_point :: "(string \<rightharpoonup> float64) \<Rightarrow> string \<times> rat \<Rightarrow> (string \<times> rat) res" where
  "score_point factors nw = (case nw of (name, weight) \<Rightarrow>
     (case factors name of
        Some f \<Rightarrow> if factor_in_range f then Inr (name, fmul (flt_val f) weight)
                  else Inl (ValueError (''score factor '' @ [CHR 0x27] @ name @ [CHR 0x27] @ '' must be within 0..1''))
      | None \<Rightarrow> Inl (OtherException ''KeyError'')))"

definition clamp_score :: "rat \<Rightarrow> rat" where
  "clamp_score x = min 100 (max 0 x)"

definition weighted_score ::
    "rat strategy_config \<Rightarrow> (string \<rightharpoonup> float64) \<Rightarrow> score_result res" where
  "weighted_score c factors =
     (let ws = weights_mapping (weights c);
          missing = sort (filter (\<lambda>n. factors n = None) (map fst ws))
      in if missing \<noteq> []
         then Inl (ValueError (''missing score factors: '' @ join_comma missing))
         else bindr (traverse (score_point factors) ws) (\<lambda>points.
           let total = clamp_score (fsum (map snd points))
           in Inr \<lparr>sr_total = total, sr_points = points, sr_band = score_band c total\<rparr>))"

lemma score_band_mono: "config_ok c \<Longrightarrow> x \<le> y \<Longrightarrow> score_band c x \<le> score_band c y"
  by (auto simp: score_band_def band_order config_ok_def)

lemma clamp_score_bounds: "0 \<le> clamp_score x" "clamp_score x \<le> 100"
  by (simp_all add: clamp_score_def)

lemma score_point_ok:
  "score_point factors (n, w) = Inr p \<longleftrightarrow>
     (\<exists>x. factors n = Some (FFinite x) \<and> 0 \<le> x \<and> x \<le> 1 \<and> p = (n, fmul x w))"
  by (auto simp: score_point_def split: option.splits if_splits
      elim: factor_in_range.elims)

subsection \<open>Liquidity\<close>

record liquidity_result =
  lr_score :: rat
  lr_eligible :: bool
  lr_rejection_reasons :: "string list"

definition spread_ratio_of :: "rat option \<Rightarrow> rat option \<Rightarrow> rat option" where
  "spread_ratio_of bid ask = (case (bid, ask) of
     (Some b, Some a) \<Rightarrow> if 0 < a then Some (fround (ddiv (dsub a b) a)) else None
   | _ \<Rightarrow> None)"

definition market_reasons :: "rat option \<Rightarrow> rat option \<Rightarrow> string list" where
  "market_reasons bid ask = (case (bid, ask) of
     (Some b, Some a) \<Rightarrow>
        if b \<le> 0 \<or> a \<le> 0 then [''MISSING_OR_NON_POSITIVE_MARKET'']
        else if a < b then [''ASK_BELOW_BID''] else []
   | _ \<Rightarrow> [''MISSING_OR_NON_POSITIVE_MARKET''])"

definition below_minimum :: "int option \<Rightarrow> int \<Rightarrow> bool" where
  "below_minimum v m = (case v of None \<Rightarrow> True | Some n \<Rightarrow> n < m)"

definition or_zero :: "int option \<Rightarrow> int" where
  "or_zero v = (case v of None \<Rightarrow> 0 | Some n \<Rightarrow> n)"

definition depth_points :: "int option \<Rightarrow> int \<Rightarrow> rat" where
  "depth_points v m = fmul 25 (min 1 (fround (of_int (max 0 (or_zero v)) / of_int m)))"

definition liquidity_score ::
    "rat strategy_config \<Rightarrow> rat option \<Rightarrow> rat option \<Rightarrow> int option \<Rightarrow> int option
      \<Rightarrow> liquidity_result" where
  "liquidity_score c bid ask volume open_interest =
     (let spread = spread_ratio_of bid ask;
          ratio = (case spread of None \<Rightarrow> 1 | Some r \<Rightarrow> if r < 0 then 1 else r);
          reasons = market_reasons bid ask
            @ (if spread \<noteq> None \<and> maximum_spread_ratio c < ratio then [''WIDE_SPREAD''] else [])
            @ (if below_minimum volume (minimum_volume c) then [''LOW_VOLUME''] else [])
            @ (if below_minimum open_interest (minimum_open_interest c)
               then [''LOW_OPEN_INTEREST''] else []);
          spread_points = fmul 50 (max 0 (fsub 1 (fdiv ratio (maximum_spread_ratio c))));
          score = max 0 (min 100 (fadd (fadd spread_points (depth_points volume (minimum_volume c)))
                    (depth_points open_interest (minimum_open_interest c))));
          eligible = (reasons = [] \<and> minimum_liquidity_score c \<le> score)
      in \<lparr>lr_score = score, lr_eligible = eligible,
          lr_rejection_reasons =
            (if reasons = [] \<and> \<not> eligible then [''LIQUIDITY_SCORE_BELOW_MINIMUM''] else reasons)\<rparr>)"

lemma liquidity_score_bounds:
  "0 \<le> lr_score (liquidity_score c b a v oi) \<and> lr_score (liquidity_score c b a v oi) \<le> 100"
  by (simp add: liquidity_score_def Let_def)

text \<open>Eligible exactly when nothing was rejected.\<close>

lemma liquidity_eligible_iff:
  "lr_eligible (liquidity_score c b a v oi) \<longleftrightarrow>
   lr_rejection_reasons (liquidity_score c b a v oi) = []"
  by (auto simp: liquidity_score_def Let_def)

lemma liquidity_eligibleD:
  assumes "lr_eligible (liquidity_score c bid ask v oi)"
  shows "\<exists>b a n m. bid = Some b \<and> ask = Some a \<and> v = Some n \<and> oi = Some m \<and> 0 < b \<and> b \<le> a
    \<and> minimum_volume c \<le> n \<and> minimum_open_interest c \<le> m
    \<and> fround (ddiv (dsub a b) a) \<le> maximum_spread_ratio c
    \<and> minimum_liquidity_score c \<le> lr_score (liquidity_score c bid ask v oi)"
proof -
  from assms have r: "market_reasons bid ask = []" "\<not> below_minimum v (minimum_volume c)"
    "\<not> below_minimum oi (minimum_open_interest c)"
    "minimum_liquidity_score c \<le> lr_score (liquidity_score c bid ask v oi)"
    by (auto simp: liquidity_score_def Let_def split: if_splits)
  from r(1) obtain b a where ba: "bid = Some b" "ask = Some a" "0 < b" "b \<le> a"
    by (auto simp: market_reasons_def not_le not_less split: option.splits if_splits)
  then have nn: "0 \<le> fround (ddiv (dsub a b) a)"
    by (intro flt.rnd_nonneg) (auto simp: dec_arith intro!: dec.rnd_nonneg divide_nonneg_nonneg)
  have "spread_ratio_of bid ask = Some (fround (ddiv (dsub a b) a))"
    using ba by (simp add: spread_ratio_of_def)
  with assms nn have "fround (ddiv (dsub a b) a) \<le> maximum_spread_ratio c"
    by (auto simp: liquidity_score_def Let_def not_less split: if_splits)
  with r ba show ?thesis
    by (auto simp: below_minimum_def not_less split: option.splits)
qed

subsection \<open>The decision precedence\<close>

record decision_inputs =
  data_complete :: bool
  data_stale :: bool
  expiry_valid :: bool
  extreme_expiry_risk :: bool
  event_risk_active :: "bool option"
  liquid_strike_available :: bool
  affordable_input :: bool
  call_score :: float64
  put_score :: float64
  price_action_confirmed :: "bool option"
  operating_mode :: OperatingMode

record decision_outcome =
  do_state :: DecisionState
  do_reason :: DecisionReason
  do_call_band :: ScoreBand
  do_put_band :: ScoreBand
  do_leading_score :: rat
  do_score_gap :: rat

fun score_in_range :: "float64 \<Rightarrow> bool" where
  "score_in_range (FFinite x) = (0 \<le> x \<and> x \<le> 100)"
| "score_in_range _ = False"

definition gate :: "rat strategy_config \<Rightarrow> decision_inputs \<Rightarrow> DecisionState \<times> DecisionReason" where
  "gate c i =
     (let cs = flt_val (call_score i); ps = flt_val (put_score i);
          leading = max cs ps; gap = \<bar>fsub cs ps\<bar>
      in if \<not> data_complete i then (INSUFFICIENT_DATA, DATA_INCOMPLETE)
         else if data_stale i then (NO_TRADE, DATA_STALE)
         else if \<not> expiry_valid i then (NO_TRADE, INVALID_EXPIRY)
         else if extreme_expiry_risk i then (NO_TRADE, EXTREME_EXPIRY_RISK)
         else if event_risk_active i \<noteq> Some False \<and> event_risk_blocks_new_trades c
         then (NO_TRADE, EVENT_RISK)
         else if \<not> liquid_strike_available i then (NO_TRADE, NO_LIQUID_STRIKE)
         else if \<not> affordable_input i then (NO_TRADE, NOT_AFFORDABLE)
         else if leading < watchlist_score c then (NO_TRADE, BELOW_WATCHLIST_SCORE)
         else if leading < minimum_tradable_score c then (WAIT, WATCHLIST_ONLY)
         else if gap < conflict_gap c then (WAIT, CONFLICTING_SCORES)
         else if operating_mode i = QUICK then (WAIT, QUICK_MODE_ONLY)
         else if price_action_confirmed i \<noteq> Some True then (WAIT, PRICE_ACTION_PENDING)
         else if ps < cs then (BUY_CALL, BULLISH_CONFIRMED)
         else (BUY_PUT, BEARISH_CONFIRMED))"

definition resolve_decision ::
    "rat strategy_config \<Rightarrow> decision_inputs \<Rightarrow> decision_outcome res" where
  "resolve_decision c i =
     (if \<not> score_in_range (call_score i) \<or> \<not> score_in_range (put_score i)
      then Inl (ValueError ''call and put scores must be within 0..100'')
      else let cs = flt_val (call_score i); ps = flt_val (put_score i)
           in Inr \<lparr>do_state = fst (gate c i), do_reason = snd (gate c i),
                do_call_band = score_band c cs, do_put_band = score_band c ps,
                do_leading_score = max cs ps, do_score_gap = \<bar>fsub cs ps\<bar>\<rparr>)"

definition is_buy :: "DecisionState \<Rightarrow> bool" where
  "is_buy d \<longleftrightarrow> d \<in> {BUY_CALL, BUY_PUT}"

text \<open>The conjunction of all gates: the abstract specification of a BUY.\<close>

definition buy_gates :: "rat strategy_config \<Rightarrow> decision_inputs \<Rightarrow> bool" where
  "buy_gates c i \<longleftrightarrow>
     data_complete i \<and> \<not> data_stale i \<and> expiry_valid i \<and> \<not> extreme_expiry_risk i
   \<and> (event_risk_blocks_new_trades c \<longrightarrow> event_risk_active i = Some False)
   \<and> liquid_strike_available i \<and> affordable_input i \<and> operating_mode i = PRO
   \<and> price_action_confirmed i = Some True
   \<and> watchlist_score c \<le> max (flt_val (call_score i)) (flt_val (put_score i))
   \<and> minimum_tradable_score c \<le> max (flt_val (call_score i)) (flt_val (put_score i))
   \<and> conflict_gap c \<le> \<bar>fsub (flt_val (call_score i)) (flt_val (put_score i))\<bar>"

lemma not_QUICK [simp]: "m \<noteq> QUICK \<longleftrightarrow> m = PRO"
  by (cases m) auto

lemma gate_buy_iff: "is_buy (fst (gate c i)) \<longleftrightarrow> buy_gates c i"
  by (auto simp: gate_def buy_gates_def is_buy_def Let_def not_less)

lemma gate_side:
  assumes "buy_gates c i"
  shows "fst (gate c i) =
    (if flt_val (put_score i) < flt_val (call_score i) then BUY_CALL else BUY_PUT)"
  using assms by (auto simp: gate_def buy_gates_def Let_def not_less)

fun state_of_reason :: "DecisionReason \<Rightarrow> DecisionState" where
  "state_of_reason DATA_INCOMPLETE = INSUFFICIENT_DATA"
| "state_of_reason WATCHLIST_ONLY = WAIT"
| "state_of_reason CONFLICTING_SCORES = WAIT"
| "state_of_reason QUICK_MODE_ONLY = WAIT"
| "state_of_reason PRICE_ACTION_PENDING = WAIT"
| "state_of_reason BULLISH_CONFIRMED = BUY_CALL"
| "state_of_reason BEARISH_CONFIRMED = BUY_PUT"
| "state_of_reason _ = NO_TRADE"

lemma gate_reason_state: "fst (gate c i) = state_of_reason (snd (gate c i))"
  by (simp add: gate_def Let_def)

subsection \<open>Price-action confirmation and small price helpers\<close>

definition confirm_price_action :: "OptionType \<Rightarrow> rat \<Rightarrow> rat \<Rightarrow> rat \<Rightarrow> bool res" where
  "confirm_price_action option_type underlying high low =
     (if underlying \<le> 0 \<or> high \<le> 0 \<or> low \<le> 0
      then Inl (ValueError ''price-action inputs must be positive'')
      else if high < low then Inl (ValueError ''signal-candle high cannot be below its low'')
      else Inr (if option_type = CALL then high < underlying else underlying < low))"

definition midpoint :: "rat \<Rightarrow> rat \<Rightarrow> rat res" where
  "midpoint bid ask =
     (if bid \<le> 0 \<or> ask \<le> 0 \<or> ask < bid
      then Inl (ValueError ''a midpoint requires positive bid <= ask'')
      else Inr (ddiv (dadd bid ask) 2))"

definition atm_straddle :: "rat \<Rightarrow> rat \<Rightarrow> rat res" where
  "atm_straddle call_ltp put_ltp =
     (if call_ltp \<le> 0 \<or> put_ltp \<le> 0 then Inl (ValueError ''ATM LTP values must be positive'')
      else Inr (dadd call_ltp put_ltp))"

definition executable_straddle :: "rat \<Rightarrow> rat \<Rightarrow> rat res" where
  "executable_straddle call_ask put_ask =
     (if call_ask \<le> 0 \<or> put_ask \<le> 0 then Inl (ValueError ''ATM ask values must be positive'')
      else Inr (dadd call_ask put_ask))"

definition time_to_expiry_years :: "datetime \<Rightarrow> datetime \<Rightarrow> rat res" where
  "time_to_expiry_years now expiry =
     (if \<not> is_aware now \<or> \<not> is_aware expiry
      then Inl (ValueError ''expiry calculations require timezone-aware datetimes'')
      else Inr (max 0 (fdiv (total_seconds (instant expiry - instant now)) 31536000)))"

definition expected_bounds :: "rat \<Rightarrow> rat \<Rightarrow> (rat \<times> rat) res" where
  "expected_bounds underlying expected_move =
     (if underlying \<le> 0 \<or> expected_move < 0
      then Inl (ValueError ''underlying must be positive and expected move non-negative'')
      else Inr (dsub underlying expected_move, dadd underlying expected_move))"

definition synthetic_futures :: "rat \<Rightarrow> rat \<Rightarrow> rat \<Rightarrow> rat res" where
  "synthetic_futures atm_strike call_price put_price =
     (if atm_strike \<le> 0 \<or> call_price \<le> 0 \<or> put_price \<le> 0
      then Inl (ValueError ''synthetic-futures inputs must be positive'')
      else Inr (dsub (dadd atm_strike call_price) put_price))"

definition atm_key :: "rat \<Rightarrow> rat \<Rightarrow> rat \<times> rat" where
  "atm_key underlying strike = (dabs (dsub strike underlying), strike)"

definition nearest_atm :: "rat \<Rightarrow> rat list \<Rightarrow> rat res" where
  "nearest_atm underlying strikes =
     (if underlying \<le> 0 \<or> strikes = []
      then Inl (ValueError ''underlying and at least one listed strike are required'')
      else Inr (arg_min_list (atm_key underlying) (sort (remdups strikes))))"

lemma arg_min_list_least:
  fixes f :: "'a \<Rightarrow> 'b::linorder"
  assumes "xs \<noteq> []" and "y \<in> set xs"
  shows "f (arg_min_list f xs) \<le> f y"
  using f_arg_min_list_f[OF assms(1), of f] assms by simp

lemma nearest_atm_least:
  assumes "nearest_atm u ks = Inr k"
  shows "k \<in> set ks" and "j \<in> set ks \<Longrightarrow> dabs (dsub k u) \<le> dabs (dsub j u)"
    and "j \<in> set ks \<Longrightarrow> dabs (dsub j u) = dabs (dsub k u) \<Longrightarrow> k \<le> j"
proof -
  from assms have "ks \<noteq> []" and k: "k = arg_min_list (atm_key u) (sort (remdups ks))"
    by (auto simp: nearest_atm_def split: if_splits)
  then have ne: "sort (remdups ks) \<noteq> []" by (metis remdups_eq_nil_iff set_empty set_sort)
  show "k \<in> set ks" using arg_min_list_in[OF ne, of "atm_key u"] by (simp add: k)
  have least: "atm_key u k \<le> atm_key u j" if "j \<in> set ks" for j
    unfolding k using that by (intro arg_min_list_least[OF ne]) simp
  show "dabs (dsub k u) \<le> dabs (dsub j u)" if "j \<in> set ks"
    using least[OF that] by (auto simp: atm_key_def less_eq_prod_def)
  show "k \<le> j" if "j \<in> set ks" and "dabs (dsub j u) = dabs (dsub k u)"
    using least[OF that(1)] that(2) by (auto simp: atm_key_def less_eq_prod_def)
qed

subsection \<open>Position sizing\<close>

record position_size_result =
  ps_maximum_risk :: rat
  ps_risk_per_lot :: rat
  ps_premium_per_lot :: rat
  ps_lots_by_risk :: int
  ps_lots_by_allocation :: int
  ps_maximum_lots :: int
  ps_quantity :: int
  ps_affordable :: bool

definition calculate_position_size ::
    "rat strategy_config \<Rightarrow> decimal \<Rightarrow> float64 \<Rightarrow> float64 \<Rightarrow> decimal \<Rightarrow> decimal \<Rightarrow> int \<Rightarrow> decimal
      \<Rightarrow> position_size_result res" where
  "calculate_position_size c account_capital risk_rate maximum_premium_allocation
      entry stop lot_size cost =
     (let cap = dec_val account_capital; en = dec_val entry; st = dec_val stop; co = dec_val cost;
          rate = flt_val risk_rate; alloc_rate = flt_val maximum_premium_allocation
      in if \<not> list_all dec_is_finite [account_capital, entry, stop, cost]
         then Inl (ValueError ''position-sizing decimal inputs must be finite'')
         else if cap \<le> 0 \<or> en \<le> 0 \<or> lot_size \<le> 0
         then Inl (ValueError ''capital, entry, and lot size must be positive'')
         else if \<not> isfinite risk_rate \<or> \<not> isfinite maximum_premium_allocation
         then Inl (ValueError ''risk and allocation rates must be finite'')
         else if \<not> (0 < rate \<and> rate \<le> maximum_risk_per_trade c)
         then Inl (ValueError
           ''risk rate must be positive and within the configured maximum risk per trade'')
         else if \<not> (0 < alloc_rate \<and> alloc_rate \<le> 1)
         then Inl (ValueError ''premium allocation rate must be within (0, 1]'')
         else if st < 0 \<or> en \<le> st
         then Inl (ValueError ''a long-option stop must be within [0, entry)'')
         else if co < 0 then Inl (ValueError ''estimated costs cannot be negative'')
         else
           let maximum_risk = dmul cap (float_repr rate);
               risk_per_lot = dadd (dmul (dsub en st) (of_int lot_size)) co;
               premium_per_lot = dmul en (of_int lot_size);
               allocation = dmul cap (float_repr alloc_rate);
               lots_by_risk = dec_floor (ddiv maximum_risk risk_per_lot);
               lots_by_allocation = dec_floor (ddiv allocation premium_per_lot);
               maximum_lots = max 0 (min lots_by_risk lots_by_allocation)
           in Inr \<lparr>ps_maximum_risk = maximum_risk, ps_risk_per_lot = risk_per_lot,
                ps_premium_per_lot = premium_per_lot, ps_lots_by_risk = lots_by_risk,
                ps_lots_by_allocation = lots_by_allocation, ps_maximum_lots = maximum_lots,
                ps_quantity = maximum_lots * lot_size, ps_affordable = (0 < maximum_lots)\<rparr>)"

text \<open>The unit roundoff of \<open>Decimal\<close>, and the rule behind both limits: the floor of a rounded
  quotient overshoots by at most one roundoff.\<close>

definition dec_unit :: rat where "dec_unit = 5 / 10 ^ 28"

lemma floor_quotient_bound:
  assumes "0 < r" and "0 \<le> a"
  shows "of_int (max 0 (min (dec_floor (ddiv a r)) k)) * r \<le> (1 + dec_unit) * a"
proof -
  have q: "0 \<le> a / r" using assms by simp
  then have "0 \<le> ddiv a r" unfolding ddiv_def by (rule dec.rnd_nonneg)
  then have "of_int (max 0 (min (dec_floor (ddiv a r)) k)) \<le> ddiv a r"
    unfolding dec_floor_def by (simp add: max_def min_def) linarith
  also have "\<dots> \<le> (1 + dec_unit) * (a / r)"
    unfolding ddiv_def dec_unit_def by (rule decp.rnd_upper[OF q])
  finally show ?thesis using assms(1) by (simp add: pos_le_divide_eq)
qed

lemma float_repr_hard_maximum: "float_repr HARD_MAXIMUM_RISK_PER_TRADE = 2 / 100"
  by code_simp

lemma float_repr_mono: "fround x = x \<Longrightarrow> fround y = y \<Longrightarrow> x \<le> y \<Longrightarrow> float_repr x \<le> float_repr y"
  using float_repr_strict_mono[of x y] by (cases "x = y") auto

text \<open>What a successful sizing computed, one fact per field.\<close>

lemma position_sizeD:
  assumes "calculate_position_size c cap rate alloc en st lot co = Inr p"
  obtains C E S K r a where
    "cap = Finite C" "en = Finite E" "st = Finite S" "co = Finite K"
    "rate = FFinite r" "alloc = FFinite a"
    "0 < C" "0 < E" "0 \<le> S" "S < E" "0 < lot" "0 \<le> K" "0 < r" "r \<le> maximum_risk_per_trade c"
    "0 < a" "a \<le> 1"
    "ps_maximum_risk p = dmul C (float_repr r)"
    "ps_risk_per_lot p = dadd (dmul (dsub E S) (of_int lot)) K"
    "ps_premium_per_lot p = dmul E (of_int lot)"
    "ps_maximum_lots p = max 0 (min (dec_floor (ddiv (ps_maximum_risk p) (ps_risk_per_lot p)))
        (dec_floor (ddiv (dmul C (float_repr a)) (ps_premium_per_lot p))))"
    "ps_quantity p = ps_maximum_lots p * lot" "ps_affordable p = (0 < ps_maximum_lots p)"
proof -
  from assms have "dec_is_finite cap" "dec_is_finite en" "dec_is_finite st" "dec_is_finite co"
    "isfinite rate" "isfinite alloc"
    unfolding calculate_position_size_def Let_def res_simps by simp_all
  then obtain C E S K r a where fin: "cap = Finite C" "en = Finite E" "st = Finite S"
    "co = Finite K" "rate = FFinite r" "alloc = FFinite a"
    by (metis dec_is_finiteE isfiniteE)
  show thesis
    using assms unfolding calculate_position_size_def Let_def res_simps fin
    by (intro that[OF fin]) (auto simp: not_le not_less)
qed

text \<open>The quotient that sizes the position, for a budget of either sign.\<close>

lemma lots_within_budget:
  assumes "0 < r"
  shows "of_int (max 0 (min (dec_floor (ddiv a r)) k)) * r \<le> (1 + dec_unit) * \<bar>a\<bar>"
    and "0 < max 0 (min (dec_floor (ddiv a r)) k) \<Longrightarrow> 0 < a"
proof -
  have "dec_floor (ddiv a r) \<le> dec_floor (ddiv \<bar>a\<bar> r)"
    unfolding dec_floor_def ddiv_def
    by (intro floor_mono dec.rnd_mono divide_right_mono) (use assms in auto)
  then have "of_int (max 0 (min (dec_floor (ddiv a r)) k)) * r
      \<le> of_int (max 0 (min (dec_floor (ddiv \<bar>a\<bar> r)) k)) * r"
    using assms by (intro mult_right_mono) auto
  also have "\<dots> \<le> (1 + dec_unit) * \<bar>a\<bar>" by (rule floor_quotient_bound[OF assms]) simp
  finally show "of_int (max 0 (min (dec_floor (ddiv a r)) k)) * r \<le> (1 + dec_unit) * \<bar>a\<bar>" .
  show "0 < a" if "0 < max 0 (min (dec_floor (ddiv a r)) k)"
  proof (rule ccontr)
    assume "\<not> 0 < a"
    then have "ddiv a r \<le> 0"
      unfolding ddiv_def using assms by (intro dec.rnd_nonpos) (simp add: divide_le_0_iff)
    then have "dec_floor (ddiv a r) \<le> 0" unfolding dec_floor_def by linarith
    then show False using that by simp
  qed
qed

lemma position_size_facts:
  assumes "calculate_position_size c cap rate alloc en st lot co = Inr p"
  shows "of_int (ps_maximum_lots p) * ps_risk_per_lot p \<le> (1 + dec_unit) * \<bar>ps_maximum_risk p\<bar>"
    "alloc = FFinite a \<Longrightarrow> of_int (ps_maximum_lots p) * ps_premium_per_lot p
       \<le> (1 + dec_unit) * \<bar>dmul (dec_val cap) (float_repr a)\<bar>"
    "ps_quantity p = ps_maximum_lots p * lot" "0 < lot" "0 \<le> ps_maximum_lots p"
    "ps_affordable p = (0 < ps_maximum_lots p)" "ps_affordable p \<Longrightarrow> 0 < ps_maximum_risk p"
    "\<exists>E S. en = Finite E \<and> st = Finite S \<and> 0 \<le> S \<and> S < E"
proof -
  from assms obtain C E S K r b where d:
    "cap = Finite C" "en = Finite E" "st = Finite S" "co = Finite K"
    "rate = FFinite r" "alloc = FFinite b"
    "0 < C" "0 < E" "0 \<le> S" "S < E" "0 < lot" "0 \<le> K" "0 < r" "r \<le> maximum_risk_per_trade c"
    "0 < b" "b \<le> 1" "ps_maximum_risk p = dmul C (float_repr r)"
    "ps_risk_per_lot p = dadd (dmul (dsub E S) (of_int lot)) K"
    "ps_premium_per_lot p = dmul E (of_int lot)"
    "ps_maximum_lots p = max 0 (min (dec_floor (ddiv (ps_maximum_risk p) (ps_risk_per_lot p)))
        (dec_floor (ddiv (dmul C (float_repr b)) (ps_premium_per_lot p))))"
    "ps_quantity p = ps_maximum_lots p * lot" "ps_affordable p = (0 < ps_maximum_lots p)"
    by (rule position_sizeD)
  have risk: "0 < ps_risk_per_lot p"
    unfolding d(18) dadd_def dmul_def dsub_def
    using d(10,11,12) by (intro decp.rnd_pos add_pos_nonneg mult_pos_pos) auto
  have prem: "0 < ps_premium_per_lot p"
    unfolding d(19) dmul_def using d(8,11) by (intro decp.rnd_pos mult_pos_pos) auto
  show "of_int (ps_maximum_lots p) * ps_risk_per_lot p \<le> (1 + dec_unit) * \<bar>ps_maximum_risk p\<bar>"
    unfolding d(20) by (rule lots_within_budget(1)[OF risk])
  show "of_int (ps_maximum_lots p) * ps_premium_per_lot p \<le> (1 + dec_unit) * \<bar>dmul (dec_val cap) (float_repr a)\<bar>"
    if "alloc = FFinite a"
    using lots_within_budget(1)[OF prem] that
    unfolding d(20) min.commute[of "dec_floor (ddiv (ps_maximum_risk p) _)"] by (simp add: d(1,6))
  show "ps_affordable p \<Longrightarrow> 0 < ps_maximum_risk p"
    using lots_within_budget(2)[OF risk] by (simp add: d(20,22))
  show "ps_quantity p = ps_maximum_lots p * lot" "0 < lot" "0 \<le> ps_maximum_lots p"
    "ps_affordable p = (0 < ps_maximum_lots p)" "\<exists>E S. en = Finite E \<and> st = Finite S \<and> 0 \<le> S \<and> S < E"
    using d(2,3,9-11,20-22) by auto
qed

end
