(* ===== verification/StrategyClaims.thy ===== *)
theory StrategyClaims
  imports Strategy
begin

text \<open>
  The properties of the strategy policy (\<open>strategy/spec.py\<close>).
\<close>

definition default_config :: "rat strategy_config" where
  "default_config = config_vals DEFAULT_STRATEGY_CONFIG"

lemma default_config_accepted: "mk_strategy_config DEFAULT_STRATEGY_CONFIG = Inr default_config"
proof -
  have "is_ok (mk_strategy_config DEFAULT_STRATEGY_CONFIG)" by code_simp
  then obtain v where "mk_strategy_config DEFAULT_STRATEGY_CONFIG = Inr v" by (auto simp: is_ok_iff)
  then show ?thesis using mk_strategy_config_eq by (auto simp: default_config_def)
qed

lemma default_config_ok: "config_ok default_config"
  by (rule mk_strategy_config_ok[OF default_config_accepted])

text \<open>
  C9: a decision is a BUY exactly when every gate is open: data complete and fresh, expiry valid
  and not extreme, event risk explicitly clear (when it blocks), a liquid strike, affordable, pro
  mode, price action confirmed, and the leading score above both thresholds with at least the
  conflict gap; and then the side is the strictly higher score's, puts winning a tie.
\<close>

theorem buy_iff_all_gates:
  assumes "resolve_decision c i = Inr out"
  shows "((do_state out = BUY_CALL \<or> do_state out = BUY_PUT) \<longleftrightarrow> buy_gates c i)
    \<and> (buy_gates c i \<longrightarrow> do_state out =
      (if flt_val (put_score i) < flt_val (call_score i) then BUY_CALL else BUY_PUT))"
proof -
  have st: "do_state out = fst (gate c i)"
    using assms by (auto simp: resolve_decision_def Let_def split: if_splits)
  show ?thesis using gate_buy_iff[of c i] gate_side[of c i] by (simp add: st is_buy_def)
qed

definition demo_inputs :: decision_inputs where
  "demo_inputs = \<lparr>data_complete = True, data_stale = False, expiry_valid = True,
     extreme_expiry_risk = False, event_risk_active = Some False, liquid_strike_available = True,
     affordable_input = True, call_score = FFinite 90, put_score = FFinite 40,
     price_action_confirmed = Some True, operating_mode = PRO\<rparr>"

lemma buy_iff_all_gates_witness:
  "\<exists>out. resolve_decision default_config demo_inputs = Inr out \<and> do_state out = BUY_CALL"
proof -
  have "is_ok (resolve_decision default_config demo_inputs)" "buy_gates default_config demo_inputs"
    by code_simp+
  then obtain out where "resolve_decision default_config demo_inputs = Inr out"
    "buy_gates default_config demo_inputs" by (auto simp: is_ok_iff)
  with buy_iff_all_gates[OF this(1)] show ?thesis by (simp add: demo_inputs_def)
qed

text \<open>
  the decision fails closed: the reason alone determines the state, and a BUY under a
  validated configuration has a leading band of at least \<open>TRADABLE\<close>.
\<close>

theorem decision_reason_determines_state:
  assumes "resolve_decision c i = Inr out" "config_ok c"
  shows "do_state out = state_of_reason (do_reason out)
    \<and> (is_buy (do_state out) \<longrightarrow> TRADABLE \<le> max (do_call_band out) (do_put_band out))"
proof -
  have o: "do_state out = fst (gate c i)" "do_reason out = snd (gate c i)"
    "do_call_band out = score_band c (flt_val (call_score i))"
    "do_put_band out = score_band c (flt_val (put_score i))"
    using assms(1) by (auto simp: resolve_decision_def Let_def split: if_splits)
  have "TRADABLE \<le> max (do_call_band out) (do_put_band out)" if "is_buy (do_state out)"
  proof -
    have "minimum_tradable_score c \<le> max (flt_val (call_score i)) (flt_val (put_score i))"
      using that gate_buy_iff[of c i] by (simp add: o buy_gates_def)
    then have "TRADABLE \<le> score_band c (max (flt_val (call_score i)) (flt_val (put_score i)))"
      by (auto simp: score_band_def band_order)
    then show ?thesis by (auto simp: o max_def split: if_splits intro: order_trans)
  qed
  then show ?thesis using gate_reason_state[of c i] by (simp add: o)
qed

lemma decision_reason_determines_state_witness:
  "\<exists>out. resolve_decision default_config demo_inputs = Inr out
    \<and> do_state out = state_of_reason (do_reason out)"
proof -
  have "is_ok (resolve_decision default_config demo_inputs)" by code_simp
  then obtain out where "resolve_decision default_config demo_inputs = Inr out"
    by (auto simp: is_ok_iff)
  with decision_reason_determines_state[OF this default_config_ok] show ?thesis by blast
qed

lemma weighted_score_facts:
  shows "is_ok (weighted_score c factors) \<longleftrightarrow>
      (\<forall>n\<in>set (List.map fst (weights_mapping (weights c))).
        \<exists>x. factors n = Some (FFinite x) \<and> 0 \<le> x \<and> x \<le> 1)"
    and "weighted_score c factors = Inr r \<Longrightarrow>
      0 \<le> sr_total r \<and> sr_total r \<le> 100 \<and> sr_band r = score_band c (sr_total r)
      \<and> List.map fst (sr_points r) = List.map fst (weights_mapping (weights c))"
proof -
  let ?ws = "weights_mapping (weights c)"
  have good: "is_ok (traverse (score_point factors) ws) \<longleftrightarrow>
      (\<forall>n\<in>set (List.map fst ws). \<exists>x. factors n = Some (FFinite x) \<and> 0 \<le> x \<and> x \<le> 1)" for ws
  proof (induction ws)
    case Nil
    then show ?case by simp
  next
    case (Cons nw ws)
    obtain n w where nw: "nw = (n, w)" by (cases nw)
    show ?case
    proof (cases "score_point factors (n, w)")
      case (Inl e)
      then have "\<not> (\<exists>x. factors n = Some (FFinite x) \<and> 0 \<le> x \<and> x \<le> 1)"
        using score_point_ok[of factors n w "(n, fmul x w)" for x] by fastforce
      then show ?thesis by (simp add: nw Inl)
    next
      case (Inr p)
      then have "\<exists>x. factors n = Some (FFinite x) \<and> 0 \<le> x \<and> x \<le> 1"
        using score_point_ok[of factors n w p] by blast
      moreover have "is_ok (bindr m (\<lambda>ys. Inr (p # ys))) = is_ok m" for m
        by (cases m) simp_all
      ultimately show ?thesis using Cons.IH by (simp add: nw Inr)
    qed
  qed
  have nomiss: "filter (\<lambda>n. factors n = None) (List.map fst ?ws) = []"
    if "\<forall>n\<in>set (List.map fst ?ws). \<exists>x. factors n = Some (FFinite x) \<and> 0 \<le> x \<and> x \<le> 1"
    using that by (auto simp: filter_empty_conv)
  have sort_Nil: "sort xs = [] \<longleftrightarrow> xs = []" for xs :: "string list"
    by (metis set_empty set_sort)
  have "is_ok (weighted_score c factors) \<longleftrightarrow>
      filter (\<lambda>n. factors n = None) (List.map fst ?ws) = [] \<and> is_ok (traverse (score_point factors) ?ws)"
    by (cases "traverse (score_point factors) ?ws") (auto simp: weighted_score_def Let_def sort_Nil)
  then show "is_ok (weighted_score c factors) \<longleftrightarrow>
      (\<forall>n\<in>set (List.map fst ?ws). \<exists>x. factors n = Some (FFinite x) \<and> 0 \<le> x \<and> x \<le> 1)"
    using good[of ?ws] nomiss by blast
  assume "weighted_score c factors = Inr r"
  then obtain ps where ps: "traverse (score_point factors) ?ws = Inr ps"
    and r: "r = \<lparr>sr_total = clamp_score (fsum (List.map snd ps)), sr_points = ps,
      sr_band = score_band c (clamp_score (fsum (List.map snd ps)))\<rparr>"
    by (auto simp: weighted_score_def Let_def res_simps split: if_splits)
  have "list_all2 (\<lambda>nw p. fst p = fst nw) ?ws ps"
    using ps by (auto simp: traverse_eq_Inr score_point_ok elim!: list_all2_mono)
  then have "List.map fst ps = List.map fst ?ws"
    by (induction rule: list_all2_induct) simp_all
  then show "0 \<le> sr_total r \<and> sr_total r \<le> 100 \<and> sr_band r = score_band c (sr_total r)
      \<and> List.map fst (sr_points r) = List.map fst ?ws"
    by (simp add: r clamp_score_bounds)
qed

text \<open>
  the weighted score is defined exactly when every weighted factor is present and a number
  within 0..1, whatever else is in the mapping; the total is then within 0..100, one point entry
  per weight, and the band is that of the total.
\<close>

theorem weighted_score_total:
  "(is_ok (weighted_score c factors) \<longleftrightarrow>
      (\<forall>n\<in>set (List.map fst (weights_mapping (weights c))).
        \<exists>x. factors n = Some (FFinite x) \<and> 0 \<le> x \<and> x \<le> 1))
    \<and> (\<forall>r. weighted_score c factors = Inr r \<longrightarrow>
      0 \<le> sr_total r \<and> sr_total r \<le> 100 \<and> sr_band r = score_band c (sr_total r)
      \<and> List.map fst (sr_points r) = List.map fst (weights_mapping (weights c)))"
  using weighted_score_facts by blast

definition demo_factors :: "string \<rightharpoonup> float64" where
  "demo_factors n = Some (FFinite 1)"

lemma weighted_score_total_witness:
  "\<exists>r. weighted_score default_config demo_factors = Inr r \<and> sr_total r \<le> 100"
proof -
  note total = weighted_score_total[of default_config demo_factors]
  then have "is_ok (weighted_score default_config demo_factors)" by (simp add: demo_factors_def)
  then obtain r where "weighted_score default_config demo_factors = Inr r" by (auto simp: is_ok_iff)
  then show ?thesis using total by blast
qed

text \<open>
  an eligible option has a positive two-sided market with ask at or above bid, enough volume
  and open interest, a spread ratio within the configured maximum and at least the minimum score;
  it is eligible exactly when no reason is given, and every score lies within 0..100.
\<close>

theorem liquidity_is_sound:
  "0 \<le> lr_score (liquidity_score c bid ask v oi) \<and> lr_score (liquidity_score c bid ask v oi) \<le> 100
    \<and> (lr_eligible (liquidity_score c bid ask v oi) \<longleftrightarrow>
        lr_rejection_reasons (liquidity_score c bid ask v oi) = [])
    \<and> (lr_eligible (liquidity_score c bid ask v oi) \<longrightarrow>
        (\<exists>b a n m. bid = Some b \<and> ask = Some a \<and> v = Some n \<and> oi = Some m \<and> 0 < b \<and> b \<le> a
          \<and> minimum_volume c \<le> n \<and> minimum_open_interest c \<le> m
          \<and> fround (ddiv (dsub a b) a) \<le> maximum_spread_ratio c
          \<and> minimum_liquidity_score c \<le> lr_score (liquidity_score c bid ask v oi)))"
  using liquidity_score_bounds liquidity_eligible_iff liquidity_eligibleD by blast

lemma liquidity_is_sound_witness:
  "\<exists>b. Some (100::rat) = Some b \<and> 0 < b \<and> minimum_volume default_config \<le> 5000"
proof -
  have "lr_eligible (liquidity_score default_config (Some 100) (Some 101) (Some 5000) (Some 5000))"
    by code_simp
  then show ?thesis
    using liquidity_is_sound[of default_config "Some 100" "Some 101" "Some 5000" "Some 5000"] by auto
qed

lemma scaled_budget_bound:
  assumes "0 < C" "0 \<le> x" "x \<le> y" "q \<le> (1 + dec_unit) * \<bar>dmul C x\<bar>"
  shows "q \<le> (1 + dec_unit) ^ 2 * (y * C)"
proof -
  have u: "0 \<le> dec_unit" by (simp add: dec_unit_def)
  have p: "0 \<le> C * x" "C * x \<le> y * C" using assms by (auto simp: mult.commute mult_left_mono)
  have "dmul C x \<le> (1 + dec_unit) * (C * x)"
    unfolding dmul_def dec_unit_def using p(1) by (intro decp.rnd_upper)
  also have "\<dots> \<le> (1 + dec_unit) * (y * C)"
    using p(2) u by (intro mult_left_mono) auto
  finally have "(1 + dec_unit) * \<bar>dmul C x\<bar> \<le> (1 + dec_unit) * ((1 + dec_unit) * (y * C))"
    using p(1) u by (intro mult_left_mono) (auto simp: dmul_def dec.rnd_nonneg)
  with assms(4) show ?thesis by (simp add: power2_eq_square mult.assoc)
qed


definition demo_size :: "position_size_result res" where
  "demo_size = calculate_position_size default_config (Finite 1000000) (FFinite (1 / 64))
     (FFinite (1 / 2)) (Finite 100) (Finite 80) 50 (Finite 0)"


text \<open>
  a configuration the constructor accepts satisfies every invariant the policy relies on, and
  holds exactly the values given.
\<close>

theorem accepted_config_is_sound:
  assumes "mk_strategy_config raw = Inr c"
  shows "config_ok c \<and> c = config_vals raw"
  using mk_strategy_config_ok[OF assms] mk_strategy_config_eq[OF assms] by blast

lemma accepted_config_is_sound_witness: "config_ok (config_vals DEFAULT_STRATEGY_CONFIG)"
  using accepted_config_is_sound[OF default_config_accepted] by (simp add: default_config_def)

text \<open>
  the at-the-money strike is a listed one, no listed strike is nearer, and of the equally near
  ones it is the lowest.
\<close>

theorem nearest_atm_is_nearest:
  assumes "nearest_atm u ks = Inr k"
  shows "k \<in> set ks \<and> (\<forall>j\<in>set ks. dabs (dsub k u) \<le> dabs (dsub j u)
    \<and> (dabs (dsub j u) = dabs (dsub k u) \<longrightarrow> k \<le> j))"
  using nearest_atm_least[OF assms] by blast

lemma nearest_atm_is_nearest_witness: "dabs (dsub 100 110) \<le> dabs (dsub 120 (110::rat))"
proof -
  have "nearest_atm 110 [120, 100, 140] = Inr 100" by code_simp
  from nearest_atm_is_nearest[OF this] show ?thesis by simp
qed

end
