(* ===== verification/ExecModels.thy ===== *)
theory ExecModels
  imports Clock
begin

text \<open>
  The execution contracts of \<open>execution/models.py\<close>, the stable codes of
  \<open>execution/errors.py\<close> and the JSON form of a trade plan.  A field typed \<open>Decimal\<close> that the
  dataclass does not check is a \<open>decimal\<close>.  In the JSON values, \<open>JDecimal d\<close> is the string
  \<open>str(d)\<close> and \<open>JDatetime t\<close> the string \<open>t.isoformat()\<close>, which \<open>Decimal\<close> and
  \<open>datetime.fromisoformat\<close> read back.
\<close>

datatype ExecutionMode = OFF | DATA_ONLY | PAPER_TRADING | MANUAL_APPROVAL | LIVE_AUTOMATIC

datatype OrderSide = BUY | SELL

datatype OrderState = PENDING | ACKNOWLEDGED | O_PARTIALLY_FILLED | O_FILLED | O_REJECTED
  | CANCELLED | UNKNOWN

datatype FillState = PARTIAL | COMPLETE

datatype PositionState = OPEN | CLOSED

datatype SignalExecutionState = RECEIVED | BLOCKED | AWAITING_APPROVAL | SUBMITTED
  | PARTIALLY_FILLED | FILLED | UNCERTAIN

fun mode_value :: "ExecutionMode \<Rightarrow> string" where
  "mode_value OFF = ''OFF''"
| "mode_value DATA_ONLY = ''DATA_ONLY''"
| "mode_value PAPER_TRADING = ''PAPER_TRADING''"
| "mode_value MANUAL_APPROVAL = ''MANUAL_APPROVAL''"
| "mode_value LIVE_AUTOMATIC = ''LIVE_AUTOMATIC''"

fun side_value :: "OrderSide \<Rightarrow> string" where
  "side_value BUY = ''BUY''"
| "side_value SELL = ''SELL''"

fun order_state_value :: "OrderState \<Rightarrow> string" where
  "order_state_value PENDING = ''PENDING''"
| "order_state_value ACKNOWLEDGED = ''ACKNOWLEDGED''"
| "order_state_value O_PARTIALLY_FILLED = ''PARTIALLY_FILLED''"
| "order_state_value O_FILLED = ''FILLED''"
| "order_state_value O_REJECTED = ''REJECTED''"
| "order_state_value CANCELLED = ''CANCELLED''"
| "order_state_value UNKNOWN = ''UNKNOWN''"

fun signal_state_value :: "SignalExecutionState \<Rightarrow> string" where
  "signal_state_value RECEIVED = ''RECEIVED''"
| "signal_state_value BLOCKED = ''BLOCKED''"
| "signal_state_value AWAITING_APPROVAL = ''AWAITING_APPROVAL''"
| "signal_state_value SUBMITTED = ''SUBMITTED''"
| "signal_state_value PARTIALLY_FILLED = ''PARTIALLY_FILLED''"
| "signal_state_value FILLED = ''FILLED''"
| "signal_state_value UNCERTAIN = ''UNCERTAIN''"

text \<open>The API code of an execution error; \<open>None\<close> for any other exception.\<close>

fun error_code :: "py_error \<Rightarrow> string option" where
  "error_code (ExecutionError _) = Some ''EXECUTION_ERROR''"
| "error_code (ExecutionBlockedError _) = Some ''EXECUTION_BLOCKED''"
| "error_code (PlanValidationError _) = Some ''INVALID_PLAN''"
| "error_code (DuplicateSignalError _) = Some ''DUPLICATE_SIGNAL''"
| "error_code (DuplicatePositionError _) = Some ''DUPLICATE_POSITION''"
| "error_code (ApprovalError _) = Some ''INVALID_APPROVAL''"
| "error_code (KillSwitchError _) = Some ''KILL_SWITCH_ACTIVE''"
| "error_code (LiveExecutionDisabledError _) = Some ''LIVE_EXECUTION_DISABLED''"
| "error_code (ExecutionUncertainError _) = Some ''EXECUTION_UNCERTAIN''"
| "error_code _ = None"

record trade_plan =
  pl_signal_id :: string
  pl_correlation_id :: string
  pl_symbol :: string
  pl_security_id :: string
  pl_side :: OrderSide
  pl_quantity :: int
  pl_limit_price :: decimal
  pl_maximum_loss :: decimal
  pl_signal_time :: datetime
  pl_data_time :: datetime
  pl_valid_until :: datetime
  pl_contract_expiry :: datetime
  pl_event_risk_active :: "bool option"
  pl_expiry_risk_clear :: bool
  pl_strategy_version :: string

record broker_order =
  bo_order_id :: string
  bo_correlation_id :: string
  bo_signal_id :: string
  bo_symbol :: string
  bo_security_id :: string
  bo_side :: OrderSide
  bo_quantity :: int
  bo_filled_quantity :: int
  bo_limit_price :: decimal
  bo_average_fill_price :: "decimal option"
  bo_state :: OrderState
  bo_submitted_at :: datetime

record broker_fill =
  bf_fill_id :: string
  bf_order_id :: string
  bf_quantity :: int
  bf_price :: decimal
  bf_state :: FillState
  bf_filled_at :: datetime

record position =
  po_position_id :: string
  po_signal_id :: string
  po_symbol :: string
  po_security_id :: string
  po_side :: OrderSide
  po_quantity :: int
  po_average_entry_price :: decimal
  po_state :: PositionState
  po_opened_at :: datetime
  po_closed_at :: "datetime option"
  po_realized_pnl :: "decimal option"

record approval =
  ap_signal_id :: string
  ap_actor :: string
  ap_reason :: string
  ap_approved_at :: datetime

record execution_result =
  er_signal_id :: string
  er_state :: SignalExecutionState
  er_order :: "broker_order option"
  er_fills :: "broker_fill list"
  er_message :: "string option"

record live_ack =
  ack_broker_order_id :: string
  ack_correlation_id :: string
  ack_state :: OrderState
  ack_filled_quantity :: int
  ack_average_fill_price :: "decimal option"

subsection \<open>The JSON form of a plan\<close>

datatype jval = JString string | JInt int | JBool bool | JNull | JDecimal decimal
  | JDatetime datetime

type_synonym jobject = "(string \<times> jval) list"

fun opt_bool_json :: "bool option \<Rightarrow> jval" where
  "opt_bool_json None = JNull"
| "opt_bool_json (Some b) = JBool b"

definition plan_to_dict :: "trade_plan \<Rightarrow> jobject" where
  "plan_to_dict p =
    [(''signal_id'', JString (pl_signal_id p)),
     (''correlation_id'', JString (pl_correlation_id p)),
     (''symbol'', JString (pl_symbol p)),
     (''security_id'', JString (pl_security_id p)),
     (''side'', JString (side_value (pl_side p))),
     (''quantity'', JInt (pl_quantity p)),
     (''limit_price'', JDecimal (pl_limit_price p)),
     (''maximum_loss'', JDecimal (pl_maximum_loss p)),
     (''signal_time'', JDatetime (pl_signal_time p)),
     (''data_time'', JDatetime (pl_data_time p)),
     (''valid_until'', JDatetime (pl_valid_until p)),
     (''contract_expiry'', JDatetime (pl_contract_expiry p)),
     (''event_risk_active'', opt_bool_json (pl_event_risk_active p)),
     (''expiry_risk_clear'', JBool (pl_expiry_risk_clear p)),
     (''strategy_version'', JString (pl_strategy_version p))]"

text \<open>
  Reading back.  A missing key raises \<open>KeyError\<close>.  Only the value shapes that
  \<open>plan_to_dict\<close> writes are read; any other shape is outside the model and reported as such.
\<close>

definition jget :: "jobject \<Rightarrow> string \<Rightarrow> jval res" where
  "jget d k = (case map_of d k of Some v \<Rightarrow> Inr v | None \<Rightarrow> Inl (OtherException ''KeyError''))"

definition outside_model :: "'a res" where
  "outside_model = Inl (OtherException ''value shape outside the model'')"

fun as_string :: "jval \<Rightarrow> string res" where
  "as_string (JString s) = Inr s"
| "as_string _ = outside_model"

fun as_int :: "jval \<Rightarrow> int res" where
  "as_int (JInt n) = Inr n"
| "as_int _ = outside_model"

fun as_decimal :: "jval \<Rightarrow> decimal res" where
  "as_decimal (JDecimal d) = Inr d"
| "as_decimal _ = outside_model"

fun as_datetime :: "jval \<Rightarrow> datetime res" where
  "as_datetime (JDatetime t) = Inr t"
| "as_datetime _ = outside_model"

fun as_bool :: "jval \<Rightarrow> bool res" where
  "as_bool (JBool b) = Inr b"
| "as_bool _ = outside_model"

fun as_opt_bool :: "jval option \<Rightarrow> bool option res" where
  "as_opt_bool None = Inr None"
| "as_opt_bool (Some JNull) = Inr None"
| "as_opt_bool (Some (JBool b)) = Inr (Some b)"
| "as_opt_bool _ = outside_model"

definition order_side :: "string \<Rightarrow> OrderSide res" where
  "order_side s = (if s = ''BUY'' then Inr BUY else if s = ''SELL'' then Inr SELL
     else Inl (ValueError ''not a valid OrderSide''))"

definition jread :: "(jval \<Rightarrow> 'a res) \<Rightarrow> jobject \<Rightarrow> string \<Rightarrow> 'a res" where
  "jread f d k = bindr (jget d k) f"

definition plan_from_dict :: "jobject \<Rightarrow> trade_plan res" where
  "plan_from_dict d =
    bindr (jread as_string d ''signal_id'') (\<lambda>sid.
    bindr (jread as_string d ''correlation_id'') (\<lambda>cid.
    bindr (jread as_string d ''symbol'') (\<lambda>sym.
    bindr (jread as_string d ''security_id'') (\<lambda>sec.
    bindr (bindr (jread as_string d ''side'') order_side) (\<lambda>side.
    bindr (jread as_int d ''quantity'') (\<lambda>qty.
    bindr (jread as_decimal d ''limit_price'') (\<lambda>price.
    bindr (jread as_decimal d ''maximum_loss'') (\<lambda>loss.
    bindr (jread as_datetime d ''signal_time'') (\<lambda>st.
    bindr (jread as_datetime d ''data_time'') (\<lambda>dt.
    bindr (jread as_datetime d ''valid_until'') (\<lambda>vu.
    bindr (jread as_datetime d ''contract_expiry'') (\<lambda>ce.
    bindr (as_opt_bool (map_of d ''event_risk_active'')) (\<lambda>er.
    bindr (jread as_bool d ''expiry_risk_clear'') (\<lambda>rc.
    bindr (jread as_string d ''strategy_version'') (\<lambda>ver.
      Inr \<lparr>pl_signal_id = sid, pl_correlation_id = cid, pl_symbol = sym, pl_security_id = sec,
        pl_side = side, pl_quantity = qty, pl_limit_price = price, pl_maximum_loss = loss,
        pl_signal_time = st, pl_data_time = dt, pl_valid_until = vu, pl_contract_expiry = ce,
        pl_event_risk_active = er, pl_expiry_risk_clear = rc,
        pl_strategy_version = ver\<rparr>)))))))))))))))"

lemma order_side_value: "order_side (side_value s) = Inr s"
  by (cases s) (simp_all add: order_side_def)

lemma as_opt_bool_json: "as_opt_bool (Some (opt_bool_json b)) = Inr b"
  by (cases b) simp_all

lemma plan_roundtrip: "plan_from_dict (plan_to_dict p) = Inr p"
  by (simp add: plan_from_dict_def jread_def jget_def plan_to_dict_def order_side_value
      as_opt_bool_json)

end
