(* ===== verification/Paper.thy ===== *)
theory Paper
  imports ExecModels
begin

text \<open>
  The deterministic paper broker, \<open>execution/paper.py\<close>.  \<open>digest\<close> is the hexadecimal SHA-256
  of the standard library, a parameter: only its value on the correlation id matters.  A
  \<open>NaN\<close> limit price is the quiet one; an infinite one makes \<open>quantize\<close> raise.
\<close>

record paper_config =
  pc_slippage_bps :: rat
  pc_partial_fill_ratio :: rat

definition mk_paper_config :: "decimal \<Rightarrow> decimal \<Rightarrow> paper_config res" where
  "mk_paper_config slippage ratio =
    (if \<not> dec_is_finite slippage \<or> dec_val slippage < 0 \<or> dec_val slippage \<ge> 10000
     then Inl (ValueError ''slippage_bps must be finite and within 0..9999'')
     else if \<not> dec_is_finite ratio \<or> \<not> (0 \<le> dec_val ratio \<and> dec_val ratio \<le> 1)
     then Inl (ValueError ''partial_fill_ratio must be within 0..1'')
     else Inr \<lparr>pc_slippage_bps = dec_val slippage, pc_partial_fill_ratio = dec_val ratio\<rparr>)"

definition paper_config_ok :: "paper_config \<Rightarrow> bool" where
  "paper_config_ok c \<longleftrightarrow> 0 \<le> pc_slippage_bps c \<and> pc_slippage_bps c < 10000
     \<and> 0 \<le> pc_partial_fill_ratio c \<and> pc_partial_fill_ratio c \<le> 1"

lemma mk_paper_config_ok: "mk_paper_config s r = Inr c \<Longrightarrow> paper_config_ok c"
  by (auto simp: mk_paper_config_def paper_config_ok_def split: if_splits)

definition paper_filled_quantity :: "paper_config \<Rightarrow> int \<Rightarrow> int" where
  "paper_filled_quantity c quantity =
    (let filled = dec_floor (dmul (of_int quantity) (pc_partial_fill_ratio c));
         filled = (if pc_partial_fill_ratio c > 0 \<and> filled = 0 then 1 else filled)
     in min quantity filled)"

definition paper_multiplier :: "paper_config \<Rightarrow> OrderSide \<Rightarrow> rat" where
  "paper_multiplier c side = dadd 1
    (if side = BUY then ddiv (pc_slippage_bps c) 10000
     else ddiv (dneg (pc_slippage_bps c)) 10000)"

fun paper_fill_price :: "paper_config \<Rightarrow> OrderSide \<Rightarrow> decimal \<Rightarrow> decimal res" where
  "paper_fill_price c side (Finite x) =
     bindr (quantize4 (dmul x (paper_multiplier c side))) (\<lambda>y. Inr (Finite y))"
| "paper_fill_price c side (Infinite s) = Inl InvalidOperation"
| "paper_fill_price c side NaN = Inr NaN"

definition paper_order_state :: "int \<Rightarrow> int \<Rightarrow> OrderState" where
  "paper_order_state quantity filled =
    (if filled = quantity then O_FILLED else if filled > 0 then O_PARTIALLY_FILLED
     else ACKNOWLEDGED)"

definition paper_fill_state :: "int \<Rightarrow> int \<Rightarrow> FillState" where
  "paper_fill_state quantity filled = (if filled = quantity then COMPLETE else PARTIAL)"

definition paper_order_id :: "string \<Rightarrow> string" where
  "paper_order_id hex = ''paper-order-'' @ take 20 hex"

definition paper_fills :: "string \<Rightarrow> int \<Rightarrow> int \<Rightarrow> decimal \<Rightarrow> datetime \<Rightarrow> broker_fill list" where
  "paper_fills hex quantity filled price now =
    (if filled \<noteq> 0 then
      [\<lparr>bf_fill_id = ''paper-fill-'' @ take 20 hex @ ''-1'', bf_order_id = paper_order_id hex,
        bf_quantity = filled, bf_price = price, bf_state = paper_fill_state quantity filled,
        bf_filled_at = now\<rparr>]
     else [])"

definition paper_order ::
  "string \<Rightarrow> trade_plan \<Rightarrow> int \<Rightarrow> decimal \<Rightarrow> datetime \<Rightarrow> broker_order" where
  "paper_order hex plan filled price now =
    \<lparr>bo_order_id = paper_order_id hex, bo_correlation_id = pl_correlation_id plan,
     bo_signal_id = pl_signal_id plan, bo_symbol = pl_symbol plan,
     bo_security_id = pl_security_id plan, bo_side = pl_side plan,
     bo_quantity = pl_quantity plan, bo_filled_quantity = filled,
     bo_limit_price = pl_limit_price plan,
     bo_average_fill_price = (if filled \<noteq> 0 then Some price else None),
     bo_state = paper_order_state (pl_quantity plan) filled, bo_submitted_at = now\<rparr>"

definition paper_submit ::
  "(string \<Rightarrow> string) \<Rightarrow> paper_config \<Rightarrow> trade_plan \<Rightarrow> datetime
    \<Rightarrow> (broker_order \<times> broker_fill list) res" where
  "paper_submit digest c plan now =
    (let hex = digest (pl_correlation_id plan);
         filled = paper_filled_quantity c (pl_quantity plan)
     in bindr (paper_fill_price c (pl_side plan) (pl_limit_price plan)) (\<lambda>price.
        Inr (paper_order hex plan filled price now,
             paper_fills hex (pl_quantity plan) filled price now)))"

subsection \<open>Quantities\<close>

lemma paper_filled_le: "paper_filled_quantity c q \<le> q"
  by (simp add: paper_filled_quantity_def Let_def)

lemma paper_filled_nonneg:
  "paper_config_ok c \<Longrightarrow> 0 \<le> q \<Longrightarrow> 0 \<le> paper_filled_quantity c q"
  by (auto simp: paper_filled_quantity_def Let_def dec_floor_def dmul_def paper_config_ok_def
      intro!: dec.rnd_nonneg)

lemma paper_filled_pos_iff:
  assumes "paper_config_ok c" "0 < q"
  shows "0 < paper_filled_quantity c q \<longleftrightarrow> 0 < pc_partial_fill_ratio c"
proof -
  define f where "f = dec_floor (dmul (of_int q) (pc_partial_fill_ratio c))"
  have f: "0 \<le> f"
    using assms by (auto simp: f_def dec_floor_def dmul_def paper_config_ok_def
        intro!: dec.rnd_nonneg)
  have f0: "f = 0" if "pc_partial_fill_ratio c = 0"
    using that by (simp add: f_def dec_floor_def dmul_def dec.rnd_0)
  have eq: "paper_filled_quantity c q = min q (if pc_partial_fill_ratio c > 0 \<and> f = 0 then 1 else f)"
    by (simp add: paper_filled_quantity_def Let_def f_def)
  show ?thesis
  proof (cases "pc_partial_fill_ratio c = 0")
    case True
    then show ?thesis using f0 by (simp add: eq)
  next
    case False
    then have "0 < pc_partial_fill_ratio c" using assms(1) by (simp add: paper_config_ok_def)
    then show ?thesis using f assms(2) by (simp add: eq)
  qed
qed

text \<open>A full-fill configuration fills everything a 28-digit quantity can express.\<close>

lemma paper_filled_full:
  "pc_partial_fill_ratio c = 1 \<Longrightarrow> 0 < q \<Longrightarrow> q < 10 ^ 28 \<Longrightarrow> paper_filled_quantity c q = q"
  using dround_of_int[of q] by (simp add: paper_filled_quantity_def Let_def dmul_def dec_floor_def)

subsection \<open>Prices\<close>

lemma dec_frac_nonneg: "0 \<le> s \<Longrightarrow> 0 \<le> ddiv s 10000"
  unfolding ddiv_def by (intro dec.rnd_nonneg) simp

lemma paper_multiplier_buy: "paper_config_ok c \<Longrightarrow> 1 \<le> paper_multiplier c BUY"
  using dec_frac_nonneg[of "pc_slippage_bps c"]
  by (auto simp: paper_multiplier_def paper_config_ok_def dadd_def intro!: dec.rnd_ge_1)

lemma paper_multiplier_sell:
  assumes "paper_config_ok c"
  shows "0 \<le> paper_multiplier c SELL \<and> paper_multiplier c SELL \<le> 1"
proof -
  have s: "0 \<le> pc_slippage_bps c" "pc_slippage_bps c < 10000"
    using assms by (auto simp: paper_config_ok_def)
  have n: "dneg (pc_slippage_bps c) \<le> 0" "- 10000 \<le> dneg (pc_slippage_bps c)"
    using s dec.rnd_mono[of "- 10000" "- pc_slippage_bps c"] dround_of_int[of "- 10000"]
    by (auto simp: dneg_def intro!: dec.rnd_nonpos)
  have d: "ddiv (dneg (pc_slippage_bps c)) 10000 \<le> 0"
    "- 1 \<le> ddiv (dneg (pc_slippage_bps c)) 10000"
    using n dec.rnd_mono[of "- 1" "dneg (pc_slippage_bps c) / 10000"] dround_of_int[of "- 1"]
    by (auto simp: ddiv_def intro!: dec.rnd_nonpos)
  show ?thesis
    using d by (auto simp: paper_multiplier_def dadd_def intro!: dec.rnd_nonneg dec.rnd_le_1)
qed

lemma paper_multiplier_nonneg: "paper_config_ok c \<Longrightarrow> 0 \<le> paper_multiplier c side"
  using paper_multiplier_buy[of c] paper_multiplier_sell[of c] by (cases side) auto

lemma paper_fill_price_finite:
  "paper_fill_price c side (Finite x) = Inr p \<longleftrightarrow>
     (\<exists>y. p = Finite y \<and> quantize4 (dmul x (paper_multiplier c side)) = Inr y)"
  by (auto simp: bindr_eq_Inr)

lemma quantize4_mono: "x \<le> y \<Longrightarrow> quantize4 x = Inr a \<Longrightarrow> quantize4 y = Inr b \<Longrightarrow> a \<le> b"
  using rhe_mono[of "x * 10000" "y * 10000"]
  by (auto simp: quantize4_def Let_def divide_right_mono split: if_splits)

text \<open>Slippage is adverse: a buy never fills below, a sell never above, the unslipped price.\<close>

lemma paper_price_adverse:
  assumes "paper_config_ok c" "0 \<le> x"
    and "paper_fill_price c side (Finite x) = Inr (Finite y)"
    and "quantize4 (dround x) = Inr z"
  shows "if side = BUY then z \<le> y else y \<le> z"
proof -
  have q: "quantize4 (dmul x (paper_multiplier c side)) = Inr y"
    using assms(3) by (simp add: paper_fill_price_finite del: paper_fill_price.simps)
  show ?thesis
  proof (cases side)
    case BUY
    have "x \<le> x * paper_multiplier c BUY"
      using mult_left_mono[OF paper_multiplier_buy[OF assms(1)] assms(2)] by simp
    then have "dround x \<le> dmul x (paper_multiplier c BUY)"
      unfolding dmul_def by (rule dec.rnd_mono)
    then show ?thesis using quantize4_mono[OF _ assms(4)] q BUY by simp
  next
    case SELL
    have "x * paper_multiplier c SELL \<le> x"
      using mult_left_mono[OF conjunct2[OF paper_multiplier_sell[OF assms(1)]] assms(2)] by simp
    then have "dmul x (paper_multiplier c SELL) \<le> dround x"
      unfolding dmul_def by (rule dec.rnd_mono)
    then show ?thesis using quantize4_mono[OF _ _ assms(4)] q SELL by simp
  qed
qed

subsection \<open>What \<open>submit\<close> returns\<close>

lemma paper_submit_eq_Inr [res_simps]:
  "paper_submit digest c plan now = Inr (order, fills) \<longleftrightarrow>
     (\<exists>price. paper_fill_price c (pl_side plan) (pl_limit_price plan) = Inr price
       \<and> order = paper_order (digest (pl_correlation_id plan)) plan
           (paper_filled_quantity c (pl_quantity plan)) price now
       \<and> fills = paper_fills (digest (pl_correlation_id plan)) (pl_quantity plan)
           (paper_filled_quantity c (pl_quantity plan)) price now)"
  by (auto simp: paper_submit_def Let_def bindr_eq_Inr)

lemma paper_order_state_iff:
  "paper_order_state q f = O_FILLED \<longleftrightarrow> f = q"
  "paper_order_state q f = O_PARTIALLY_FILLED \<longleftrightarrow> f \<noteq> q \<and> f > 0"
  by (auto simp: paper_order_state_def)

text \<open>The order is the plan's order: what the broker reports is never about another signal.\<close>

lemma paper_order_plan:
  "paper_submit digest c plan now = Inr (order, fills) \<Longrightarrow>
     bo_signal_id order = pl_signal_id plan \<and> bo_correlation_id order = pl_correlation_id plan
     \<and> bo_security_id order = pl_security_id plan \<and> bo_symbol order = pl_symbol plan
     \<and> bo_side order = pl_side plan \<and> bo_quantity order = pl_quantity plan"
  by (auto simp: paper_submit_eq_Inr paper_order_def)

lemma paper_fills_sum:
  "sum_list (List.map bf_quantity (paper_fills hex q f p now)) = f"
  by (simp add: paper_fills_def)

end
