(* ===== verification/Tables.thy ===== *)
theory Tables
  imports Prelude
begin

text \<open>
  SQLite tables as lists of rows in rowid order, for the ledgers of the program: rows are
  appended and updated, never deleted.  \<open>sql_insert\<close> appends a row that the declared
  constraints of the table admit and raises \<open>IntegrityError\<close> otherwise.  The locale
  \<open>unique_index\<close> is the contract of a \<open>PRIMARY KEY\<close>, a \<open>UNIQUE\<close> column or a unique index: a
  key, partial for a partial index (\<open>CREATE UNIQUE INDEX ... WHERE ...\<close>), and a table whose
  constraints keep it fresh.
\<close>

definition sql_insert :: "('row list \<Rightarrow> 'row \<Rightarrow> bool) \<Rightarrow> 'row \<Rightarrow> 'row list \<Rightarrow> 'row list res" where
  "sql_insert admits r t = (if admits t r then Inr (t @ [r]) else Inl IntegrityError)"

text \<open>\<open>UPDATE ... SET f WHERE P\<close> and its row count.\<close>

definition sql_update :: "('row \<Rightarrow> bool) \<Rightarrow> ('row \<Rightarrow> 'row) \<Rightarrow> 'row list \<Rightarrow> 'row list" where
  "sql_update P f t = List.map (\<lambda>r. if P r then f r else r) t"

definition sql_rowcount :: "('row \<Rightarrow> bool) \<Rightarrow> 'row list \<Rightarrow> int" where
  "sql_rowcount P t = int (length (filter P t))"

text \<open>\<open>SELECT ... WHERE P\<close> with \<open>fetchone()\<close>: the first row in rowid order.\<close>

definition sql_first :: "('row \<Rightarrow> bool) \<Rightarrow> 'row list \<Rightarrow> 'row option" where
  "sql_first P t = List.find P t"

text \<open>A Python integer outside 64 bits cannot be bound to a statement.\<close>

definition bind_int :: "int \<Rightarrow> int res" where
  "bind_int n = (if - (2 ^ 63) \<le> n \<and> n < 2 ^ 63 then Inr n
     else Inl (OverflowError ''Python int too large to convert to SQLite INTEGER''))"

lemma bind_int_eq_Inr [res_simps]: "bind_int n = Inr m \<longleftrightarrow> m = n \<and> - (2 ^ 63) \<le> n \<and> n < 2 ^ 63"
  by (auto simp: bind_int_def)

text \<open>SQLite's \<open>trim\<close> strips spaces; its \<open>length\<close> counts up to the first NUL.\<close>

definition sql_trim :: "string \<Rightarrow> string" where
  "sql_trim s = rev (dropWhile (\<lambda>c. c = CHR '' '') (rev (dropWhile (\<lambda>c. c = CHR '' '') s)))"

definition sql_length :: "string \<Rightarrow> nat" where
  "sql_length s = length (takeWhile (\<lambda>c. c \<noteq> CHR 0x00) s)"

lemma sql_insert_eq_Inr [res_simps]:
  "sql_insert admits r t = Inr t' \<longleftrightarrow> admits t r \<and> t' = t @ [r]"
  by (auto simp: sql_insert_def)

lemma sql_first_Some: "sql_first P t = Some r \<Longrightarrow> r \<in> set t \<and> P r"
  by (auto simp: sql_first_def find_Some_iff)

lemma sql_first_None: "sql_first P t = None \<longleftrightarrow> (\<forall>r\<in>set t. \<not> P r)"
  by (auto simp: sql_first_def find_None_iff)

lemma sql_first_append:
  "sql_first P (t @ u) = (case sql_first P t of None \<Rightarrow> sql_first P u | Some r \<Rightarrow> Some r)"
  unfolding sql_first_def by (induction t) auto

lemma sql_first_update:
  assumes "\<And>r. Q (if P r then f r else r) \<longleftrightarrow> Q r"
  shows "sql_first Q (sql_update P f t) = map_option (\<lambda>r. if P r then f r else r) (sql_first Q t)"
  unfolding sql_first_def sql_update_def
  by (induction t) (simp_all only: list.map find.simps assms option.map split: if_split, auto)

lemma set_sql_update: "set (sql_update P f t) = (\<lambda>r. if P r then f r else r) ` set t"
  by (simp add: sql_update_def)

lemma length_sql_update [simp]: "length (sql_update P f t) = length t"
  by (simp add: sql_update_def)

lemma map_sql_update:
  "(\<And>r. r \<in> set t \<Longrightarrow> P r \<Longrightarrow> g (f r) = g r) \<Longrightarrow>
     List.map g (sql_update P f t) = List.map g t"
  by (auto simp: sql_update_def)

subsection \<open>Unique indexes\<close>

definition index_keys :: "('row \<Rightarrow> 'k option) \<Rightarrow> 'row list \<Rightarrow> 'k list" where
  "index_keys key t = List.map_filter key t"

definition unique_rows :: "('row \<Rightarrow> 'k option) \<Rightarrow> 'row list \<Rightarrow> bool" where
  "unique_rows key t \<longleftrightarrow> distinct (index_keys key t)"

lemma index_keys_simps [simp]:
  "index_keys key [] = []"
  "index_keys key (r # t) = (case key r of None \<Rightarrow> index_keys key t
     | Some k \<Rightarrow> k # index_keys key t)"
  "index_keys key (t @ u) = index_keys key t @ index_keys key u"
  by (simp_all add: index_keys_def map_filter_simps map_filter_def split: option.splits)

lemma index_keys_total: "index_keys (\<lambda>r. Some (f r)) t = List.map f t"
  by (induction t) simp_all

lemma set_index_keys: "k \<in> set (index_keys key t) \<longleftrightarrow> (\<exists>r\<in>set t. key r = Some k)"
  by (induction t) (auto split: option.splits)

lemma unique_rows_total: "unique_rows (\<lambda>r. Some (f r)) t \<longleftrightarrow> distinct (List.map f t)"
  by (simp add: unique_rows_def index_keys_total)

lemma unique_rows_Nil [simp]: "unique_rows key []"
  by (simp add: unique_rows_def)

lemma unique_rows_same:
  assumes "unique_rows key t" "r \<in> set t" "s \<in> set t" "key r = Some k" "key s = Some k"
  shows "r = s"
  using assms
proof (induction t)
  case Nil
  then show ?case by simp
next
  case (Cons x t)
  have "unique_rows key t"
    using Cons.prems(1) by (auto simp: unique_rows_def split: option.splits)
  moreover have "key x \<noteq> Some k \<or> key y \<noteq> Some k" if "y \<in> set t" for y
    using Cons.prems(1) that by (auto simp: unique_rows_def set_index_keys split: option.splits)
  ultimately show ?case using Cons.IH Cons.prems(2-5) by auto
qed

lemma index_keys_update_subset:
  assumes "\<And>r. r \<in> set t \<Longrightarrow> P r \<Longrightarrow> key (f r) = key r \<or> key (f r) = None"
  shows "set (index_keys key (sql_update P f t)) \<subseteq> set (index_keys key t)"
  using assms by (fastforce simp: set_index_keys set_sql_update split: if_splits)

lemma unique_rows_update:
  assumes "\<And>r. r \<in> set t \<Longrightarrow> P r \<Longrightarrow> key (f r) = key r \<or> key (f r) = None"
    and "unique_rows key t"
  shows "unique_rows key (sql_update P f t)"
  using assms
proof (induction t)
  case Nil
  then show ?case by (simp add: sql_update_def)
next
  case (Cons x t)
  have sub: "set (index_keys key (sql_update P f t)) \<subseteq> set (index_keys key t)"
    by (rule index_keys_update_subset) (use Cons.prems(1) in auto)
  have ih: "unique_rows key (sql_update P f t)"
    using Cons by (auto simp: unique_rows_def split: option.splits)
  have x: "key (if P x then f x else x) = key x \<or> key (if P x then f x else x) = None"
    using Cons.prems(1)[of x] by auto
  have upd: "sql_update P f (x # t) = (if P x then f x else x) # sql_update P f t"
    by (simp add: sql_update_def)
  show ?case
    using x ih sub Cons.prems(2) unfolding upd by (fastforce simp: unique_rows_def split: option.splits)
qed

text \<open>An existing key selects exactly one row.\<close>

lemma unique_rows_count:
  assumes "unique_rows (\<lambda>r. Some (f r)) t" "k \<in> set (List.map f t)"
  shows "sql_rowcount (\<lambda>r. f r = k) t = 1"
  using assms
proof (induction t)
  case Nil
  then show ?case by simp
next
  case (Cons x t)
  have dist: "f x \<notin> set (List.map f t)" "unique_rows (\<lambda>r. Some (f r)) t"
    using Cons.prems(1) by (auto simp: unique_rows_total)
  show ?case
  proof (cases "f x = k")
    case True
    have "f y \<noteq> k" if "y \<in> set t" for y
      using dist(1) True imageI[OF that, of f] by (auto simp only: set_map)
    then have "filter (\<lambda>r. f r = k) t = []" by (simp add: filter_empty_conv)
    then show ?thesis using True by (simp add: sql_rowcount_def)
  next
    case False
    then show ?thesis using Cons.IH[OF dist(2)] Cons.prems(2) by (simp add: sql_rowcount_def)
  qed
qed

locale unique_index =
  fixes key :: "'row \<Rightarrow> 'k option"
    and admits :: "'row list \<Rightarrow> 'row \<Rightarrow> bool"
  assumes admits_fresh: "admits t r \<Longrightarrow> key r = Some k \<Longrightarrow> k \<notin> set (index_keys key t)"
begin

lemma insert_unique:
  "unique_rows key t \<Longrightarrow> sql_insert admits r t = Inr t' \<Longrightarrow> unique_rows key t'"
  using admits_fresh[of t r]
  by (auto simp: sql_insert_eq_Inr unique_rows_def split: option.splits)

lemma insert_duplicate:
  "key r = Some k \<Longrightarrow> k \<in> set (index_keys key t) \<Longrightarrow> sql_insert admits r t = Inl IntegrityError"
  using admits_fresh[of t r k] by (auto simp: sql_insert_def)

lemma insert_lookup:
  assumes "sql_insert admits r t = Inr t'" "key r = Some k"
  shows "sql_first (\<lambda>r. key r = Some k) t' = Some r"
proof -
  have "t' = t @ [r]" "k \<notin> set (index_keys key t)"
    using assms admits_fresh[of t r k] by (auto simp: sql_insert_eq_Inr)
  moreover from this have "sql_first (\<lambda>r. key r = Some k) t = None"
    by (auto simp: sql_first_None set_index_keys)
  ultimately show ?thesis using assms(2) by (simp add: sql_first_append) (simp add: sql_first_def)
qed

lemma insert_lookup_other:
  assumes "sql_insert admits r t = Inr t'" "key r \<noteq> Some k"
  shows "sql_first (\<lambda>r. key r = Some k) t' = sql_first (\<lambda>r. key r = Some k) t"
proof -
  have "t' = t @ [r]" using assms(1) by (simp add: sql_insert_eq_Inr)
  moreover have "sql_first (\<lambda>r. key r = Some k) [r] = None"
    using assms(2) by (simp add: sql_first_def)
  ultimately show ?thesis by (simp add: sql_first_append split: option.splits)
qed

end

end
