(* ===== verification/Ledger.thy ===== *)
theory Ledger
  imports ExecModels Tables "HOL-Library.Product_Lexorder" "HOL-Library.Option_ord"
begin

text \<open>
  The execution ledger, \<open>execution/ledger.py\<close>.  A row is a record, a table the list of its rows
  in rowid order, the ledger the record of its tables; \<open>kill_switch\<close> has one row.  Each public
  method that writes runs in one transaction and is a function that returns the new ledger, or
  the exception, after which the \<open>ROLLBACK\<close> leaves the old one.  Timestamps are stored as
  ISO-8601 text in UTC, whose order is that of the instants; decimals as text, which
  \<open>Decimal\<close> reads back exactly.  \<open>CAST(x AS REAL) > 0\<close> is \<open>real_pos\<close>.
\<close>

record signal_row =
  sr_signal_id :: string
  sr_correlation_id :: string
  sr_symbol :: string
  sr_security_id :: string
  sr_plan_json :: jobject
  sr_state :: SignalExecutionState
  sr_received_at :: int
  sr_updated_at :: int

record approval_row =
  av_signal_id :: string
  av_actor :: string
  av_reason :: string
  av_approved_at :: int

record order_row =
  lo_order_id :: string
  lo_correlation_id :: string
  lo_signal_id :: string
  lo_symbol :: string
  lo_security_id :: string
  lo_side :: OrderSide
  lo_quantity :: int
  lo_filled_quantity :: int
  lo_limit_price :: rat
  lo_average_fill_price :: "rat option"
  lo_state :: OrderState
  lo_submitted_at :: int

record fill_row =
  lf_fill_id :: string
  lf_order_id :: string
  lf_quantity :: int
  lf_price :: rat
  lf_state :: FillState
  lf_filled_at :: int

record position_row =
  lp_position_id :: string
  lp_signal_id :: string
  lp_symbol :: string
  lp_security_id :: string
  lp_side :: OrderSide
  lp_quantity :: int
  lp_average_entry_price :: rat
  lp_state :: PositionState
  lp_opened_at :: int
  lp_closed_at :: "int option"
  lp_closed_day :: "int option"
  lp_realized_pnl :: "rat option"

record journal_row =
  jn_signal_id :: "string option"
  jn_entry_type :: string
  jn_amount :: "rat option"
  jn_occurred_at :: int
  jn_details :: jobject

record event_row =
  ev_event_type :: string
  ev_aggregate_id :: string
  ev_occurred_at :: int
  ev_payload :: jobject

record kill_row =
  ks_active :: bool
  ks_reason :: "string option"
  ks_actor :: "string option"
  ks_changed_at :: int

record ledger =
  lg_signals :: "signal_row list"
  lg_approvals :: "approval_row list"
  lg_orders :: "order_row list"
  lg_fills :: "fill_row list"
  lg_positions :: "position_row list"
  lg_journal :: "journal_row list"
  lg_events :: "event_row list"
  lg_kill_switch :: kill_row

definition initial_ledger :: "int \<Rightarrow> ledger" where
  "initial_ledger created = \<lparr>lg_signals = [], lg_approvals = [], lg_orders = [], lg_fills = [],
     lg_positions = [], lg_journal = [], lg_events = [],
     lg_kill_switch = \<lparr>ks_active = False, ks_reason = None, ks_actor = None,
       ks_changed_at = created\<rparr>\<rparr>"

subsection \<open>Encoding helpers\<close>

definition timestamp :: "datetime \<Rightarrow> int res" where
  "timestamp t = (if is_aware t then Inr (instant t)
     else Inl (ExecutionError ''execution timestamps must be timezone-aware''))"

definition encode_decimal :: "decimal \<Rightarrow> rat res" where
  "encode_decimal d = (if dec_is_finite d then Inr (dec_val d)
     else Inl (ExecutionError ''execution decimals must be finite''))"

definition encode_optional_decimal :: "decimal option \<Rightarrow> rat option res" where
  "encode_optional_decimal d = (case d of None \<Rightarrow> Inr None
     | Some v \<Rightarrow> bindr (encode_decimal v) (\<lambda>x. Inr (Some x)))"

definition real_pos :: "rat \<Rightarrow> bool" where
  "real_pos x \<longleftrightarrow> 0 < fround x"

definition record_event ::
  "string \<Rightarrow> string \<Rightarrow> datetime \<Rightarrow> jobject \<Rightarrow> ledger \<Rightarrow> ledger res" where
  "record_event event_type aggregate_id occurred_at payload l =
    bindr (timestamp occurred_at) (\<lambda>when.
      Inr (l\<lparr>lg_events := lg_events l @ [\<lparr>ev_event_type = event_type,
        ev_aggregate_id = aggregate_id, ev_occurred_at = when, ev_payload = payload\<rparr>]\<rparr>))"

subsection \<open>Constraints\<close>

definition signal_ids :: "ledger \<Rightarrow> string list" where
  "signal_ids l = List.map sr_signal_id (lg_signals l)"

definition signals_admit :: "signal_row list \<Rightarrow> signal_row \<Rightarrow> bool" where
  "signals_admit t r \<longleftrightarrow> sr_signal_id r \<notin> set (List.map sr_signal_id t)
     \<and> sr_correlation_id r \<notin> set (List.map sr_correlation_id t)"

definition approvals_admit :: "string list \<Rightarrow> approval_row list \<Rightarrow> approval_row \<Rightarrow> bool" where
  "approvals_admit signals t r \<longleftrightarrow> av_signal_id r \<notin> set (List.map av_signal_id t)
     \<and> sql_length (sql_trim (av_actor r)) > 0 \<and> sql_length (sql_trim (av_reason r)) > 0
     \<and> av_signal_id r \<in> set signals"

definition orders_admit :: "string list \<Rightarrow> order_row list \<Rightarrow> order_row \<Rightarrow> bool" where
  "orders_admit signals t r \<longleftrightarrow> lo_order_id r \<notin> set (List.map lo_order_id t)
     \<and> lo_correlation_id r \<notin> set (List.map lo_correlation_id t)
     \<and> lo_signal_id r \<notin> set (List.map lo_signal_id t)
     \<and> lo_quantity r > 0
     \<and> lo_filled_quantity r \<ge> 0 \<and> lo_filled_quantity r \<le> lo_quantity r
     \<and> real_pos (lo_limit_price r)
     \<and> (case lo_average_fill_price r of None \<Rightarrow> True | Some p \<Rightarrow> real_pos p)
     \<and> lo_signal_id r \<in> set signals"

definition fills_admit :: "string list \<Rightarrow> fill_row list \<Rightarrow> fill_row \<Rightarrow> bool" where
  "fills_admit orders t r \<longleftrightarrow> lf_fill_id r \<notin> set (List.map lf_fill_id t)
     \<and> lf_quantity r > 0 \<and> real_pos (lf_price r) \<and> lf_order_id r \<in> set orders"

definition open_key :: "position_row \<Rightarrow> string option" where
  "open_key r = (if lp_state r = OPEN then Some (lp_security_id r) else None)"

definition positions_admit :: "string list \<Rightarrow> position_row list \<Rightarrow> position_row \<Rightarrow> bool" where
  "positions_admit signals t r \<longleftrightarrow> lp_position_id r \<notin> set (List.map lp_position_id t)
     \<and> lp_signal_id r \<notin> set (List.map lp_signal_id t)
     \<and> lp_quantity r > 0 \<and> real_pos (lp_average_entry_price r)
     \<and> lp_signal_id r \<in> set signals
     \<and> (case open_key r of None \<Rightarrow> True | Some k \<Rightarrow> k \<notin> set (index_keys open_key t))"

subsection \<open>Signals and approvals\<close>

definition state_payload :: "SignalExecutionState \<Rightarrow> jobject" where
  "state_payload s = [(''state'', JString (signal_state_value s))]"

definition integrity_as :: "py_error \<Rightarrow> 'a res \<Rightarrow> 'a res" where
  "integrity_as e r = (case r of Inl IntegrityError \<Rightarrow> Inl e | _ \<Rightarrow> r)"

definition new_signal_row ::
  "trade_plan \<Rightarrow> SignalExecutionState \<Rightarrow> int \<Rightarrow> signal_row" where
  "new_signal_row plan state when =
    \<lparr>sr_signal_id = pl_signal_id plan, sr_correlation_id = pl_correlation_id plan,
     sr_symbol = pl_symbol plan, sr_security_id = pl_security_id plan,
     sr_plan_json = plan_to_dict plan, sr_state = state,
     sr_received_at = when, sr_updated_at = when\<rparr>"

definition record_signal ::
  "trade_plan \<Rightarrow> SignalExecutionState \<Rightarrow> datetime \<Rightarrow> ledger \<Rightarrow> ledger res" where
  "record_signal plan state recorded_at l =
    bindr (timestamp recorded_at) (\<lambda>when.
    bindr (integrity_as (DuplicateSignalError ''signal_id or correlation_id has already been recorded'')
        (sql_insert signals_admit
          (new_signal_row plan state when) (lg_signals l))) (\<lambda>t.
      record_event ''SIGNAL_RECORDED'' (pl_signal_id plan) recorded_at (state_payload state)
        (l\<lparr>lg_signals := t\<rparr>)))"

definition signal_exists :: "string \<Rightarrow> ledger \<Rightarrow> bool" where
  "signal_exists sid l = (sql_first (\<lambda>r. sr_signal_id r = sid) (lg_signals l) \<noteq> None)"

definition set_signal_state ::
  "string \<Rightarrow> SignalExecutionState \<Rightarrow> int \<Rightarrow> signal_row list \<Rightarrow> signal_row list" where
  "set_signal_state sid state when t = sql_update (\<lambda>r. sr_signal_id r = sid)
     (\<lambda>r. r\<lparr>sr_state := state, sr_updated_at := when\<rparr>) t"

definition update_signal_state ::
  "string \<Rightarrow> SignalExecutionState \<Rightarrow> datetime \<Rightarrow> ledger \<Rightarrow> ledger res" where
  "update_signal_state sid state now l =
    bindr (timestamp now) (\<lambda>when.
      if sql_rowcount (\<lambda>r. sr_signal_id r = sid) (lg_signals l) \<noteq> 1
      then Inl (ExecutionError ''signal does not exist'')
      else record_event ''SIGNAL_STATE_CHANGED'' sid now (state_payload state)
        (l\<lparr>lg_signals := set_signal_state sid state when (lg_signals l)\<rparr>))"

definition ledger_plan :: "string \<Rightarrow> ledger \<Rightarrow> trade_plan option res" where
  "ledger_plan sid l = (case sql_first (\<lambda>r. sr_signal_id r = sid) (lg_signals l) of
     None \<Rightarrow> Inr None
   | Some r \<Rightarrow> bindr (plan_from_dict (sr_plan_json r)) (\<lambda>p. Inr (Some p)))"

definition signal_state :: "string \<Rightarrow> ledger \<Rightarrow> SignalExecutionState option" where
  "signal_state sid l =
     map_option sr_state (sql_first (\<lambda>r. sr_signal_id r = sid) (lg_signals l))"

text \<open>\<open>ORDER BY received_at DESC, rowid DESC LIMIT 1\<close>: the last of the latest.\<close>

fun later_signal :: "signal_row option \<Rightarrow> signal_row \<Rightarrow> signal_row option" where
  "later_signal None r = Some r"
| "later_signal (Some b) r = (if sr_received_at b \<le> sr_received_at r then Some r else Some b)"

definition latest_signal :: "ledger \<Rightarrow> signal_row option" where
  "latest_signal l = foldl later_signal None (lg_signals l)"

definition record_approval :: "approval \<Rightarrow> ledger \<Rightarrow> ledger res" where
  "record_approval a l =
    (let actor = py_strip (ap_actor a); reason = py_strip (ap_reason a) in
     if actor = [] \<or> reason = [] then Inl (ApprovalError ''approval requires actor and reason'')
     else bindr (timestamp (ap_approved_at a)) (\<lambda>when.
       bindr (integrity_as (ApprovalError ''signal is missing or already approved'')
         (sql_insert (approvals_admit (signal_ids l))
           \<lparr>av_signal_id = ap_signal_id a, av_actor = actor, av_reason = reason,
            av_approved_at = when\<rparr> (lg_approvals l))) (\<lambda>t.
         record_event ''MANUAL_APPROVAL_RECORDED'' (ap_signal_id a) (ap_approved_at a)
           [(''actor'', JString actor), (''reason'', JString reason)]
           (l\<lparr>lg_approvals := t\<rparr>))))"

definition approval_of :: "string \<Rightarrow> ledger \<Rightarrow> approval_row option" where
  "approval_of sid l = sql_first (\<lambda>r. av_signal_id r = sid) (lg_approvals l)"

subsection \<open>Executions and positions\<close>

definition insert_order :: "broker_order \<Rightarrow> ledger \<Rightarrow> ledger res" where
  "insert_order order l =
    bindr (encode_decimal (bo_limit_price order)) (\<lambda>limit.
    bindr (encode_optional_decimal (bo_average_fill_price order)) (\<lambda>average.
    bindr (timestamp (bo_submitted_at order)) (\<lambda>submitted.
    bindr (bind_int (bo_quantity order)) (\<lambda>quantity.
    bindr (bind_int (bo_filled_quantity order)) (\<lambda>filled.
    bindr (sql_insert (orders_admit (signal_ids l))
      \<lparr>lo_order_id = bo_order_id order, lo_correlation_id = bo_correlation_id order,
       lo_signal_id = bo_signal_id order, lo_symbol = bo_symbol order,
       lo_security_id = bo_security_id order, lo_side = bo_side order,
       lo_quantity = quantity, lo_filled_quantity = filled, lo_limit_price = limit,
       lo_average_fill_price = average, lo_state = bo_state order,
       lo_submitted_at = submitted\<rparr> (lg_orders l)) (\<lambda>t.
      Inr (l\<lparr>lg_orders := t\<rparr>)))))))"

definition insert_fill :: "broker_fill \<Rightarrow> ledger \<Rightarrow> ledger res" where
  "insert_fill fill l =
    bindr (encode_decimal (bf_price fill)) (\<lambda>price.
    bindr (timestamp (bf_filled_at fill)) (\<lambda>when.
    bindr (bind_int (bf_quantity fill)) (\<lambda>quantity.
    bindr (sql_insert (fills_admit (List.map lo_order_id (lg_orders l)))
      \<lparr>lf_fill_id = bf_fill_id fill, lf_order_id = bf_order_id fill, lf_quantity = quantity,
       lf_price = price, lf_state = bf_state fill, lf_filled_at = when\<rparr> (lg_fills l)) (\<lambda>t.
      Inr (l\<lparr>lg_fills := t\<rparr>)))))"

definition opened_position :: "broker_order \<Rightarrow> datetime \<Rightarrow> position option" where
  "opened_position order now =
    (if bo_filled_quantity order > 0 then
      (case bo_average_fill_price order of None \<Rightarrow> None
       | Some price \<Rightarrow> Some \<lparr>po_position_id = ''position-'' @ bo_order_id order,
           po_signal_id = bo_signal_id order, po_symbol = bo_symbol order,
           po_security_id = bo_security_id order, po_side = bo_side order,
           po_quantity = bo_filled_quantity order, po_average_entry_price = price,
           po_state = OPEN, po_opened_at = now, po_closed_at = None,
           po_realized_pnl = None\<rparr>)
     else None)"

definition insert_position :: "position \<Rightarrow> ledger \<Rightarrow> ledger res" where
  "insert_position p l =
    bindr (encode_decimal (po_average_entry_price p)) (\<lambda>price.
    bindr (timestamp (po_opened_at p)) (\<lambda>when.
    bindr (bind_int (po_quantity p)) (\<lambda>quantity.
    bindr (sql_insert (positions_admit (signal_ids l))
      \<lparr>lp_position_id = po_position_id p, lp_signal_id = po_signal_id p,
       lp_symbol = po_symbol p, lp_security_id = po_security_id p, lp_side = po_side p,
       lp_quantity = quantity, lp_average_entry_price = price, lp_state = po_state p,
       lp_opened_at = when, lp_closed_at = None, lp_closed_day = None,
       lp_realized_pnl = None\<rparr> (lg_positions l)) (\<lambda>t.
      Inr (l\<lparr>lg_positions := t\<rparr>)))))"

definition insert_opened :: "position option \<Rightarrow> ledger \<Rightarrow> ledger res" where
  "insert_opened p l = (case p of None \<Rightarrow> Inr l | Some p \<Rightarrow> insert_position p l)"

definition executed_state :: "broker_order \<Rightarrow> SignalExecutionState" where
  "executed_state order =
    (if bo_filled_quantity order = bo_quantity order then FILLED
     else if bo_filled_quantity order \<noteq> 0 then PARTIALLY_FILLED else SUBMITTED)"

definition finish_execution :: "broker_order \<Rightarrow> datetime \<Rightarrow> ledger \<Rightarrow> ledger res" where
  "finish_execution order now l =
    bindr (timestamp now) (\<lambda>when.
      record_event ''ORDER_RECORDED'' (bo_order_id order) now
        [(''signal_id'', JString (bo_signal_id order)),
         (''state'', JString (order_state_value (bo_state order)))]
        (l\<lparr>lg_signals := set_signal_state (bo_signal_id order) (executed_state order) when
             (lg_signals l),
           lg_journal := lg_journal l @ [\<lparr>jn_signal_id = Some (bo_signal_id order),
             jn_entry_type = ''ORDER_RECORDED'', jn_amount = None, jn_occurred_at = when,
             jn_details = [(''order_id'', JString (bo_order_id order)),
               (''state'', JString (order_state_value (bo_state order)))]\<rparr>]\<rparr>))"

definition record_execution ::
  "broker_order \<Rightarrow> broker_fill list \<Rightarrow> datetime \<Rightarrow> ledger \<Rightarrow> (position option \<times> ledger) res" where
  "record_execution order fills now l =
    bindr (insert_order order l) (\<lambda>l1.
    bindr (fold_res insert_fill fills l1) (\<lambda>l2.
    bindr (insert_opened (opened_position order now) l2) (\<lambda>l3.
    bindr (finish_execution order now l3) (\<lambda>l4.
      Inr (opened_position order now, l4)))))"

definition position_of_row :: "position_row \<Rightarrow> position" where
  "position_of_row r =
    \<lparr>po_position_id = lp_position_id r, po_signal_id = lp_signal_id r,
     po_symbol = lp_symbol r, po_security_id = lp_security_id r, po_side = lp_side r,
     po_quantity = lp_quantity r, po_average_entry_price = Finite (lp_average_entry_price r),
     po_state = lp_state r, po_opened_at = at_utc (lp_opened_at r),
     po_closed_at = map_option at_utc (lp_closed_at r),
     po_realized_pnl = map_option Finite (lp_realized_pnl r)\<rparr>"

definition open_position_for_security :: "string \<Rightarrow> ledger \<Rightarrow> position option" where
  "open_position_for_security sec l = map_option position_of_row
     (sql_first (\<lambda>r. lp_security_id r = sec \<and> lp_state r = OPEN) (lg_positions l))"

definition ledger_positions :: "bool \<Rightarrow> ledger \<Rightarrow> position_row list" where
  "ledger_positions open_only l = sort_key (\<lambda>r. (lp_opened_at r, lp_position_id r))
     (filter (\<lambda>r. open_only \<longrightarrow> lp_state r = OPEN) (lg_positions l))"

fun direction :: "OrderSide \<Rightarrow> rat" where
  "direction BUY = 1"
| "direction SELL = - 1"

definition position_pnl :: "rat \<Rightarrow> position_row \<Rightarrow> rat" where
  "position_pnl exit_price r = dmul (dmul (dsub exit_price (lp_average_entry_price r))
     (of_int (lp_quantity r))) (direction (lp_side r))"

definition closed_row :: "int \<Rightarrow> int \<Rightarrow> rat \<Rightarrow> position_row \<Rightarrow> position_row" where
  "closed_row when day pnl r = r\<lparr>lp_state := CLOSED, lp_closed_at := Some when,
     lp_closed_day := Some day, lp_realized_pnl := Some pnl\<rparr>"

definition close_position ::
  "string \<Rightarrow> decimal \<Rightarrow> datetime \<Rightarrow> ledger \<Rightarrow> (rat \<times> ledger) res" where
  "close_position pid exit_price closed_at l =
    (if \<not> dec_is_finite exit_price \<or> dec_val exit_price \<le> 0
     then Inl (ExecutionError ''exit price must be positive and finite'')
     else case sql_first (\<lambda>r. lp_position_id r = pid \<and> lp_state r = OPEN) (lg_positions l) of
       None \<Rightarrow> Inl (ExecutionError ''open position does not exist'')
     | Some r \<Rightarrow>
       (let pnl = position_pnl (dec_val exit_price) r in
        bindr (timestamp closed_at) (\<lambda>when.
        bindr (record_event ''POSITION_CLOSED'' pid closed_at
            [(''realized_pnl'', JDecimal (Finite pnl))]
            (l\<lparr>lg_positions := sql_update (\<lambda>q. lp_position_id q = pid)
                 (closed_row when (utc_day closed_at) pnl) (lg_positions l),
               lg_journal := lg_journal l @ [\<lparr>jn_signal_id = Some (lp_signal_id r),
                 jn_entry_type = ''POSITION_CLOSED'', jn_amount = Some pnl,
                 jn_occurred_at = when, jn_details = [(''position_id'', JString pid),
                   (''exit_price'', JDecimal exit_price)]\<rparr>]\<rparr>)) (\<lambda>l'.
          Inr (pnl, l')))))"

subsection \<open>Loss limits, kill switch and summaries\<close>

definition closed_rows :: "ledger \<Rightarrow> position_row list" where
  "closed_rows l = filter (\<lambda>r. lp_state r = CLOSED) (lg_positions l)"

text \<open>\<open>Decimal(row["realized_pnl"])\<close>: of \<open>NULL\<close>, a \<open>TypeError\<close>.\<close>

definition realized :: "position_row \<Rightarrow> rat res" where
  "realized r = (case lp_realized_pnl r of Some x \<Rightarrow> Inr x
     | None \<Rightarrow> Inl (TypeError ''conversion from NoneType to Decimal is not supported''))"

definition daily_realized_pnl :: "int \<Rightarrow> ledger \<Rightarrow> rat res" where
  "daily_realized_pnl day l =
    bindr (traverse realized (filter (\<lambda>r. lp_closed_day r = Some day) (closed_rows l))) (\<lambda>xs.
      Inr (dsum xs))"

fun loss_streak :: "position_row list \<Rightarrow> int res" where
  "loss_streak [] = Inr 0"
| "loss_streak (r # rs) = bindr (realized r) (\<lambda>x.
     if x < 0 then bindr (loss_streak rs) (\<lambda>n. Inr (n + 1)) else Inr 0)"

text \<open>\<open>ORDER BY closed_at DESC, rowid DESC\<close>: the reverse of the stable ascending sort.\<close>

definition consecutive_losses :: "ledger \<Rightarrow> int res" where
  "consecutive_losses l = loss_streak (rev (sort_key lp_closed_at (closed_rows l)))"

definition ledger_set_kill_switch ::
  "bool \<Rightarrow> string \<Rightarrow> string \<Rightarrow> datetime \<Rightarrow> ledger \<Rightarrow> ledger res" where
  "ledger_set_kill_switch active reason actor changed_at l =
    (if py_strip actor = [] \<or> py_strip reason = []
     then Inl (ExecutionError ''kill-switch change requires actor and reason'')
     else bindr (timestamp changed_at) (\<lambda>when.
       record_event ''KILL_SWITCH_CHANGED'' ''global'' changed_at
         [(''active'', JBool active), (''reason'', JString (py_strip reason)),
          (''actor'', JString (py_strip actor))]
         (l\<lparr>lg_kill_switch := \<lparr>ks_active = active, ks_reason = Some (py_strip reason),
            ks_actor = Some (py_strip actor), ks_changed_at = when\<rparr>\<rparr>)))"

definition kill_switch :: "ledger \<Rightarrow> kill_row" where
  "kill_switch l = lg_kill_switch l"

record journal_totals =
  jt_journal_entries :: int
  jt_orders :: int
  jt_closed_positions :: int
  jt_realized_pnl :: rat

definition journal_summary :: "ledger \<Rightarrow> journal_totals res" where
  "journal_summary l = bindr (traverse realized (closed_rows l)) (\<lambda>xs.
     Inr \<lparr>jt_journal_entries = int (length (lg_journal l)),
       jt_orders = int (length (lg_orders l)),
       jt_closed_positions = int (length (closed_rows l)), jt_realized_pnl = dsum xs\<rparr>)"

definition ledger_counts :: "ledger \<Rightarrow> (string \<times> int) list" where
  "ledger_counts l = [(''signals'', int (length (lg_signals l))),
     (''approvals'', int (length (lg_approvals l))), (''orders'', int (length (lg_orders l))),
     (''fills'', int (length (lg_fills l))), (''positions'', int (length (lg_positions l)))]"

end
