(* ===== verification/LedgerInv.thy ===== *)
theory LedgerInv
  imports Ledger
begin

text \<open>
  The integrity of the execution ledger: the constraints of its schema as an invariant, the
  links between its tables that no constraint states (a position has the order it came from, the
  journal holds exactly the closed positions), and that every operation keeps them.
\<close>

subsection \<open>The indexes of the schema\<close>

interpretation sig_id: unique_index "\<lambda>r. Some (sr_signal_id r)" signals_admit
  by unfold_locales (simp add: signals_admit_def index_keys_total)

interpretation sig_corr: unique_index "\<lambda>r. Some (sr_correlation_id r)" signals_admit
  by unfold_locales (simp add: signals_admit_def index_keys_total)

interpretation appr_id: unique_index "\<lambda>r. Some (av_signal_id r)" "approvals_admit sids"
  by unfold_locales (simp add: approvals_admit_def index_keys_total)

interpretation ord_id: unique_index "\<lambda>r. Some (lo_order_id r)" "orders_admit sids"
  by unfold_locales (simp add: orders_admit_def index_keys_total)

interpretation ord_corr: unique_index "\<lambda>r. Some (lo_correlation_id r)" "orders_admit sids"
  by unfold_locales (simp add: orders_admit_def index_keys_total)

interpretation ord_sig: unique_index "\<lambda>r. Some (lo_signal_id r)" "orders_admit sids"
  by unfold_locales (simp add: orders_admit_def index_keys_total)

interpretation fill_id: unique_index "\<lambda>r. Some (lf_fill_id r)" "fills_admit oids"
  by unfold_locales (simp add: fills_admit_def index_keys_total)

interpretation pos_id: unique_index "\<lambda>r. Some (lp_position_id r)" "positions_admit sids"
  by unfold_locales (simp add: positions_admit_def index_keys_total)

interpretation pos_sig: unique_index "\<lambda>r. Some (lp_signal_id r)" "positions_admit sids"
  by unfold_locales (simp add: positions_admit_def index_keys_total)

interpretation pos_open: unique_index open_key "positions_admit sids"
  by unfold_locales (auto simp: positions_admit_def split: option.splits)

subsection \<open>The invariant, table by table\<close>

text \<open>The stored plan of a signal reads back as a plan of that signal.\<close>

definition signal_row_ok :: "signal_row \<Rightarrow> bool" where
  "signal_row_ok r \<longleftrightarrow> (case plan_from_dict (sr_plan_json r) of Inl _ \<Rightarrow> False
     | Inr p \<Rightarrow> pl_signal_id p = sr_signal_id r \<and> pl_correlation_id p = sr_correlation_id r
         \<and> pl_symbol p = sr_symbol r \<and> pl_security_id p = sr_security_id r)"

definition signals_ok :: "signal_row list \<Rightarrow> bool" where
  "signals_ok t \<longleftrightarrow> unique_rows (\<lambda>r. Some (sr_signal_id r)) t
     \<and> unique_rows (\<lambda>r. Some (sr_correlation_id r)) t \<and> (\<forall>r\<in>set t. signal_row_ok r)"

definition approvals_ok :: "string list \<Rightarrow> approval_row list \<Rightarrow> bool" where
  "approvals_ok sids t \<longleftrightarrow> unique_rows (\<lambda>r. Some (av_signal_id r)) t
     \<and> (\<forall>r\<in>set t. av_signal_id r \<in> set sids \<and> av_actor r \<noteq> [] \<and> av_reason r \<noteq> [])"

definition order_row_ok :: "string list \<Rightarrow> order_row \<Rightarrow> bool" where
  "order_row_ok sids r \<longleftrightarrow> lo_signal_id r \<in> set sids \<and> 0 < lo_quantity r
     \<and> 0 \<le> lo_filled_quantity r \<and> lo_filled_quantity r \<le> lo_quantity r
     \<and> 0 < lo_limit_price r \<and> (\<forall>p. lo_average_fill_price r = Some p \<longrightarrow> 0 < p)"

definition orders_ok :: "string list \<Rightarrow> order_row list \<Rightarrow> bool" where
  "orders_ok sids t \<longleftrightarrow> unique_rows (\<lambda>r. Some (lo_order_id r)) t
     \<and> unique_rows (\<lambda>r. Some (lo_correlation_id r)) t
     \<and> unique_rows (\<lambda>r. Some (lo_signal_id r)) t \<and> (\<forall>r\<in>set t. order_row_ok sids r)"

definition fills_ok :: "string list \<Rightarrow> fill_row list \<Rightarrow> bool" where
  "fills_ok oids t \<longleftrightarrow> unique_rows (\<lambda>r. Some (lf_fill_id r)) t
     \<and> (\<forall>r\<in>set t. lf_order_id r \<in> set oids \<and> 0 < lf_quantity r \<and> 0 < lf_price r)"

definition position_row_ok :: "string list \<Rightarrow> position_row \<Rightarrow> bool" where
  "position_row_ok sids r \<longleftrightarrow> lp_signal_id r \<in> set sids \<and> 0 < lp_quantity r
     \<and> 0 < lp_average_entry_price r
     \<and> (if lp_state r = OPEN
        then lp_closed_at r = None \<and> lp_closed_day r = None \<and> lp_realized_pnl r = None
        else \<exists>t. lp_closed_at r = Some t \<and> lp_closed_day r = Some (t div day_us)
          \<and> lp_realized_pnl r \<noteq> None)"

definition positions_ok :: "string list \<Rightarrow> position_row list \<Rightarrow> bool" where
  "positions_ok sids t \<longleftrightarrow> unique_rows (\<lambda>r. Some (lp_position_id r)) t
     \<and> unique_rows (\<lambda>r. Some (lp_signal_id r)) t \<and> unique_rows open_key t
     \<and> (\<forall>r\<in>set t. position_row_ok sids r)"

text \<open>The order a position came from.\<close>

definition order_of_position :: "order_row \<Rightarrow> position_row \<Rightarrow> bool" where
  "order_of_position q r \<longleftrightarrow> lp_position_id r = ''position-'' @ lo_order_id q
     \<and> lp_signal_id r = lo_signal_id q \<and> lp_symbol r = lo_symbol q
     \<and> lp_security_id r = lo_security_id q \<and> lp_side r = lo_side q
     \<and> lp_quantity r = lo_filled_quantity q
     \<and> lo_average_fill_price q = Some (lp_average_entry_price r)"

definition linked :: "order_row list \<Rightarrow> position_row list \<Rightarrow> bool" where
  "linked orders t \<longleftrightarrow> (\<forall>r\<in>set t. \<exists>q\<in>set orders. order_of_position q r)"

text \<open>The realised profits of the journal are those of the closed positions, one for one.\<close>

definition journal_closings :: "journal_row list \<Rightarrow> (string option \<times> rat option) list" where
  "journal_closings j = List.map (\<lambda>e. (jn_signal_id e, jn_amount e))
     (filter (\<lambda>e. jn_entry_type e = ''POSITION_CLOSED'') j)"

definition position_closings :: "position_row list \<Rightarrow> (string option \<times> rat option) list" where
  "position_closings t = List.map (\<lambda>r. (Some (lp_signal_id r), lp_realized_pnl r))
     (filter (\<lambda>r. lp_state r = CLOSED) t)"

definition reconciled :: "journal_row list \<Rightarrow> position_row list \<Rightarrow> bool" where
  "reconciled j t \<longleftrightarrow> mset (journal_closings j) = mset (position_closings t)"

definition ledger_ok :: "ledger \<Rightarrow> bool" where
  "ledger_ok l \<longleftrightarrow> signals_ok (lg_signals l) \<and> approvals_ok (signal_ids l) (lg_approvals l)
     \<and> orders_ok (signal_ids l) (lg_orders l)
     \<and> fills_ok (List.map lo_order_id (lg_orders l)) (lg_fills l)
     \<and> positions_ok (signal_ids l) (lg_positions l) \<and> linked (lg_orders l) (lg_positions l)
     \<and> reconciled (lg_journal l) (lg_positions l)"

lemmas table_ok_defs = signals_ok_def approvals_ok_def orders_ok_def fills_ok_def
  positions_ok_def linked_def

lemma real_posD: "real_pos x \<Longrightarrow> 0 < x"
  using flt.rnd_nonpos[of x] by (force simp: real_pos_def)

subsection \<open>What each write changes\<close>

lemma timestamp_eq_Inr [res_simps]: "timestamp t = Inr w \<longleftrightarrow> is_aware t \<and> w = instant t"
  by (auto simp: timestamp_def)

lemma encode_decimal_eq_Inr [res_simps]: "encode_decimal d = Inr x \<longleftrightarrow> d = Finite x"
  by (cases d) (auto simp: encode_decimal_def)

lemma integrity_as_eq_Inr [res_simps]: "integrity_as e r = Inr x \<longleftrightarrow> r = Inr x"
  by (auto simp: integrity_as_def split: sum.splits py_error.splits)

lemma record_event_eq_Inr [res_simps]:
  "record_event ty ag t pl l = Inr l' \<longleftrightarrow> is_aware t
     \<and> l' = l\<lparr>lg_events := lg_events l @ [\<lparr>ev_event_type = ty, ev_aggregate_id = ag,
          ev_occurred_at = instant t, ev_payload = pl\<rparr>]\<rparr>"
  by (auto simp: record_event_def bindr_eq_Inr timestamp_eq_Inr)

lemma ledger_ok_events [simp]: "ledger_ok (l\<lparr>lg_events := e\<rparr>) = ledger_ok l"
  by (simp add: ledger_ok_def signal_ids_def)

lemma ledger_ok_kill_switch [simp]: "ledger_ok (l\<lparr>lg_kill_switch := k\<rparr>) = ledger_ok l"
  by (simp add: ledger_ok_def signal_ids_def)

lemma signal_ids_set_state [simp]:
  "List.map sr_signal_id (set_signal_state sid s w t) = List.map sr_signal_id t"
  by (simp add: set_signal_state_def map_sql_update)

lemma correlation_ids_set_state [simp]:
  "List.map sr_correlation_id (set_signal_state sid s w t) = List.map sr_correlation_id t"
  by (simp add: set_signal_state_def map_sql_update)

lemma signals_ok_set_state: "signals_ok t \<Longrightarrow> signals_ok (set_signal_state sid s w t)"
  by (auto simp: signals_ok_def unique_rows_total set_signal_state_def set_sql_update
      signal_row_ok_def map_sql_update split: sum.splits)

text \<open>Writing the state of a signal keeps the ledger sound, whatever else is unchanged.\<close>

lemma ledger_ok_set_state:
  "ledger_ok l \<Longrightarrow> ledger_ok (l\<lparr>lg_signals := set_signal_state sid s w (lg_signals l)\<rparr>)"
  by (simp add: ledger_ok_def signals_ok_set_state signal_ids_def)

text \<open>The invariants of the other tables grow with the signals.\<close>

lemma approvals_ok_mono: "set a \<subseteq> set b \<Longrightarrow> approvals_ok a t \<Longrightarrow> approvals_ok b t"
  by (auto simp: approvals_ok_def)

lemma orders_ok_mono: "set a \<subseteq> set b \<Longrightarrow> orders_ok a t \<Longrightarrow> orders_ok b t"
  by (auto simp: orders_ok_def order_row_ok_def)

lemma fills_ok_mono: "set a \<subseteq> set b \<Longrightarrow> fills_ok a t \<Longrightarrow> fills_ok b t"
  by (auto simp: fills_ok_def)

lemma positions_ok_mono: "set a \<subseteq> set b \<Longrightarrow> positions_ok a t \<Longrightarrow> positions_ok b t"
  by (auto simp: positions_ok_def position_row_ok_def)

lemma linked_mono: "set a \<subseteq> set b \<Longrightarrow> linked a t \<Longrightarrow> linked b t"
  unfolding linked_def by blast

subsection \<open>Signals and approvals keep the invariant\<close>

lemma ledger_ok_initial: "ledger_ok (initial_ledger w)"
  by (simp add: ledger_ok_def initial_ledger_def table_ok_defs reconciled_def
      journal_closings_def position_closings_def)

lemma record_signal_ok:
  assumes "record_signal plan state t l = Inr l'" "ledger_ok l"
  shows "ledger_ok l'"
proof -
  obtain r where ins: "sql_insert signals_admit r (lg_signals l) = Inr (lg_signals l @ [r])"
    and row: "signal_row_ok r"
    and l': "l' = l\<lparr>lg_signals := lg_signals l @ [r], lg_events := lg_events l'\<rparr>"
    using assms(1)
    by (auto simp: record_signal_def res_simps signal_row_ok_def new_signal_row_def plan_roundtrip)
  have sig: "signals_ok (lg_signals l @ [r])"
    using assms(2) row sig_id.insert_unique[OF _ ins] sig_corr.insert_unique[OF _ ins]
    by (simp add: ledger_ok_def signals_ok_def)
  have sub: "set (signal_ids l) \<subseteq> set (signal_ids l @ [sr_signal_id r])"
    by auto
  have "ledger_ok (l\<lparr>lg_signals := lg_signals l @ [r]\<rparr>)"
    using assms(2) sig approvals_ok_mono[OF sub] orders_ok_mono[OF sub] positions_ok_mono[OF sub]
    by (simp add: ledger_ok_def signal_ids_def)
  then show ?thesis by (subst l') (simp only: ledger_ok_events)
qed

lemma update_signal_state_ok:
  "update_signal_state sid state t l = Inr l' \<Longrightarrow> ledger_ok l \<Longrightarrow> ledger_ok l'"
  by (auto simp: update_signal_state_def res_simps ledger_ok_set_state)

lemma record_approval_ok:
  assumes "record_approval a l = Inr l'" "ledger_ok l"
  shows "ledger_ok l'"
proof -
  obtain r where ins: "sql_insert (approvals_admit (signal_ids l)) r (lg_approvals l)
      = Inr (lg_approvals l @ [r])" and r: "av_actor r \<noteq> []" "av_reason r \<noteq> []"
    and l': "l' = l\<lparr>lg_approvals := lg_approvals l @ [r], lg_events := lg_events l'\<rparr>"
    using assms(1) by (auto simp: record_approval_def Let_def res_simps split: if_splits)
  have "approvals_ok (signal_ids l) (lg_approvals l @ [r])"
    using assms(2) appr_id.insert_unique[OF _ ins] ins r
    by (auto simp: ledger_ok_def approvals_ok_def sql_insert_eq_Inr approvals_admit_def)
  then have "ledger_ok (l\<lparr>lg_approvals := lg_approvals l @ [r]\<rparr>)"
    using assms(2) by (simp add: ledger_ok_def signal_ids_def)
  then show ?thesis by (subst l') (simp only: ledger_ok_events)
qed

subsection \<open>Executions keep the invariant\<close>

definition order_row_of :: "broker_order \<Rightarrow> order_row" where
  "order_row_of o1 = \<lparr>lo_order_id = bo_order_id o1, lo_correlation_id = bo_correlation_id o1,
     lo_signal_id = bo_signal_id o1, lo_symbol = bo_symbol o1,
     lo_security_id = bo_security_id o1, lo_side = bo_side o1, lo_quantity = bo_quantity o1,
     lo_filled_quantity = bo_filled_quantity o1, lo_limit_price = dec_val (bo_limit_price o1),
     lo_average_fill_price = map_option dec_val (bo_average_fill_price o1),
     lo_state = bo_state o1, lo_submitted_at = instant (bo_submitted_at o1)\<rparr>"

lemma encode_optional_decimal_eq_Inr:
  "encode_optional_decimal d = Inr x \<Longrightarrow> x = map_option dec_val d \<and> d = map_option Finite x"
  by (auto simp: encode_optional_decimal_def res_simps split: option.splits)

lemma insert_orderD:
  assumes "insert_order o1 l = Inr l'"
  shows "l' = l\<lparr>lg_orders := lg_orders l @ [order_row_of o1]\<rparr>"
    and "sql_insert (orders_admit (signal_ids l)) (order_row_of o1) (lg_orders l)
      = Inr (lg_orders l @ [order_row_of o1])"
    and "bo_average_fill_price o1 = map_option Finite (map_option dec_val (bo_average_fill_price o1))"
  using assms
  by (auto simp: insert_order_def res_simps order_row_of_def
      dest!: encode_optional_decimal_eq_Inr)

lemma insert_order_ok:
  assumes "insert_order o1 l = Inr l'" "ledger_ok l"
  shows "ledger_ok l'"
proof -
  note ins = insert_orderD(2)[OF assms(1)]
  have row: "order_row_ok (signal_ids l) (order_row_of o1)"
    using ins by (auto simp: sql_insert_eq_Inr orders_admit_def order_row_ok_def
        dest: real_posD split: option.splits)
  have ord: "orders_ok (signal_ids l) (lg_orders l @ [order_row_of o1])"
    using assms(2) row ord_id.insert_unique[OF _ ins] ord_corr.insert_unique[OF _ ins]
      ord_sig.insert_unique[OF _ ins]
    by (auto simp: ledger_ok_def orders_ok_def)
  have "set (List.map lo_order_id (lg_orders l))
      \<subseteq> set (List.map lo_order_id (lg_orders l @ [order_row_of o1]))"
    and "set (lg_orders l) \<subseteq> set (lg_orders l @ [order_row_of o1])"
    by auto
  from fills_ok_mono[OF this(1)] linked_mono[OF this(2)] ord assms(2) show ?thesis
    by (simp add: insert_orderD(1)[OF assms(1)] ledger_ok_def signal_ids_def)
qed

lemma insert_fill_ok:
  assumes "insert_fill f l = Inr l'" "ledger_ok l"
  shows "ledger_ok l' \<and> l' = l\<lparr>lg_fills := lg_fills l'\<rparr>"
proof -
  let ?oids = "List.map lo_order_id (lg_orders l)"
  obtain r where ins: "sql_insert (fills_admit ?oids) r (lg_fills l) = Inr (lg_fills l @ [r])"
    and l': "l' = l\<lparr>lg_fills := lg_fills l @ [r]\<rparr>"
    using assms(1) by (auto simp: insert_fill_def res_simps)
  have "fills_ok ?oids (lg_fills l @ [r])"
    using assms(2) fill_id.insert_unique[OF _ ins] ins
    by (auto simp: ledger_ok_def fills_ok_def sql_insert_eq_Inr fills_admit_def dest: real_posD)
  then show ?thesis using assms(2) by (simp add: l' ledger_ok_def signal_ids_def)
qed

lemma insert_fills_ok:
  assumes "fold_res insert_fill fs l = Inr l'" "ledger_ok l"
  shows "ledger_ok l' \<and> l' = l\<lparr>lg_fills := lg_fills l'\<rparr>"
  using assms(1)
proof (rule fold_res_invariant[where I = "\<lambda>m. ledger_ok m \<and> m = l\<lparr>lg_fills := lg_fills m\<rparr>"])
  show "ledger_ok l \<and> l = l\<lparr>lg_fills := lg_fills l\<rparr>" using assms(2) by simp
next
  fix f m n
  assume "ledger_ok m \<and> m = l\<lparr>lg_fills := lg_fills m\<rparr>" "insert_fill f m = Inr n"
  then have n: "ledger_ok n" "n = m\<lparr>lg_fills := lg_fills n\<rparr>" and m: "m = l\<lparr>lg_fills := lg_fills m\<rparr>"
    using insert_fill_ok by blast+
  show "ledger_ok n \<and> n = l\<lparr>lg_fills := lg_fills n\<rparr>"
    using n(1) by (subst n(2), subst m) simp
qed

definition opened_row :: "broker_order \<Rightarrow> rat \<Rightarrow> datetime \<Rightarrow> position_row" where
  "opened_row o1 price now = \<lparr>lp_position_id = ''position-'' @ bo_order_id o1,
     lp_signal_id = bo_signal_id o1, lp_symbol = bo_symbol o1,
     lp_security_id = bo_security_id o1, lp_side = bo_side o1,
     lp_quantity = bo_filled_quantity o1, lp_average_entry_price = price, lp_state = OPEN,
     lp_opened_at = instant now, lp_closed_at = None, lp_closed_day = None,
     lp_realized_pnl = None\<rparr>"

lemma insert_openedD:
  assumes "insert_opened (opened_position o1 now) l = Inr l'"
  shows "(opened_position o1 now = None \<and> l' = l) \<or>
    (\<exists>price. bo_average_fill_price o1 = Some (Finite price) \<and> 0 < bo_filled_quantity o1
      \<and> sql_insert (positions_admit (signal_ids l)) (opened_row o1 price now) (lg_positions l)
          = Inr (lg_positions l @ [opened_row o1 price now])
      \<and> l' = l\<lparr>lg_positions := lg_positions l @ [opened_row o1 price now]\<rparr>)"
  using assms
  by (auto simp: insert_opened_def opened_position_def insert_position_def res_simps
      opened_row_def split: if_splits option.splits)

lemma insert_opened_ok:
  assumes "insert_opened (opened_position o1 now) l = Inr l'" "ledger_ok l"
    and "order_row_of o1 \<in> set (lg_orders l)"
  shows "ledger_ok l'"
  using insert_openedD[OF assms(1)]
proof (elim disjE exE conjE)
  assume "l' = l"
  then show ?thesis using assms(2) by simp
next
  fix price
  let ?r = "opened_row o1 price now"
  assume avg: "bo_average_fill_price o1 = Some (Finite price)"
    and ins: "sql_insert (positions_admit (signal_ids l)) ?r (lg_positions l)
      = Inr (lg_positions l @ [?r])"
    and l': "l' = l\<lparr>lg_positions := lg_positions l @ [?r]\<rparr>"
  have row: "position_row_ok (signal_ids l) ?r"
    using ins by (auto simp: sql_insert_eq_Inr positions_admit_def position_row_ok_def
        opened_row_def dest: real_posD)
  have pos: "positions_ok (signal_ids l) (lg_positions l @ [?r])"
    using assms(2) row pos_id.insert_unique[OF _ ins] pos_sig.insert_unique[OF _ ins]
      pos_open.insert_unique[OF _ ins]
    by (auto simp: ledger_ok_def positions_ok_def)
  have "order_of_position (order_row_of o1) ?r"
    by (simp add: order_of_position_def order_row_of_def opened_row_def avg)
  then have lnk: "linked (lg_orders l) (lg_positions l @ [?r])"
    using assms(2,3) by (auto simp: ledger_ok_def linked_def)
  have "position_closings (lg_positions l @ [?r]) = position_closings (lg_positions l)"
    by (simp add: position_closings_def opened_row_def)
  then show ?thesis
    using assms(2) pos lnk by (simp add: l' ledger_ok_def signal_ids_def reconciled_def)
qed

lemma finish_execution_ok:
  "finish_execution o1 now l = Inr l' \<Longrightarrow> ledger_ok l \<Longrightarrow> ledger_ok l'"
  by (auto simp: finish_execution_def res_simps ledger_ok_def signal_ids_def reconciled_def
      journal_closings_def signals_ok_set_state)

lemma record_execution_ok:
  assumes "record_execution o1 fs now l = Inr (p, l')" "ledger_ok l"
  shows "ledger_ok l'"
proof -
  obtain l1 l2 l3 where 1: "insert_order o1 l = Inr l1" and 2: "fold_res insert_fill fs l1 = Inr l2"
    and 3: "insert_opened (opened_position o1 now) l2 = Inr l3"
    and 4: "finish_execution o1 now l3 = Inr l'"
    using assms(1) by (auto simp: record_execution_def bindr_eq_Inr)
  have ok1: "ledger_ok l1" by (rule insert_order_ok[OF 1 assms(2)])
  have ok2: "ledger_ok l2" and l2: "l2 = l1\<lparr>lg_fills := lg_fills l2\<rparr>"
    using insert_fills_ok[OF 2 ok1] by auto
  have "order_row_of o1 \<in> set (lg_orders l2)"
    by (subst l2) (simp add: insert_orderD(1)[OF 1])
  from insert_opened_ok[OF 3 ok2 this] have "ledger_ok l3" .
  then show ?thesis by (rule finish_execution_ok[OF 4])
qed

subsection \<open>Closing a position keeps the invariant\<close>

lemma close_positionD:
  assumes "close_position pid px t l = Inr (pnl, l')"
  obtains x r where "px = Finite x" "0 < x" "is_aware t"
    and "r \<in> set (lg_positions l)" "lp_position_id r = pid" "lp_state r = OPEN"
    and "pnl = position_pnl x r"
    and "lg_positions l' = sql_update (\<lambda>q. lp_position_id q = pid)
          (closed_row (instant t) (utc_day t) pnl) (lg_positions l)"
    and "journal_closings (lg_journal l') =
          journal_closings (lg_journal l) @ [(Some (lp_signal_id r), Some pnl)]"
    and "l' = l\<lparr>lg_positions := lg_positions l', lg_journal := lg_journal l',
          lg_events := lg_events l'\<rparr>"
  using assms
  by (cases px) (auto simp: close_position_def Let_def res_simps journal_closings_def
      dest!: sql_first_Some split: if_splits option.splits)

lemma position_closings_close:
  assumes "unique_rows (\<lambda>r. Some (lp_position_id r)) t" "r \<in> set t" "lp_state r = OPEN"
  shows "mset (position_closings (sql_update (\<lambda>q. lp_position_id q = lp_position_id r)
      (closed_row w d pnl) t)) = add_mset (Some (lp_signal_id r), Some pnl) (mset (position_closings t))"
  using assms
proof (induction t)
  case Nil
  then show ?case by simp
next
  case (Cons x t)
  let ?P = "\<lambda>q. lp_position_id q = lp_position_id r"
  have dist: "lp_position_id x \<notin> lp_position_id ` set t" "unique_rows (\<lambda>r. Some (lp_position_id r)) t"
    using Cons.prems(1) by (auto simp: unique_rows_total)
  have upd: "sql_update ?P (closed_row w d pnl) (x # t)
      = (if ?P x then closed_row w d pnl x else x) # sql_update ?P (closed_row w d pnl) t"
    by (simp add: sql_update_def)
  show ?case
  proof (cases "x = r")
    case True
    have "\<forall>q\<in>set t. \<not> ?P q" using dist(1) True by (metis image_eqI)
    then have "sql_update ?P (closed_row w d pnl) t = t"
      by (auto simp: sql_update_def intro!: map_idI)
    then show ?thesis
      using True Cons.prems(3) unfolding upd by (simp add: position_closings_def closed_row_def)
  next
    case False
    then have r: "r \<in> set t" using Cons.prems(2) by simp
    then have "\<not> ?P x" using dist(1) by force
    then show ?thesis
      using Cons.IH[OF dist(2) r Cons.prems(3)] unfolding upd by (simp add: position_closings_def)
  qed
qed

lemma close_position_ok:
  assumes "close_position pid px t l = Inr (pnl, l')" "ledger_ok l"
  shows "ledger_ok l'"
proof -
  from assms(1) obtain x r where r: "r \<in> set (lg_positions l)" "lp_position_id r = pid"
      "lp_state r = OPEN"
    and pos: "lg_positions l' = sql_update (\<lambda>q. lp_position_id q = pid)
          (closed_row (instant t) (utc_day t) pnl) (lg_positions l)"
    and jn: "journal_closings (lg_journal l') =
          journal_closings (lg_journal l) @ [(Some (lp_signal_id r), Some pnl)]"
    and l': "l' = l\<lparr>lg_positions := lg_positions l', lg_journal := lg_journal l',
          lg_events := lg_events l'\<rparr>"
    by (rule close_positionD)
  let ?c = "closed_row (instant t) (utc_day t) pnl"
  have ok: "positions_ok (signal_ids l) (lg_positions l)" using assms(2) by (simp add: ledger_ok_def)
  have keys: "unique_rows (\<lambda>r. Some (lp_position_id r)) (lg_positions l')"
    "unique_rows (\<lambda>r. Some (lp_signal_id r)) (lg_positions l')"
    "unique_rows open_key (lg_positions l')"
    using ok unfolding pos positions_ok_def
    by (auto intro!: unique_rows_update simp: closed_row_def open_key_def)
  have rows: "\<forall>q\<in>set (lg_positions l'). position_row_ok (signal_ids l) q"
    using ok unfolding pos
    by (auto simp: positions_ok_def set_sql_update position_row_ok_def closed_row_def utc_day_def)
  have lnk: "linked (lg_orders l) (lg_positions l')"
    using assms(2) unfolding pos
    by (auto simp: ledger_ok_def linked_def set_sql_update order_of_position_def closed_row_def)
  have "mset (position_closings (lg_positions l'))
      = add_mset (Some (lp_signal_id r), Some pnl) (mset (position_closings (lg_positions l)))"
    using position_closings_close[OF _ r(1,3)] ok r(2) unfolding pos by (simp add: positions_ok_def)
  then have "reconciled (lg_journal l') (lg_positions l')"
    using assms(2) by (simp add: ledger_ok_def reconciled_def jn)
  then have "ledger_ok (l\<lparr>lg_positions := lg_positions l', lg_journal := lg_journal l'\<rparr>)"
    using assms(2) keys rows lnk by (simp add: ledger_ok_def signal_ids_def positions_ok_def)
  then show ?thesis by (subst l') (simp only: ledger_ok_events)
qed

lemma ledger_set_kill_switch_ok:
  "ledger_set_kill_switch active reason actor t l = Inr l' \<Longrightarrow> ledger_ok l \<Longrightarrow> ledger_ok l'"
  by (auto simp: ledger_set_kill_switch_def res_simps)

end
