(* ===== verification/Controller.thy ===== *)
theory Controller
  imports Paper LedgerInv
begin

text \<open>
  The execution controller, \<open>execution/controller.py\<close>: the state machine of a signal and every
  pre-trade gate.  The world is what an operation may change: the ledger, the instrument
  registry and the log of the calls made to the live broker gateway.  The gateway is code outside
  the repository and a parameter: what it answers may depend on every earlier call.  An operation
  returns its result or exception together with the world it leaves, since a transaction that
  was committed before an exception stays.  The argument \<open>current\<close> is the value of
  \<open>now or self._clock()\<close>.
\<close>

subsection \<open>Policy\<close>

record ('f, 'd) execution_policy =
  xp_mode :: ExecutionMode
  xp_max_data_age_seconds :: 'f
  xp_future_clock_skew_seconds :: 'f
  xp_min_expiry_buffer_seconds :: 'f
  xp_max_order_quantity :: int
  xp_max_order_notional :: 'd
  xp_max_plan_loss :: 'd
  xp_max_daily_loss :: 'd
  xp_max_consecutive_losses :: int
  xp_live_enabled :: bool

type_synonym policy = "(rat, rat) execution_policy"

definition nonneg_float :: "string \<Rightarrow> float64 \<Rightarrow> rat res" where
  "nonneg_float name v = (if \<not> isfinite v \<or> flt_val v < 0
     then Inl (ValueError (name @ '' must be finite and non-negative'')) else Inr (flt_val v))"

definition pos_decimal :: "string \<Rightarrow> decimal \<Rightarrow> rat res" where
  "pos_decimal name v = (if \<not> dec_is_finite v \<or> dec_val v \<le> 0
     then Inl (ValueError (name @ '' must be finite and positive'')) else Inr (dec_val v))"

definition mk_execution_policy :: "(float64, decimal) execution_policy \<Rightarrow> policy res" where
  "mk_execution_policy p =
    bindr (nonneg_float ''max_data_age_seconds'' (xp_max_data_age_seconds p)) (\<lambda>age.
    bindr (nonneg_float ''future_clock_skew_seconds'' (xp_future_clock_skew_seconds p)) (\<lambda>skew.
    bindr (nonneg_float ''min_expiry_buffer_seconds'' (xp_min_expiry_buffer_seconds p)) (\<lambda>buf.
    if xp_max_order_quantity p \<le> 0 \<or> xp_max_consecutive_losses p \<le> 0
    then Inl (ValueError ''quantity and consecutive-loss limits must be positive'')
    else
    bindr (pos_decimal ''max_order_notional'' (xp_max_order_notional p)) (\<lambda>notional.
    bindr (pos_decimal ''max_plan_loss'' (xp_max_plan_loss p)) (\<lambda>loss.
    bindr (pos_decimal ''max_daily_loss'' (xp_max_daily_loss p)) (\<lambda>daily.
      Inr \<lparr>xp_mode = xp_mode p, xp_max_data_age_seconds = age,
        xp_future_clock_skew_seconds = skew, xp_min_expiry_buffer_seconds = buf,
        xp_max_order_quantity = xp_max_order_quantity p, xp_max_order_notional = notional,
        xp_max_plan_loss = loss, xp_max_daily_loss = daily,
        xp_max_consecutive_losses = xp_max_consecutive_losses p,
        xp_live_enabled = xp_live_enabled p\<rparr>))))))"

definition default_execution_policy :: "(float64, decimal) execution_policy" where
  "default_execution_policy = \<lparr>xp_mode = OFF, xp_max_data_age_seconds = FFinite 30,
     xp_future_clock_skew_seconds = FFinite 2, xp_min_expiry_buffer_seconds = FFinite 900,
     xp_max_order_quantity = 10000, xp_max_order_notional = Finite 1000000,
     xp_max_plan_loss = Finite 50000, xp_max_daily_loss = Finite 100000,
     xp_max_consecutive_losses = 3, xp_live_enabled = False\<rparr>"

definition policy_ok :: "policy \<Rightarrow> bool" where
  "policy_ok p \<longleftrightarrow> 0 \<le> xp_max_data_age_seconds p \<and> 0 \<le> xp_future_clock_skew_seconds p
     \<and> 0 \<le> xp_min_expiry_buffer_seconds p \<and> 0 < xp_max_order_quantity p
     \<and> 0 < xp_max_order_notional p \<and> 0 < xp_max_plan_loss p \<and> 0 < xp_max_daily_loss p
     \<and> 0 < xp_max_consecutive_losses p"

lemma mk_execution_policy_ok: "mk_execution_policy p = Inr q \<Longrightarrow> policy_ok q"
  by (auto simp: mk_execution_policy_def policy_ok_def nonneg_float_def pos_decimal_def res_simps)

subsection \<open>The world and its actions\<close>

datatype gateway_call = SubmitCall trade_plan string | LookupCall string

record gateway =
  gw_submit_order :: "gateway_call list \<Rightarrow> trade_plan \<Rightarrow> string \<Rightarrow> live_ack res"
  gw_lookup_by_correlation :: "gateway_call list \<Rightarrow> string \<Rightarrow> live_ack option res"

record controller =
  ct_policy :: policy
  ct_paper :: paper_config
  ct_digest :: "string \<Rightarrow> string"
  ct_live :: "gateway option"

record world =
  w_ledger :: ledger
  w_registry :: "(string \<times> string) list"
  w_calls :: "gateway_call list"

type_synonym 'a action = "world \<Rightarrow> 'a res \<times> world"

definition ret :: "'a \<Rightarrow> 'a action" where "ret x w = (Inr x, w)"

definition raise :: "py_error \<Rightarrow> 'a action" where "raise e w = (Inl e, w)"

definition seqw :: "'a action \<Rightarrow> ('a \<Rightarrow> 'b action) \<Rightarrow> 'b action" where
  "seqw m f w = (case m w of (Inl e, w') \<Rightarrow> (Inl e, w') | (Inr x, w') \<Rightarrow> f x w')"

definition require :: "bool \<Rightarrow> py_error \<Rightarrow> unit action" where
  "require b e w = (if b then (Inr (), w) else (Inl e, w))"

text \<open>A computation that changes nothing, and a transaction of the ledger.\<close>

definition reads :: "(world \<Rightarrow> 'a res) \<Rightarrow> 'a action" where
  "reads f w = (f w, w)"

definition transact :: "(ledger \<Rightarrow> ('a \<times> ledger) res) \<Rightarrow> 'a action" where
  "transact f w = (case f (w_ledger w) of Inl e \<Rightarrow> (Inl e, w)
     | Inr (x, l) \<Rightarrow> (Inr x, w\<lparr>w_ledger := l\<rparr>))"

definition commit :: "(ledger \<Rightarrow> ledger res) \<Rightarrow> unit action" where
  "commit f = transact (\<lambda>l. bindr (f l) (\<lambda>l'. Inr ((), l')))"

subsection \<open>Gates\<close>

definition require_aware :: "datetime \<Rightarrow> string \<Rightarrow> unit res" where
  "require_aware t name = (if is_aware t then Inr ()
     else Inl (PlanValidationError (name @ '' must be timezone-aware'')))"

definition require_text :: "string \<times> string \<Rightarrow> unit res" where
  "require_text nv = (if py_strip (snd nv) = []
     then Inl (PlanValidationError (fst nv @ '' is required'')) else Inr ())"

definition check_that :: "bool \<Rightarrow> py_error \<Rightarrow> unit res" where
  "check_that b e = (if b then Inr () else Inl e)"

definition plan_texts :: "trade_plan \<Rightarrow> (string \<times> string) list" where
  "plan_texts plan = [(''signal_id'', pl_signal_id plan),
     (''correlation_id'', pl_correlation_id plan), (''symbol'', pl_symbol plan),
     (''security_id'', pl_security_id plan), (''strategy_version'', pl_strategy_version plan)]"

definition plan_times :: "trade_plan \<Rightarrow> (string \<times> datetime) list" where
  "plan_times plan = [(''signal_time'', pl_signal_time plan), (''data_time'', pl_data_time plan),
     (''valid_until'', pl_valid_until plan), (''contract_expiry'', pl_contract_expiry plan)]"

definition validate_risk :: "policy \<Rightarrow> trade_plan \<Rightarrow> unit res" where
  "validate_risk p plan =
    bindr (check_that (0 < pl_quantity plan \<and> pl_quantity plan \<le> xp_max_order_quantity p)
      (PlanValidationError ''quantity exceeds the configured limit'')) (\<lambda>_.
    bindr (check_that (dec_is_finite (pl_limit_price plan) \<and> 0 < dec_val (pl_limit_price plan))
      (PlanValidationError ''limit price must be finite and positive'')) (\<lambda>_.
    bindr (check_that (dec_is_finite (pl_maximum_loss plan) \<and> 0 < dec_val (pl_maximum_loss plan)
        \<and> dec_val (pl_maximum_loss plan) \<le> xp_max_plan_loss p)
      (PlanValidationError ''maximum plan loss exceeds the configured limit'')) (\<lambda>_.
    check_that (dmul (dec_val (pl_limit_price plan)) (of_int (pl_quantity plan))
        \<le> xp_max_order_notional p)
      (PlanValidationError ''order notional exceeds the configured limit''))))"

definition validate_times :: "policy \<Rightarrow> trade_plan \<Rightarrow> datetime \<Rightarrow> unit res" where
  "validate_times p plan now =
    bindr (traverse (\<lambda>(name, t). require_aware t name) (plan_times plan)) (\<lambda>_.
    bindr (check_that (total_seconds (instant now - instant (pl_data_time plan))
        \<le> xp_max_data_age_seconds p)
      (PlanValidationError ''market data is stale'')) (\<lambda>_.
    bindr (check_that (\<not> total_seconds (instant now - instant (pl_data_time plan))
        < - xp_future_clock_skew_seconds p)
      (PlanValidationError ''market data is future-dated'')) (\<lambda>_.
    bindr (check_that (\<not> (instant (pl_signal_time plan) > instant now
        \<and> total_seconds (instant (pl_signal_time plan) - instant now)
          > xp_future_clock_skew_seconds p))
      (PlanValidationError ''signal timestamp is future-dated'')) (\<lambda>_.
    bindr (check_that (instant (pl_valid_until plan) > instant now)
      (PlanValidationError ''execution plan has expired'')) (\<lambda>_.
    bindr (check_that (pl_event_risk_active plan = Some False)
      (PlanValidationError ''event risk must be explicitly clear'')) (\<lambda>_.
    bindr (check_that (pl_expiry_risk_clear plan)
      (PlanValidationError ''expiry-risk gate is not clear'')) (\<lambda>_.
    check_that (total_seconds (instant (pl_contract_expiry plan) - instant now)
        > xp_min_expiry_buffer_seconds p)
      (PlanValidationError ''contract is inside the expiry-risk buffer''))))))))"

definition validate_plan :: "policy \<Rightarrow> trade_plan \<Rightarrow> datetime \<Rightarrow> bool \<Rightarrow> world \<Rightarrow> unit res" where
  "validate_plan p plan now check_signal w =
    bindr (check_that (\<not> (check_signal \<and> signal_exists (pl_signal_id plan) (w_ledger w)))
      (DuplicateSignalError ''signal has already been processed'')) (\<lambda>_.
    bindr (traverse require_text (plan_texts plan)) (\<lambda>_.
    bindr (check_that (map_of (w_registry w) (pl_symbol plan) = Some (pl_security_id plan))
      (PlanValidationError ''symbol/security ID does not match the execution registry'')) (\<lambda>_.
    bindr (validate_risk p plan) (\<lambda>_.
    bindr (validate_times p plan now) (\<lambda>_.
    check_that (open_position_for_security (pl_security_id plan) (w_ledger w) = None)
      (DuplicatePositionError ''an open position already exists for this security''))))))"

text \<open>\<open>str(current.get("reason") or "kill switch is active")\<close>.\<close>

definition kill_reason :: "kill_row \<Rightarrow> string" where
  "kill_reason k = (case ks_reason k of Some r \<Rightarrow> if r = [] then ''kill switch is active'' else r
     | None \<Rightarrow> ''kill switch is active'')"

definition trip_kill_switch :: "string \<Rightarrow> datetime \<Rightarrow> unit action" where
  "trip_kill_switch reason now =
    seqw (commit (ledger_set_kill_switch True reason ''system'' now)) (\<lambda>_.
      raise (KillSwitchError reason))"

definition check_kill_limits :: "policy \<Rightarrow> datetime \<Rightarrow> unit action" where
  "check_kill_limits p now w =
    (if ks_active (kill_switch (w_ledger w))
     then raise (KillSwitchError (kill_reason (kill_switch (w_ledger w)))) w
     else seqw (reads (\<lambda>w. daily_realized_pnl (utc_day now) (w_ledger w))) (\<lambda>daily_pnl.
       if daily_pnl \<le> dneg (xp_max_daily_loss p)
       then trip_kill_switch ''daily loss limit reached'' now
       else seqw (reads (\<lambda>w. consecutive_losses (w_ledger w))) (\<lambda>losses.
         if losses \<ge> xp_max_consecutive_losses p
         then trip_kill_switch ''consecutive loss limit reached'' now
         else ret ())) w)"

subsection \<open>Execution\<close>

definition paper_result_state :: "OrderState \<Rightarrow> SignalExecutionState" where
  "paper_result_state s = (if s = O_FILLED then FILLED
     else if s = O_PARTIALLY_FILLED then PARTIALLY_FILLED else SUBMITTED)"

definition result_of :: "trade_plan \<Rightarrow> broker_order \<Rightarrow> broker_fill list \<Rightarrow> execution_result" where
  "result_of plan order fills = \<lparr>er_signal_id = pl_signal_id plan,
     er_state = paper_result_state (bo_state order), er_order = Some order, er_fills = fills,
     er_message = None\<rparr>"

definition execute_paper :: "controller \<Rightarrow> trade_plan \<Rightarrow> datetime \<Rightarrow> execution_result action" where
  "execute_paper c plan now =
    seqw (reads (\<lambda>_. paper_submit (ct_digest c) (ct_paper c) plan now)) (\<lambda>(order, fills).
    seqw (transact (record_execution order fills now)) (\<lambda>_.
      ret (result_of plan order fills)))"

definition live_order :: "trade_plan \<Rightarrow> live_ack \<Rightarrow> datetime \<Rightarrow> broker_order" where
  "live_order plan ack now = \<lparr>bo_order_id = ack_broker_order_id ack,
     bo_correlation_id = pl_correlation_id plan, bo_signal_id = pl_signal_id plan,
     bo_symbol = pl_symbol plan, bo_security_id = pl_security_id plan, bo_side = pl_side plan,
     bo_quantity = pl_quantity plan, bo_filled_quantity = ack_filled_quantity ack,
     bo_limit_price = pl_limit_price plan, bo_average_fill_price = ack_average_fill_price ack,
     bo_state = ack_state ack, bo_submitted_at = now\<rparr>"

fun valid_fill_price :: "decimal option \<Rightarrow> bool" where
  "valid_fill_price None = False"
| "valid_fill_price (Some d) = (dec_is_finite d \<and> 0 < dec_val d)"

definition validate_live_ack :: "trade_plan \<Rightarrow> live_ack \<Rightarrow> unit res" where
  "validate_live_ack plan ack =
    bindr (check_that (0 \<le> ack_filled_quantity ack \<and> ack_filled_quantity ack \<le> pl_quantity plan)
      (ExecutionUncertainError ''broker acknowledgement has an invalid fill quantity'')) (\<lambda>_.
    bindr (check_that (\<not> (ack_filled_quantity ack > 0
        \<and> \<not> valid_fill_price (ack_average_fill_price ack)))
      (ExecutionUncertainError ''broker filled quantity lacks a valid average price'')) (\<lambda>_.
    check_that (\<not> (ack_filled_quantity ack = 0 \<and> ack_average_fill_price ack \<noteq> None))
      (ExecutionUncertainError ''broker average price exists without a fill'')))"

definition live_fills :: "trade_plan \<Rightarrow> live_ack \<Rightarrow> datetime \<Rightarrow> broker_fill list res" where
  "live_fills plan ack now =
    (if ack_filled_quantity ack \<noteq> 0
     then (case ack_average_fill_price ack of
        None \<Rightarrow> Inl (ExecutionUncertainError ''broker reported fills without an average price'')
      | Some price \<Rightarrow> Inr [\<lparr>bf_fill_id = ''live-fill-'' @ ack_broker_order_id ack @ ''-reconciled'',
          bf_order_id = ack_broker_order_id ack, bf_quantity = ack_filled_quantity ack,
          bf_price = price,
          bf_state = (if ack_filled_quantity ack = pl_quantity plan then COMPLETE else PARTIAL),
          bf_filled_at = now\<rparr>])
     else Inr [])"

text \<open>The two calls of the gateway, each appended to the log.\<close>

definition call_submit :: "gateway \<Rightarrow> trade_plan \<Rightarrow> string \<Rightarrow> live_ack action" where
  "call_submit g plan cid w = (gw_submit_order g (w_calls w) plan cid,
     w\<lparr>w_calls := w_calls w @ [SubmitCall plan cid]\<rparr>)"

definition call_lookup :: "gateway \<Rightarrow> string \<Rightarrow> live_ack option action" where
  "call_lookup g cid w = (gw_lookup_by_correlation g (w_calls w) cid,
     w\<lparr>w_calls := w_calls w @ [LookupCall cid]\<rparr>)"

definition unknown_ack :: "trade_plan \<Rightarrow> live_ack" where
  "unknown_ack plan = \<lparr>ack_broker_order_id = ''unknown-'' @ pl_correlation_id plan,
     ack_correlation_id = pl_correlation_id plan, ack_state = UNKNOWN,
     ack_filled_quantity = 0, ack_average_fill_price = None\<rparr>"

definition record_unknown :: "trade_plan \<Rightarrow> datetime \<Rightarrow> 'a action" where
  "record_unknown plan now =
    seqw (transact (record_execution (live_order plan (unknown_ack plan) now) [] now)) (\<lambda>_.
    seqw (commit (update_signal_state (pl_signal_id plan) UNCERTAIN now)) (\<lambda>_.
      raise (ExecutionUncertainError
        ''live mutation timed out and reconciliation found no order; no retry was sent'')))"

text \<open>A mutation timeout is reconciled by the correlation id, never retried.\<close>

definition reconcile :: "gateway \<Rightarrow> trade_plan \<Rightarrow> datetime \<Rightarrow> live_ack action" where
  "reconcile g plan now = seqw (call_lookup g (pl_correlation_id plan)) (\<lambda>r.
     case r of None \<Rightarrow> record_unknown plan now | Some ack \<Rightarrow> ret ack)"

definition obtain_ack :: "gateway \<Rightarrow> trade_plan \<Rightarrow> datetime \<Rightarrow> live_ack action" where
  "obtain_ack g plan now w = (case call_submit g plan (pl_correlation_id plan) w of
     (Inl TimeoutError, w') \<Rightarrow> reconcile g plan now w' | r \<Rightarrow> r)"

definition record_live :: "trade_plan \<Rightarrow> datetime \<Rightarrow> live_ack \<Rightarrow> execution_result action" where
  "record_live plan now ack =
    seqw (require (ack_correlation_id ack = pl_correlation_id plan)
      (ExecutionUncertainError ''broker reconciliation correlation mismatch'')) (\<lambda>_.
    seqw (reads (\<lambda>_. validate_live_ack plan ack)) (\<lambda>_.
    seqw (reads (\<lambda>_. live_fills plan ack now)) (\<lambda>fills.
    seqw (transact (record_execution (live_order plan ack now) fills now)) (\<lambda>_.
      ret (result_of plan (live_order plan ack now) fills)))))"

definition block_live :: "trade_plan \<Rightarrow> datetime \<Rightarrow> string \<Rightarrow> 'a action" where
  "block_live plan now msg =
    seqw (commit (update_signal_state (pl_signal_id plan) BLOCKED now)) (\<lambda>_.
      raise (LiveExecutionDisabledError msg))"

definition execute_live :: "controller \<Rightarrow> trade_plan \<Rightarrow> datetime \<Rightarrow> execution_result action" where
  "execute_live c plan now =
    (if \<not> xp_live_enabled (ct_policy c)
     then block_live plan now ''live execution is locked by policy''
     else case ct_live c of
       None \<Rightarrow> block_live plan now ''no live broker gateway is configured''
     | Some g \<Rightarrow> seqw (obtain_ack g plan now) (record_live plan now))"

subsection \<open>The public operations\<close>

definition submit_in_mode :: "controller \<Rightarrow> trade_plan \<Rightarrow> datetime \<Rightarrow> execution_result action" where
  "submit_in_mode c plan current =
    (case xp_mode (ct_policy c) of
       MANUAL_APPROVAL \<Rightarrow>
         seqw (commit (update_signal_state (pl_signal_id plan) AWAITING_APPROVAL current)) (\<lambda>_.
           ret \<lparr>er_signal_id = pl_signal_id plan, er_state = AWAITING_APPROVAL, er_order = None,
             er_fills = [], er_message = Some ''manual approval required''\<rparr>)
     | PAPER_TRADING \<Rightarrow> execute_paper c plan current
     | LIVE_AUTOMATIC \<Rightarrow> execute_live c plan current
     | mode \<Rightarrow>
         seqw (commit (update_signal_state (pl_signal_id plan) BLOCKED current)) (\<lambda>_.
           raise (ExecutionBlockedError
             (''execution mode '' @ mode_value mode @ '' does not submit orders''))))"

definition submit :: "controller \<Rightarrow> trade_plan \<Rightarrow> datetime \<Rightarrow> execution_result action" where
  "submit c plan current =
    seqw (reads (\<lambda>_. require_aware current ''execution time'')) (\<lambda>_.
    seqw (check_kill_limits (ct_policy c) current) (\<lambda>_.
    seqw (reads (validate_plan (ct_policy c) plan current True)) (\<lambda>_.
    seqw (commit (record_signal plan RECEIVED current)) (\<lambda>_.
      submit_in_mode c plan current))))"

definition approvable_plan :: "string \<Rightarrow> datetime \<Rightarrow> world \<Rightarrow> trade_plan res" where
  "approvable_plan sid approval_time w =
    bindr (ledger_plan sid (w_ledger w)) (\<lambda>p.
    case p of None \<Rightarrow> Inl (ApprovalError ''signal does not exist'')
    | Some plan \<Rightarrow>
        bindr (dt_less approval_time (pl_signal_time plan)) (\<lambda>early.
        bindr (check_that (\<not> early)
          (ApprovalError ''approval timestamp precedes the signal'')) (\<lambda>_.
        bindr (check_that (signal_state sid (w_ledger w) = Some AWAITING_APPROVAL)
          (ApprovalError ''signal is not awaiting approval'')) (\<lambda>_.
          Inr plan))))"

definition check_approver ::
  "policy \<Rightarrow> string \<Rightarrow> string \<Rightarrow> datetime \<Rightarrow> datetime \<Rightarrow> unit res" where
  "check_approver p actor reason approval_time current =
    bindr (require_aware current ''execution time'') (\<lambda>_.
    bindr (require_aware approval_time ''approval time'') (\<lambda>_.
    bindr (check_that (py_strip actor \<noteq> [] \<and> py_strip reason \<noteq> [])
      (ApprovalError ''manual approval requires actor and reason'')) (\<lambda>_.
    check_that (\<not> total_seconds (instant approval_time - instant current)
        > xp_future_clock_skew_seconds p)
      (ApprovalError ''approval timestamp is in the future''))))"

definition approve ::
  "controller \<Rightarrow> string \<Rightarrow> string \<Rightarrow> string \<Rightarrow> datetime option \<Rightarrow> datetime
    \<Rightarrow> execution_result action" where
  "approve c sid actor reason approved_at current =
    seqw (require (xp_mode (ct_policy c) = MANUAL_APPROVAL)
      (ApprovalError ''manual approval is only valid in MANUAL_APPROVAL mode'')) (\<lambda>_.
    let approval_time = (case approved_at of None \<Rightarrow> current | Some t \<Rightarrow> t) in
    seqw (reads (\<lambda>_. check_approver (ct_policy c) actor reason approval_time current)) (\<lambda>_.
    seqw (reads (approvable_plan sid approval_time)) (\<lambda>plan.
    seqw (check_kill_limits (ct_policy c) current) (\<lambda>_.
    seqw (reads (validate_plan (ct_policy c) plan current False)) (\<lambda>_.
    seqw (commit (record_approval \<lparr>ap_signal_id = sid, ap_actor = py_strip actor,
        ap_reason = py_strip reason, ap_approved_at = approval_time\<rparr>)) (\<lambda>_.
      execute_paper c plan current))))))"

definition controller_set_kill_switch ::
  "bool \<Rightarrow> string \<Rightarrow> string \<Rightarrow> datetime \<Rightarrow> unit action" where
  "controller_set_kill_switch active actor reason changed_at =
    commit (ledger_set_kill_switch active reason actor changed_at)"

record controller_status =
  st_mode :: string
  st_live_enabled :: bool
  st_live_gateway_configured :: bool
  st_kill_switch :: kill_row
  st_counts :: "(string \<times> int) list"

definition status :: "controller \<Rightarrow> world \<Rightarrow> controller_status" where
  "status c w = \<lparr>st_mode = mode_value (xp_mode (ct_policy c)),
     st_live_enabled = xp_live_enabled (ct_policy c),
     st_live_gateway_configured = (case ct_live c of None \<Rightarrow> False | Some _ \<Rightarrow> True),
     st_kill_switch = kill_switch (w_ledger w), st_counts = ledger_counts (w_ledger w)\<rparr>"

text \<open>Replacing the registry: all entries are checked before the map changes.\<close>

definition normalize_instrument ::
  "string \<times> string \<Rightarrow> (string \<times> string) list \<Rightarrow> (string \<times> string) list res" where
  "normalize_instrument entry normalized =
    (if py_strip (fst entry) = []
     then Inl (ValueError ''instrument-registry symbols must be non-empty strings'')
     else if py_strip (snd entry) = []
     then Inl (ValueError ''instrument-registry security IDs must be non-empty strings'')
     else if map_of normalized (py_strip (fst entry)) \<noteq> None
       \<and> map_of normalized (py_strip (fst entry)) \<noteq> Some (py_strip (snd entry))
     then Inl (ValueError ''instrument registry contains a conflicting symbol'')
     else Inr (AList.update (py_strip (fst entry)) (py_strip (snd entry)) normalized))"

definition replace_instrument_registry :: "(string \<times> string) list \<Rightarrow> unit action" where
  "replace_instrument_registry instruments w =
    (case fold_res normalize_instrument instruments [] of Inl e \<Rightarrow> (Inl e, w)
     | Inr normalized \<Rightarrow> (Inr (), w\<lparr>w_registry := normalized\<rparr>))"

end
