(* ===== verification/ControllerInv.thy ===== *)
theory ControllerInv
  imports Controller
begin

text \<open>
  Reasoning about the controller.  The locale \<open>frame\<close> takes a relation between the world before
  and the world after and lifts it through the action combinators; the locale
  \<open>ledger_frame\<close> adds what the controller relies on, that the transactions of the ledger and the
  gateway calls respect the relation, and concludes that every operation of the controller does.
  It is interpreted with the soundness of the ledger, with the growth of the history and with the
  signals an operation may touch.
\<close>

subsection \<open>Frames\<close>

definition keeps :: "(world \<Rightarrow> world \<Rightarrow> bool) \<Rightarrow> 'a action \<Rightarrow> bool" where
  "keeps R m \<longleftrightarrow> (\<forall>w. R w (snd (m w)))"

locale frame =
  fixes R :: "world \<Rightarrow> world \<Rightarrow> bool"
  assumes R_refl: "R w w"
    and R_trans: "R u v \<Longrightarrow> R v w \<Longrightarrow> R u w"
begin

lemma keeps_ret [intro!]: "keeps R (ret x)"
  by (simp add: keeps_def ret_def R_refl)

lemma keeps_raise [intro!]: "keeps R (raise e)"
  by (simp add: keeps_def raise_def R_refl)

lemma keeps_require [intro!]: "keeps R (require b e)"
  by (simp add: keeps_def require_def R_refl)

lemma keeps_reads [intro!]: "keeps R (reads f)"
  by (simp add: keeps_def reads_def R_refl)

lemma seqw_at: "R w (snd (m w)) \<Longrightarrow> (\<And>x. keeps R (f x)) \<Longrightarrow> R w (snd (seqw m f w))"
  unfolding seqw_def keeps_def by (auto split: prod.splits sum.splits intro: R_trans)

lemma keeps_seqw [intro!]:
  "keeps R m \<Longrightarrow> (\<And>x. keeps R (f x)) \<Longrightarrow> keeps R (seqw m f)"
  using seqw_at by (metis keeps_def)

end

text \<open>An order as the controller builds it: the plan's, whatever its fills.\<close>

definition order_for :: "trade_plan \<Rightarrow> broker_order \<Rightarrow> bool" where
  "order_for plan o1 \<longleftrightarrow> bo_signal_id o1 = pl_signal_id plan
     \<and> bo_correlation_id o1 = pl_correlation_id plan \<and> bo_symbol o1 = pl_symbol plan
     \<and> bo_security_id o1 = pl_security_id plan \<and> bo_side o1 = pl_side plan
     \<and> bo_quantity o1 = pl_quantity plan \<and> bo_limit_price o1 = pl_limit_price plan"

lemma order_for_paper: "order_for plan (paper_order hex plan f price now)"
  by (simp add: order_for_def paper_order_def)

lemma order_for_live: "order_for plan (live_order plan ack now)"
  by (simp add: order_for_def live_order_def)

locale ledger_frame = frame +
  fixes scope :: "trade_plan \<Rightarrow> bool"
  assumes R_record_signal: "scope plan \<Longrightarrow> keeps R (commit (record_signal plan s t))"
    and R_update_state: "scope plan \<Longrightarrow> keeps R (commit (update_signal_state (pl_signal_id plan) s t))"
    and R_approval: "scope plan \<Longrightarrow> ap_signal_id a = pl_signal_id plan
          \<Longrightarrow> keeps R (commit (record_approval a))"
    and R_execution: "scope plan \<Longrightarrow> order_for plan o1 \<Longrightarrow> keeps R (transact (record_execution o1 fs t))"
    and R_kill: "keeps R (commit (ledger_set_kill_switch active reason actor t))"
    and R_submit: "scope plan \<Longrightarrow> keeps R (call_submit g plan cid)"
    and R_lookup: "keeps R (call_lookup g cid)"
begin

lemma keeps_kill_limits: "keeps R (check_kill_limits p now)"
proof -
  have trip: "keeps R (trip_kill_switch reason now)" for reason
    unfolding trip_kill_switch_def by (intro keeps_seqw R_kill keeps_raise)
  show ?thesis
    unfolding keeps_def check_kill_limits_def
    by (auto intro!: seqw_at simp: reads_def R_refl raise_def trip[unfolded keeps_def] keeps_def
        intro: trip)
      (metis (no_types, lifting) keeps_def keeps_reads keeps_ret keeps_seqw seqw_at trip)
qed

lemma keeps_paper: "scope plan \<Longrightarrow> keeps R (execute_paper c plan now)"
proof -
  assume s: "scope plan"
  have "R w (snd (execute_paper c plan now w))" for w
  proof (cases "paper_submit (ct_digest c) (ct_paper c) plan now")
    case (Inl e)
    then show ?thesis by (simp add: execute_paper_def seqw_def reads_def R_refl)
  next
    case (Inr r)
    obtain o1 fs where r: "r = (o1, fs)" by (cases r)
    have "order_for plan o1"
      using Inr by (auto simp: r paper_submit_eq_Inr order_for_paper)
    then have "keeps R (transact (record_execution o1 fs now))" by (rule R_execution[OF s])
    then have "keeps R (seqw (transact (record_execution o1 fs now)) (\<lambda>_. ret (result_of plan o1 fs)))"
      by (intro keeps_seqw keeps_ret)
    moreover have "execute_paper c plan now w
        = seqw (transact (record_execution o1 fs now)) (\<lambda>_. ret (result_of plan o1 fs)) w"
      using Inr r by (simp add: execute_paper_def seqw_def[of "reads _"] reads_def)
    ultimately show ?thesis by (simp add: keeps_def)
  qed
  then show ?thesis by (simp add: keeps_def)
qed

lemma keeps_obtain_ack:
  assumes "scope plan"
  shows "keeps R (obtain_ack g plan now)"
proof -
  have unknown: "keeps R (record_unknown plan now)"
    unfolding record_unknown_def
    by (intro keeps_seqw R_execution[OF assms] R_update_state[OF assms] order_for_live
        keeps_raise)
  have rec: "keeps R (reconcile g plan now)"
    unfolding reconcile_def
    by (intro keeps_seqw R_lookup) (auto split: option.splits simp: unknown)
  have sub: "R w (snd (call_submit g plan (pl_correlation_id plan) w))" for w
    using R_submit[OF assms] by (simp add: keeps_def)
  show ?thesis
    unfolding keeps_def
  proof
    fix w
    obtain r w' where c: "call_submit g plan (pl_correlation_id plan) w = (r, w')"
      by (cases "call_submit g plan (pl_correlation_id plan) w")
    have "R w w'" using sub[of w] c by simp
    moreover have "R w' (snd (reconcile g plan now w'))" using rec by (simp add: keeps_def)
    ultimately show "R w (snd (obtain_ack g plan now w))"
      using c by (auto simp: obtain_ack_def split: sum.splits py_error.splits intro: R_trans)
  qed
qed

lemma keeps_live: "scope plan \<Longrightarrow> keeps R (execute_live c plan now)"
  unfolding execute_live_def block_live_def record_live_def
  by (auto split: option.splits intro!: R_update_state keeps_obtain_ack R_execution order_for_live)

lemma keeps_in_mode: "scope plan \<Longrightarrow> keeps R (submit_in_mode c plan now)"
  unfolding submit_in_mode_def
  by (auto split: ExecutionMode.splits intro!: R_update_state keeps_paper keeps_live)

end

subsection \<open>How an operation unfolds\<close>

lemma seqw_reads: "seqw (reads f) k w = (case f w of Inl e \<Rightarrow> (Inl e, w) | Inr x \<Rightarrow> k x w)"
  by (simp add: seqw_def reads_def split: sum.splits)

lemma seqw_require: "seqw (require b e) k w = (if b then k () w else (Inl e, w))"
  by (simp add: seqw_def require_def)

lemma commit_eq: "commit f w = (case f (w_ledger w) of Inl e \<Rightarrow> (Inl e, w)
    | Inr l \<Rightarrow> (Inr (), w\<lparr>w_ledger := l\<rparr>))"
  by (simp add: commit_def transact_def bindr_def split: sum.splits)

lemma seqw_commit: "seqw (commit f) k w = (case f (w_ledger w) of Inl e \<Rightarrow> (Inl e, w)
    | Inr l \<Rightarrow> k () (w\<lparr>w_ledger := l\<rparr>))"
  by (simp add: seqw_def commit_eq split: sum.splits)

lemma seqw_transact: "seqw (transact f) k w = (case f (w_ledger w) of Inl e \<Rightarrow> (Inl e, w)
    | Inr (x, l) \<Rightarrow> k x (w\<lparr>w_ledger := l\<rparr>))"
  by (simp add: seqw_def transact_def split: sum.splits prod.splits)

lemmas action_simps = seqw_reads seqw_require commit_eq seqw_commit seqw_transact ret_def raise_def

lemma check_that_eq_Inr [res_simps]: "check_that b e = Inr u \<longleftrightarrow> b"
  by (simp add: check_that_def)

lemma require_aware_eq_Inr [res_simps]: "require_aware t n = Inr u \<longleftrightarrow> is_aware t"
  by (simp add: require_aware_def)

text \<open>Nothing, or the kill switch tripped by the system.\<close>

definition tripped :: "datetime \<Rightarrow> world \<Rightarrow> world \<Rightarrow> bool" where
  "tripped now w w' \<longleftrightarrow> (\<exists>reason l. ledger_set_kill_switch True reason ''system'' now (w_ledger w)
     = Inr l \<and> w' = w\<lparr>w_ledger := l\<rparr>)"

lemma kill_limits_cases:
  assumes "check_kill_limits p now w = (r, w')"
  obtains (ok) "r = Inr ()" "w' = w" "\<not> ks_active (kill_switch (w_ledger w))"
  | (halted) e where "r = Inl e" "w' = w \<or> tripped now w w'"
proof -
  have trip: "\<exists>e. r' = Inl e \<and> (v = w \<or> tripped now w v)"
    if "trip_kill_switch reason now w = (r', v)" for reason r' v
    using that by (auto simp: trip_kill_switch_def action_simps tripped_def split: sum.splits)
  show thesis
    using assms ok halted
    by (auto simp: check_kill_limits_def action_simps dest!: trip split: if_splits sum.splits)
qed

lemma submit_cases:
  assumes "submit c plan t w = (r, w')"
  obtains (rejected) e where "r = Inl e" "w' = w \<or> tripped t w w'"
  | (accepted) l1 where "is_aware t" "\<not> ks_active (kill_switch (w_ledger w))"
    "validate_plan (ct_policy c) plan t True w = Inr ()"
    "record_signal plan RECEIVED t (w_ledger w) = Inr l1"
    "submit_in_mode c plan t (w\<lparr>w_ledger := l1\<rparr>) = (r, w')"
proof -
  obtain r0 w0 where k: "check_kill_limits (ct_policy c) t w = (r0, w0)"
    by (cases "check_kill_limits (ct_policy c) t w")
  from k show thesis
  proof (cases rule: kill_limits_cases)
    case ok
    then show ?thesis
      using assms k rejected accepted
      by (auto simp: submit_def action_simps require_aware_def seqw_def[of "check_kill_limits _ _"]
          split: if_splits sum.splits)
  next
    case (halted e)
    then show ?thesis
      using assms k rejected
      by (auto simp: submit_def action_simps seqw_def[of "check_kill_limits _ _"] split: sum.splits)
  qed
qed

definition approval_instant :: "datetime option \<Rightarrow> datetime \<Rightarrow> datetime" where
  "approval_instant approved_at current = (case approved_at of None \<Rightarrow> current | Some t \<Rightarrow> t)"

definition approval_record :: "string \<Rightarrow> string \<Rightarrow> string \<Rightarrow> datetime \<Rightarrow> approval" where
  "approval_record sid actor reason t = \<lparr>ap_signal_id = sid, ap_actor = py_strip actor,
     ap_reason = py_strip reason, ap_approved_at = t\<rparr>"

lemma approve_cases:
  assumes "approve c sid actor reason approved_at t w = (r, w')"
  obtains (rejected) e where "r = Inl e" "w' = w \<or> tripped t w w'"
  | (accepted) plan l1 where "xp_mode (ct_policy c) = MANUAL_APPROVAL" "is_aware t"
    "\<not> ks_active (kill_switch (w_ledger w))"
    "approvable_plan sid (approval_instant approved_at t) w = Inr plan"
    "validate_plan (ct_policy c) plan t False w = Inr ()"
    "record_approval (approval_record sid actor reason (approval_instant approved_at t))
       (w_ledger w) = Inr l1"
    "execute_paper c plan t (w\<lparr>w_ledger := l1\<rparr>) = (r, w')"
proof -
  obtain r0 w0 where k: "check_kill_limits (ct_policy c) t w = (r0, w0)"
    by (cases "check_kill_limits (ct_policy c) t w")
  note unfolds = approve_def Let_def action_simps seqw_def[of "check_kill_limits _ _"]
    approval_instant_def[symmetric]
  from k show thesis
  proof (cases rule: kill_limits_cases)
    case ok
    then show ?thesis
      using assms k rejected accepted
      by (auto simp: unfolds check_approver_def res_simps approval_record_def
          split: if_splits sum.splits)
  next
    case (halted e)
    then show ?thesis
      using assms k rejected by (auto simp: unfolds split: if_splits sum.splits)
  qed
qed

text \<open>What an approvable plan is.\<close>

lemma approvable_planD:
  assumes "approvable_plan sid t w = Inr plan" "ledger_ok (w_ledger w)"
  shows "pl_signal_id plan = sid" "signal_state sid (w_ledger w) = Some AWAITING_APPROVAL"
    and "instant (pl_signal_time plan) \<le> instant t" "ledger_plan sid (w_ledger w) = Inr (Some plan)"
  using assms
  by (auto simp: approvable_plan_def res_simps ledger_plan_def ledger_ok_def signals_ok_def
      signal_row_ok_def dt_less_def dest!: sql_first_Some split: option.splits if_splits)

context ledger_frame
begin

lemma R_tripped: "w' = w \<or> tripped t w w' \<Longrightarrow> R w w'"
  using R_kill[of True _ "''system''" t]
  by (auto simp: tripped_def R_refl keeps_def commit_eq) (metis (lifting) snd_conv sum.case(2))

lemma keeps_submit_at:
  assumes "validate_plan (ct_policy c) plan t True w = Inr () \<Longrightarrow> scope plan"
  shows "R w (snd (submit c plan t w))"
proof -
  obtain r w' where s: "submit c plan t w = (r, w')" by (cases "submit c plan t w")
  from s have "R w w'"
  proof (cases rule: submit_cases)
    case (rejected e)
    then show ?thesis by (intro R_tripped)
  next
    case (accepted l1)
    have sc: "scope plan" using assms accepted(3) by blast
    have "R w (w\<lparr>w_ledger := l1\<rparr>)"
      using R_record_signal[OF sc, of RECEIVED t] accepted(4) by (auto simp: keeps_def commit_eq
          dest: spec[of _ w])
    moreover have "R (w\<lparr>w_ledger := l1\<rparr>) w'"
      using keeps_in_mode[OF sc, of c t] accepted(5) by (auto simp: keeps_def
          dest: spec[of _ "w\<lparr>w_ledger := l1\<rparr>"])
    ultimately show ?thesis by (rule R_trans)
  qed
  with s show ?thesis by simp
qed

lemma keeps_approve_at:
  assumes "\<And>plan. approvable_plan sid (approval_instant approved_at t) w = Inr plan
      \<Longrightarrow> validate_plan (ct_policy c) plan t False w = Inr ()
      \<Longrightarrow> scope plan \<and> pl_signal_id plan = sid"
  shows "R w (snd (approve c sid actor reason approved_at t w))"
proof -
  obtain r w' where s: "approve c sid actor reason approved_at t w = (r, w')"
    by (cases "approve c sid actor reason approved_at t w")
  from s have "R w w'"
  proof (cases rule: approve_cases)
    case (rejected e)
    then show ?thesis by (intro R_tripped)
  next
    case (accepted plan l1)
    from assms[OF accepted(4,5)] have sc: "scope plan" and sid: "pl_signal_id plan = sid" by auto
    let ?a = "approval_record sid actor reason (approval_instant approved_at t)"
    have "keeps R (commit (record_approval ?a))"
      by (rule R_approval[OF sc]) (simp add: approval_record_def sid)
    then have "R w (w\<lparr>w_ledger := l1\<rparr>)"
      using accepted(6) by (auto simp: keeps_def commit_eq dest: spec[of _ w])
    moreover have "R (w\<lparr>w_ledger := l1\<rparr>) w'"
      using keeps_paper[OF sc, of c t] accepted(7) by (auto simp: keeps_def
          dest: spec[of _ "w\<lparr>w_ledger := l1\<rparr>"])
    ultimately show ?thesis by (rule R_trans)
  qed
  with s show ?thesis by simp
qed

end

end
