(* ===== verification/ControllerSafety.thy ===== *)
theory ControllerSafety
  imports ControllerInv "HOL-Library.Sublist"
begin

text \<open>
  Safety of the execution state machine over every history: the reachable worlds of a
  controller, the invariants they have, and the abstract life cycle of a signal that the
  detailed operations refine.
\<close>

subsection \<open>Effects of the ledger operations on signals and orders\<close>

definition signal_keys :: "ledger \<Rightarrow> (string \<times> string \<times> jobject) list" where
  "signal_keys l = List.map (\<lambda>r. (sr_signal_id r, sr_correlation_id r, sr_plan_json r)) (lg_signals l)"

lemma signal_keys_set_state [simp]:
  "List.map (\<lambda>r. (sr_signal_id r, sr_correlation_id r, sr_plan_json r)) (set_signal_state sid s w t)
    = List.map (\<lambda>r. (sr_signal_id r, sr_correlation_id r, sr_plan_json r)) t"
  by (simp add: set_signal_state_def map_sql_update)

lemma signal_state_set_state:
  "map_option sr_state (sql_first (\<lambda>r. sr_signal_id r = x) (set_signal_state sid s w t))
    = (if x = sid then map_option (\<lambda>_. s) (sql_first (\<lambda>r. sr_signal_id r = x) t)
       else map_option sr_state (sql_first (\<lambda>r. sr_signal_id r = x) t))"
  unfolding set_signal_state_def
  by (subst sql_first_update)
    (auto simp: option.map_comp intro!: option.map_cong0 dest!: sql_first_Some split: option.splits)

lemma signal_state_None_iff: "signal_state x l = None \<longleftrightarrow> x \<notin> set (signal_ids l)"
  by (auto simp: signal_state_def signal_ids_def sql_first_None)

lemma signal_exists_iff: "signal_exists x l \<longleftrightarrow> x \<in> set (signal_ids l)"
  using signal_state_None_iff[of x l] by (auto simp: signal_exists_def signal_state_def)

text \<open>Recording a signal adds exactly one state and leaves the other tables alone.\<close>

lemma record_signalD:
  assumes "record_signal plan s t l = Inr l'"
  shows "signal_state (pl_signal_id plan) l = None" "is_aware t"
    and "signal_state x l' = (if x = pl_signal_id plan then Some s else signal_state x l)"
    and "lg_orders l' = lg_orders l" "lg_approvals l' = lg_approvals l"
    and "lg_positions l' = lg_positions l" "lg_kill_switch l' = lg_kill_switch l"
    and "lg_fills l' = lg_fills l" "lg_journal l' = lg_journal l"
    and "signal_keys l' = signal_keys l @ [(pl_signal_id plan, pl_correlation_id plan, plan_to_dict plan)]"
    and "\<exists>e. lg_events l' = lg_events l @ [e]"
proof -
  define r where "r = new_signal_row plan s (instant t)"
  have r: "sr_signal_id r = pl_signal_id plan" "sr_state r = s"
    by (simp_all add: r_def new_signal_row_def)
  have ins: "sql_insert signals_admit r (lg_signals l) = Inr (lg_signals l @ [r])"
    and l': "lg_signals l' = lg_signals l @ [r]"
    using assms by (auto simp: record_signal_def res_simps r_def)
  show "signal_state (pl_signal_id plan) l = None"
    using ins r by (auto simp: signal_state_None_iff signal_ids_def sql_insert_eq_Inr signals_admit_def)
  show "signal_state x l' = (if x = pl_signal_id plan then Some s else signal_state x l)"
    using sig_id.insert_lookup[OF ins, of x] sig_id.insert_lookup_other[OF ins, of x] r
    by (auto simp: signal_state_def l')
qed (use assms in \<open>auto simp: record_signal_def res_simps signal_keys_def new_signal_row_def\<close>)

lemma update_signal_stateD:
  assumes "update_signal_state sid s t l = Inr l'"
  shows "signal_state sid l \<noteq> None"
    and "signal_state x l' = (if x = sid then Some s else signal_state x l)"
    and "lg_orders l' = lg_orders l" "lg_approvals l' = lg_approvals l"
    and "lg_positions l' = lg_positions l" "lg_kill_switch l' = lg_kill_switch l"
    and "lg_fills l' = lg_fills l" "lg_journal l' = lg_journal l"
    and "signal_keys l' = signal_keys l"
    and "\<exists>e. lg_events l' = lg_events l @ [e]"
proof -
  have "sql_rowcount (\<lambda>r. sr_signal_id r = sid) (lg_signals l) = 1"
    using assms by (auto simp: update_signal_state_def res_simps)
  then have "filter (\<lambda>r. sr_signal_id r = sid) (lg_signals l) \<noteq> []"
    by (auto simp: sql_rowcount_def)
  then show ex: "signal_state sid l \<noteq> None"
    by (auto simp: signal_state_None_iff signal_ids_def filter_empty_conv)
  have "lg_signals l' = set_signal_state sid s (instant t) (lg_signals l)"
    using assms by (auto simp: update_signal_state_def res_simps)
  then show "signal_state x l' = (if x = sid then Some s else signal_state x l)"
    using ex by (auto simp: signal_state_def signal_state_set_state)
qed (use assms in \<open>auto simp: update_signal_state_def res_simps signal_keys_def\<close>)

text \<open>The update of a recorded signal at an aware time succeeds.\<close>

lemma update_signal_state_succeeds:
  assumes "ledger_ok l" "signal_state sid l \<noteq> None" "is_aware t"
  shows "\<exists>l'. update_signal_state sid s t l = Inr l'"
proof -
  have "sql_rowcount (\<lambda>r. sr_signal_id r = sid) (lg_signals l) = 1"
    using assms(1,2) by (intro unique_rows_count)
      (auto simp: ledger_ok_def signals_ok_def signal_state_None_iff signal_ids_def)
  then show ?thesis
    using assms(3) by (auto simp: update_signal_state_def timestamp_def record_event_def)
qed

lemma insert_fills_frame:
  "fold_res insert_fill fs l = Inr l' \<Longrightarrow> l' = l\<lparr>lg_fills := lg_fills l'\<rparr> \<and> prefix (lg_fills l) (lg_fills l')"
proof (erule fold_res_invariant[where I = "\<lambda>m. m = l\<lparr>lg_fills := lg_fills m\<rparr> \<and> prefix (lg_fills l) (lg_fills m)"])
  show "l = l\<lparr>lg_fills := lg_fills l\<rparr> \<and> prefix (lg_fills l) (lg_fills l)" by simp
next
  fix f m n
  assume m: "m = l\<lparr>lg_fills := lg_fills m\<rparr> \<and> prefix (lg_fills l) (lg_fills m)"
    and n: "insert_fill f m = Inr n"
  from n obtain r where "n = m\<lparr>lg_fills := lg_fills m @ [r]\<rparr>"
    by (auto simp: insert_fill_def res_simps)
  with m show "n = l\<lparr>lg_fills := lg_fills n\<rparr> \<and> prefix (lg_fills l) (lg_fills n)"
    by (metis (no_types, lifting) ledger.select_convs(4) ledger.surjective ledger.update_convs(4)
        prefix_prefix prefixI prefix_order.trans)
qed

lemma record_executionD:
  assumes "record_execution o1 fs t l = Inr (p, l')"
  shows "bo_signal_id o1 \<in> set (signal_ids l)" "is_aware t"
    and "signal_state x l' = (if x = bo_signal_id o1 then Some (executed_state o1) else signal_state x l)"
    and "lg_orders l' = lg_orders l @ [order_row_of o1]" "lg_approvals l' = lg_approvals l"
    and "lg_kill_switch l' = lg_kill_switch l" "prefix (lg_fills l) (lg_fills l')"
    and "prefix (lg_positions l) (lg_positions l')" "prefix (lg_journal l) (lg_journal l')"
    and "prefix (lg_events l) (lg_events l')" "signal_keys l' = signal_keys l"
    and "p = opened_position o1 t" "sql_insert (orders_admit (signal_ids l)) (order_row_of o1)
      (lg_orders l) = Inr (lg_orders l @ [order_row_of o1])"
proof -
  obtain l1 l2 l3 where 1: "insert_order o1 l = Inr l1" and 2: "fold_res insert_fill fs l1 = Inr l2"
    and 3: "insert_opened (opened_position o1 t) l2 = Inr l3"
    and 4: "finish_execution o1 t l3 = Inr l'" and p: "p = opened_position o1 t"
    using assms by (auto simp: record_execution_def bindr_eq_Inr)
  show "p = opened_position o1 t" by (rule p)
  note l1 = insert_orderD(1)[OF 1] and ins = insert_orderD(2)[OF 1]
  have l2: "l2 = l1\<lparr>lg_fills := lg_fills l2\<rparr>" "prefix (lg_fills l1) (lg_fills l2)"
    using insert_fills_frame[OF 2] by auto
  have l3: "l3 = l2\<lparr>lg_positions := lg_positions l3\<rparr>" "prefix (lg_positions l2) (lg_positions l3)"
    using insert_openedD[OF 3] by auto
  have l4: "is_aware t" "lg_signals l' = set_signal_state (bo_signal_id o1) (executed_state o1) (instant t) (lg_signals l3)"
    "l' = l3\<lparr>lg_signals := lg_signals l', lg_journal := lg_journal l', lg_events := lg_events l'\<rparr>"
    "prefix (lg_journal l3) (lg_journal l')" "prefix (lg_events l3) (lg_events l')"
    using 4 by (auto simp: finish_execution_def res_simps)
  show "is_aware t" by (rule l4(1))
  have sig: "lg_signals l3 = lg_signals l"
    by (subst l3(1), simp, subst l2(1), simp add: l1)
  show mem: "bo_signal_id o1 \<in> set (signal_ids l)"
    using ins by (auto simp: sql_insert_eq_Inr orders_admit_def order_row_of_def)
  then show "signal_state x l' = (if x = bo_signal_id o1 then Some (executed_state o1) else signal_state x l)"
    using signal_state_None_iff[of "bo_signal_id o1" l]
    by (auto simp: signal_state_def l4(2) sig signal_state_set_state)
  show "sql_insert (orders_admit (signal_ids l)) (order_row_of o1) (lg_orders l)
      = Inr (lg_orders l @ [order_row_of o1])" by (rule ins)
  show "signal_keys l' = signal_keys l" by (simp add: signal_keys_def l4(2) sig)
  show "lg_orders l' = lg_orders l @ [order_row_of o1]" "lg_approvals l' = lg_approvals l"
    "lg_kill_switch l' = lg_kill_switch l"
    by (subst l4(3), simp, subst l3(1), simp, subst l2(1), simp add: l1)+
  show "prefix (lg_fills l) (lg_fills l')"
    by (subst l4(3), simp, subst l3(1), simp) (use l2(2) l1 in simp)
  show "prefix (lg_positions l) (lg_positions l')"
    by (subst l4(3), simp) (use l3(2) in \<open>subst (asm) l2(1), simp add: l1\<close>)
  show "prefix (lg_journal l) (lg_journal l')"
    using l4(4) by (subst (asm) l3(1), simp, subst (asm) l2(1), simp add: l1)
  show "prefix (lg_events l) (lg_events l')"
    using l4(5) by (subst (asm) l3(1), simp, subst (asm) l2(1), simp add: l1)
qed

lemma ledger_set_kill_switchD:
  assumes "ledger_set_kill_switch active reason actor t l = Inr l'"
  shows "ks_active (lg_kill_switch l') = active" "ks_reason (lg_kill_switch l') = Some (py_strip reason)"
    and "l' = l\<lparr>lg_kill_switch := lg_kill_switch l', lg_events := lg_events l'\<rparr>"
    and "prefix (lg_events l) (lg_events l')" "is_aware t" "py_strip actor \<noteq> []" "py_strip reason \<noteq> []"
  using assms by (auto simp: ledger_set_kill_switch_def res_simps split: if_splits)

lemma record_approvalD:
  assumes "record_approval a l = Inr l'"
  shows "\<exists>r. av_signal_id r = ap_signal_id a \<and> av_approved_at r = instant (ap_approved_at a)
      \<and> av_actor r = py_strip (ap_actor a) \<and> lg_approvals l' = lg_approvals l @ [r]"
    and "l' = l\<lparr>lg_approvals := lg_approvals l', lg_events := lg_events l'\<rparr>"
    and "is_aware (ap_approved_at a)"
  using assms by (auto simp: record_approval_def Let_def res_simps split: if_splits)

subsection \<open>The history only grows\<close>

text \<open>
  Signals with their plans, approvals, orders, fills, journal and events are append-only; a
  closed position is never changed again.
\<close>

definition history_le :: "ledger \<Rightarrow> ledger \<Rightarrow> bool" where
  "history_le l l' \<longleftrightarrow> prefix (signal_keys l) (signal_keys l')
     \<and> prefix (lg_approvals l) (lg_approvals l') \<and> prefix (lg_orders l) (lg_orders l')
     \<and> prefix (lg_fills l) (lg_fills l') \<and> prefix (lg_journal l) (lg_journal l')
     \<and> prefix (lg_events l) (lg_events l')
     \<and> (\<forall>r\<in>set (lg_positions l). lp_state r = CLOSED \<longrightarrow> r \<in> set (lg_positions l'))"

lemma history_le_refl [simp]: "history_le l l"
  by (simp add: history_le_def)

lemma history_le_trans: "history_le a b \<Longrightarrow> history_le b c \<Longrightarrow> history_le a c"
  unfolding history_le_def by (meson prefix_order.trans)

definition grows :: "world \<Rightarrow> world \<Rightarrow> bool" where
  "grows w w' \<longleftrightarrow> prefix (w_calls w) (w_calls w') \<and> history_le (w_ledger w) (w_ledger w')
     \<and> (ledger_ok (w_ledger w) \<longrightarrow> ledger_ok (w_ledger w'))"

lemma keeps_commitI:
  "(\<And>w. R w w) \<Longrightarrow> (\<And>w l. f (w_ledger w) = Inr l \<Longrightarrow> R w (w\<lparr>w_ledger := l\<rparr>)) \<Longrightarrow> keeps R (commit f)"
  by (auto simp: keeps_def commit_eq split: sum.splits)

lemma keeps_transactI:
  "(\<And>w. R w w) \<Longrightarrow> (\<And>w x l. f (w_ledger w) = Inr (x, l) \<Longrightarrow> R w (w\<lparr>w_ledger := l\<rparr>))
    \<Longrightarrow> keeps R (transact f)"
  by (auto simp: keeps_def transact_def split: sum.splits)

lemma keeps_callI:
  assumes "\<And>w x. R w (w\<lparr>w_calls := w_calls w @ [x]\<rparr>)"
  shows "keeps R (call_submit g plan cid)" "keeps R (call_lookup g cid)"
  using assms by (simp_all add: keeps_def call_submit_def call_lookup_def)

lemma grows_ledger:
  "history_le (w_ledger w) l \<Longrightarrow> (ledger_ok (w_ledger w) \<Longrightarrow> ledger_ok l)
    \<Longrightarrow> grows w (w\<lparr>w_ledger := l\<rparr>)"
  by (simp add: grows_def)

lemma grows_refl [simp]: "grows w w"
  by (simp add: grows_def)

lemma grows_call: "grows w (w\<lparr>w_calls := w_calls w @ [x]\<rparr>)"
  by (simp add: grows_def)

lemma record_signal_le: "record_signal plan s t l = Inr l' \<Longrightarrow> history_le l l'"
  using record_signalD[of plan s t l l'] by (auto simp: history_le_def)

lemma update_signal_state_le: "update_signal_state sid s t l = Inr l' \<Longrightarrow> history_le l l'"
  using update_signal_stateD[of sid s t l l'] by (auto simp: history_le_def)

lemma record_approval_le: "record_approval a l = Inr l' \<Longrightarrow> history_le l l'"
  by (auto simp: record_approval_def Let_def res_simps history_le_def signal_keys_def split: if_splits)

lemma record_execution_le: "record_execution o1 fs t l = Inr (p, l') \<Longrightarrow> history_le l l'"
  using record_executionD[of o1 fs t l p l'] by (auto simp: history_le_def dest: set_mono_prefix)

lemma ledger_set_kill_switch_le:
  "ledger_set_kill_switch active reason actor t l = Inr l' \<Longrightarrow> history_le l l'"
  by (auto simp: ledger_set_kill_switch_def res_simps history_le_def signal_keys_def split: if_splits)

lemma close_position_le:
  assumes "close_position pid px t l = Inr (pnl, l')" "ledger_ok l"
  shows "history_le l l'"
proof -
  have jn: "prefix (lg_journal l) (lg_journal l')" "prefix (lg_events l) (lg_events l')"
    using assms(1) by (auto simp: close_position_def Let_def res_simps split: if_splits option.splits)
  from assms(1) obtain x r where r: "r \<in> set (lg_positions l)" "lp_position_id r = pid"
      "lp_state r = OPEN"
    and pos: "lg_positions l' = sql_update (\<lambda>q. lp_position_id q = pid)
          (closed_row (instant t) (utc_day t) pnl) (lg_positions l)"
    and l': "l' = l\<lparr>lg_positions := lg_positions l', lg_journal := lg_journal l',
          lg_events := lg_events l'\<rparr>"
    by (rule close_positionD)
  have same: "q = r" if "q \<in> set (lg_positions l)" "lp_position_id q = pid" for q
    using unique_rows_same[of "\<lambda>r. Some (lp_position_id r)" _ q r pid] that r assms(2)
    by (auto simp: ledger_ok_def positions_ok_def)
  have "q \<in> set (lg_positions l')" if "q \<in> set (lg_positions l)" "lp_state q = CLOSED" for q
    using same[OF that(1)] that r(3) by (auto simp: pos set_sql_update image_iff intro!: bexI[of _ q])
  then show ?thesis using jn by (subst l') (simp add: history_le_def signal_keys_def)
qed

interpretation grow: ledger_frame grows "\<lambda>_. True"
proof unfold_locales
  show "grows u v \<Longrightarrow> grows v w \<Longrightarrow> grows u w" for u v w
    unfolding grows_def by (meson history_le_trans prefix_order.trans)
qed (auto intro!: keeps_commitI keeps_transactI keeps_callI grows_ledger
    intro: record_signal_le record_signal_ok update_signal_state_le update_signal_state_ok
      record_approval_le record_approval_ok record_execution_le record_execution_ok
      ledger_set_kill_switch_le ledger_set_kill_switch_ok grows_call)

subsection \<open>An operation touches its own signal only\<close>

definition only_signal :: "string \<Rightarrow> world \<Rightarrow> world \<Rightarrow> bool" where
  "only_signal sid w w' \<longleftrightarrow> (\<forall>x. x \<noteq> sid \<longrightarrow>
     signal_state x (w_ledger w') = signal_state x (w_ledger w))"

lemma only_signal_ledger:
  "(\<And>x. x \<noteq> sid \<Longrightarrow> signal_state x l = signal_state x (w_ledger w))
    \<Longrightarrow> only_signal sid w (w\<lparr>w_ledger := l\<rparr>)"
  by (simp add: only_signal_def)

interpretation only: ledger_frame "only_signal sid" "\<lambda>plan. pl_signal_id plan = sid"
proof unfold_locales
  show "order_for plan o1 \<Longrightarrow> pl_signal_id plan = sid
      \<Longrightarrow> keeps (only_signal sid) (transact (record_execution o1 fs t))" for plan o1 fs t
    by (rule keeps_transactI)
      (simp_all add: only_signal_def order_for_def, metis record_executionD(3))
  show "keeps (only_signal sid) (commit (record_approval a))" for a
    by (rule keeps_commitI)
      (auto simp: only_signal_def record_approval_def Let_def res_simps signal_state_def split: if_splits)
  show "keeps (only_signal sid) (commit (ledger_set_kill_switch active reason actor t))"
    for active reason actor t
    by (rule keeps_commitI)
      (auto simp: only_signal_def ledger_set_kill_switch_def res_simps signal_state_def split: if_splits)
qed (auto intro!: keeps_commitI keeps_callI only_signal_ledger
    simp: only_signal_def record_signalD(3) update_signal_stateD(2))

end
