(* ===== verification/Execution.thy ===== *)
theory Execution
  imports ControllerSafety Systems
begin

text \<open>
  The histories of the execution controller.  A step is one public operation of the controller,
  or the closing of a position in its ledger; the reachable worlds are those of a controller
  started on an empty ledger.
\<close>

subsection \<open>What an operation does to the ledger\<close>

text \<open>
  After a signal is recorded, exactly one of these happens; \<open>S\<close> are the states the mode may
  set without an execution.
\<close>

inductive ledger_outcome ::
  "SignalExecutionState list \<Rightarrow> trade_plan \<Rightarrow> datetime \<Rightarrow> ledger \<Rightarrow> ledger \<Rightarrow> bool"
  for S plan now l where
  unchanged: "ledger_outcome S plan now l l"
| stated: "s \<in> set S \<Longrightarrow> s \<in> {BLOCKED, AWAITING_APPROVAL} \<Longrightarrow>
    update_signal_state (pl_signal_id plan) s now l = Inr l' \<Longrightarrow> ledger_outcome S plan now l l'"
| executed: "order_for plan o1 \<Longrightarrow> record_execution o1 fs now l = Inr (p, l') \<Longrightarrow>
    ledger_outcome S plan now l l'"
| uncertain: "order_for plan o1 \<Longrightarrow> record_execution o1 [] now l = Inr (p, l1) \<Longrightarrow>
    update_signal_state (pl_signal_id plan) UNCERTAIN now l1 = Inr l' \<Longrightarrow>
    ledger_outcome S plan now l l'"

lemma execute_paper_cases:
  assumes "execute_paper c plan now w = (r, w')"
  obtains (failed) e where "r = Inl e" "w' = w"
  | (recorded) o1 fs p l where "paper_submit (ct_digest c) (ct_paper c) plan now = Inr (o1, fs)"
    "record_execution o1 fs now (w_ledger w) = Inr (p, l)" "w' = w\<lparr>w_ledger := l\<rparr>"
    "r = Inr (result_of plan o1 fs)"
proof (cases "paper_submit (ct_digest c) (ct_paper c) plan now")
  case (Inl e)
  then show thesis using assms failed by (auto simp: execute_paper_def action_simps)
next
  case (Inr of1)
  obtain o1 fs where of1: "of1 = (o1, fs)" by (cases of1)
  show thesis
  proof (cases "record_execution o1 fs now (w_ledger w)")
    case (Inl e)
    then show thesis using assms of1 failed \<open>paper_submit _ _ plan now = Inr of1\<close>
      by (auto simp: execute_paper_def action_simps)
  next
    case (Inr pl)
    obtain p l where "pl = (p, l)" by (cases pl)
    then show thesis
      using assms Inr of1 recorded \<open>paper_submit _ _ plan now = Inr of1\<close>
      by (auto simp: execute_paper_def action_simps)
  qed
qed

lemma paper_order_for: "paper_submit d c plan now = Inr (o1, fs) \<Longrightarrow> order_for plan o1"
  by (auto simp: paper_submit_eq_Inr order_for_paper)

lemma execute_paper_outcome:
  "execute_paper c plan now w = (r, w') \<Longrightarrow>
     w_calls w' = w_calls w \<and> ledger_outcome S plan now (w_ledger w) (w_ledger w')"
  by (erule execute_paper_cases)
    (auto intro: ledger_outcome.unchanged ledger_outcome.executed paper_order_for)

lemma block_live_outcome:
  "block_live plan now msg w = (r, w') \<Longrightarrow>
     w_calls w' = w_calls w \<and> ledger_outcome [BLOCKED] plan now (w_ledger w) (w_ledger w')"
  by (auto simp: block_live_def action_simps intro: ledger_outcome.intros split: sum.splits)

lemma record_live_outcome:
  "record_live plan now ack w = (r, w') \<Longrightarrow>
     w_calls w' = w_calls w \<and> ledger_outcome S plan now (w_ledger w) (w_ledger w')"
  by (auto simp: record_live_def action_simps
      intro: ledger_outcome.unchanged ledger_outcome.executed[OF order_for_live]
      split: sum.splits if_splits prod.splits)

text \<open>
  The acknowledgement costs one submission, and a lookup when it timed out; when neither gives
  one, the order is on record as unknown, or nothing is.
\<close>

definition submission_calls :: "trade_plan \<Rightarrow> gateway_call list set" where
  "submission_calls plan = {[SubmitCall plan (pl_correlation_id plan)],
     [SubmitCall plan (pl_correlation_id plan), LookupCall (pl_correlation_id plan)]}"

lemma record_unknown_outcome:
  assumes "record_unknown plan now w = (r, w')"
  shows "w_calls w' = w_calls w \<and> (\<exists>e. r = Inl e)"
    and "ledger_ok (w_ledger w) \<Longrightarrow> ledger_outcome S plan now (w_ledger w) (w_ledger w')"
proof -
  let ?o = "live_order plan (unknown_ack plan) now"
  show "w_calls w' = w_calls w \<and> (\<exists>e. r = Inl e)"
    using assms by (auto simp: record_unknown_def action_simps split: sum.splits prod.splits)
  assume ok: "ledger_ok (w_ledger w)"
  show "ledger_outcome S plan now (w_ledger w) (w_ledger w')"
  proof (cases "record_execution ?o [] now (w_ledger w)")
    case (Inl e)
    then show ?thesis
      using assms by (auto simp: record_unknown_def action_simps intro: ledger_outcome.unchanged)
  next
    case (Inr pl1)
    obtain p l1 where pl1: "pl1 = (p, l1)" by (cases pl1)
    have rec: "record_execution ?o [] now (w_ledger w) = Inr (p, l1)" using Inr pl1 by simp
    show ?thesis
    proof (cases "update_signal_state (pl_signal_id plan) UNCERTAIN now l1")
      case (Inl e)
      then have "w_ledger w' = l1"
        using assms rec by (auto simp: record_unknown_def action_simps)
      then show ?thesis using ledger_outcome.executed[OF order_for_live rec] by simp
    next
      case (Inr l2)
      then have "w_ledger w' = l2"
        using assms rec by (auto simp: record_unknown_def action_simps)
      then show ?thesis using ledger_outcome.uncertain[OF order_for_live rec Inr] by simp
    qed
  qed
qed

lemma obtain_ack_outcome:
  assumes "obtain_ack g plan now w = (r, w')" "ledger_ok (w_ledger w)"
  shows "(\<exists>xs\<in>submission_calls plan. w_calls w' = w_calls w @ xs)
    \<and> (case r of Inl e \<Rightarrow> ledger_outcome S plan now (w_ledger w) (w_ledger w')
       | Inr ack \<Rightarrow> w_ledger w' = w_ledger w)"
proof (cases "gw_submit_order g (w_calls w) plan (pl_correlation_id plan) = Inl TimeoutError")
  case False
  then show ?thesis
    using assms(1)
    by (auto simp: obtain_ack_def call_submit_def submission_calls_def
        intro: ledger_outcome.unchanged split: sum.splits py_error.splits)
next
  case True
  let ?w1 = "w\<lparr>w_calls := w_calls w @ [SubmitCall plan (pl_correlation_id plan)]\<rparr>"
  let ?w2 = "w\<lparr>w_calls := w_calls w @ [SubmitCall plan (pl_correlation_id plan),
    LookupCall (pl_correlation_id plan)]\<rparr>"
  have rec: "reconcile g plan now ?w1 = (r, w')"
    using assms(1) True by (simp add: obtain_ack_def call_submit_def)
  show ?thesis
  proof (cases "gw_lookup_by_correlation g (w_calls ?w1) (pl_correlation_id plan)")
    case (Inl e)
    then show ?thesis
      using rec by (auto simp: reconcile_def call_lookup_def seqw_def submission_calls_def
          intro: ledger_outcome.unchanged)
  next
    case (Inr ack)
    show ?thesis
    proof (cases ack)
      case None
      then have "record_unknown plan now ?w2 = (r, w')"
        using rec Inr by (simp add: reconcile_def call_lookup_def seqw_def)
      from record_unknown_outcome[OF this] show ?thesis
        using assms(2) by (auto simp: submission_calls_def)
    next
      case (Some a)
      then show ?thesis
        using rec Inr by (auto simp: reconcile_def call_lookup_def seqw_def ret_def
            submission_calls_def)
    qed
  qed
qed

text \<open>Calls of the gateway that an operation may add.\<close>

definition live_allowed :: "controller \<Rightarrow> bool" where
  "live_allowed c \<longleftrightarrow> xp_mode (ct_policy c) = LIVE_AUTOMATIC \<and> xp_live_enabled (ct_policy c)
     \<and> ct_live c \<noteq> None"

lemma execute_live_outcome:
  assumes "execute_live c plan now w = (r, w')" "ledger_ok (w_ledger w)"
  shows "ledger_outcome [BLOCKED] plan now (w_ledger w) (w_ledger w')"
    and "w_calls w' = w_calls w \<or> (xp_live_enabled (ct_policy c) \<and> ct_live c \<noteq> None
      \<and> (\<exists>xs\<in>submission_calls plan. w_calls w' = w_calls w @ xs))"
proof -
  have "ledger_outcome [BLOCKED] plan now (w_ledger w) (w_ledger w')
    \<and> (w_calls w' = w_calls w \<or> (xp_live_enabled (ct_policy c) \<and> ct_live c \<noteq> None
      \<and> (\<exists>xs\<in>submission_calls plan. w_calls w' = w_calls w @ xs)))"
  proof (cases "\<not> xp_live_enabled (ct_policy c) \<or> ct_live c = None")
    case True
    then obtain msg where "block_live plan now msg w = (r, w')"
      using assms(1) by (auto simp: execute_live_def split: if_splits)
    from block_live_outcome[OF this] show ?thesis by simp
  next
    case False
    then obtain g where g: "ct_live c = Some g" "xp_live_enabled (ct_policy c)" by auto
    obtain a w1 where ack: "obtain_ack g plan now w = (a, w1)" by (cases "obtain_ack g plan now w")
    note out = obtain_ack_outcome[OF ack assms(2)]
    show ?thesis
    proof (cases a)
      case (Inl e)
      then show ?thesis using assms(1) g ack out by (auto simp: execute_live_def seqw_def)
    next
      case (Inr x)
      then have "record_live plan now x w1 = (r, w')"
        using assms(1) g ack by (simp add: execute_live_def seqw_def)
      from record_live_outcome[OF this] show ?thesis using g out Inr by auto
    qed
  qed
  then show "ledger_outcome [BLOCKED] plan now (w_ledger w) (w_ledger w')"
    and "w_calls w' = w_calls w \<or> (xp_live_enabled (ct_policy c) \<and> ct_live c \<noteq> None
      \<and> (\<exists>xs\<in>submission_calls plan. w_calls w' = w_calls w @ xs))" by auto
qed

fun stated_in :: "ExecutionMode \<Rightarrow> SignalExecutionState list" where
  "stated_in PAPER_TRADING = []"
| "stated_in MANUAL_APPROVAL = [AWAITING_APPROVAL]"
| "stated_in _ = [BLOCKED]"

lemma submit_in_mode_outcome:
  assumes "submit_in_mode c plan now w = (r, w')" "ledger_ok (w_ledger w)"
  shows "ledger_outcome (stated_in (xp_mode (ct_policy c))) plan now (w_ledger w) (w_ledger w')"
    and "w_calls w' = w_calls w \<or> (live_allowed c
      \<and> (\<exists>xs\<in>submission_calls plan. w_calls w' = w_calls w @ xs))"
proof -
  have "ledger_outcome (stated_in (xp_mode (ct_policy c))) plan now (w_ledger w) (w_ledger w')
    \<and> (w_calls w' = w_calls w \<or> (live_allowed c
      \<and> (\<exists>xs\<in>submission_calls plan. w_calls w' = w_calls w @ xs)))"
  proof (cases "xp_mode (ct_policy c) \<in> {PAPER_TRADING, LIVE_AUTOMATIC}")
    case True
    then show ?thesis
      using assms(1) execute_paper_outcome[of c plan now w r w']
        execute_live_outcome[of c plan now w r w'] assms(2)
      by (auto simp: submit_in_mode_def live_allowed_def)
  next
    case False
    then show ?thesis
      using assms(1)
      by (cases "xp_mode (ct_policy c)")
        (auto simp: submit_in_mode_def action_simps intro: ledger_outcome.intros split: sum.splits)
  qed
  then show "ledger_outcome (stated_in (xp_mode (ct_policy c))) plan now (w_ledger w) (w_ledger w')"
    and "w_calls w' = w_calls w \<or> (live_allowed c
      \<and> (\<exists>xs\<in>submission_calls plan. w_calls w' = w_calls w @ xs))" by auto
qed

end
