(* ===== verification/ExecutionInv.thy ===== *)
theory ExecutionInv
  imports Execution
begin

text \<open>
  The invariants of every reachable world of the execution controller: the ledger is sound, a
  signal's state says whether it has an order, every order was within the limits of the policy,
  and the gateway was asked at most once for each signal.
\<close>

subsection \<open>Histories\<close>

definition initial_world :: "world \<Rightarrow> bool" where
  "initial_world w \<longleftrightarrow> w_calls w = [] \<and> (\<exists>t. w_ledger w = initial_ledger t)"

inductive controller_step :: "controller \<Rightarrow> world \<Rightarrow> world \<Rightarrow> bool" for c where
  step_submit: "submit c plan t w = (r, w') \<Longrightarrow> controller_step c w w'"
| step_approve: "approve c sid actor reason approved_at t w = (r, w') \<Longrightarrow> controller_step c w w'"
| step_kill: "controller_set_kill_switch active actor reason t w = (r, w') \<Longrightarrow> controller_step c w w'"
| step_registry: "replace_instrument_registry instruments w = (r, w') \<Longrightarrow> controller_step c w w'"
| step_close: "close_position pid px t (w_ledger w) = Inr (pnl, l) \<Longrightarrow>
    controller_step c w (w\<lparr>w_ledger := l\<rparr>)"

text \<open>The states of a signal whose order is on record.\<close>

definition executed_states :: "SignalExecutionState list" where
  "executed_states = [SUBMITTED, PARTIALLY_FILLED, FILLED, UNCERTAIN]"

definition has_order :: "string \<Rightarrow> ledger \<Rightarrow> bool" where
  "has_order sid l \<longleftrightarrow> sid \<in> set (List.map lo_signal_id (lg_orders l))"

definition executed_signal :: "string \<Rightarrow> ledger \<Rightarrow> bool" where
  "executed_signal sid l \<longleftrightarrow> (case signal_state sid l of None \<Rightarrow> False
     | Some s \<Rightarrow> s \<in> set executed_states)"

definition agrees :: "ledger \<Rightarrow> bool" where
  "agrees l \<longleftrightarrow> (\<forall>sid. has_order sid l = executed_signal sid l)"

definition within_limits :: "policy \<Rightarrow> order_row \<Rightarrow> bool" where
  "within_limits p q \<longleftrightarrow> 0 < lo_quantity q \<and> lo_quantity q \<le> xp_max_order_quantity p
     \<and> 0 < lo_limit_price q
     \<and> dmul (lo_limit_price q) (of_int (lo_quantity q)) \<le> xp_max_order_notional p"

definition approved :: "ledger \<Rightarrow> order_row \<Rightarrow> bool" where
  "approved l q \<longleftrightarrow> lo_signal_id q \<in> set (List.map av_signal_id (lg_approvals l))"

fun submissions :: "gateway_call list \<Rightarrow> trade_plan list" where
  "submissions [] = []"
| "submissions (SubmitCall plan cid # cs) = plan # submissions cs"
| "submissions (LookupCall cid # cs) = submissions cs"

definition plan_key :: "trade_plan \<Rightarrow> string \<times> string \<times> jobject" where
  "plan_key plan = (pl_signal_id plan, pl_correlation_id plan, plan_to_dict plan)"

definition submissions_ok :: "world \<Rightarrow> bool" where
  "submissions_ok w \<longleftrightarrow> distinct (List.map pl_signal_id (submissions (w_calls w)))
     \<and> (\<forall>plan\<in>set (submissions (w_calls w)). plan_key plan \<in> set (signal_keys (w_ledger w)))"

definition world_ok :: "controller \<Rightarrow> world \<Rightarrow> bool" where
  "world_ok c w \<longleftrightarrow> ledger_ok (w_ledger w) \<and> agrees (w_ledger w)
     \<and> (\<forall>q\<in>set (lg_orders (w_ledger w)). within_limits (ct_policy c) q)
     \<and> (xp_mode (ct_policy c) = MANUAL_APPROVAL \<longrightarrow>
          (\<forall>q\<in>set (lg_orders (w_ledger w)). approved (w_ledger w) q))
     \<and> submissions_ok w \<and> (\<not> live_allowed c \<longrightarrow> w_calls w = [])"

subsection \<open>States and orders agree\<close>

lemma executed_state_executed: "executed_state o1 \<in> set executed_states"
  by (simp add: executed_state_def executed_states_def)

lemma agrees_cong:
  "lg_orders l' = lg_orders l \<Longrightarrow> (\<And>x. signal_state x l' = signal_state x l) \<Longrightarrow> agrees l \<Longrightarrow> agrees l'"
  by (simp add: agrees_def has_order_def executed_signal_def)

lemma record_signal_agrees:
  assumes "record_signal plan RECEIVED t l = Inr l'" "agrees l"
  shows "agrees l'"
proof -
  note d = record_signalD[OF assms(1)]
  have "\<not> has_order (pl_signal_id plan) l"
    using assms(2) d(1) by (simp add: agrees_def executed_signal_def)
  then show ?thesis
    using assms(2) d(3,4)
    by (auto simp: agrees_def has_order_def executed_signal_def executed_states_def)
qed

lemma record_execution_agrees:
  assumes "record_execution o1 fs t l = Inr (p, l')" "agrees l"
  shows "agrees l'"
  using assms(2) record_executionD(3)[OF assms(1)] record_executionD(4)[OF assms(1)]
    executed_state_executed[of o1]
  by (auto simp: agrees_def has_order_def executed_signal_def order_row_of_def)

lemma update_state_agrees:
  assumes "update_signal_state sid s t l = Inr l'" "agrees l"
    and "executed_signal sid l = (s \<in> set executed_states)"
  shows "agrees l'"
  using assms(2,3) update_signal_stateD(2,3)[OF assms(1)]
  by (auto simp: agrees_def has_order_def executed_signal_def)

lemma ledger_outcome_agrees:
  assumes "ledger_outcome S plan now l l'" "agrees l" "\<not> executed_signal (pl_signal_id plan) l"
  shows "agrees l'"
  using assms(1)
proof cases
  case unchanged
  then show ?thesis using assms(2) by simp
next
  case (stated s)
  then have "s \<notin> set executed_states" by (auto simp: executed_states_def)
  then show ?thesis
    using update_state_agrees[OF stated(3) assms(2)] assms(3) by simp
next
  case (executed o1 fs p)
  then show ?thesis using record_execution_agrees[OF _ assms(2)] by blast
next
  case (uncertain o1 p l1)
  have "agrees l1" by (rule record_execution_agrees[OF uncertain(2) assms(2)])
  moreover have "executed_signal (pl_signal_id plan) l1"
    using record_executionD(3)[OF uncertain(2)] uncertain(1) executed_state_executed[of o1]
    by (simp add: executed_signal_def order_for_def)
  ultimately show ?thesis
    using update_state_agrees[OF uncertain(3)] by (simp add: executed_states_def)
qed

subsection \<open>Orders\<close>

lemma ledger_outcome_orders:
  assumes "ledger_outcome S plan now l l'" "q \<in> set (lg_orders l')"
  shows "q \<in> set (lg_orders l) \<or> (\<exists>o1. q = order_row_of o1 \<and> order_for plan o1)"
  using assms
proof cases
  case (stated s)
  then show ?thesis using assms(2) update_signal_stateD(3)[OF stated(3)] by simp
next
  case (executed o1 fs p)
  then show ?thesis using assms(2) record_executionD(4)[OF executed(2)] by auto
next
  case (uncertain o1 p l1)
  then show ?thesis
    using assms(2) record_executionD(4)[OF uncertain(2)] update_signal_stateD(3)[OF uncertain(3)]
    by auto
qed (use assms in auto)

lemma validate_plan_limits:
  assumes "validate_plan p plan now b w = Inr ()" "order_for plan o1"
  shows "within_limits p (order_row_of o1)"
  using assms
  by (auto simp: validate_plan_def validate_risk_def res_simps within_limits_def order_row_of_def
      order_for_def)

text \<open>The limits of the policy hold for the orders of a plan that passed the gates.\<close>

lemma outcome_limits:
  assumes "ledger_outcome S plan now l l'" "validate_plan p plan t b w = Inr ()"
    and "\<forall>q\<in>set (lg_orders l). within_limits p q"
  shows "\<forall>q\<in>set (lg_orders l'). within_limits p q"
  using assms ledger_outcome_orders[OF assms(1)] validate_plan_limits[OF assms(2)] by blast

lemma tripped_frame:
  assumes "w' = w \<or> tripped t w w'"
  shows "w_calls w' = w_calls w" "lg_orders (w_ledger w') = lg_orders (w_ledger w)"
    and "lg_approvals (w_ledger w') = lg_approvals (w_ledger w)"
    and "signal_keys (w_ledger w') = signal_keys (w_ledger w)"
    and "signal_state x (w_ledger w') = signal_state x (w_ledger w)"
    and "lg_positions (w_ledger w') = lg_positions (w_ledger w)"
    and "ledger_ok (w_ledger w) \<Longrightarrow> ledger_ok (w_ledger w')"
  using assms
  by (auto simp: tripped_def ledger_set_kill_switch_def res_simps signal_keys_def signal_state_def
      split: if_splits)

lemma world_ok_tripped:
  assumes "w' = w \<or> tripped t w w'" "world_ok c w"
  shows "world_ok c w'"
  using assms(2) tripped_frame[OF assms(1)] agrees_cong[OF tripped_frame(2,5)[OF assms(1)]]
  by (simp add: world_ok_def approved_def submissions_ok_def)

subsection \<open>Gateway calls\<close>

lemma submissions_append [simp]: "submissions (a @ b) = submissions a @ submissions b"
  by (induction a rule: submissions.induct) simp_all

lemma submissions_calls: "xs \<in> submission_calls plan \<Longrightarrow> submissions xs = [plan]"
  by (auto simp: submission_calls_def)

lemma submissions_ok_grow:
  assumes "submissions_ok w" "w_calls w' = w_calls w" "grows w w'"
  shows "submissions_ok w'"
  using assms by (auto simp: submissions_ok_def grows_def history_le_def dest!: set_mono_prefix)

subsection \<open>Every step keeps the invariants\<close>

lemma world_ok_initial: "initial_world w \<Longrightarrow> world_ok c w"
  by (auto simp: initial_world_def world_ok_def ledger_ok_initial agrees_def has_order_def
      executed_signal_def signal_state_def sql_first_def submissions_ok_def)
    (simp_all add: initial_ledger_def)

lemma submit_world_ok:
  assumes "submit c plan t w = (r, w')" "world_ok c w"
  shows "world_ok c w'"
  using assms(1)
proof (cases rule: submit_cases)
  case (rejected e)
  then show ?thesis using world_ok_tripped assms(2) by blast
next
  case (accepted l1)
  let ?w1 = "w\<lparr>w_ledger := l1\<rparr>"
  have ok: "ledger_ok (w_ledger w)" "agrees (w_ledger w)" using assms(2) by (simp_all add: world_ok_def)
  note d = record_signalD[OF accepted(4)]
  have ok1: "ledger_ok l1" "agrees l1"
    using record_signal_ok[OF accepted(4) ok(1)] record_signal_agrees[OF accepted(4) ok(2)] by auto
  note out = submit_in_mode_outcome[OF accepted(5)]
  let ?S = "stated_in (xp_mode (ct_policy c))"
  have oc: "ledger_outcome ?S plan t l1 (w_ledger w')" using out(1) ok1(1) by simp
  have "\<not> executed_signal (pl_signal_id plan) l1"
    using d(3) by (simp add: executed_signal_def executed_states_def)
  from ledger_outcome_agrees[OF oc ok1(2) this] have ag: "agrees (w_ledger w')" .
  have g: "grows w w'"
    using grow.keeps_submit_at[of c plan t w] assms(1) by simp
  then have ok': "ledger_ok (w_ledger w')" using ok by (simp add: grows_def)
  have lim: "\<forall>q\<in>set (lg_orders (w_ledger w')). within_limits (ct_policy c) q"
    using outcome_limits[OF oc accepted(3)] assms(2) d(4) by (simp add: world_ok_def)
  have man: "\<forall>q\<in>set (lg_orders (w_ledger w')). approved (w_ledger w') q"
    if "xp_mode (ct_policy c) = MANUAL_APPROVAL"
  proof -
    have "lg_orders (w_ledger w') = lg_orders l1 \<and> lg_approvals (w_ledger w') = lg_approvals l1"
      using accepted(5) that update_signal_stateD(3,4)[of "pl_signal_id plan" AWAITING_APPROVAL t l1]
      by (auto simp: submit_in_mode_def action_simps split: sum.splits)
    then show ?thesis using assms(2) that d(4,5) by (simp add: world_ok_def approved_def)
  qed
  have sub: "submissions_ok w'"
  proof (cases "w_calls w' = w_calls w")
    case True
    then show ?thesis using submissions_ok_grow[OF _ True g] assms(2) by (simp add: world_ok_def)
  next
    case False
    then obtain xs where xs: "xs \<in> submission_calls plan" "w_calls w' = w_calls w @ xs"
      using out(2) ok1(1) by auto
    have keys: "prefix (signal_keys l1) (signal_keys (w_ledger w'))"
      using grow.keeps_in_mode[of c plan t] accepted(5)
      by (auto simp: keeps_def grows_def history_le_def dest: spec[of _ ?w1])
    have new: "pl_signal_id plan \<notin> set (List.map pl_signal_id (submissions (w_calls w)))"
    proof
      assume "pl_signal_id plan \<in> set (List.map pl_signal_id (submissions (w_calls w)))"
      then obtain p where "p \<in> set (submissions (w_calls w))" "pl_signal_id p = pl_signal_id plan"
        by auto
      then have "plan_key p \<in> set (signal_keys (w_ledger w))" "pl_signal_id p = pl_signal_id plan"
        using assms(2) by (auto simp: world_ok_def submissions_ok_def)
      then have "pl_signal_id plan \<in> set (signal_ids (w_ledger w))"
        by (auto simp: signal_keys_def signal_ids_def plan_key_def image_iff)
      then show False using d(1) by (simp add: signal_state_None_iff)
    qed
    have "plan_key plan \<in> set (signal_keys (w_ledger w'))"
      using set_mono_prefix[OF keys] d(10) by (auto simp: plan_key_def)
    moreover have "set (signal_keys (w_ledger w)) \<subseteq> set (signal_keys (w_ledger w'))"
      using g by (auto simp: grows_def history_le_def dest!: set_mono_prefix)
    ultimately show ?thesis
      using assms(2) new by (auto simp: world_ok_def submissions_ok_def xs(2) submissions_calls[OF xs(1)])
  qed
  have "\<not> live_allowed c \<Longrightarrow> w_calls w' = []"
    using out(2) ok1(1) assms(2) by (auto simp: world_ok_def)
  then show ?thesis using ok' ag lim man sub by (simp add: world_ok_def)
qed

lemma approve_world_ok:
  assumes "approve c sid actor reason approved_at t w = (r, w')" "world_ok c w"
  shows "world_ok c w'"
  using assms(1)
proof (cases rule: approve_cases)
  case (rejected e)
  then show ?thesis using world_ok_tripped assms(2) by blast
next
  case (accepted plan l1)
  have ok: "ledger_ok (w_ledger w)" "agrees (w_ledger w)" using assms(2) by (simp_all add: world_ok_def)
  note p = approvable_planD[OF accepted(4) ok(1)]
  obtain a where a: "av_signal_id a = sid" "lg_approvals l1 = lg_approvals (w_ledger w) @ [a]"
    using record_approvalD(1)[OF accepted(6)] by (auto simp: approval_record_def)
  have l1: "lg_signals l1 = lg_signals (w_ledger w)" "lg_orders l1 = lg_orders (w_ledger w)"
    by (subst record_approvalD(2)[OF accepted(6)], simp)+
  note out = execute_paper_outcome[OF accepted(7)]
  have oc: "ledger_outcome [] plan t l1 (w_ledger w')" and calls: "w_calls w' = w_calls w"
    using out by simp_all
  have ag1: "agrees l1" by (rule agrees_cong[OF l1(2) _ ok(2)]) (simp add: signal_state_def l1(1))
  have "\<not> executed_signal (pl_signal_id plan) l1"
    using p(1,2) by (auto simp: executed_signal_def signal_state_def l1(1) executed_states_def)
  from ledger_outcome_agrees[OF oc ag1 this] have ag: "agrees (w_ledger w')" .
  have g: "grows w w'"
    using grow.keeps_approve_at[of sid approved_at t w c actor reason] assms(1)
      approvable_planD(1)[OF _ ok(1)] by auto
  then have ok': "ledger_ok (w_ledger w')" using ok by (simp add: grows_def)
  have lim: "\<forall>q\<in>set (lg_orders (w_ledger w')). within_limits (ct_policy c) q"
    using outcome_limits[OF oc accepted(5)] assms(2) l1(2) by (simp add: world_ok_def)
  have "prefix (lg_approvals l1) (lg_approvals (w_ledger w'))"
    using accepted(7) by (cases rule: execute_paper_cases) (auto dest: record_executionD(5))
  then have appr: "set (lg_approvals l1) \<subseteq> set (lg_approvals (w_ledger w'))"
    by (rule set_mono_prefix)
  have "approved (w_ledger w') q" if "q \<in> set (lg_orders (w_ledger w'))" for q
    using ledger_outcome_orders[OF oc that]
  proof
    assume "q \<in> set (lg_orders l1)"
    then have "approved (w_ledger w) q" using assms(2) accepted(1) l1(2) by (simp add: world_ok_def)
    moreover have "set (lg_approvals (w_ledger w)) \<subseteq> set (lg_approvals (w_ledger w'))"
      using appr a(2) by simp
    ultimately show ?thesis unfolding approved_def set_map by blast
  next
    assume "\<exists>o1. q = order_row_of o1 \<and> order_for plan o1"
    then have "lo_signal_id q = sid" using p(1) by (auto simp: order_row_of_def order_for_def)
    then have "lo_signal_id q = av_signal_id a" "a \<in> set (lg_approvals (w_ledger w'))"
      using a appr by auto
    then show ?thesis by (simp add: approved_def)
  qed
  then show ?thesis
    using ok' ag lim submissions_ok_grow[OF _ calls g] assms(2) calls by (simp add: world_ok_def)
qed

lemma close_position_frame:
  assumes "close_position pid px t l = Inr (pnl, l')"
  shows "lg_signals l' = lg_signals l" "lg_orders l' = lg_orders l" "lg_approvals l' = lg_approvals l"
  using assms by (elim close_positionD, metis ledger.select_convs ledger.surjective ledger.update_convs)+

lemma step_world_ok:
  assumes "world_ok c w" "controller_step c w w'"
  shows "world_ok c w'"
  using assms(2)
proof cases
  case (step_submit plan t r)
  then show ?thesis using submit_world_ok assms(1) by blast
next
  case (step_approve sid actor reason approved_at t r)
  then show ?thesis using approve_world_ok assms(1) by blast
next
  case (step_kill active actor reason t r)
  show ?thesis
  proof (cases "ledger_set_kill_switch active reason actor t (w_ledger w)")
    case (Inl e)
    then show ?thesis
      using step_kill assms(1) by (auto simp: controller_set_kill_switch_def action_simps)
  next
    case (Inr l)
    then have w': "w' = w\<lparr>w_ledger := l\<rparr>"
      using step_kill by (auto simp: controller_set_kill_switch_def action_simps)
    have "lg_signals l = lg_signals (w_ledger w) \<and> lg_orders l = lg_orders (w_ledger w)
        \<and> lg_approvals l = lg_approvals (w_ledger w)"
      using Inr by (auto simp: ledger_set_kill_switch_def res_simps split: if_splits)
    then show ?thesis
      using assms(1) ledger_set_kill_switch_ok[OF Inr]
      by (simp add: w' world_ok_def agrees_def has_order_def executed_signal_def signal_state_def
          approved_def submissions_ok_def signal_keys_def)
  qed
next
  case (step_registry instruments r)
  then show ?thesis
    using assms(1) by (auto simp: replace_instrument_registry_def world_ok_def submissions_ok_def
        split: sum.splits)
next
  case (step_close pid px t pnl l)
  then show ?thesis
    using assms(1) close_position_frame[OF step_close(2)] close_position_ok[OF step_close(2)]
    by (simp add: world_ok_def agrees_def has_order_def executed_signal_def signal_state_def
        approved_def submissions_ok_def signal_keys_def)
qed

interpretation worlds: invariant_system initial_world "controller_step c" "world_ok c"
  by unfold_locales (auto intro: world_ok_initial step_world_ok)

end
