(* ===== verification/Lifecycle.thy ===== *)
theory Lifecycle
  imports ExecutionInv
begin

text \<open>
  The abstract specification of a signal's life: a map from signal ids to states, a new signal
  in one of the states its mode allows, and an awaiting signal executed by an approval.  Every
  step of the controller refines a step of this machine, or changes no state.
\<close>

fun new_states :: "ExecutionMode \<Rightarrow> SignalExecutionState list" where
  "new_states OFF = [BLOCKED]"
| "new_states DATA_ONLY = [BLOCKED]"
| "new_states MANUAL_APPROVAL = [AWAITING_APPROVAL]"
| "new_states PAPER_TRADING = [RECEIVED, SUBMITTED, PARTIALLY_FILLED, FILLED]"
| "new_states LIVE_AUTOMATIC = [RECEIVED, BLOCKED, SUBMITTED, PARTIALLY_FILLED, FILLED, UNCERTAIN]"

type_synonym life = "string \<Rightarrow> SignalExecutionState option"

inductive life_step :: "ExecutionMode \<Rightarrow> life \<Rightarrow> life \<Rightarrow> bool" for mode where
  life_new: "a sid = None \<Longrightarrow> s \<in> set (new_states mode) \<Longrightarrow> life_step mode a (a(sid \<mapsto> s))"
| life_execute: "mode = MANUAL_APPROVAL \<Longrightarrow> a sid = Some AWAITING_APPROVAL \<Longrightarrow>
    s \<in> {SUBMITTED, PARTIALLY_FILLED, FILLED} \<Longrightarrow> life_step mode a (a(sid \<mapsto> s))"

definition states_of :: "world \<Rightarrow> life" where
  "states_of w = (\<lambda>sid. signal_state sid (w_ledger w))"

text \<open>In the abstract machine only an awaiting signal ever changes.\<close>

lemma life_step_fixed:
  "life_step mode a b \<Longrightarrow> a sid = Some s \<Longrightarrow> s \<noteq> AWAITING_APPROVAL \<Longrightarrow> b sid = Some s"
  by (erule life_step.cases) auto

lemma life_steps_fixed:
  "(life_step mode)\<^sup>*\<^sup>* a b \<Longrightarrow> a sid = Some s \<Longrightarrow> s \<noteq> AWAITING_APPROVAL \<Longrightarrow> b sid = Some s"
  by (induction rule: rtranclp_induct) (auto dest: life_step_fixed)

subsection \<open>The states an operation can reach\<close>

lemma only_states:
  "only_signal sid w w' \<Longrightarrow> states_of w' = (states_of w)(sid := signal_state sid (w_ledger w'))"
  by (auto simp: only_signal_def states_of_def fun_eq_iff)

lemma executed_state_cases: "executed_state o1 \<in> {SUBMITTED, PARTIALLY_FILLED, FILLED}"
  by (simp add: executed_state_def)

lemma ledger_outcome_state:
  assumes "ledger_outcome S plan now l l'" "signal_state (pl_signal_id plan) l = Some s"
  shows "signal_state (pl_signal_id plan) l' \<in>
    Some ` (set S \<union> {s, SUBMITTED, PARTIALLY_FILLED, FILLED, UNCERTAIN})"
  using assms(1)
proof cases
  case (executed o1 fs p)
  then show ?thesis
    using record_executionD(3)[OF executed(2)] executed_state_cases[of o1] by (auto simp: order_for_def)
qed (use assms(2) update_signal_stateD(2) in \<open>auto\<close>)

lemma paper_states:
  assumes "execute_paper c plan now w = (r, w')"
    and "signal_state (pl_signal_id plan) (w_ledger w) = Some s"
  shows "signal_state (pl_signal_id plan) (w_ledger w') \<in> Some ` {s, SUBMITTED, PARTIALLY_FILLED, FILLED}"
  using assms(1)
proof (cases rule: execute_paper_cases)
  case (failed e)
  then show ?thesis using assms(2) by simp
next
  case (recorded o1 fs p l)
  then show ?thesis
    using record_executionD(3)[OF recorded(2)] executed_state_cases[of o1]
      paper_order_for[OF recorded(1)] by (auto simp: order_for_def)
qed

lemma in_mode_states:
  assumes "submit_in_mode c plan now w = (r, w')" "ledger_ok (w_ledger w)" "is_aware now"
    and "signal_state (pl_signal_id plan) (w_ledger w) = Some RECEIVED"
  shows "signal_state (pl_signal_id plan) (w_ledger w') \<in> Some ` set (new_states (xp_mode (ct_policy c)))"
proof -
  have upd: "\<exists>l. update_signal_state (pl_signal_id plan) s now (w_ledger w) = Inr l
      \<and> signal_state (pl_signal_id plan) l = Some s" for s
  proof -
    obtain l where "update_signal_state (pl_signal_id plan) s now (w_ledger w) = Inr l"
      using update_signal_state_succeeds[OF assms(2) _ assms(3)] assms(4) by blast
    then show ?thesis using update_signal_stateD(2) by auto
  qed
  from upd[of BLOCKED] upd[of AWAITING_APPROVAL] obtain lb la where
    l: "update_signal_state (pl_signal_id plan) BLOCKED now (w_ledger w) = Inr lb"
      "signal_state (pl_signal_id plan) lb = Some BLOCKED"
      "update_signal_state (pl_signal_id plan) AWAITING_APPROVAL now (w_ledger w) = Inr la"
      "signal_state (pl_signal_id plan) la = Some AWAITING_APPROVAL" by blast
  show ?thesis
  proof (cases "xp_mode (ct_policy c)")
    case PAPER_TRADING
    then show ?thesis using assms(1) paper_states[OF _ assms(4)] by (auto simp: submit_in_mode_def)
  next
    case LIVE_AUTOMATIC
    then have "ledger_outcome [BLOCKED] plan now (w_ledger w) (w_ledger w')"
      using submit_in_mode_outcome(1)[OF assms(1,2)] by simp
    from ledger_outcome_state[OF this assms(4)] show ?thesis using LIVE_AUTOMATIC by auto
  next
    case OFF
    then have "w' = w\<lparr>w_ledger := lb\<rparr>"
      using assms(1) by (simp add: submit_in_mode_def seqw_commit raise_def l(1))
    then have "w_ledger w' = lb" by simp
    then show ?thesis using OFF l(2) by simp
  next
    case DATA_ONLY
    then have "w' = w\<lparr>w_ledger := lb\<rparr>"
      using assms(1) by (simp add: submit_in_mode_def seqw_commit raise_def l(1))
    then have "w_ledger w' = lb" by simp
    then show ?thesis using DATA_ONLY l(2) by simp
  next
    case MANUAL_APPROVAL
    then have "w' = w\<lparr>w_ledger := la\<rparr>"
      using assms(1) by (simp add: submit_in_mode_def seqw_commit ret_def l(3))
    then have "w_ledger w' = la" by simp
    then show ?thesis using MANUAL_APPROVAL l(4) by simp
  qed
qed

lemma tripped_states: "w' = w \<or> tripped t w w' \<Longrightarrow> states_of w' = states_of w"
  unfolding states_of_def by (rule ext) (rule tripped_frame(5))

lemma submit_refines:
  assumes "submit c plan t w = (r, w')" "ledger_ok (w_ledger w)"
  shows "states_of w' = states_of w \<or> life_step (xp_mode (ct_policy c)) (states_of w) (states_of w')"
  using assms(1)
proof (cases rule: submit_cases)
  case (rejected e)
  then show ?thesis using tripped_states by blast
next
  case (accepted l1)
  note d = record_signalD[OF accepted(4)]
  have "signal_state (pl_signal_id plan) (w_ledger w') \<in> Some ` set (new_states (xp_mode (ct_policy c)))"
    using in_mode_states[OF accepted(5)] record_signal_ok[OF accepted(4) assms(2)] accepted(1) d(3)
    by simp
  then obtain s where s: "signal_state (pl_signal_id plan) (w_ledger w') = Some s"
    "s \<in> set (new_states (xp_mode (ct_policy c)))" by auto
  have "only_signal (pl_signal_id plan) w w'"
    using only.keeps_submit_at[of c plan t w "pl_signal_id plan"] assms(1) by simp
  from only_states[OF this] have "states_of w' = (states_of w)(pl_signal_id plan \<mapsto> s)"
    by (simp add: s(1))
  moreover have "states_of w (pl_signal_id plan) = None" using d(1) by (simp add: states_of_def)
  ultimately show ?thesis
    using life_new[where a = "states_of w" and sid = "pl_signal_id plan", OF _ s(2)] by simp
qed

lemma approve_refines:
  assumes "approve c sid actor reason approved_at t w = (r, w')" "ledger_ok (w_ledger w)"
  shows "states_of w' = states_of w \<or> life_step (xp_mode (ct_policy c)) (states_of w) (states_of w')"
  using assms(1)
proof (cases rule: approve_cases)
  case (rejected e)
  then show ?thesis using tripped_states by blast
next
  case (accepted plan l1)
  note p = approvable_planD[OF accepted(4) assms(2)]
  have l1: "lg_signals l1 = lg_signals (w_ledger w)"
    by (subst record_approvalD(2)[OF accepted(6)], simp)
  have aw: "signal_state (pl_signal_id plan) l1 = Some AWAITING_APPROVAL"
    using p(1,2) by (simp add: signal_state_def l1)
  have "signal_state sid (w_ledger w') \<in> Some ` {AWAITING_APPROVAL, SUBMITTED, PARTIALLY_FILLED, FILLED}"
    using paper_states[OF accepted(7)] aw p(1) by simp
  then obtain s where s: "signal_state sid (w_ledger w') = Some s"
    "s \<in> {AWAITING_APPROVAL, SUBMITTED, PARTIALLY_FILLED, FILLED}" by auto
  have "only_signal sid w w'"
    using only.keeps_approve_at[of sid approved_at t w c sid actor reason] assms(1)
      approvable_planD(1)[OF _ assms(2)] by auto
  from only_states[OF this] have st: "states_of w' = (states_of w)(sid \<mapsto> s)" by (simp add: s(1))
  have aw: "states_of w sid = Some AWAITING_APPROVAL" using p(2) by (simp add: states_of_def)
  show ?thesis
  proof (cases "s = AWAITING_APPROVAL")
    case True
    then show ?thesis using st aw by auto
  next
    case False
    then show ?thesis using life_execute[where a = "states_of w" and sid = sid and s = s, OF accepted(1) aw]
        s(2) st by auto
  qed
qed

lemma step_refines:
  assumes "controller_step c w w'" "ledger_ok (w_ledger w)"
  shows "states_of w' = states_of w \<or> life_step (xp_mode (ct_policy c)) (states_of w) (states_of w')"
  using assms(1)
proof cases
  case (step_submit plan t r)
  then show ?thesis using submit_refines assms(2) by blast
next
  case (step_approve sid actor reason approved_at t r)
  then show ?thesis using approve_refines assms(2) by blast
next
  case (step_kill active actor reason t r)
  then show ?thesis
    by (auto simp: controller_set_kill_switch_def action_simps ledger_set_kill_switch_def res_simps
        states_of_def signal_state_def split: sum.splits if_splits)
next
  case (step_registry instruments r)
  then show ?thesis
    by (auto simp: replace_instrument_registry_def states_of_def split: sum.splits)
next
  case (step_close pid px t pnl l)
  then show ?thesis
    using close_position_frame(1)[OF step_close(2)] by (simp add: states_of_def signal_state_def)
qed

end
