(* ===== verification/Scenarios.thy ===== *)
theory Scenarios
  imports Lifecycle
begin

text \<open>
  Concrete executions on which the properties are evaluated: one trade plan, controllers in
  paper, manual and live mode, gateways that acknowledge, time out or report inconsistently, and
  the worlds they lead to.
\<close>

definition demo_policy :: "ExecutionMode \<Rightarrow> bool \<Rightarrow> policy" where
  "demo_policy mode live = \<lparr>xp_mode = mode, xp_max_data_age_seconds = 30,
     xp_future_clock_skew_seconds = 2, xp_min_expiry_buffer_seconds = 900,
     xp_max_order_quantity = 10000, xp_max_order_notional = 1000000, xp_max_plan_loss = 50000,
     xp_max_daily_loss = 100000, xp_max_consecutive_losses = 3, xp_live_enabled = live\<rparr>"

definition demo_paper :: paper_config where
  "demo_paper = \<lparr>pc_slippage_bps = 0, pc_partial_fill_ratio = 1\<rparr>"

definition demo_controller :: "ExecutionMode \<Rightarrow> controller" where
  "demo_controller mode = \<lparr>ct_policy = demo_policy mode False, ct_paper = demo_paper,
     ct_digest = (\<lambda>s. s), ct_live = None\<rparr>"

definition live_controller :: "gateway \<Rightarrow> controller" where
  "live_controller g = \<lparr>ct_policy = demo_policy LIVE_AUTOMATIC True, ct_paper = demo_paper,
     ct_digest = (\<lambda>s. s), ct_live = Some g\<rparr>"

definition demo_plan_at :: "rat \<Rightarrow> trade_plan" where
  "demo_plan_at price = \<lparr>pl_signal_id = ''s1'', pl_correlation_id = ''c1'', pl_symbol = ''NIFTY'',
     pl_security_id = ''42'', pl_side = BUY, pl_quantity = 50, pl_limit_price = Finite price,
     pl_maximum_loss = Finite 1000, pl_signal_time = Aware 0 0, pl_data_time = Aware 0 0,
     pl_valid_until = Aware 60000000 0, pl_contract_expiry = Aware 86400000000 0,
     pl_event_risk_active = Some False, pl_expiry_risk_clear = True, pl_strategy_version = ''v''\<rparr>"

definition demo_plan :: trade_plan where
  "demo_plan = demo_plan_at 100"

definition demo_world :: world where
  "demo_world = \<lparr>w_ledger = initial_ledger 0, w_registry = [(''NIFTY'', ''42'')], w_calls = []\<rparr>"

definition demo_now :: datetime where
  "demo_now = Aware 1000000 0"

lemma demo_initial: "initial_world demo_world"
  by (auto simp: initial_world_def demo_world_def)

lemma demo_reachable: "reachable initial_world (controller_step c) demo_world"
  by (rule reachable_init) (rule demo_initial)

lemma submit_steps:
  "reachable initial_world (controller_step c) w \<Longrightarrow>
     reachable initial_world (controller_step c) (snd (submit c plan t w))"
  by (rule reachable_step) (auto intro: step_submit[where r = "fst (submit c plan t w)"])

lemma approve_steps:
  "reachable initial_world (controller_step c) w \<Longrightarrow>
     reachable initial_world (controller_step c) (snd (approve c sid actor reason appr t w))"
  by (rule reachable_step) (auto intro: step_approve[where r = "fst (approve c sid actor reason appr t w)"])

definition demo_ack :: "OrderState \<Rightarrow> int \<Rightarrow> decimal option \<Rightarrow> live_ack" where
  "demo_ack s filled price = \<lparr>ack_broker_order_id = ''b1'', ack_correlation_id = ''c1'',
     ack_state = s, ack_filled_quantity = filled, ack_average_fill_price = price\<rparr>"

text \<open>A gateway that fills everything, one that times out and one that answers \<open>FILLED\<close> of nothing.\<close>

definition filling_gateway :: gateway where
  "filling_gateway = \<lparr>gw_submit_order = (\<lambda>_ _ _. Inr (demo_ack O_FILLED 50 (Some (Finite 100)))),
     gw_lookup_by_correlation = (\<lambda>_ _. Inr None)\<rparr>"

definition silent_gateway :: gateway where
  "silent_gateway = \<lparr>gw_submit_order = (\<lambda>_ _ _. Inl TimeoutError),
     gw_lookup_by_correlation = (\<lambda>_ _. Inr None)\<rparr>"

definition empty_fill_gateway :: gateway where
  "empty_fill_gateway = \<lparr>gw_submit_order = (\<lambda>_ _ _. Inr (demo_ack O_FILLED 0 None)),
     gw_lookup_by_correlation = (\<lambda>_ _. Inr None)\<rparr>"

definition after_submit :: "controller \<Rightarrow> world" where
  "after_submit c = snd (submit c demo_plan demo_now demo_world)"

lemma after_submit_reachable: "reachable initial_world (controller_step c) (after_submit c)"
  unfolding after_submit_def by (rule submit_steps[OF demo_reachable])

text \<open>What the worlds hold, as evaluated.\<close>

definition paper_demo :: controller where "paper_demo = demo_controller PAPER_TRADING"
definition manual_demo :: controller where "manual_demo = demo_controller MANUAL_APPROVAL"
definition live_demo :: controller where "live_demo = live_controller filling_gateway"

definition after_approval :: world where
  "after_approval = snd (approve manual_demo ''s1'' ''ops'' ''checked'' None demo_now
     (after_submit manual_demo))"

lemma after_approval_reachable: "reachable initial_world (controller_step manual_demo) after_approval"
  unfolding after_approval_def by (rule approve_steps[OF after_submit_reachable])

lemma paper_demo_orders: "List.map lo_signal_id (lg_orders (w_ledger (after_submit paper_demo))) = [''s1'']"
  by code_simp

lemma live_demo_calls: "w_calls (after_submit live_demo) = [SubmitCall demo_plan ''c1'']"
  by code_simp

lemma manual_demo_state: "signal_state ''s1'' (w_ledger (after_submit manual_demo)) = Some AWAITING_APPROVAL"
  by code_simp

lemma approval_demo_orders:
  "List.map lo_signal_id (lg_orders (w_ledger after_approval)) = [''s1'']"
  "List.map av_signal_id (lg_approvals (w_ledger after_approval)) = [''s1'']"
  by code_simp+

lemma paper_demo_positions:
  "List.map (\<lambda>r. (lp_security_id r, lp_state r, lp_quantity r))
     (lg_positions (w_ledger (after_submit paper_demo))) = [(''42'', OPEN, 50)]"
  by code_simp

end
