(* ===== verification/ExecutionClaims.thy ===== *)
theory ExecutionClaims
  imports Scenarios
begin

text \<open>
  The properties of the execution component, each over every reachable world of a controller or
  over every world, with the witnesses that apply them to the executions of \<open>Scenarios\<close>.
\<close>

subsection \<open>Gates and results\<close>

text \<open>What a successful submission in paper mode leaves behind.\<close>

lemma record_execution_position:
  assumes "record_execution o1 fs now l = Inr (p, l')" "0 < bo_filled_quantity o1"
    and "bo_average_fill_price o1 \<noteq> None"
  shows "\<exists>price. bo_average_fill_price o1 = Some (Finite price)
    \<and> open_position_for_security (bo_security_id o1) l' = Some (position_of_row (opened_row o1 price now))"
proof -
  obtain l1 l2 l3 where 1: "insert_order o1 l = Inr l1" and 2: "fold_res insert_fill fs l1 = Inr l2"
    and 3: "insert_opened (opened_position o1 now) l2 = Inr l3"
    and 4: "finish_execution o1 now l3 = Inr l'"
    using assms(1) by (auto simp: record_execution_def bindr_eq_Inr)
  have "opened_position o1 now \<noteq> None"
    using assms(2,3) by (auto simp: opened_position_def)
  then obtain price where price: "bo_average_fill_price o1 = Some (Finite price)"
    and ins: "sql_insert (positions_admit (signal_ids l2)) (opened_row o1 price now) (lg_positions l2)
          = Inr (lg_positions l2 @ [opened_row o1 price now])"
    and l3: "l3 = l2\<lparr>lg_positions := lg_positions l2 @ [opened_row o1 price now]\<rparr>"
    using insert_openedD[OF 3] by auto
  have key: "open_key (opened_row o1 price now) = Some (bo_security_id o1)"
    by (simp add: open_key_def opened_row_def)
  have "(\<lambda>r. lp_security_id r = bo_security_id o1 \<and> lp_state r = OPEN)
      = (\<lambda>r. open_key r = Some (bo_security_id o1))"
    by (auto simp: open_key_def fun_eq_iff)
  then have "open_position_for_security (bo_security_id o1) l3
      = Some (position_of_row (opened_row o1 price now))"
    using pos_open.insert_lookup[OF ins key] by (simp add: open_position_for_security_def l3)
  moreover have "lg_positions l' = lg_positions l3"
    using 4 by (auto simp: finish_execution_def res_simps)
  ultimately show ?thesis using price by (simp add: open_position_for_security_def)
qed

lemma submit_rejected_when_killed:
  assumes "ks_active (kill_switch (w_ledger w))"
  shows "\<exists>e. submit c plan t w = (Inl e, w)"
proof -
  have "check_kill_limits p now w = (Inl (KillSwitchError (kill_reason (kill_switch (w_ledger w)))), w)"
    for p now using assms by (simp add: check_kill_limits_def raise_def)
  then show ?thesis
    by (auto simp: submit_def action_simps seqw_def[of "check_kill_limits _ _"] split: sum.splits)
qed

lemma approve_rejected_when_killed:
  assumes "ks_active (kill_switch (w_ledger w))"
  shows "\<exists>e. approve c sid actor reason at0 t w = (Inl e, w)"
proof -
  obtain r w' where a: "approve c sid actor reason at0 t w = (r, w')"
    by (cases "approve c sid actor reason at0 t w")
  have k: "check_kill_limits p now w = (Inl (KillSwitchError (kill_reason (kill_switch (w_ledger w)))), w)"
    for p now using assms by (simp add: check_kill_limits_def raise_def)
  show ?thesis
    by (auto simp: approve_def Let_def action_simps seqw_def[of "check_kill_limits _ _"] k
        split: sum.splits)
qed

lemma realized_closed:
  assumes "positions_ok sids t" "set ps \<subseteq> set t" "\<forall>r\<in>set ps. lp_state r = CLOSED"
  shows "traverse realized ps = Inr (List.map (\<lambda>r. the (lp_realized_pnl r)) ps)"
  using assms(2,3)
proof (induction ps)
  case Nil
  then show ?case by simp
next
  case (Cons r ps)
  then have "position_row_ok sids r" "lp_state r = CLOSED"
    using assms(1) by (auto simp: positions_ok_def)
  then have "realized r = Inr (the (lp_realized_pnl r))"
    by (auto simp: position_row_ok_def realized_def)
  then show ?case using Cons by simp
qed

lemma loss_streak_eq:
  assumes "traverse realized ps = Inr xs"
  shows "loss_streak ps = Inr (int (length (takeWhile (\<lambda>x. x < 0) xs)))"
  using assms
proof (induction ps arbitrary: xs)
  case Nil
  then show ?case by simp
next
  case (Cons r ps)
  then show ?case by (fastforce simp: bindr_eq_Inr)
qed

text \<open>The realised results of the closed positions, the most recently closed first.\<close>

definition recent_results :: "ledger \<Rightarrow> rat list" where
  "recent_results l = List.map (\<lambda>r. the (lp_realized_pnl r)) (rev (sort_key lp_closed_at (closed_rows l)))"

lemma ledger_queries_total:
  assumes "ledger_ok l"
  shows "consecutive_losses l = Inr (int (length (takeWhile (\<lambda>x. x < 0) (recent_results l))))"
    and "daily_realized_pnl day l = Inr (dsum (List.map (\<lambda>r. the (lp_realized_pnl r))
          (filter (\<lambda>r. lp_closed_day r = Some day) (closed_rows l))))"
proof -
  have ok: "positions_ok (signal_ids l) (lg_positions l)" using assms by (simp add: ledger_ok_def)
  show "consecutive_losses l = Inr (int (length (takeWhile (\<lambda>x. x < 0) (recent_results l))))"
    unfolding consecutive_losses_def recent_results_def
    by (intro loss_streak_eq realized_closed[OF ok]) (auto simp: closed_rows_def)
  show "daily_realized_pnl day l = Inr (dsum (List.map (\<lambda>r. the (lp_realized_pnl r))
      (filter (\<lambda>r. lp_closed_day r = Some day) (closed_rows l))))"
    unfolding daily_realized_pnl_def
    by (subst realized_closed[OF ok]) (auto simp: closed_rows_def)
qed

lemma trip_succeeds:
  assumes "is_aware t" "py_strip reason \<noteq> []"
  shows "\<exists>l. ledger_set_kill_switch True reason ''system'' t l0 = Inr l \<and> ks_active (lg_kill_switch l)"
proof -
  have "py_strip ''system'' \<noteq> []" by code_simp
  then show ?thesis
    using assms by (auto simp: ledger_set_kill_switch_def timestamp_def record_event_def)
qed

subsection \<open>Properties\<close>

text \<open>
  C1: at most one order is ever sent to the broker for a signal, and for a correlation id: in
  every history of operations, whatever the gateway answers and however often an operation is
  repeated, the submissions have pairwise different signal ids and pairwise different correlation
  ids.  A timed-out mutation is never retried.
\<close>

theorem gateway_called_once:
  assumes "reachable initial_world (controller_step c) w"
  shows "distinct (List.map pl_signal_id (submissions (w_calls w)))
    \<and> distinct (List.map pl_correlation_id (submissions (w_calls w)))"
proof -
  have ok: "submissions_ok w" "ledger_ok (w_ledger w)"
    using worlds.reachable_inv[OF assms] by (simp_all add: world_ok_def)
  have dist: "distinct (List.map pl_signal_id (submissions (w_calls w)))"
    using ok(1) by (simp add: submissions_ok_def)
  have "pl_signal_id p = pl_signal_id q"
    if "p \<in> set (submissions (w_calls w))" "q \<in> set (submissions (w_calls w))"
      "pl_correlation_id p = pl_correlation_id q" for p q
  proof -
    have "plan_key p \<in> set (signal_keys (w_ledger w))" "plan_key q \<in> set (signal_keys (w_ledger w))"
      using ok(1) that by (auto simp: submissions_ok_def)
    then obtain r s where rs: "r \<in> set (lg_signals (w_ledger w))" "s \<in> set (lg_signals (w_ledger w))"
      "sr_signal_id r = pl_signal_id p" "sr_correlation_id r = pl_correlation_id p"
      "sr_signal_id s = pl_signal_id q" "sr_correlation_id s = pl_correlation_id q"
      by (auto simp: signal_keys_def plan_key_def)
    have "unique_rows (\<lambda>r. Some (sr_correlation_id r)) (lg_signals (w_ledger w))"
      using ok(2) by (simp add: ledger_ok_def signals_ok_def)
    from unique_rows_same[OF this rs(1,2)] rs that(3) show ?thesis by auto
  qed
  then have "inj_on pl_correlation_id (set (submissions (w_calls w)))"
    using dist by (intro inj_onI) (metis distinct_map inj_onD)
  with dist show ?thesis by (simp add: distinct_map)
qed

lemma gateway_called_once_witness:
  "distinct (List.map pl_signal_id (submissions (w_calls (after_submit live_demo))))
    \<and> length (submissions (w_calls (after_submit live_demo))) = 1"
  using gateway_called_once[OF after_submit_reachable, of live_demo] by (simp add: live_demo_calls)

text \<open>
  C11: the state of every signal refines the abstract life cycle: a step of the controller
  changes no state, adds one new signal in a state its mode allows (\<open>OFF\<close> and \<open>DATA_ONLY\<close> only
  block), or executes an awaiting signal in \<open>MANUAL_APPROVAL\<close>.
\<close>

theorem controller_refines_life_cycle:
  assumes "reachable initial_world (controller_step c) w" "controller_step c w w'"
  shows "states_of w' = states_of w \<or> life_step (xp_mode (ct_policy c)) (states_of w) (states_of w')"
  using step_refines[OF assms(2)] worlds.reachable_inv[OF assms(1)] by (simp add: world_ok_def)

lemma controller_refines_life_cycle_witness:
  "states_of (after_submit manual_demo) = states_of demo_world
    \<or> life_step MANUAL_APPROVAL (states_of demo_world) (states_of (after_submit manual_demo))"
proof -
  have "controller_step manual_demo demo_world (after_submit manual_demo)"
    unfolding after_submit_def
    by (rule step_submit[where r = "fst (submit manual_demo demo_plan demo_now demo_world)"]) simp
  moreover have "xp_mode (ct_policy manual_demo) = MANUAL_APPROVAL" by code_simp
  ultimately show ?thesis
    using controller_refines_life_cycle[OF demo_reachable] by metis
qed

text \<open>
  C12: no order exceeds the limits of the policy: in every reachable world each recorded order has
  a positive quantity at most \<open>max_order_quantity\<close>, a positive limit price and a notional at most
  \<open>max_order_notional\<close>.
\<close>

theorem orders_within_limits:
  assumes "reachable initial_world (controller_step c) w" "q \<in> set (lg_orders (w_ledger w))"
  shows "within_limits (ct_policy c) q"
  using worlds.reachable_inv[OF assms(1)] assms(2) by (simp add: world_ok_def)

lemma orders_within_limits_witness:
  "\<exists>q\<in>set (lg_orders (w_ledger (after_submit paper_demo))). within_limits (ct_policy paper_demo) q"
proof -
  obtain q where "q \<in> set (lg_orders (w_ledger (after_submit paper_demo)))"
    using paper_demo_orders by (cases "lg_orders (w_ledger (after_submit paper_demo))") auto
  then show ?thesis using orders_within_limits[OF after_submit_reachable] by blast
qed

text \<open>
  C13: in \<open>MANUAL_APPROVAL\<close> mode no order exists without a recorded approval of its signal.
\<close>

theorem manual_orders_are_approved:
  assumes "reachable initial_world (controller_step c) w"
    and "xp_mode (ct_policy c) = MANUAL_APPROVAL" "q \<in> set (lg_orders (w_ledger w))"
  shows "approval_of (lo_signal_id q) (w_ledger w) \<noteq> None"
proof -
  have "approved (w_ledger w) q"
    using worlds.reachable_inv[OF assms(1)] assms(2,3) by (simp add: world_ok_def)
  then obtain a where "a \<in> set (lg_approvals (w_ledger w))" "av_signal_id a = lo_signal_id q"
    unfolding approved_def set_map by (metis imageE)
  then show ?thesis by (auto simp: approval_of_def sql_first_None)
qed

lemma manual_orders_are_approved_witness: "approval_of ''s1'' (w_ledger after_approval) \<noteq> None"
proof -
  obtain q where "q \<in> set (lg_orders (w_ledger after_approval))" "lo_signal_id q = ''s1''"
    using approval_demo_orders(1) by (cases "lg_orders (w_ledger after_approval)") auto
  moreover have "xp_mode (ct_policy manual_demo) = MANUAL_APPROVAL" by code_simp
  ultimately show ?thesis
    using manual_orders_are_approved[OF after_approval_reachable] by metis
qed

text \<open>C10: two open positions of a reachable ledger never share a security.\<close>

theorem one_open_position_per_security:
  assumes "reachable initial_world (controller_step c) w"
    and "p \<in> set (lg_positions (w_ledger w))" "q \<in> set (lg_positions (w_ledger w))"
    and "lp_state p = OPEN" "lp_state q = OPEN" "lp_security_id p = lp_security_id q"
  shows "p = q"
proof -
  have "unique_rows open_key (lg_positions (w_ledger w))"
    using worlds.reachable_inv[OF assms(1)] by (simp add: world_ok_def ledger_ok_def positions_ok_def)
  from unique_rows_same[OF this assms(2,3)] assms(4-6) show ?thesis by (simp add: open_key_def)
qed

lemma one_open_position_per_security_witness:
  "hd (lg_positions (w_ledger (after_submit paper_demo))) = last (lg_positions (w_ledger (after_submit paper_demo)))"
proof -
  let ?t = "lg_positions (w_ledger (after_submit paper_demo))"
  obtain p where p: "?t = [p]" "lp_state p = OPEN"
    using paper_demo_positions by (cases ?t) auto
  show ?thesis
    by (rule one_open_position_per_security[OF after_submit_reachable[of paper_demo]]) (use p in auto)
qed

text \<open>
  C25: a signal has an order exactly when its state says it was executed (\<open>SUBMITTED\<close>,
  \<open>PARTIALLY_FILLED\<close>, \<open>FILLED\<close> or \<open>UNCERTAIN\<close>), in every reachable world.
\<close>

theorem orders_match_states:
  assumes "reachable initial_world (controller_step c) w"
  shows "has_order sid (w_ledger w) \<longleftrightarrow> (\<exists>s. signal_state sid (w_ledger w) = Some s
    \<and> s \<in> set [SUBMITTED, PARTIALLY_FILLED, FILLED, UNCERTAIN])"
  using worlds.reachable_inv[OF assms]
  by (auto simp: world_ok_def agrees_def executed_signal_def executed_states_def split: option.splits)

lemma orders_match_states_witness:
  "\<not> has_order ''s1'' (w_ledger (after_submit manual_demo))"
  using orders_match_states[OF after_submit_reachable, of "''s1''" manual_demo]
  by (simp add: manual_demo_state)

text \<open>
  C8: an active kill switch stops everything: \<open>submit\<close> and \<open>approve\<close> raise and change nothing,
  neither the ledger nor the log of gateway calls.
\<close>

theorem kill_switch_stops_execution:
  assumes "ks_active (kill_switch (w_ledger w))"
  shows "(\<exists>e. submit c plan t w = (Inl e, w))
    \<and> (\<exists>e. approve c sid actor reason approved_at t w = (Inl e, w))"
  using submit_rejected_when_killed[OF assms] approve_rejected_when_killed[OF assms] by blast

definition killed_world :: world where
  "killed_world = snd (controller_set_kill_switch True ''ops'' ''halt'' demo_now demo_world)"

lemma kill_switch_stops_execution_witness:
  "\<exists>e. submit paper_demo demo_plan demo_now killed_world = (Inl e, killed_world)"
proof -
  have "ks_active (kill_switch (w_ledger killed_world))" by code_simp
  from kill_switch_stops_execution[OF this] show ?thesis by blast
qed

text \<open>
  C26: a loss limit trips the kill switch: when today's realised profit of a sound ledger is at or
  below minus \<open>max_daily_loss\<close>, or the streak of losing closed positions has reached
  \<open>max_consecutive_losses\<close>, \<open>submit\<close> raises \<open>KillSwitchError\<close> and leaves the switch active.
\<close>

theorem loss_limits_trip_the_switch:
  assumes "ledger_ok (w_ledger w)" "is_aware t"
    and "dsum (List.map (\<lambda>r. the (lp_realized_pnl r)) (filter (\<lambda>r. lp_closed_day r = Some (utc_day t))
          (closed_rows (w_ledger w)))) \<le> dneg (xp_max_daily_loss (ct_policy c))
      \<or> xp_max_consecutive_losses (ct_policy c)
          \<le> int (length (takeWhile (\<lambda>x. x < 0) (recent_results (w_ledger w))))"
  shows "\<exists>msg w'. submit c plan t w = (Inl (KillSwitchError msg), w')
    \<and> ks_active (kill_switch (w_ledger w'))"
proof -
  have trip: "\<exists>w'. trip_kill_switch reason t w = (Inl (KillSwitchError reason), w')
      \<and> ks_active (kill_switch (w_ledger w'))" if "py_strip reason \<noteq> []" for reason
    using trip_succeeds[OF assms(2) that, of "w_ledger w"]
    by (auto simp: trip_kill_switch_def action_simps kill_switch_def)
  have texts: "py_strip ''daily loss limit reached'' \<noteq> []"
    "py_strip ''consecutive loss limit reached'' \<noteq> []" by code_simp+
  have "\<exists>msg w'. check_kill_limits (ct_policy c) t w = (Inl (KillSwitchError msg), w')
      \<and> ks_active (kill_switch (w_ledger w'))"
    using assms(3) trip[OF texts(1)] trip[OF texts(2)]
    by (auto simp: check_kill_limits_def action_simps ledger_queries_total[OF assms(1)])
  then show ?thesis
    using assms(2)
    by (auto simp: submit_def action_simps seqw_def[of "check_kill_limits _ _"] require_aware_def)
qed

text \<open>A world in which a paper position was bought at 3000 and closed at 500.\<close>

definition losing_world :: world where
  "losing_world = (let w = snd (submit paper_demo (demo_plan_at 3000) demo_now demo_world) in
     case close_position ''position-paper-order-c1'' (Finite 500) demo_now (w_ledger w) of
       Inl e \<Rightarrow> w | Inr (pnl, l) \<Rightarrow> w\<lparr>w_ledger := l\<rparr>)"

lemma losing_world_ok: "ledger_ok (w_ledger losing_world)"
proof -
  let ?w = "snd (submit paper_demo (demo_plan_at 3000) demo_now demo_world)"
  have "reachable initial_world (controller_step paper_demo) ?w"
    by (rule submit_steps[OF demo_reachable])
  then have "ledger_ok (w_ledger ?w)" using worlds.reachable_inv by (auto simp: world_ok_def)
  then show ?thesis
    by (auto simp: losing_world_def Let_def split: sum.splits dest: close_position_ok)
qed

lemma losing_world_day: "dsum (List.map (\<lambda>r. the (lp_realized_pnl r))
    (filter (\<lambda>r. lp_closed_day r = Some (utc_day demo_now)) (closed_rows (w_ledger losing_world))))
  \<le> dneg (xp_max_daily_loss (ct_policy paper_demo))"
  by code_simp

lemma loss_limits_trip_the_switch_witness:
  "\<exists>msg w'. submit paper_demo demo_plan demo_now losing_world = (Inl (KillSwitchError msg), w')
    \<and> ks_active (kill_switch (w_ledger w'))"
  by (rule loss_limits_trip_the_switch[OF losing_world_ok]) (simp_all add: demo_now_def losing_world_day[unfolded demo_now_def])

lemma step_grows:
  assumes "controller_step c w w'" "ledger_ok (w_ledger w)"
  shows "grows w w'"
  using assms(1)
proof cases
  case (step_submit plan t r)
  then show ?thesis using grow.keeps_submit_at[of c plan t w] by simp
next
  case (step_approve sid actor reason approved_at t r)
  then show ?thesis
    using grow.keeps_approve_at[of sid approved_at t w c actor reason]
      approvable_planD(1)[OF _ assms(2)] by auto
next
  case (step_kill active actor reason t r)
  moreover have "grows w (snd (controller_set_kill_switch active actor reason t w))"
    using grow.R_kill by (simp add: keeps_def controller_set_kill_switch_def)
  ultimately show ?thesis by simp
next
  case (step_registry instruments r)
  then show ?thesis
    by (auto simp: replace_instrument_registry_def grows_def split: sum.splits)
next
  case (step_close pid px t pnl l)
  then show ?thesis
    using close_position_le[OF step_close(2) assms(2)] close_position_ok[OF step_close(2)]
    by (simp add: grows_ledger)
qed

interpretation history: monotone_system "controller_step c" "\<lambda>w. ledger_ok (w_ledger w)" grows
proof unfold_locales
  show "grows u v \<Longrightarrow> grows v w \<Longrightarrow> grows u w" for u v w by (rule grow.R_trans)
  show "ledger_ok (w_ledger v) \<Longrightarrow> controller_step c v w \<Longrightarrow> ledger_ok (w_ledger w)" for v w
    using step_grows by (auto simp: grows_def)
qed (auto intro: step_grows)

text \<open>
  C34: history is append-only: between any two worlds of a history the signals with their stored
  plans, approvals, orders, fills, journal, events and gateway calls of the earlier world are a
  prefix of those of the later one, and a closed position is never changed.
\<close>

theorem history_is_append_only:
  assumes "reachable initial_world (controller_step c) w" "(controller_step c)\<^sup>*\<^sup>* w w'"
  shows "prefix (w_calls w) (w_calls w') \<and> prefix (signal_keys (w_ledger w)) (signal_keys (w_ledger w'))
    \<and> prefix (lg_approvals (w_ledger w)) (lg_approvals (w_ledger w'))
    \<and> prefix (lg_orders (w_ledger w)) (lg_orders (w_ledger w'))
    \<and> prefix (lg_fills (w_ledger w)) (lg_fills (w_ledger w'))
    \<and> prefix (lg_journal (w_ledger w)) (lg_journal (w_ledger w'))
    \<and> prefix (lg_events (w_ledger w)) (lg_events (w_ledger w'))
    \<and> (\<forall>r\<in>set (lg_positions (w_ledger w)). lp_state r = CLOSED \<longrightarrow> r \<in> set (lg_positions (w_ledger w')))"
proof -
  have "ledger_ok (w_ledger w)" using worlds.reachable_inv[OF assms(1)] by (simp add: world_ok_def)
  from history.steps_le[OF assms(2) this] show ?thesis by (simp add: grows_def history_le_def)
qed

lemma history_is_append_only_witness:
  "prefix (lg_orders (w_ledger (after_submit manual_demo))) (lg_orders (w_ledger after_approval))"
proof -
  have "controller_step manual_demo (after_submit manual_demo) after_approval"
    unfolding after_approval_def by (rule step_approve) (rule prod.collapse[symmetric])
  then show ?thesis using history_is_append_only[OF after_submit_reachable] by blast
qed

end
