(* ===== verification/ExecutionClaims2.thy ===== *)
theory ExecutionClaims2
  imports ExecutionClaims
begin

text \<open>
  Further properties of the execution component: the outcome of a paper submission, of a timed
  out live mutation and of closing a position, and two behaviours where the recorded and the
  reported state of a signal part.
\<close>

lemma reachable_ledger_ok: "reachable initial_world (controller_step c) w \<Longrightarrow> ledger_ok (w_ledger w)"
  using worlds.reachable_inv by (auto simp: world_ok_def)

lemma paper_result_executed:
  assumes "paper_config_ok pc" "0 < q"
  shows "paper_result_state (paper_order_state q (paper_filled_quantity pc q)) =
    (if paper_filled_quantity pc q = q then FILLED
     else if paper_filled_quantity pc q \<noteq> 0 then PARTIALLY_FILLED else SUBMITTED)"
  using paper_filled_nonneg[OF assms(1), of q] assms(2)
  by (auto simp: paper_result_state_def paper_order_state_def)

lemma paper_submit_position:
  assumes "paper_submit d pc plan now = Inr (o1, fs)" "record_execution o1 fs now l = Inr (p, l')"
    and "0 < paper_filled_quantity pc (pl_quantity plan)"
  shows "\<exists>q. open_position_for_security (pl_security_id plan) l' = Some q
    \<and> po_quantity q = paper_filled_quantity pc (pl_quantity plan)
    \<and> po_signal_id q = pl_signal_id plan \<and> po_side q = pl_side plan"
proof -
  have o1: "bo_filled_quantity o1 = paper_filled_quantity pc (pl_quantity plan)"
    "bo_average_fill_price o1 \<noteq> None" "order_for plan o1"
    using assms(1,3) paper_order_for[OF assms(1)] by (auto simp: paper_submit_eq_Inr paper_order_def)
  from record_execution_position[OF assms(2) _ o1(2)] o1 assms(3) obtain price where
    "open_position_for_security (bo_security_id o1) l' = Some (position_of_row (opened_row o1 price now))"
    by auto
  then show ?thesis
    using o1 by (auto simp: order_for_def position_of_row_def opened_row_def)
qed

text \<open>
  a successful paper submission reports the state it stores, calls no gateway, fills between
  nothing and the ordered quantity, its fills add up to the filled quantity, and when anything was
  filled exactly that quantity is the open position of the security.
\<close>

theorem paper_submission_result:
  assumes "xp_mode (ct_policy c) = PAPER_TRADING" "paper_config_ok (ct_paper c)"
    and "submit c plan t w = (Inr res, w')"
  shows "signal_state (pl_signal_id plan) (w_ledger w') = Some (er_state res)
    \<and> w_calls w' = w_calls w
    \<and> (let f = paper_filled_quantity (ct_paper c) (pl_quantity plan) in
        0 \<le> f \<and> f \<le> pl_quantity plan \<and> sum_list (List.map bf_quantity (er_fills res)) = f
        \<and> (0 < f \<longrightarrow> (\<exists>q. open_position_for_security (pl_security_id plan) (w_ledger w') = Some q
            \<and> po_quantity q = f \<and> po_signal_id q = pl_signal_id plan)))"
  using assms(3)
proof (cases rule: submit_cases)
  case (accepted l1)
  let ?f = "paper_filled_quantity (ct_paper c) (pl_quantity plan)"
  have q: "0 < pl_quantity plan"
    using accepted(3) by (simp add: validate_plan_def validate_risk_def res_simps)
  have ex: "execute_paper c plan t (w\<lparr>w_ledger := l1\<rparr>) = (Inr res, w')"
    using accepted(5) assms(1) by (simp add: submit_in_mode_def)
  then obtain o1 fs p l where ps: "paper_submit (ct_digest c) (ct_paper c) plan t = Inr (o1, fs)"
    and rec: "record_execution o1 fs t l1 = Inr (p, l)"
    and w': "w' = w\<lparr>w_ledger := l1\<rparr>\<lparr>w_ledger := l\<rparr>" and res: "res = result_of plan o1 fs"
    by (cases rule: execute_paper_cases) auto
  have o1: "bo_state o1 = paper_order_state (pl_quantity plan) ?f" "bo_filled_quantity o1 = ?f"
    "bo_quantity o1 = pl_quantity plan" "bo_signal_id o1 = pl_signal_id plan"
    "sum_list (List.map bf_quantity fs) = ?f"
    using ps by (auto simp: paper_submit_eq_Inr paper_order_def paper_fills_sum)
  have "signal_state (pl_signal_id plan) l = Some (executed_state o1)"
    using record_executionD(3)[OF rec] o1(4) by simp
  moreover have "er_state res = executed_state o1"
    using paper_result_executed[OF assms(2) q]
    by (simp add: res result_of_def o1 executed_state_def)
  moreover have "0 \<le> ?f" "?f \<le> pl_quantity plan"
    using paper_filled_nonneg[OF assms(2)] q paper_filled_le by auto
  ultimately show ?thesis
    using o1(5) paper_submit_position[OF ps rec]
    by (auto simp: w' res result_of_def Let_def)
qed simp

definition paper_result :: "execution_result res" where
  "paper_result = fst (submit paper_demo demo_plan demo_now demo_world)"

lemma paper_submission_result_witness:
  "\<exists>q. open_position_for_security ''42'' (w_ledger (after_submit paper_demo)) = Some q \<and> po_quantity q = 50"
proof -
  have ok: "is_ok paper_result" by code_simp
  then obtain res where "paper_result = Inr res" by (auto simp: is_ok_iff)
  then have s: "submit paper_demo demo_plan demo_now demo_world = (Inr res, after_submit paper_demo)"
    unfolding paper_result_def after_submit_def by (metis prod.collapse)
  have m: "xp_mode (ct_policy paper_demo) = PAPER_TRADING" "paper_config_ok (ct_paper paper_demo)"
    by code_simp+
  have f: "paper_filled_quantity (ct_paper paper_demo) (pl_quantity demo_plan) = 50"
    "pl_security_id demo_plan = ''42''" by code_simp+
  show ?thesis using paper_submission_result[OF m s] f by (auto simp: Let_def)
qed


definition recorded_world :: world where
  "recorded_world = (case record_signal demo_plan RECEIVED demo_now (w_ledger demo_world) of
     Inl e \<Rightarrow> demo_world | Inr l \<Rightarrow> demo_world\<lparr>w_ledger := l\<rparr>)"


lemma open_position_first:
  "open_position_for_security sec l = Some p \<Longrightarrow>
     \<exists>r\<in>set (lg_positions l). p = position_of_row r \<and> lp_security_id r = sec \<and> lp_state r = OPEN"
  by (auto simp: open_position_for_security_def dest: sql_first_Some)

text \<open>
  C28: closing an open position of a sound ledger at a positive price and an aware time succeeds:
  the profit is the rounded signed price difference times the quantity, the security has no open
  position afterwards, and no other security is affected.
\<close>

theorem close_position_closes:
  assumes "ledger_ok l" "open_position_for_security sec l = Some p" "0 < x" "is_aware t"
  shows "\<exists>l'. close_position (po_position_id p) (Finite x) t l =
      Inr (dmul (dmul (dsub x (dec_val (po_average_entry_price p))) (of_int (po_quantity p)))
        (direction (po_side p)), l')
    \<and> open_position_for_security sec l' = None
    \<and> (\<forall>s. s \<noteq> sec \<longrightarrow> open_position_for_security s l' = open_position_for_security s l)"
proof -
  obtain r where r: "r \<in> set (lg_positions l)" "p = position_of_row r" "lp_security_id r = sec"
    "lp_state r = OPEN" using open_position_first[OF assms(2)] by blast
  let ?pid = "lp_position_id r"
  let ?pnl = "position_pnl x r"
  have keys: "unique_rows (\<lambda>r. Some (lp_position_id r)) (lg_positions l)"
    "unique_rows open_key (lg_positions l)"
    using assms(1) by (auto simp: ledger_ok_def positions_ok_def)
  have same: "q = r" if "q \<in> set (lg_positions l)" "lp_position_id q = ?pid" for q
    using unique_rows_same[OF keys(1) that(1) r(1)] that(2) by simp
  have only: "q = r" if "q \<in> set (lg_positions l)" "lp_security_id q = sec" "lp_state q = OPEN" for q
    using unique_rows_same[OF keys(2) that(1) r(1)] that(2,3) r(3,4) by (simp add: open_key_def)
  let ?P = "\<lambda>q. lp_position_id q = ?pid \<and> lp_state q = OPEN"
  have "sql_first ?P (lg_positions l) \<noteq> None"
    unfolding sql_first_None using r(1,4) by blast
  then obtain q where q: "sql_first ?P (lg_positions l) = Some q" by blast
  have "q = r" using sql_first_Some[OF q] same by blast
  with q have "sql_first ?P (lg_positions l) = Some r" by simp
  then obtain l' where cl: "close_position ?pid (Finite x) t l = Inr (?pnl, l')"
    using assms(3,4) by (auto simp: close_position_def Let_def timestamp_def record_event_def)
  from cl have pos: "lg_positions l' = sql_update (\<lambda>q. lp_position_id q = ?pid)
      (closed_row (instant t) (utc_day t) ?pnl) (lg_positions l)"
    by (rule close_positionD)
  have none: "open_position_for_security sec l' = None"
  proof -
    have "\<not> (lp_security_id q' = sec \<and> lp_state q' = OPEN)" if "q' \<in> set (lg_positions l')" for q'
    proof
      assume o: "lp_security_id q' = sec \<and> lp_state q' = OPEN"
      from that obtain q where q: "q \<in> set (lg_positions l)"
        "q' = (if lp_position_id q = ?pid then closed_row (instant t) (utc_day t) ?pnl q else q)"
        unfolding pos set_sql_update by blast
      with o have "q' = q" "lp_position_id q \<noteq> ?pid" by (auto simp: closed_row_def split: if_splits)
      with only[OF q(1)] o show False by simp
    qed
    then show ?thesis by (simp add: open_position_for_security_def sql_first_None)
  qed
  have other: "open_position_for_security s l' = open_position_for_security s l" if "s \<noteq> sec" for s
  proof -
    let ?f = "\<lambda>q. if lp_position_id q = ?pid then closed_row (instant t) (utc_day t) ?pnl q else q"
    have "List.find (\<lambda>q. lp_security_id q = s \<and> lp_state q = OPEN) (List.map ?f ps)
        = List.find (\<lambda>q. lp_security_id q = s \<and> lp_state q = OPEN) ps"
      if "set ps \<subseteq> set (lg_positions l)" for ps
      using that
    proof (induction ps)
      case (Cons q ps)
      then show ?case
        using same[of q] r(3) \<open>s \<noteq> sec\<close> by (cases "lp_position_id q = ?pid") (auto simp: closed_row_def)
    qed simp
    then show ?thesis by (simp add: open_position_for_security_def pos sql_update_def sql_first_def)
  qed
  show ?thesis
    using cl none other by (auto simp: r(2) position_of_row_def position_pnl_def)
qed

lemma close_position_closes_witness:
  "\<exists>p pnl l'. open_position_for_security ''42'' (w_ledger (after_submit paper_demo)) = Some p
    \<and> close_position (po_position_id p) (Finite 110) demo_now (w_ledger (after_submit paper_demo)) = Inr (pnl, l')
    \<and> open_position_for_security ''42'' l' = None"
proof -
  have "open_position_for_security ''42'' (w_ledger (after_submit paper_demo)) \<noteq> None"
    using paper_demo_positions by (auto simp: open_position_for_security_def sql_first_None)
  then obtain p where p: "open_position_for_security ''42'' (w_ledger (after_submit paper_demo)) = Some p"
    by blast
  have "ledger_ok (w_ledger (after_submit paper_demo))"
    by (rule reachable_ledger_ok[OF after_submit_reachable])
  from close_position_closes[OF this p, of 110 demo_now] p show ?thesis
    by (auto simp: demo_now_def)
qed

text \<open>
  C35: the books reconcile: in every reachable world the journal's \<open>POSITION_CLOSED\<close> entries are,
  one for one, the closed positions with their realised profit, and every position carries the
  signal, security, side, filled quantity and average price of an order on record.
\<close>

theorem books_reconcile:
  assumes "reachable initial_world (controller_step c) w"
  shows "mset (journal_closings (lg_journal (w_ledger w))) = mset (position_closings (lg_positions (w_ledger w)))
    \<and> (\<forall>r\<in>set (lg_positions (w_ledger w)). \<exists>q\<in>set (lg_orders (w_ledger w)). order_of_position q r)"
  using reachable_ledger_ok[OF assms] by (simp add: ledger_ok_def reconciled_def linked_def)

lemma books_reconcile_witness:
  "\<exists>r\<in>set (lg_positions (w_ledger (after_submit paper_demo))).
     \<exists>q\<in>set (lg_orders (w_ledger (after_submit paper_demo))). order_of_position q r"
proof -
  obtain r where "r \<in> set (lg_positions (w_ledger (after_submit paper_demo)))"
    using paper_demo_positions by (cases "lg_positions (w_ledger (after_submit paper_demo))") auto
  then show ?thesis using books_reconcile[OF after_submit_reachable] by blast
qed

text \<open>
  a controller that is not in \<open>LIVE_AUTOMATIC\<close> mode, or whose policy locks live trading, or
  that has no gateway, never calls one.
\<close>

theorem no_gateway_call_unless_live:
  assumes "reachable initial_world (controller_step c) w"
    and "xp_mode (ct_policy c) \<noteq> LIVE_AUTOMATIC \<or> \<not> xp_live_enabled (ct_policy c) \<or> ct_live c = None"
  shows "w_calls w = []"
  using worlds.reachable_inv[OF assms(1)] assms(2) by (auto simp: world_ok_def live_allowed_def)

lemma no_gateway_call_unless_live_witness: "w_calls (after_submit paper_demo) = []"
proof -
  have "xp_mode (ct_policy paper_demo) \<noteq> LIVE_AUTOMATIC" by code_simp
  then show ?thesis using no_gateway_call_unless_live[OF after_submit_reachable] by blast
qed

text \<open>
  only an awaiting signal can change: a signal of a reachable world in any other state keeps
  it in every later world.
\<close>

theorem settled_signals_stay:
  assumes "reachable initial_world (controller_step c) w" "(controller_step c)\<^sup>*\<^sup>* w w'"
    and "signal_state sid (w_ledger w) = Some s" "s \<noteq> AWAITING_APPROVAL"
  shows "signal_state sid (w_ledger w') = Some s"
proof -
  have "reachable initial_world (controller_step c) w' \<and> signal_state sid (w_ledger w') = Some s"
    using assms(2)
  proof (induction rule: rtranclp_induct)
    case base
    then show ?case using assms(1,3) by simp
  next
    case (step u v)
    then have u: "ledger_ok (w_ledger u)" "states_of u sid = Some s"
      using reachable_ledger_ok by (auto simp: states_of_def)
    have "states_of v sid = Some s"
      using step_refines[OF step.hyps(2) u(1)] life_step_fixed[of _ "states_of u" "states_of v" sid s]
        u(2) assms(4) by auto
    then show ?case using step reachable_step by (fastforce simp: states_of_def)
  qed
  then show ?thesis by simp
qed

lemma paper_demo_state: "signal_state ''s1'' (w_ledger (after_submit paper_demo)) = Some FILLED"
  by code_simp

lemma settled_signals_stay_witness:
  "signal_state ''s1'' (w_ledger (snd (submit paper_demo demo_plan demo_now (after_submit paper_demo))))
    = Some FILLED"
proof -
  have "controller_step paper_demo (after_submit paper_demo)
      (snd (submit paper_demo demo_plan demo_now (after_submit paper_demo)))"
    by (rule step_submit) (rule prod.collapse[symmetric])
  then show ?thesis
    using settled_signals_stay[OF after_submit_reachable _ paper_demo_state] by blast
qed

text \<open>
  C36: a fill price that rounds to nothing is not stored: when the paper price of a plan quantizes
  to zero (a limit below half of 0.0001), the ledger's \<open>CHECK\<close> refuses the order and the bare
  \<open>sqlite3.IntegrityError\<close> reaches the caller, with nothing changed by the execution.
\<close>

theorem subtick_price_escapes:
  assumes "pl_limit_price plan = Finite x" "is_aware now"
    and "paper_fill_price (ct_paper c) (pl_side plan) (Finite x) = Inr (Finite 0)"
    and "0 < pl_quantity plan" "pl_quantity plan < 2 ^ 63"
    and "0 < pc_partial_fill_ratio (ct_paper c)" "paper_config_ok (ct_paper c)"
  shows "execute_paper c plan now w = (Inl IntegrityError, w)"
proof -
  let ?f = "paper_filled_quantity (ct_paper c) (pl_quantity plan)"
  let ?hex = "ct_digest c (pl_correlation_id plan)"
  let ?o = "paper_order ?hex plan ?f (Finite 0) now"
  have f: "0 < ?f" "?f \<le> pl_quantity plan"
    using paper_filled_pos_iff[OF assms(7,4)] assms(6) paper_filled_le by auto
  have ps: "paper_submit (ct_digest c) (ct_paper c) plan now
      = Inr (?o, paper_fills ?hex (pl_quantity plan) ?f (Finite 0) now)"
    using assms(1,3) by (simp add: paper_submit_def Let_def)
  have "insert_order ?o l = Inl IntegrityError" for l
  proof -
    have "bind_int (pl_quantity plan) = Inr (pl_quantity plan)" "bind_int ?f = Inr ?f"
      using assms(4,5) f by (simp_all add: bind_int_def)
    moreover have "\<not> orders_admit (signal_ids l) (lg_orders l) r" if "lo_average_fill_price r = Some 0" for r
      using that by (simp add: orders_admit_def real_pos_def)
    ultimately show ?thesis
      using f assms(1,2)
      by (simp add: insert_order_def paper_order_def encode_decimal_def encode_optional_decimal_def
          timestamp_def sql_insert_def)
  qed
  then show ?thesis
    by (simp add: execute_paper_def action_simps ps record_execution_def)
qed

text \<open>The signal of such a plan stays \<open>RECEIVED\<close> and cannot be submitted again.\<close>

definition subtick_world :: world where
  "subtick_world = snd (submit paper_demo (demo_plan_at (1 / 100000)) demo_now demo_world)"

lemma subtick_world_state: "signal_state ''s1'' (w_ledger subtick_world) = Some RECEIVED"
  by code_simp

lemma subtick_price_escapes_witness:
  "execute_paper paper_demo (demo_plan_at (1 / 100000)) demo_now demo_world = (Inl IntegrityError, demo_world)"
  by (rule subtick_price_escapes[of _ "1 / 100000"]) (code_simp+)

text \<open>
  the result of a live submission follows the state the broker reported, the ledger follows
  the filled quantity; nothing makes the two agree, and a broker that reports \<open>FILLED\<close> with no
  fill is answered with \<open>FILLED\<close> while the ledger holds \<open>SUBMITTED\<close>.
\<close>

theorem live_result_follows_broker_state:
  assumes "record_live plan now ack w = (Inr res, w')"
  shows "er_state res = (if ack_state ack = O_FILLED then FILLED
      else if ack_state ack = O_PARTIALLY_FILLED then PARTIALLY_FILLED else SUBMITTED)
    \<and> signal_state (pl_signal_id plan) (w_ledger w') = Some
      (if ack_filled_quantity ack = pl_quantity plan then FILLED
       else if ack_filled_quantity ack \<noteq> 0 then PARTIALLY_FILLED else SUBMITTED)"
proof -
  let ?o = "live_order plan ack now"
  obtain fs p l where rec: "record_execution ?o fs now (w_ledger w) = Inr (p, l)"
    "w' = w\<lparr>w_ledger := l\<rparr>" "res = result_of plan ?o fs"
    using assms by (auto simp: record_live_def action_simps split: sum.splits if_splits prod.splits)
  show ?thesis
    using record_executionD(3)[OF rec(1), of "pl_signal_id plan"]
    by (simp add: rec(2,3) live_order_def result_of_def paper_result_state_def executed_state_def)
qed

lemma live_result_follows_broker_state_witness:
  "\<exists>res w'. record_live demo_plan demo_now (demo_ack O_FILLED 0 None) recorded_world = (Inr res, w')
    \<and> er_state res = FILLED \<and> signal_state ''s1'' (w_ledger w') = Some SUBMITTED"
proof -
  have "is_ok (fst (record_live demo_plan demo_now (demo_ack O_FILLED 0 None) recorded_world))"
    by code_simp
  then obtain res w' where r: "record_live demo_plan demo_now (demo_ack O_FILLED 0 None) recorded_world
      = (Inr res, w')" by (auto simp: is_ok_iff) (metis prod.collapse)
  from live_result_follows_broker_state[OF this] r show ?thesis
    by (auto simp: demo_ack_def demo_plan_def demo_plan_at_def)
qed

text \<open>
  a recorded signal keeps its plan: after \<open>record_signal\<close> succeeds, \<open>plan\<close> reads back exactly
  the submitted plan and \<open>signal_state\<close> the given state, every other signal as before, and a second
  recording of the same signal raises \<open>DuplicateSignalError\<close>.
\<close>

theorem recorded_plan_reads_back:
  assumes "record_signal plan s t l = Inr l'"
  shows "ledger_plan (pl_signal_id plan) l' = Inr (Some plan)
    \<and> signal_state (pl_signal_id plan) l' = Some s
    \<and> (\<forall>x. x \<noteq> pl_signal_id plan \<longrightarrow> signal_state x l' = signal_state x l)
    \<and> (\<exists>msg. record_signal plan s' t l' = Inl (DuplicateSignalError msg))"
proof -
  let ?r = "new_signal_row plan s (instant t)"
  have ins: "sql_insert signals_admit ?r (lg_signals l) = Inr (lg_signals l @ [?r])"
    and l': "lg_signals l' = lg_signals l @ [?r]" and t: "is_aware t"
    using assms by (auto simp: record_signal_def res_simps)
  have "sql_first (\<lambda>r. sr_signal_id r = pl_signal_id plan) (lg_signals l') = Some ?r"
    using sig_id.insert_lookup[OF ins, of "pl_signal_id plan"] by (simp add: l' new_signal_row_def)
  then have "ledger_plan (pl_signal_id plan) l' = Inr (Some plan)"
    by (simp add: ledger_plan_def new_signal_row_def plan_roundtrip)
  moreover have "sql_insert signals_admit (new_signal_row plan s' (instant t)) (lg_signals l') = Inl IntegrityError"
    by (rule sig_id.insert_duplicate[of _ "pl_signal_id plan"])
      (simp_all add: new_signal_row_def l' index_keys_total)
  ultimately show ?thesis
    using record_signalD(3)[OF assms] t
    by (simp add: record_signal_def timestamp_def integrity_as_def)
qed

lemma recorded_plan_reads_back_witness:
  "\<exists>l'. record_signal demo_plan RECEIVED demo_now (initial_ledger 0) = Inr l'
    \<and> ledger_plan ''s1'' l' = Inr (Some demo_plan)"
proof -
  have "is_ok (record_signal demo_plan RECEIVED demo_now (initial_ledger 0))" by code_simp
  then obtain l' where "record_signal demo_plan RECEIVED demo_now (initial_ledger 0) = Inr l'"
    by (auto simp: is_ok_iff)
  with recorded_plan_reads_back[OF this] show ?thesis by (simp add: demo_plan_def demo_plan_at_def)
qed

end
