(* ===== verification/BtModels.thy ===== *)
theory BtModels
  imports Clock
begin

text \<open>
  The inputs and outputs of the option replay, \<open>backtesting/models.py\<close>.  A record whose decimals
  are checked by its constructor is polymorphic in them: \<open>mk_...\<close> takes the raw values and
  returns the record over rational numbers, or the \<open>ValueError\<close>.
\<close>

datatype ExitReason = STOP | TARGET | EXPIRY | TIME | END_OF_DATA

datatype JournalEvent = SIGNAL | ENTRY | EXIT_FILL | EXIT | SKIPPED | UNFILLED

fun exit_reason_value :: "ExitReason \<Rightarrow> string" where
  "exit_reason_value STOP = ''STOP''"
| "exit_reason_value TARGET = ''TARGET''"
| "exit_reason_value EXPIRY = ''EXPIRY''"
| "exit_reason_value TIME = ''TIME''"
| "exit_reason_value END_OF_DATA = ''END_OF_DATA''"

definition ensure :: "bool \<Rightarrow> string \<Rightarrow> unit res" where
  "ensure b msg = (if b then Inr () else Inl (ValueError msg))"

lemma ensure_eq_Inr [res_simps]: "ensure b msg = Inr u \<longleftrightarrow> b"
  by (simp add: ensure_def)

definition bt_require_aware :: "datetime \<Rightarrow> string \<Rightarrow> unit res" where
  "bt_require_aware t name = ensure (is_aware t) (name @ '' must be timezone-aware'')"

definition require_finite_decimal :: "decimal \<Rightarrow> string \<Rightarrow> rat res" where
  "require_finite_decimal v name = (if dec_is_finite v then Inr (dec_val v)
     else Inl (ValueError (name @ '' must be finite'')))"

lemma require_finite_decimal_eq_Inr [res_simps]:
  "require_finite_decimal v name = Inr x \<longleftrightarrow> v = Finite x"
  by (cases v) (auto simp: require_finite_decimal_def)

subsection \<open>Bars\<close>

record 'd option_bar =
  ob_instrument_id :: string
  ob_timestamp :: datetime
  ob_open :: 'd
  ob_high :: 'd
  ob_low :: 'd
  ob_close :: 'd
  ob_bid :: 'd
  ob_ask :: 'd
  ob_bid_quantity :: "int option"
  ob_ask_quantity :: "int option"

type_synonym bar = "rat option_bar"

definition positive_price :: "string \<times> decimal \<Rightarrow> rat res" where
  "positive_price nv = bindr (require_finite_decimal (snd nv) (''bar '' @ fst nv)) (\<lambda>x.
     if x \<le> 0 then Inl (ValueError (''bar '' @ fst nv @ '' must be positive'')) else Inr x)"

definition bar_prices :: "'d option_bar \<Rightarrow> (string \<times> 'd) list" where
  "bar_prices b = [(''open'', ob_open b), (''high'', ob_high b), (''low'', ob_low b),
     (''close'', ob_close b), (''bid'', ob_bid b), (''ask'', ob_ask b)]"

definition nonneg_quantity :: "string \<times> int option \<Rightarrow> unit res" where
  "nonneg_quantity nq = ensure (case snd nq of None \<Rightarrow> True | Some q \<Rightarrow> 0 \<le> q)
     (fst nq @ '' cannot be negative'')"

definition bar_values :: "decimal option_bar \<Rightarrow> bar" where
  "bar_values b = \<lparr>ob_instrument_id = ob_instrument_id b, ob_timestamp = ob_timestamp b,
     ob_open = dec_val (ob_open b), ob_high = dec_val (ob_high b), ob_low = dec_val (ob_low b),
     ob_close = dec_val (ob_close b), ob_bid = dec_val (ob_bid b), ob_ask = dec_val (ob_ask b),
     ob_bid_quantity = ob_bid_quantity b, ob_ask_quantity = ob_ask_quantity b\<rparr>"

definition check_bar_shape :: "bar \<Rightarrow> bar res" where
  "check_bar_shape v =
    bindr (ensure (max (ob_open v) (max (ob_close v) (ob_low v)) \<le> ob_high v)
      ''bar high must be at least open, low, and close'') (\<lambda>_.
    bindr (ensure (ob_low v \<le> min (ob_open v) (min (ob_close v) (ob_high v)))
      ''bar low must be at most open, high, and close'') (\<lambda>_.
    bindr (ensure (ob_bid v \<le> ob_ask v) ''bar ask cannot be below bid'') (\<lambda>_.
    bindr (traverse nonneg_quantity [(''bid_quantity'', ob_bid_quantity v),
        (''ask_quantity'', ob_ask_quantity v)]) (\<lambda>_.
      Inr v))))"

definition mk_option_bar :: "decimal option_bar \<Rightarrow> bar res" where
  "mk_option_bar b =
    bindr (ensure (py_strip (ob_instrument_id b) \<noteq> []) ''bar instrument_id cannot be blank'') (\<lambda>_.
    bindr (bt_require_aware (ob_timestamp b) ''bar timestamp'') (\<lambda>_.
    bindr (traverse positive_price (bar_prices b)) (\<lambda>_.
      check_bar_shape (bar_values b))))"

definition bar_ok :: "bar \<Rightarrow> bool" where
  "bar_ok b \<longleftrightarrow> py_strip (ob_instrument_id b) \<noteq> [] \<and> is_aware (ob_timestamp b)
     \<and> 0 < ob_low b \<and> ob_low b \<le> ob_open b \<and> ob_open b \<le> ob_high b
     \<and> ob_low b \<le> ob_close b \<and> ob_close b \<le> ob_high b
     \<and> 0 < ob_bid b \<and> ob_bid b \<le> ob_ask b
     \<and> (\<forall>q. ob_bid_quantity b = Some q \<longrightarrow> 0 \<le> q) \<and> (\<forall>q. ob_ask_quantity b = Some q \<longrightarrow> 0 \<le> q)"

lemma mk_option_bar_ok: "mk_option_bar b = Inr v \<Longrightarrow> bar_ok v \<and> v = bar_values b"
  by (auto simp: mk_option_bar_def check_bar_shape_def bar_prices_def bar_values_def bar_ok_def
      bt_require_aware_def positive_price_def nonneg_quantity_def bindr_eq_Inr ensure_eq_Inr
      require_finite_decimal_eq_Inr split: if_splits option.splits)

subsection \<open>Signals\<close>

record ('f, 'd) backtest_signal =
  bs_signal_id :: string
  bs_instrument_id :: string
  bs_generated_at :: datetime
  bs_option_side :: string
  bs_lots :: int
  bs_lot_size :: int
  bs_stop_price :: 'd
  bs_target_price :: 'd
  bs_contract_expiry :: datetime
  bs_score :: 'f
  bs_score_band :: string
  bs_market :: string
  bs_expiry_bucket :: string
  bs_moneyness :: string
  bs_time_bucket :: string
  bs_volatility_bucket :: string
  bs_regime :: string
  bs_max_holding :: "int option"
  bs_valid_until :: "datetime option"
  bs_tags :: "(string \<times> string) list"

type_synonym signal = "(rat, rat) backtest_signal"

definition requested_quantity :: "('f, 'd) backtest_signal \<Rightarrow> int" where
  "requested_quantity s = bs_lots s * bs_lot_size s"

definition signal_dimensions :: "('f, 'd) backtest_signal \<Rightarrow> string list" where
  "signal_dimensions s = [bs_score_band s, bs_market s, bs_expiry_bucket s, bs_moneyness s,
     bs_time_bucket s, bs_volatility_bucket s, bs_regime s]"

definition check_valid_until :: "('f, 'd) backtest_signal \<Rightarrow> unit res" where
  "check_valid_until s = (case bs_valid_until s of None \<Rightarrow> Inr ()
     | Some u \<Rightarrow> bindr (bt_require_aware u ''signal valid_until'') (\<lambda>_.
         ensure (instant (bs_generated_at s) < instant u) ''valid_until must be after signal generation''))"

definition score_ok :: "float64 \<Rightarrow> bool" where
  "score_ok x \<longleftrightarrow> isfinite x \<and> 0 \<le> flt_val x \<and> flt_val x \<le> 100"

definition signal_values :: "(float64, decimal) backtest_signal \<Rightarrow> signal" where
  "signal_values s = \<lparr>bs_signal_id = bs_signal_id s, bs_instrument_id = bs_instrument_id s,
     bs_generated_at = bs_generated_at s, bs_option_side = bs_option_side s, bs_lots = bs_lots s,
     bs_lot_size = bs_lot_size s, bs_stop_price = dec_val (bs_stop_price s),
     bs_target_price = dec_val (bs_target_price s), bs_contract_expiry = bs_contract_expiry s,
     bs_score = flt_val (bs_score s), bs_score_band = bs_score_band s, bs_market = bs_market s,
     bs_expiry_bucket = bs_expiry_bucket s, bs_moneyness = bs_moneyness s,
     bs_time_bucket = bs_time_bucket s, bs_volatility_bucket = bs_volatility_bucket s,
     bs_regime = bs_regime s, bs_max_holding = bs_max_holding s,
     bs_valid_until = bs_valid_until s, bs_tags = bs_tags s\<rparr>"

definition mk_backtest_signal :: "(float64, decimal) backtest_signal \<Rightarrow> signal res" where
  "mk_backtest_signal s =
    bindr (ensure (py_strip (bs_signal_id s) \<noteq> [] \<and> py_strip (bs_instrument_id s) \<noteq> [])
      ''signal_id and instrument_id cannot be blank'') (\<lambda>_.
    bindr (ensure (py_strip (bs_option_side s) \<noteq> []) ''option_side cannot be blank'') (\<lambda>_.
    bindr (bt_require_aware (bs_generated_at s) ''signal generated_at'') (\<lambda>_.
    bindr (bt_require_aware (bs_contract_expiry s) ''signal contract_expiry'') (\<lambda>_.
    bindr (ensure (instant (bs_generated_at s) < instant (bs_contract_expiry s))
      ''contract_expiry must be after signal generation'') (\<lambda>_.
    bindr (check_valid_until s) (\<lambda>_.
    bindr (ensure (case bs_max_holding s of None \<Rightarrow> True | Some h \<Rightarrow> 0 < h)
      ''max_holding must be positive'') (\<lambda>_.
    bindr (ensure (0 < bs_lots s \<and> 0 < bs_lot_size s) ''lots and lot_size must be positive'') (\<lambda>_.
    bindr (require_finite_decimal (bs_stop_price s) ''signal stop_price'') (\<lambda>stop.
    bindr (require_finite_decimal (bs_target_price s) ''signal target_price'') (\<lambda>target.
    bindr (ensure (0 \<le> stop \<and> stop < target) ''long-option prices require 0 <= stop < target'') (\<lambda>_.
    bindr (ensure (score_ok (bs_score s)) ''signal score must be finite and within 0..100'') (\<lambda>_.
    bindr (ensure (list_all (\<lambda>v. py_strip v \<noteq> []) (signal_dimensions s))
      ''signal breakdown dimensions cannot be blank'') (\<lambda>_.
      Inr (signal_values s))))))))))))))"

definition signal_ok :: "signal \<Rightarrow> bool" where
  "signal_ok s \<longleftrightarrow> is_aware (bs_generated_at s) \<and> is_aware (bs_contract_expiry s)
     \<and> instant (bs_generated_at s) < instant (bs_contract_expiry s)
     \<and> (\<forall>u. bs_valid_until s = Some u \<longrightarrow> is_aware u \<and> instant (bs_generated_at s) < instant u)
     \<and> (\<forall>h. bs_max_holding s = Some h \<longrightarrow> 0 < h) \<and> 0 < bs_lots s \<and> 0 < bs_lot_size s
     \<and> 0 \<le> bs_stop_price s \<and> bs_stop_price s < bs_target_price s
     \<and> 0 \<le> bs_score s \<and> bs_score s \<le> 100"

lemma mk_backtest_signal_ok:
  "mk_backtest_signal s = Inr v \<Longrightarrow> signal_ok v \<and> v = signal_values s"
  by (auto simp: mk_backtest_signal_def signal_values_def signal_ok_def check_valid_until_def
      score_ok_def bt_require_aware_def bindr_eq_Inr ensure_eq_Inr require_finite_decimal_eq_Inr
      split: option.splits)

subsection \<open>Frames\<close>

record replay_frame =
  rf_timestamp :: datetime
  rf_bars :: "bar list"
  rf_signals :: "signal list"

definition check_frame_bar :: "datetime \<Rightarrow> bar \<Rightarrow> string list \<Rightarrow> string list res" where
  "check_frame_bar t b seen =
    bindr (ensure (dt_eq (ob_timestamp b) t) ''every bar timestamp must equal its frame timestamp'') (\<lambda>_.
    bindr (ensure (ob_instrument_id b \<notin> set seen)
      ''a frame cannot contain duplicate instrument bars'') (\<lambda>_.
      Inr (ob_instrument_id b # seen)))"

definition check_frame_signal :: "datetime \<Rightarrow> signal \<Rightarrow> string list \<Rightarrow> string list res" where
  "check_frame_signal t s seen =
    bindr (ensure (dt_eq (bs_generated_at s) t)
      ''a signal must be placed in the frame where it became available'') (\<lambda>_.
    bindr (ensure (bs_signal_id s \<notin> set seen)
      ''a frame cannot contain duplicate signal IDs'') (\<lambda>_.
      Inr (bs_signal_id s # seen)))"

definition mk_replay_frame :: "datetime \<Rightarrow> bar list \<Rightarrow> signal list \<Rightarrow> replay_frame res" where
  "mk_replay_frame t bars signals =
    bindr (bt_require_aware t ''frame timestamp'') (\<lambda>_.
    bindr (fold_res (check_frame_bar t) bars []) (\<lambda>_.
    bindr (fold_res (check_frame_signal t) signals []) (\<lambda>_.
      Inr \<lparr>rf_timestamp = t, rf_bars = bars, rf_signals = signals\<rparr>)))"

definition frame_ok :: "replay_frame \<Rightarrow> bool" where
  "frame_ok f \<longleftrightarrow> is_aware (rf_timestamp f)
     \<and> (\<forall>b\<in>set (rf_bars f). is_aware (ob_timestamp b) \<and> instant (ob_timestamp b) = instant (rf_timestamp f))
     \<and> distinct (List.map ob_instrument_id (rf_bars f))
     \<and> (\<forall>s\<in>set (rf_signals f). is_aware (bs_generated_at s)
          \<and> instant (bs_generated_at s) = instant (rf_timestamp f))
     \<and> distinct (List.map bs_signal_id (rf_signals f))"

text \<open>A loop that collects keys and rejects a repeated one leaves them distinct.\<close>

lemma fold_res_collect:
  assumes "fold_res f xs seen = Inr out" "distinct seen"
    and "\<And>x s t. f x s = Inr t \<Longrightarrow> P x \<and> k x \<notin> set s \<and> t = k x # s"
  shows "(\<forall>x\<in>set xs. P x) \<and> distinct (List.map k xs) \<and> set (List.map k xs) \<inter> set seen = {}
    \<and> set out = set (List.map k xs) \<union> set seen"
  using assms(1,2)
proof (induction xs arbitrary: seen)
  case Nil
  then show ?case by simp
next
  case (Cons x xs)
  then obtain t where t: "f x seen = Inr t" "fold_res f xs t = Inr out"
    by (auto simp: bindr_eq_Inr)
  from assms(3)[OF t(1)] have x: "P x" "k x \<notin> set seen" "t = k x # seen" by auto
  with Cons.prems(2) have "distinct t" by simp
  from Cons.IH[OF t(2) this] show ?case using x by auto
qed

lemma mk_replay_frame_ok:
  assumes "mk_replay_frame t bars signals = Inr f"
  shows "frame_ok f \<and> f = \<lparr>rf_timestamp = t, rf_bars = bars, rf_signals = signals\<rparr>"
proof -
  obtain bo so where t: "is_aware t" and b: "fold_res (check_frame_bar t) bars [] = Inr bo"
    and s: "fold_res (check_frame_signal t) signals [] = Inr so"
    and f: "f = \<lparr>rf_timestamp = t, rf_bars = bars, rf_signals = signals\<rparr>"
    using assms by (auto simp: mk_replay_frame_def bindr_eq_Inr bt_require_aware_def ensure_eq_Inr)
  have "(\<forall>b\<in>set bars. dt_eq (ob_timestamp b) t) \<and> distinct (List.map ob_instrument_id bars)"
    using fold_res_collect[OF b, where P = "\<lambda>b. dt_eq (ob_timestamp b) t" and k = ob_instrument_id]
    by (auto simp: check_frame_bar_def bindr_eq_Inr ensure_eq_Inr)
  moreover have "(\<forall>s\<in>set signals. dt_eq (bs_generated_at s) t) \<and> distinct (List.map bs_signal_id signals)"
    using fold_res_collect[OF s, where P = "\<lambda>s. dt_eq (bs_generated_at s) t" and k = bs_signal_id]
    by (auto simp: check_frame_signal_def bindr_eq_Inr ensure_eq_Inr)
  ultimately show ?thesis using t by (auto simp: f frame_ok_def dt_eq_def)
qed

end
