(* ===== verification/BtConfig.thy ===== *)
theory BtConfig
  imports BtModels
begin

text \<open>
  The cost, slippage and fill configuration of a replay and its output records
  (\<open>backtesting/models.py\<close>).
\<close>

definition nonneg_decimal :: "string \<Rightarrow> decimal \<Rightarrow> rat res" where
  "nonneg_decimal name v = bindr (require_finite_decimal v name) (\<lambda>x.
     if x < 0 then Inl (ValueError (name @ '' cannot be negative'')) else Inr x)"

lemma nonneg_decimal_eq_Inr [res_simps]: "nonneg_decimal name v = Inr x \<longleftrightarrow> v = Finite x \<and> 0 \<le> x"
  by (cases v) (auto simp: nonneg_decimal_def require_finite_decimal_def)

record 'd slippage_config =
  sl_entry_bps :: 'd
  sl_exit_bps :: 'd
  sl_fixed_entry_per_unit :: 'd
  sl_fixed_exit_per_unit :: 'd

definition mk_slippage_config :: "decimal slippage_config \<Rightarrow> rat slippage_config res" where
  "mk_slippage_config s =
    bindr (nonneg_decimal ''entry_bps'' (sl_entry_bps s)) (\<lambda>a.
    bindr (nonneg_decimal ''exit_bps'' (sl_exit_bps s)) (\<lambda>b.
    bindr (nonneg_decimal ''fixed_entry_per_unit'' (sl_fixed_entry_per_unit s)) (\<lambda>c.
    bindr (nonneg_decimal ''fixed_exit_per_unit'' (sl_fixed_exit_per_unit s)) (\<lambda>d.
      Inr \<lparr>sl_entry_bps = a, sl_exit_bps = b, sl_fixed_entry_per_unit = c,
        sl_fixed_exit_per_unit = d\<rparr>))))"

definition slippage_ok :: "rat slippage_config \<Rightarrow> bool" where
  "slippage_ok s \<longleftrightarrow> 0 \<le> sl_entry_bps s \<and> 0 \<le> sl_exit_bps s
     \<and> 0 \<le> sl_fixed_entry_per_unit s \<and> 0 \<le> sl_fixed_exit_per_unit s"

record 'd cost_config =
  cc_brokerage_per_order :: 'd
  cc_entry_tax_rate :: 'd
  cc_exit_tax_rate :: 'd
  cc_transaction_fee_rate :: 'd
  cc_regulatory_fee_rate :: 'd
  cc_gst_rate :: 'd

definition rate_within_one :: "string \<times> rat \<Rightarrow> unit res" where
  "rate_within_one nv = ensure (snd nv \<le> 1) (fst nv @ '' must be within 0..1'')"

definition mk_cost_config :: "decimal cost_config \<Rightarrow> rat cost_config res" where
  "mk_cost_config c =
    bindr (nonneg_decimal ''brokerage_per_order'' (cc_brokerage_per_order c)) (\<lambda>brokerage.
    bindr (nonneg_decimal ''entry_tax_rate'' (cc_entry_tax_rate c)) (\<lambda>en.
    bindr (nonneg_decimal ''exit_tax_rate'' (cc_exit_tax_rate c)) (\<lambda>ex.
    bindr (nonneg_decimal ''transaction_fee_rate'' (cc_transaction_fee_rate c)) (\<lambda>tr.
    bindr (nonneg_decimal ''regulatory_fee_rate'' (cc_regulatory_fee_rate c)) (\<lambda>rg.
    bindr (nonneg_decimal ''gst_rate'' (cc_gst_rate c)) (\<lambda>gst.
    bindr (traverse rate_within_one [(''entry_tax_rate'', en), (''exit_tax_rate'', ex),
        (''transaction_fee_rate'', tr), (''regulatory_fee_rate'', rg), (''gst_rate'', gst)]) (\<lambda>_.
      Inr \<lparr>cc_brokerage_per_order = brokerage, cc_entry_tax_rate = en, cc_exit_tax_rate = ex,
        cc_transaction_fee_rate = tr, cc_regulatory_fee_rate = rg, cc_gst_rate = gst\<rparr>)))))))"

definition costs_ok :: "rat cost_config \<Rightarrow> bool" where
  "costs_ok c \<longleftrightarrow> 0 \<le> cc_brokerage_per_order c
     \<and> 0 \<le> cc_entry_tax_rate c \<and> cc_entry_tax_rate c \<le> 1
     \<and> 0 \<le> cc_exit_tax_rate c \<and> cc_exit_tax_rate c \<le> 1
     \<and> 0 \<le> cc_transaction_fee_rate c \<and> cc_transaction_fee_rate c \<le> 1
     \<and> 0 \<le> cc_regulatory_fee_rate c \<and> cc_regulatory_fee_rate c \<le> 1
     \<and> 0 \<le> cc_gst_rate c \<and> cc_gst_rate c \<le> 1"

record 'd partial_fill_config =
  pf_enabled :: bool
  pf_maximum_participation_rate :: 'd

definition mk_partial_fill_config :: "decimal partial_fill_config \<Rightarrow> rat partial_fill_config res" where
  "mk_partial_fill_config p =
    bindr (require_finite_decimal (pf_maximum_participation_rate p) ''maximum_participation_rate'') (\<lambda>r.
    bindr (ensure (0 < r \<and> r \<le> 1) ''maximum_participation_rate must be within (0, 1]'') (\<lambda>_.
      Inr \<lparr>pf_enabled = pf_enabled p, pf_maximum_participation_rate = r\<rparr>))"

definition partial_ok :: "rat partial_fill_config \<Rightarrow> bool" where
  "partial_ok p \<longleftrightarrow> 0 < pf_maximum_participation_rate p \<and> pf_maximum_participation_rate p \<le> 1"

record bt_config =
  bc_initial_capital :: rat
  bc_slippage :: "rat slippage_config"
  bc_costs :: "rat cost_config"
  bc_partial_fills :: "rat partial_fill_config"

definition mk_backtest_config ::
  "decimal \<Rightarrow> rat slippage_config \<Rightarrow> rat cost_config \<Rightarrow> rat partial_fill_config \<Rightarrow> bt_config res" where
  "mk_backtest_config capital slippage costs partial =
    bindr (require_finite_decimal capital ''initial_capital'') (\<lambda>c.
    bindr (ensure (0 < c) ''initial_capital must be positive'') (\<lambda>_.
      Inr \<lparr>bc_initial_capital = c, bc_slippage = slippage, bc_costs = costs,
        bc_partial_fills = partial\<rparr>))"

definition bt_config_ok :: "bt_config \<Rightarrow> bool" where
  "bt_config_ok c \<longleftrightarrow> 0 < bc_initial_capital c \<and> slippage_ok (bc_slippage c)
     \<and> costs_ok (bc_costs c) \<and> partial_ok (bc_partial_fills c)"

lemma mk_slippage_config_ok: "mk_slippage_config s = Inr v \<Longrightarrow> slippage_ok v"
  by (auto simp: mk_slippage_config_def slippage_ok_def bindr_eq_Inr nonneg_decimal_eq_Inr)

lemma mk_cost_config_ok: "mk_cost_config c = Inr v \<Longrightarrow> costs_ok v"
  by (auto simp: mk_cost_config_def costs_ok_def bindr_eq_Inr nonneg_decimal_eq_Inr
      rate_within_one_def ensure_eq_Inr)

lemma mk_partial_fill_config_ok: "mk_partial_fill_config p = Inr v \<Longrightarrow> partial_ok v"
  by (auto simp: mk_partial_fill_config_def partial_ok_def bindr_eq_Inr ensure_eq_Inr)

lemma mk_backtest_config_ok:
  "mk_backtest_config cap s c p = Inr v \<Longrightarrow> slippage_ok s \<Longrightarrow> costs_ok c \<Longrightarrow> partial_ok p \<Longrightarrow> bt_config_ok v"
  by (auto simp: mk_backtest_config_def bt_config_ok_def bindr_eq_Inr ensure_eq_Inr)

subsection \<open>Outputs\<close>

record cost_breakdown =
  cb_brokerage :: rat
  cb_taxes :: rat
  cb_transaction_fees :: rat
  cb_regulatory_fees :: rat
  cb_gst :: rat

definition zero_costs :: cost_breakdown where
  "zero_costs = \<lparr>cb_brokerage = 0, cb_taxes = 0, cb_transaction_fees = 0, cb_regulatory_fees = 0,
     cb_gst = 0\<rparr>"

definition cost_total :: "cost_breakdown \<Rightarrow> rat" where
  "cost_total c = dadd (dadd (dadd (dadd (cb_brokerage c) (cb_taxes c)) (cb_transaction_fees c))
     (cb_regulatory_fees c)) (cb_gst c)"

definition cost_add :: "cost_breakdown \<Rightarrow> cost_breakdown \<Rightarrow> cost_breakdown" where
  "cost_add a b = \<lparr>cb_brokerage = dadd (cb_brokerage a) (cb_brokerage b),
     cb_taxes = dadd (cb_taxes a) (cb_taxes b),
     cb_transaction_fees = dadd (cb_transaction_fees a) (cb_transaction_fees b),
     cb_regulatory_fees = dadd (cb_regulatory_fees a) (cb_regulatory_fees b),
     cb_gst = dadd (cb_gst a) (cb_gst b)\<rparr>"

definition costs_nonneg :: "cost_breakdown \<Rightarrow> bool" where
  "costs_nonneg c \<longleftrightarrow> 0 \<le> cb_brokerage c \<and> 0 \<le> cb_taxes c \<and> 0 \<le> cb_transaction_fees c
     \<and> 0 \<le> cb_regulatory_fees c \<and> 0 \<le> cb_gst c"

lemma dadd_nonneg: "0 \<le> x \<Longrightarrow> 0 \<le> y \<Longrightarrow> 0 \<le> dadd x y"
  by (simp add: dadd_def dec.rnd_nonneg)

lemma dmul_nonneg: "0 \<le> x \<Longrightarrow> 0 \<le> y \<Longrightarrow> 0 \<le> dmul x y"
  by (simp add: dmul_def dec.rnd_nonneg)

lemma costs_nonneg_zero [simp]: "costs_nonneg zero_costs"
  by (simp add: costs_nonneg_def zero_costs_def)

lemma costs_nonneg_add: "costs_nonneg a \<Longrightarrow> costs_nonneg b \<Longrightarrow> costs_nonneg (cost_add a b)"
  by (simp add: costs_nonneg_def cost_add_def dadd_nonneg)

lemma cost_total_nonneg: "costs_nonneg c \<Longrightarrow> 0 \<le> cost_total c"
  by (simp add: costs_nonneg_def cost_total_def dadd_nonneg)

record journal_entry =
  je_timestamp :: datetime
  je_event :: JournalEvent
  je_signal_id :: string
  je_instrument_id :: string
  je_message :: string
  je_quantity :: int
  je_price :: "rat option"

record trade =
  tr_signal_id :: string
  tr_instrument_id :: string
  tr_option_side :: string
  tr_entry_time :: datetime
  tr_exit_time :: datetime
  tr_entry_price :: rat
  tr_exit_price :: rat
  tr_quantity :: int
  tr_lots :: rat
  tr_stop_price :: rat
  tr_target_price :: rat
  tr_exit_reason :: ExitReason
  tr_entry_costs :: cost_breakdown
  tr_exit_costs :: cost_breakdown
  tr_gross_pnl :: rat
  tr_net_pnl :: rat
  tr_initial_risk :: rat
  tr_r_multiple :: rat
  tr_slippage_cost :: rat
  tr_holding_seconds :: rat
  tr_score :: rat
  tr_score_band :: string
  tr_market :: string
  tr_expiry_bucket :: string
  tr_moneyness :: string
  tr_time_bucket :: string
  tr_volatility_bucket :: string
  tr_regime :: string

definition trade_total_costs :: "trade \<Rightarrow> rat" where
  "trade_total_costs t = dadd (cost_total (tr_entry_costs t)) (cost_total (tr_exit_costs t))"

record open_position_summary =
  os_signal_id :: string
  os_instrument_id :: string
  os_remaining_quantity :: int
  os_entry_price :: rat
  os_last_timestamp :: datetime
  os_pending_exit_reason :: "ExitReason option"

record breakdown_metrics =
  bm_trades :: int
  bm_wins :: int
  bm_win_rate :: rat
  bm_gross_pnl :: rat
  bm_net_pnl :: rat
  bm_expectancy :: rat
  bm_average_r :: rat

record bt_metrics =
  mt_trades :: int
  mt_wins :: int
  mt_losses :: int
  mt_win_rate :: rat
  mt_gross_pnl :: rat
  mt_net_pnl :: rat
  mt_gross_profit :: rat
  mt_gross_loss :: rat
  mt_profit_factor :: "rat option"
  mt_expectancy :: rat
  mt_max_drawdown :: rat
  mt_average_r :: rat
  mt_sharpe_like :: "rat option"
  mt_return_on_capital :: rat
  mt_exposure_ratio :: rat
  mt_average_holding_seconds :: rat
  mt_total_slippage :: rat
  mt_total_costs :: rat

record bt_report =
  rp_started_at :: datetime
  rp_ended_at :: datetime
  rp_initial_capital :: rat
  rp_ending_capital :: rat
  rp_trades :: "trade list"
  rp_journal :: "journal_entry list"
  rp_metrics :: bt_metrics
  rp_breakdowns :: "(string \<times> (string \<times> breakdown_metrics) list) list"
  rp_open_positions :: "open_position_summary list"

end
