(* ===== verification/Sqrt.thy ===== *)
theory Sqrt
  imports Numbers
begin

text \<open>
  Square roots: \<open>isqrt\<close> digit by digit in base four, and \<open>fsqrt\<close>, the float nearest to the
  root of a rational number with ties to even.  The latter is \<open>math.sqrt\<close>, and the last step
  of \<open>statistics.stdev\<close>, which rounds the root of the exact variance once.
\<close>

function isqrt :: "int \<Rightarrow> int" where
  "isqrt n = (if n \<le> 0 then 0
     else let r = 2 * isqrt (n div 4) in if (r + 1) * (r + 1) \<le> n then r + 1 else r)"
  by pat_completeness auto
termination
  by (relation "measure nat") auto

declare isqrt.simps [simp del]

lemma isqrt_nonneg: "0 \<le> isqrt n"
proof (induction n rule: isqrt.induct)
  case (1 n)
  then show ?case by (subst isqrt.simps) (auto simp: Let_def)
qed

lemma isqrt_bounds: "0 \<le> n \<Longrightarrow> isqrt n * isqrt n \<le> n \<and> n < (isqrt n + 1) * (isqrt n + 1)"
proof (induction n rule: isqrt.induct)
  case (1 n)
  show ?case
  proof (cases "n \<le> 0")
    case True
    then show ?thesis using 1(2) by (simp add: isqrt.simps[of 0])
  next
    case False
    define k where "k = isqrt (n div 4)"
    have ih: "k * k \<le> n div 4" "n div 4 < (k + 1) * (k + 1)"
      using 1(1)[OF False] False unfolding k_def by auto
    have lo: "(2 * k) * (2 * k) \<le> n" using ih(1) by simp
    have hi: "n < (2 * k + 2) * (2 * k + 2)"
    proof -
      have "n div 4 + 1 \<le> (k + 1) * (k + 1)" using ih(2) by simp
      then have "4 * (n div 4 + 1) \<le> 4 * ((k + 1) * (k + 1))" by simp
      moreover have "n < 4 * (n div 4 + 1)" by simp
      ultimately show ?thesis by (simp add: algebra_simps)
    qed
    show ?thesis
      unfolding isqrt.simps[of n] k_def[symmetric] Let_def using False lo hi
      by (simp add: algebra_simps)
  qed
qed

text \<open>The nearest integer to \<open>sqrt x\<close>; a tie needs \<open>x\<close> to be the square of a half-integer.\<close>

definition sqrt_half :: "int \<Rightarrow> rat" where
  "sqrt_half n = (of_int n + 1 / 2) * (of_int n + 1 / 2)"

definition round_sqrt :: "rat \<Rightarrow> int" where
  "round_sqrt x = (let n = isqrt \<lfloor>x\<rfloor> in
     if x < sqrt_half n then n else if sqrt_half n < x then n + 1 else if even n then n else n + 1)"

definition fsqrt :: "rat \<Rightarrow> rat" where
  "fsqrt x = (if x \<le> 0 then 0
     else let g = 2 powi (flt_digit ((mag 2 x + 1) div 2)) in of_int (round_sqrt (x / (g * g))) * g)"

text \<open>Evaluation in lowest terms.\<close>

lemma fsqrt_code [code]:
  "fsqrt x = (if x \<le> 0 then 0
     else let e = flt_digit ((mag 2 x + 1) div 2);
              g = lowest_terms (if 0 \<le> e then of_int (ipow 2 e) else 1 / of_int (ipow 2 (- e)))
       in lowest_terms (of_int (round_sqrt (x / (g * g))) * g))"
  using powi_ipow[of 2 "flt_digit ((mag 2 x + 1) div 2)"] by (simp add: fsqrt_def lowest_terms_eq Let_def)

lemma isqrt_floor_bounds:
  assumes "0 \<le> (x::rat)"
  shows "of_int (isqrt \<lfloor>x\<rfloor>) * of_int (isqrt \<lfloor>x\<rfloor>) \<le> x"
    and "x < (of_int (isqrt \<lfloor>x\<rfloor>) + 1) * (of_int (isqrt \<lfloor>x\<rfloor>) + 1)"
proof -
  let ?n = "isqrt \<lfloor>x\<rfloor>"
  have b: "?n * ?n \<le> \<lfloor>x\<rfloor>" "\<lfloor>x\<rfloor> + 1 \<le> (?n + 1) * (?n + 1)"
    using isqrt_bounds[of "\<lfloor>x\<rfloor>"] assms by auto
  have "of_int (?n * ?n) \<le> (of_int \<lfloor>x\<rfloor> :: rat)" using b(1) by (simp only: of_int_le_iff)
  then show "of_int ?n * of_int ?n \<le> x" by simp linarith
  have "(of_int (\<lfloor>x\<rfloor> + 1) :: rat) \<le> of_int ((?n + 1) * (?n + 1))" using b(2) by (simp only: of_int_le_iff)
  then show "x < (of_int ?n + 1) * (of_int ?n + 1)" by simp linarith
qed

lemma round_sqrt_nonneg: "0 \<le> round_sqrt x"
  using isqrt_nonneg[of "\<lfloor>x\<rfloor>"] by (auto simp: round_sqrt_def Let_def)

text \<open>\<open>round_sqrt x\<close> is within one half of the root, stated without the root.\<close>

lemma round_sqrt_le: "0 \<le> x \<Longrightarrow> 0 < round_sqrt x \<Longrightarrow> sqrt_half (round_sqrt x - 1) \<le> x"
  using isqrt_floor_bounds(1)[of x] isqrt_nonneg[of "\<lfloor>x\<rfloor>"]
  by (auto simp: round_sqrt_def Let_def sqrt_half_def algebra_simps split: if_splits)

lemma round_sqrt_ge: "0 \<le> x \<Longrightarrow> x \<le> sqrt_half (round_sqrt x)"
  using isqrt_floor_bounds(2)[of x] isqrt_nonneg[of "\<lfloor>x\<rfloor>"]
  by (auto simp: round_sqrt_def Let_def sqrt_half_def algebra_simps split: if_splits)

lemma fsqrt_nonneg: "0 \<le> fsqrt x"
  using round_sqrt_nonneg by (simp add: fsqrt_def Let_def)

subsection \<open>The C library\<close>

text \<open>
  \<open>math.exp\<close>, \<open>math.log\<close> (on positive arguments) and \<open>math.erf\<close> are not in the repository:
  parameters of the definitions that use them.  \<open>None\<close> is Python's \<open>OverflowError\<close>.
\<close>

record libm =
  lm_exp :: "rat \<Rightarrow> rat option"
  lm_log :: "rat \<Rightarrow> rat"
  lm_erf :: "rat \<Rightarrow> rat"

end
