(* ===== verification/Grouping.thy ===== *)
theory Grouping
  imports Prelude
begin

text \<open>
  Grouping a list by a label as the code does, with \<open>dict.setdefault(label, []).append(x)\<close> and a
  final \<open>sorted\<close>: the result is the comprehension that lists, for each label in order, the
  elements that carry it.
\<close>

definition add_to_group :: "('a \<Rightarrow> 'k) \<Rightarrow> ('k \<times> 'a list) list \<Rightarrow> 'a \<Rightarrow> ('k \<times> 'a list) list" where
  "add_to_group f gs x = AList.map_default (f x) [x] (\<lambda>g. g @ [x]) gs"

definition group_by :: "('a \<Rightarrow> 'k::linorder) \<Rightarrow> 'a list \<Rightarrow> ('k \<times> 'a list) list" where
  "group_by f xs = sort_key fst (foldl (add_to_group f) [] xs)"

lemma map_of_add_to_group:
  "map_of (add_to_group f gs x) l =
     (if l = f x then Some (case map_of gs l of None \<Rightarrow> [x] | Some g \<Rightarrow> g @ [x]) else map_of gs l)"
  by (induction gs) (auto simp: add_to_group_def)

lemma distinct_add_to_group:
  "distinct (List.map fst gs) \<Longrightarrow> distinct (List.map fst (add_to_group f gs x))"
  unfolding add_to_group_def by (rule distinct_map_default)

lemma map_of_groups:
  "map_of (foldl (add_to_group f) gs xs) l =
     (case map_of gs l of None \<Rightarrow> (if l \<in> f ` set xs then Some (filter (\<lambda>x. f x = l) xs) else None)
      | Some g \<Rightarrow> Some (g @ filter (\<lambda>x. f x = l) xs))"
proof (induction xs arbitrary: gs)
  case Nil
  then show ?case by (simp split: option.split)
next
  case (Cons x xs)
  show ?case
    unfolding foldl_Cons Cons.IH map_of_add_to_group
    by (auto split: option.split simp: image_iff filter_empty_conv)
qed

lemma distinct_groups:
  "distinct (List.map fst gs) \<Longrightarrow> distinct (List.map fst (foldl (add_to_group f) gs xs))"
  by (induction xs arbitrary: gs) (simp_all add: distinct_add_to_group)

lemma group_by_distinct: "distinct (List.map fst (group_by f xs))"
  using distinct_groups[of "[]" f xs] by (simp add: group_by_def distinct_map)

lemma group_by_sorted: "sorted_wrt (<) (List.map fst (group_by f xs))"
  using group_by_distinct[of f xs] by (simp add: strict_sorted_iff group_by_def)

lemma in_group_by: "(l, g) \<in> set (group_by f xs) \<longleftrightarrow> l \<in> f ` set xs \<and> g = filter (\<lambda>x. f x = l) xs"
proof -
  let ?gs = "foldl (add_to_group f) [] xs"
  have "(l, g) \<in> set ?gs \<longleftrightarrow> map_of ?gs l = Some g"
    using distinct_groups[of "[]" f xs] by (simp add: map_of_eq_Some_iff)
  then show ?thesis by (auto simp: group_by_def map_of_groups)
qed

end
