(* ===== verification/BtMetrics.thy ===== *)
theory BtMetrics
  imports BtConfig Sqrt Grouping "HOL-Library.Product_Lexorder"
begin

text \<open>Aggregation of closed trades into report metrics (\<open>backtesting/metrics.py\<close>).\<close>

text \<open>\<open>n / m\<close> on integers with a non-zero divisor is a correctly rounded float.\<close>

definition int_div :: "int \<Rightarrow> int \<Rightarrow> rat" where
  "int_div n m = fround (of_int n / of_int m)"

definition len :: "'a list \<Rightarrow> int" where
  "len xs = int (length xs)"

definition count_if :: "('a \<Rightarrow> bool) \<Rightarrow> 'a list \<Rightarrow> int" where
  "count_if P xs = len (filter P xs)"

text \<open>\<open>sum(f(trade) for trade in trades) / count if count else 0\<close>.\<close>

definition dmean :: "rat list \<Rightarrow> rat" where
  "dmean xs = (if xs = [] then 0 else ddiv (dsum xs) (of_int (len xs)))"

definition win :: "trade \<Rightarrow> bool" where "win t \<longleftrightarrow> 0 < tr_net_pnl t"
definition loss :: "trade \<Rightarrow> bool" where "loss t \<longleftrightarrow> tr_net_pnl t < 0"

definition win_rate :: "trade list \<Rightarrow> rat" where
  "win_rate ts = (if ts = [] then 0 else int_div (count_if win ts) (len ts))"

definition trade_breakdown :: "trade list \<Rightarrow> breakdown_metrics" where
  "trade_breakdown ts = \<lparr>bm_trades = len ts, bm_wins = count_if win ts, bm_win_rate = win_rate ts,
     bm_gross_pnl = dsum (List.map tr_gross_pnl ts), bm_net_pnl = dsum (List.map tr_net_pnl ts),
     bm_expectancy = dmean (List.map tr_net_pnl ts), bm_average_r = dmean (List.map tr_r_multiple ts)\<rparr>"

definition breakdown_dimensions :: "(string \<times> (trade \<Rightarrow> string)) list" where
  "breakdown_dimensions = [(''score_band'', tr_score_band), (''market'', tr_market),
     (''expiry'', tr_expiry_bucket), (''moneyness'', tr_moneyness), (''time'', tr_time_bucket),
     (''volatility'', tr_volatility_bucket), (''regime'', tr_regime)]"

definition breakdown_by :: "(trade \<Rightarrow> string) \<Rightarrow> trade list \<Rightarrow> (string \<times> breakdown_metrics) list" where
  "breakdown_by f ts = List.map (\<lambda>(label, g). (label, trade_breakdown g)) (group_by f ts)"

definition build_breakdowns :: "trade list \<Rightarrow> (string \<times> (string \<times> breakdown_metrics) list) list" where
  "build_breakdowns ts = List.map (\<lambda>(dimension, f). (dimension, breakdown_by f ts)) breakdown_dimensions"

subsection \<open>Drawdown and exposure\<close>

fun drawdown_loop :: "rat list \<Rightarrow> rat \<Rightarrow> rat \<Rightarrow> rat \<Rightarrow> rat" where
  "drawdown_loop [] equity peak maximum = maximum"
| "drawdown_loop (x # xs) equity peak maximum =
     (let equity' = dadd equity x; peak' = max peak equity' in
      drawdown_loop xs equity' peak' (max maximum (dsub peak' equity')))"

definition maximum_drawdown :: "rat \<Rightarrow> trade list \<Rightarrow> rat" where
  "maximum_drawdown capital ts = drawdown_loop
     (List.map tr_net_pnl (sort_key (\<lambda>t. (instant (tr_exit_time t), tr_signal_id t)) ts)) capital capital 0"

text \<open>The merged length of sorted intervals, summed in float seconds interval by interval.\<close>

fun covered_loop :: "(int \<times> int) list \<Rightarrow> int \<Rightarrow> int \<Rightarrow> rat \<Rightarrow> rat" where
  "covered_loop [] a b covered = fadd covered (total_seconds (b - a))"
| "covered_loop ((s, e) # rest) a b covered =
     (if s \<le> b then covered_loop rest a (max b e) covered
      else covered_loop rest s e (fadd covered (total_seconds (b - a))))"

definition covered_seconds :: "(int \<times> int) list \<Rightarrow> rat" where
  "covered_seconds xs = (case xs of [] \<Rightarrow> 0 | (a, b) # rest \<Rightarrow> covered_loop rest a b 0)"

definition exposure_ratio :: "datetime \<Rightarrow> datetime \<Rightarrow> trade list \<Rightarrow> rat" where
  "exposure_ratio started ended ts =
    (let total = total_seconds (instant ended - instant started) in
     if total \<le> 0 \<or> ts = [] then 0
     else min 1 (max 0 (fdiv
       (covered_seconds (sort (List.map (\<lambda>t. (instant (tr_entry_time t), instant (tr_exit_time t))) ts)))
       total)))"

subsection \<open>Report metrics\<close>

text \<open>
  \<open>statistics.stdev\<close> on at least two floats: the sum of squared deviations is exact, the
  square root of the variance is rounded once.
\<close>

definition variance :: "rat list \<Rightarrow> rat" where
  "variance xs = (let n = of_int (len xs); sx = sum_list xs; sxx = sum_list (List.map (\<lambda>x. x * x) xs) in
     ((n * sxx - sx * sx) / n) / (n - 1))"

definition stdev :: "rat list \<Rightarrow> rat" where
  "stdev xs = fsqrt (variance xs)"

definition sharpe_like :: "rat list \<Rightarrow> rat option" where
  "sharpe_like returns = (if 2 \<le> length returns \<and> 0 < stdev returns
     then Some (fmul (fdiv (fdiv (fsum returns) (of_int (len returns))) (stdev returns))
       (fsqrt (of_int (len returns))))
     else None)"

definition profit_factor :: "rat \<Rightarrow> rat \<Rightarrow> rat option" where
  "profit_factor gross_profit gross_loss =
     (if gross_loss < 0 then Some (ddiv gross_profit (dabs gross_loss)) else None)"

definition calculate_metrics :: "rat \<Rightarrow> datetime \<Rightarrow> datetime \<Rightarrow> trade list \<Rightarrow> bt_metrics" where
  "calculate_metrics capital started ended ts =
    (let net = dsum (List.map tr_net_pnl ts);
         gross_profit = dsum (List.map tr_net_pnl (filter win ts));
         gross_loss = dsum (List.map tr_net_pnl (filter loss ts))
     in \<lparr>mt_trades = len ts, mt_wins = count_if win ts, mt_losses = count_if loss ts,
       mt_win_rate = win_rate ts, mt_gross_pnl = dsum (List.map tr_gross_pnl ts), mt_net_pnl = net,
       mt_gross_profit = gross_profit, mt_gross_loss = gross_loss,
       mt_profit_factor = profit_factor gross_profit gross_loss,
       mt_expectancy = dmean (List.map tr_net_pnl ts),
       mt_max_drawdown = maximum_drawdown capital ts,
       mt_average_r = dmean (List.map tr_r_multiple ts),
       mt_sharpe_like = sharpe_like (List.map (\<lambda>t. fround (ddiv (tr_net_pnl t) capital)) ts),
       mt_return_on_capital = ddiv net capital,
       mt_exposure_ratio = exposure_ratio started ended ts,
       mt_average_holding_seconds = (if ts = [] then 0
         else fdiv (fsum (List.map tr_holding_seconds ts)) (of_int (len ts))),
       mt_total_slippage = dsum (List.map tr_slippage_cost ts),
       mt_total_costs = dsum (List.map trade_total_costs ts)\<rparr>)"

subsection \<open>Bounds\<close>

lemma count_if_le: "count_if P xs \<le> len xs" and count_if_nonneg: "0 \<le> count_if P xs"
  by (simp_all add: count_if_def len_def)

lemma int_div_unit: "0 \<le> n \<Longrightarrow> n \<le> m \<Longrightarrow> 0 \<le> int_div n m \<and> int_div n m \<le> 1"
  unfolding int_div_def by (auto intro!: flt.rnd_nonneg flt.rnd_le_1 simp: divide_le_eq_1)

lemma win_rate_unit: "0 \<le> win_rate ts \<and> win_rate ts \<le> 1"
  using int_div_unit[OF count_if_nonneg count_if_le, of win ts] by (simp add: win_rate_def)

lemma drawdown_loop_ge: "maximum \<le> drawdown_loop xs equity peak maximum"
proof (induction xs arbitrary: equity peak maximum)
  case Nil
  then show ?case by simp
next
  case (Cons x xs)
  have "maximum \<le> max maximum (dsub (max peak (dadd equity x)) (dadd equity x))" by simp
  also have "\<dots> \<le> drawdown_loop (x # xs) equity peak maximum" using Cons by (simp add: Let_def)
  finally show ?case .
qed

lemma maximum_drawdown_nonneg: "0 \<le> maximum_drawdown capital ts"
  unfolding maximum_drawdown_def by (rule drawdown_loop_ge)

text \<open>The drawdown bounds the fall below the starting capital after any number of trades.\<close>

lemma drawdown_loop_covers:
  "capital \<le> peak \<Longrightarrow> n \<le> length xs \<Longrightarrow> 0 < n
   \<Longrightarrow> dsub capital (foldl dadd equity (take n xs)) \<le> drawdown_loop xs equity peak maximum"
proof (induction xs arbitrary: equity peak maximum n)
  case Nil
  then show ?case by simp
next
  case (Cons x xs)
  let ?e = "dadd equity x" let ?p = "max peak ?e"
  obtain k where n: "n = Suc k" using Cons.prems(3) by (cases n) auto
  show ?case
  proof (cases "k = 0")
    case True
    have "dsub capital ?e \<le> dsub ?p ?e"
      unfolding dsub_def using Cons.prems(1) by (intro dec.rnd_mono) simp
    also have "\<dots> \<le> drawdown_loop (x # xs) equity peak maximum"
      using drawdown_loop_ge[of "max maximum (dsub ?p ?e)" xs ?e ?p] by (simp add: Let_def)
    finally show ?thesis using True n by simp
  next
    case False
    have "dsub capital (foldl dadd ?e (take k xs)) \<le> drawdown_loop xs ?e ?p (max maximum (dsub ?p ?e))"
      by (rule Cons.IH) (use Cons.prems n False in auto)
    then show ?thesis using n by (simp add: Let_def)
  qed
qed

lemma exposure_ratio_unit: "0 \<le> exposure_ratio a b ts \<and> exposure_ratio a b ts \<le> 1"
  by (simp add: exposure_ratio_def Let_def)

end
