(* ===== verification/BtEngine.thy ===== *)
theory BtEngine
  imports BtMetrics
begin

text \<open>
  The option replay (\<open>backtesting/engine.py\<close>).  The engine works on validated records, whose
  decimals are finite; its loops mutate local lists and dictionaries, here the fields of a
  \<open>replay\<close> state passed from step to step.  An exception ends the run, so the state is dropped.
\<close>

text \<open>\<open>astimezone(UTC)\<close>: frames, bars and signals only hold aware datetimes.\<close>

definition utc :: "datetime \<Rightarrow> int" where
  "utc d = instant d"

record open_position =
  op_signal :: signal
  op_entry_time :: datetime
  op_entry_price :: rat
  op_entry_ask :: rat
  op_quantity :: int
  op_remaining_quantity :: int
  op_entry_costs :: cost_breakdown
  op_entry_slippage :: rat
  op_exit_quantity :: int
  op_exit_notional :: rat
  op_exit_costs :: cost_breakdown
  op_exit_slippage :: rat
  op_exit_reason :: "ExitReason option"
  op_last_exit_time :: "datetime option"
  op_last_exit_attempt :: "datetime option"

subsection \<open>Prices, costs and quantities\<close>

definition order_costs :: "rat \<Rightarrow> int \<Rightarrow> bool \<Rightarrow> bt_config \<Rightarrow> cost_breakdown" where
  "order_costs price quantity is_entry cfg =
    (let notional = dmul price (of_int quantity); costs = bc_costs cfg;
         transaction = dmul notional (cc_transaction_fee_rate costs);
         regulatory = dmul notional (cc_regulatory_fee_rate costs);
         taxes = dmul notional (if is_entry then cc_entry_tax_rate costs else cc_exit_tax_rate costs);
         brokerage = cc_brokerage_per_order costs;
         gst = dmul (dadd (dadd brokerage transaction) regulatory) (cc_gst_rate costs)
     in \<lparr>cb_brokerage = brokerage, cb_taxes = taxes, cb_transaction_fees = transaction,
       cb_regulatory_fees = regulatory, cb_gst = gst\<rparr>)"

definition entry_price :: "bar \<Rightarrow> bt_config \<Rightarrow> rat \<times> rat" where
  "entry_price b cfg =
    (let adverse = dadd (ddiv (dmul (ob_ask b) (sl_entry_bps (bc_slippage cfg))) 10000)
           (sl_fixed_entry_per_unit (bc_slippage cfg))
     in (dadd (ob_ask b) adverse, adverse))"

definition exit_price :: "bar \<Rightarrow> bt_config \<Rightarrow> rat \<times> rat" where
  "exit_price b cfg =
    (let adverse = dadd (ddiv (dmul (ob_bid b) (sl_exit_bps (bc_slippage cfg))) 10000)
           (sl_fixed_exit_per_unit (bc_slippage cfg));
         price = max 0 (dsub (ob_bid b) adverse)
     in (price, dsub (ob_bid b) price))"

definition fillable_quantity :: "int \<Rightarrow> int option \<Rightarrow> int \<Rightarrow> bt_config \<Rightarrow> int" where
  "fillable_quantity requested visible lot_size cfg =
    (if \<not> pf_enabled (bc_partial_fills cfg) then requested
     else case visible of None \<Rightarrow> 0
     | Some v \<Rightarrow> min requested
         (dec_floor (dmul (of_int v) (pf_maximum_participation_rate (bc_partial_fills cfg)))
            div lot_size * lot_size))"

definition exit_trigger :: "open_position \<Rightarrow> bar \<Rightarrow> ExitReason option" where
  "exit_trigger p b =
    (if ob_low b \<le> bs_stop_price (op_signal p) then Some STOP
     else if bs_target_price (op_signal p) \<le> ob_high b then Some TARGET
     else if utc (bs_contract_expiry (op_signal p)) \<le> utc (ob_timestamp b) then Some EXPIRY
     else case bs_max_holding (op_signal p) of None \<Rightarrow> None
     | Some holding \<Rightarrow> if utc (op_entry_time p) + holding \<le> utc (ob_timestamp b) then Some TIME else None)"

subsection \<open>Exits\<close>

definition journal :: "datetime \<Rightarrow> JournalEvent \<Rightarrow> signal \<Rightarrow> string \<Rightarrow> journal_entry" where
  "journal t event s message = \<lparr>je_timestamp = t, je_event = event, je_signal_id = bs_signal_id s,
     je_instrument_id = bs_instrument_id s, je_message = message, je_quantity = 0, je_price = None\<rparr>"

definition journal_fill :: "datetime \<Rightarrow> JournalEvent \<Rightarrow> signal \<Rightarrow> string \<Rightarrow> int \<Rightarrow> rat \<Rightarrow> journal_entry" where
  "journal_fill t event s message quantity price =
     (journal t event s message)\<lparr>je_quantity := quantity, je_price := Some price\<rparr>"

text \<open>The position after an exit attempt, and after a fill of \<open>quantity\<close> at \<open>price\<close>.\<close>

definition attempt_exit :: "bar \<Rightarrow> ExitReason \<Rightarrow> open_position \<Rightarrow> open_position" where
  "attempt_exit b reason p = p\<lparr>
     op_exit_reason := Some (case op_exit_reason p of None \<Rightarrow> reason | Some r \<Rightarrow> r),
     op_last_exit_attempt := Some (ob_timestamp b)\<rparr>"

definition fill_exit :: "bt_config \<Rightarrow> bar \<Rightarrow> int \<Rightarrow> open_position \<Rightarrow> open_position" where
  "fill_exit cfg b quantity p =
    (let (price, adverse) = exit_price b cfg; q = of_int quantity in p\<lparr>
       op_remaining_quantity := op_remaining_quantity p - quantity,
       op_exit_quantity := op_exit_quantity p + quantity,
       op_exit_notional := dadd (op_exit_notional p) (dmul price q),
       op_exit_costs := cost_add (op_exit_costs p) (order_costs price quantity False cfg),
       op_exit_slippage := dadd (op_exit_slippage p) (dmul adverse q),
       op_last_exit_time := Some (ob_timestamp b)\<rparr>)"

definition exit_time :: "bar \<Rightarrow> open_position \<Rightarrow> datetime" where
  "exit_time b p = (case op_last_exit_time p of None \<Rightarrow> ob_timestamp b | Some t \<Rightarrow> t)"

definition close_trade :: "bar \<Rightarrow> ExitReason \<Rightarrow> open_position \<Rightarrow> trade res" where
  "close_trade b reason p =
    (let s = op_signal p in
     bindr (ddivr (op_exit_notional p) (of_int (op_exit_quantity p))) (\<lambda>price.
     let quantity = of_int (op_quantity p);
         gross = dmul (dsub price (op_entry_price p)) quantity;
         net = dsub gross (dadd (cost_total (op_entry_costs p)) (cost_total (op_exit_costs p)));
         risk = dmul (dsub (op_entry_price p) (bs_stop_price s)) quantity in
     bindr (ddivr quantity (of_int (bs_lot_size s))) (\<lambda>lots.
     bindr (ddivr net risk) (\<lambda>r_multiple.
       Inr \<lparr>tr_signal_id = bs_signal_id s, tr_instrument_id = bs_instrument_id s,
         tr_option_side = bs_option_side s, tr_entry_time = op_entry_time p,
         tr_exit_time = exit_time b p, tr_entry_price = op_entry_price p, tr_exit_price = price,
         tr_quantity = op_quantity p, tr_lots = lots, tr_stop_price = bs_stop_price s,
         tr_target_price = bs_target_price s, tr_exit_reason = reason,
         tr_entry_costs = op_entry_costs p, tr_exit_costs = op_exit_costs p,
         tr_gross_pnl = gross, tr_net_pnl = net, tr_initial_risk = risk, tr_r_multiple = r_multiple,
         tr_slippage_cost = dadd (op_entry_slippage p) (op_exit_slippage p),
         tr_holding_seconds = total_seconds (instant (exit_time b p) - instant (op_entry_time p)),
         tr_score = bs_score s, tr_score_band = bs_score_band s, tr_market = bs_market s,
         tr_expiry_bucket = bs_expiry_bucket s, tr_moneyness = bs_moneyness s,
         tr_time_bucket = bs_time_bucket s, tr_volatility_bucket = bs_volatility_bucket s,
         tr_regime = bs_regime s\<rparr>))))"

text \<open>The outcome of an exit: the position, the trade when it closed, and the journal entries.\<close>

type_synonym exit_outcome = "open_position \<times> trade option \<times> journal_entry list"

definition execute_exit :: "bt_config \<Rightarrow> open_position \<Rightarrow> bar \<Rightarrow> ExitReason \<Rightarrow> exit_outcome res" where
  "execute_exit cfg p0 b reason0 =
    (let p = attempt_exit b reason0 p0;
         reason = (case op_exit_reason p0 of None \<Rightarrow> reason0 | Some r \<Rightarrow> r);
         s = op_signal p;
         quantity = fillable_quantity (op_remaining_quantity p) (ob_bid_quantity b) (bs_lot_size s) cfg in
     if quantity = 0 then Inr (p, None,
       [journal (ob_timestamp b) UNFILLED s ''exit pending: no whole lot within configured bid participation''])
     else
       let q = fill_exit cfg b quantity p;
           fill = journal_fill (ob_timestamp b) EXIT_FILL s (exit_reason_value reason @ '' exit fill'')
             quantity (fst (exit_price b cfg)) in
       if 0 < op_remaining_quantity q then Inr (q, None, [fill])
       else bindr (close_trade b reason q) (\<lambda>t. Inr (q, Some t, [fill,
         journal_fill (tr_exit_time t) EXIT s (''trade closed: '' @ exit_reason_value reason)
           (tr_quantity t) (tr_exit_price t)])))"

subsection \<open>The replay state\<close>

record replay =
  rs_pending :: "signal list"
  rs_positions :: "(string \<times> open_position) list"
  rs_trades :: "trade list"
  rs_journal :: "journal_entry list"
  rs_latest :: "(string \<times> bar) list"

definition initial_replay :: replay where
  "initial_replay = \<lparr>rs_pending = [], rs_positions = [], rs_trades = [], rs_journal = [], rs_latest = []\<rparr>"

text \<open>Store the outcome of an exit: a closed position leaves the dictionary.\<close>

definition settle_exit :: "string \<Rightarrow> exit_outcome \<Rightarrow> replay \<Rightarrow> replay" where
  "settle_exit k out s = (case out of (p, finished, entries) \<Rightarrow>
     (case finished of
        None \<Rightarrow> s\<lparr>rs_positions := AList.update k p (rs_positions s)\<rparr>
      | Some t \<Rightarrow> s\<lparr>rs_positions := AList.delete k (rs_positions s), rs_trades := rs_trades s @ [t]\<rparr>)
     \<lparr>rs_journal := rs_journal s @ entries\<rparr>)"

definition exit_reason_for :: "open_position \<Rightarrow> bar \<Rightarrow> ExitReason option" where
  "exit_reason_for p b = (case op_exit_reason p of Some r \<Rightarrow> Some r | None \<Rightarrow> exit_trigger p b)"

definition exit_position :: "bt_config \<Rightarrow> (string \<times> bar) list \<Rightarrow> string \<Rightarrow> replay \<Rightarrow> replay res" where
  "exit_position cfg bars k s = (case map_of (rs_positions s) k of None \<Rightarrow> Inr s
     | Some p \<Rightarrow> (case map_of bars k of None \<Rightarrow> Inr s
     | Some b \<Rightarrow> (case exit_reason_for p b of None \<Rightarrow> Inr s
     | Some reason \<Rightarrow> bindr (execute_exit cfg p b reason) (\<lambda>out. Inr (settle_exit k out s)))))"

definition position_keys :: "replay \<Rightarrow> string list" where
  "position_keys s = sort (List.map fst (rs_positions s))"

subsection \<open>Entries\<close>

definition keep_pending :: "signal \<Rightarrow> replay \<Rightarrow> replay" where
  "keep_pending sg s = s\<lparr>rs_pending := rs_pending s @ [sg]\<rparr>"

definition log_entry :: "journal_entry \<Rightarrow> replay \<Rightarrow> replay" where
  "log_entry e s = s\<lparr>rs_journal := rs_journal s @ [e]\<rparr>"

definition skip :: "signal \<Rightarrow> datetime \<Rightarrow> string \<Rightarrow> replay \<Rightarrow> replay" where
  "skip sg t message s = log_entry (journal t SKIPPED sg message) s"

definition opened :: "bt_config \<Rightarrow> datetime \<Rightarrow> signal \<Rightarrow> bar \<Rightarrow> int \<Rightarrow> open_position" where
  "opened cfg t sg b quantity =
    (let (price, adverse) = entry_price b cfg in
     \<lparr>op_signal = sg, op_entry_time = t, op_entry_price = price, op_entry_ask = ob_ask b,
       op_quantity = quantity, op_remaining_quantity = quantity,
       op_entry_costs = order_costs price quantity True cfg,
       op_entry_slippage = dmul adverse (of_int quantity), op_exit_quantity = 0,
       op_exit_notional = 0, op_exit_costs = zero_costs, op_exit_slippage = 0,
       op_exit_reason = None, op_last_exit_time = None, op_last_exit_attempt = None\<rparr>)"

definition open_entry :: "bt_config \<Rightarrow> datetime \<Rightarrow> signal \<Rightarrow> bar \<Rightarrow> int \<Rightarrow> replay \<Rightarrow> replay" where
  "open_entry cfg t sg b quantity s =
    log_entry (journal_fill t ENTRY sg
        (if quantity < requested_quantity sg then ''partial entry fill; unfilled remainder cancelled''
         else ''entry filled'') quantity (fst (entry_price b cfg)))
      (s\<lparr>rs_positions := AList.update (bs_instrument_id sg) (opened cfg t sg b quantity) (rs_positions s)\<rparr>)"

definition fill_entry :: "bt_config \<Rightarrow> datetime \<Rightarrow> signal \<Rightarrow> bar \<Rightarrow> replay \<Rightarrow> replay res" where
  "fill_entry cfg t sg b s =
    (let quantity = fillable_quantity (requested_quantity sg) (ob_ask_quantity b) (bs_lot_size sg) cfg;
         price = fst (entry_price b cfg) in
     if quantity = 0 then
       (if pf_enabled (bc_partial_fills cfg) then Inr (log_entry
          (journal t UNFILLED sg ''no whole lot within configured ask participation'') (keep_pending sg s))
        else Inl (AssertionError ''full-fill mode must return the requested quantity''))
     else if \<not> (bs_stop_price sg < price \<and> price < bs_target_price sg) then
       Inr (skip sg t ''executable entry is not strictly between stop and target'' s)
     else Inr (open_entry cfg t sg b quantity s))"

definition execute_signal :: "bt_config \<Rightarrow> datetime \<Rightarrow> (string \<times> bar) list \<Rightarrow> signal \<Rightarrow> replay \<Rightarrow> replay res" where
  "execute_signal cfg t bars sg s =
    (if utc t \<le> utc (bs_generated_at sg) then Inr (keep_pending sg s)
     else if utc (bs_contract_expiry sg) \<le> utc t then Inr (skip sg t ''contract expired before entry'' s)
     else if (case bs_valid_until sg of None \<Rightarrow> False | Some u \<Rightarrow> utc u < utc t)
       then Inr (skip sg t ''signal validity window elapsed'' s)
     else case map_of bars (bs_instrument_id sg) of None \<Rightarrow> Inr (keep_pending sg s)
     | Some b \<Rightarrow>
        if map_of (rs_positions s) (bs_instrument_id sg) \<noteq> None
        then Inr (skip sg t ''position already open'' s)
        else fill_entry cfg t sg b s)"

text \<open>\<open>_execute_pending\<close> rebuilds the list of waiting signals from the old one.\<close>

definition execute_pending :: "bt_config \<Rightarrow> datetime \<Rightarrow> (string \<times> bar) list \<Rightarrow> replay \<Rightarrow> replay res" where
  "execute_pending cfg t bars s =
     fold_res (execute_signal cfg t bars) (rs_pending s) (s\<lparr>rs_pending := []\<rparr>)"

subsection \<open>The run\<close>

definition queue_signal :: "datetime \<Rightarrow> replay \<Rightarrow> signal \<Rightarrow> replay" where
  "queue_signal t s sg = log_entry
     (journal t SIGNAL sg ''signal queued for the first strictly later quote'') (keep_pending sg s)"

definition bar_dict :: "(string \<times> bar) list \<Rightarrow> bar list \<Rightarrow> (string \<times> bar) list" where
  "bar_dict = foldl (\<lambda>d b. AList.update (ob_instrument_id b) b d)"

definition replay_step :: "bt_config \<Rightarrow> replay_frame \<Rightarrow> replay \<Rightarrow> replay res" where
  "replay_step cfg f s0 =
    (let bars = bar_dict [] (rf_bars f); t = rf_timestamp f;
         s1 = s0\<lparr>rs_latest := bar_dict (rs_latest s0) (rf_bars f)\<rparr> in
     bindr (fold_res (exit_position cfg bars) (position_keys s1) s1) (\<lambda>s2.
     bindr (execute_pending cfg t bars s2) (\<lambda>s3.
       Inr (foldl (queue_signal t) s3 (rf_signals f)))))"

definition end_of_data :: "bt_config \<Rightarrow> string \<Rightarrow> replay \<Rightarrow> replay res" where
  "end_of_data cfg k s = (case map_of (rs_positions s) k of None \<Rightarrow> Inr s
     | Some p \<Rightarrow> (case map_of (rs_latest s) k of None \<Rightarrow> Inr s
     | Some b \<Rightarrow>
        if utc (ob_timestamp b) < utc (op_entry_time p) then Inr s
        else if (case op_last_exit_attempt p of None \<Rightarrow> False | Some a \<Rightarrow> dt_eq a (ob_timestamp b)) then Inr s
        else bindr (execute_exit cfg p b (case op_exit_reason p of None \<Rightarrow> END_OF_DATA | Some r \<Rightarrow> r))
          (\<lambda>out. Inr (settle_exit k out s))))"

definition never_filled :: "datetime \<Rightarrow> signal \<Rightarrow> journal_entry" where
  "never_filled t sg = journal t UNFILLED sg ''no later executable quote before the replay ended''"

definition open_summary :: "open_position \<Rightarrow> open_position_summary" where
  "open_summary p = \<lparr>os_signal_id = bs_signal_id (op_signal p),
     os_instrument_id = bs_instrument_id (op_signal p),
     os_remaining_quantity = op_remaining_quantity p, os_entry_price = op_entry_price p,
     os_last_timestamp = (case op_last_exit_time p of None \<Rightarrow> op_entry_time p | Some t \<Rightarrow> t),
     os_pending_exit_reason = op_exit_reason p\<rparr>"

definition report :: "bt_config \<Rightarrow> datetime \<Rightarrow> datetime \<Rightarrow> replay \<Rightarrow> bt_report" where
  "report cfg started ended s =
    (let metrics = calculate_metrics (bc_initial_capital cfg) started ended (rs_trades s) in
     \<lparr>rp_started_at = started, rp_ended_at = ended, rp_initial_capital = bc_initial_capital cfg,
       rp_ending_capital = dadd (bc_initial_capital cfg) (mt_net_pnl metrics),
       rp_trades = rs_trades s, rp_journal = rs_journal s @ List.map (never_filled ended) (rs_pending s),
       rp_metrics = metrics, rp_breakdowns = build_breakdowns (rs_trades s),
       rp_open_positions = List.map open_summary
         (sort_key (\<lambda>p. bs_signal_id (op_signal p)) (List.map snd (rs_positions s)))\<rparr>)"

definition check_frame :: "replay_frame \<Rightarrow> int option \<times> string list \<Rightarrow> (int option \<times> string list) res" where
  "check_frame f st = (case st of (previous, ids) \<Rightarrow>
    bindr (ensure (case previous of None \<Rightarrow> True | Some p \<Rightarrow> p < utc (rf_timestamp f))
      ''replay frame timestamps must be strictly sorted and unique'') (\<lambda>_.
    bindr (fold_res (\<lambda>sg seen. bindr (ensure (bs_signal_id sg \<notin> set seen)
        ''signal IDs must be unique throughout a replay'') (\<lambda>_. Inr (bs_signal_id sg # seen)))
      (rf_signals f) ids) (\<lambda>ids'.
      Inr (Some (utc (rf_timestamp f)), ids'))))"

definition validate_sequence :: "replay_frame list \<Rightarrow> unit res" where
  "validate_sequence frames =
    (if frames = [] then Inl (ValueError ''at least one replay frame is required'')
     else bindr (fold_res check_frame frames (None, [])) (\<lambda>_. Inr ()))"

definition replay_frames :: "bt_config \<Rightarrow> replay_frame list \<Rightarrow> replay \<Rightarrow> replay res" where
  "replay_frames cfg = fold_res (replay_step cfg)"

definition liquidate :: "bt_config \<Rightarrow> replay \<Rightarrow> replay res" where
  "liquidate cfg s = fold_res (end_of_data cfg) (position_keys s) s"

definition run :: "bt_config \<Rightarrow> replay_frame list \<Rightarrow> bt_report res" where
  "run cfg frames =
    bindr (validate_sequence frames) (\<lambda>_.
    bindr (replay_frames cfg frames initial_replay) (\<lambda>s.
    bindr (liquidate cfg s) (\<lambda>s'.
      Inr (report cfg (rf_timestamp (hd frames)) (rf_timestamp (last frames)) s'))))"

end
