(* ===== verification/BtInv.thy ===== *)
theory BtInv
  imports BtEngine
begin

text \<open>
  Invariants of a replay.  \<open>position_ok\<close> and \<open>trade_for\<close> describe single positions and trades;
  the books of the run are kept as sums per signal id (\<open>tally\<close>), which turn every step into
  linear arithmetic.
\<close>

subsection \<open>Sums over lists and dictionaries\<close>

definition tally :: "('a \<Rightarrow> int) \<Rightarrow> 'a list \<Rightarrow> int" where
  "tally w xs = sum_list (List.map w xs)"

lemma tally_simps [simp]:
  "tally w [] = 0" "tally w (x # xs) = w x + tally w xs" "tally w (xs @ ys) = tally w xs + tally w ys"
  by (simp_all add: tally_def)

lemma tally_update_new: "map_of d k = None \<Longrightarrow> tally (\<lambda>kv. w (snd kv)) (AList.update k v d) = tally (\<lambda>kv. w (snd kv)) d + w v"
  by (induction d) (auto split: if_splits)

lemma tally_update_old:
  "map_of d k = Some u
   \<Longrightarrow> tally (\<lambda>kv. w (snd kv)) (AList.update k v d) = tally (\<lambda>kv. w (snd kv)) d - w u + w v"
  by (induction d) (auto split: if_splits)

lemma delete_new: "map_of d k = None \<Longrightarrow> AList.delete k d = d"
  by (induction d) (auto split: if_splits)

lemma tally_delete:
  "distinct (List.map fst d) \<Longrightarrow> map_of d k = Some u
   \<Longrightarrow> tally (\<lambda>kv. w (snd kv)) (AList.delete k d) = tally (\<lambda>kv. w (snd kv)) d - w u"
proof (induction d)
  case Nil
  then show ?case by simp
next
  case (Cons a d)
  show ?case
  proof (cases "fst a = k")
    case True
    then have "map_of d k = None" using Cons.prems(1) by (cases a) (auto simp: map_of_eq_None_iff)
    then show ?thesis using True Cons.prems(2) by (cases a) (simp add: delete_new)
  next
    case False
    then show ?thesis using Cons by (cases a) simp
  qed
qed

lemma tally_nonneg: "(\<And>x. x \<in> set xs \<Longrightarrow> 0 \<le> w x) \<Longrightarrow> 0 \<le> tally w xs"
  by (induction xs) auto

lemma tally_map: "tally w (List.map f xs) = tally (\<lambda>x. w (f x)) xs"
  by (simp add: tally_def comp_def)

subsection \<open>Quantities\<close>

lemma fillable_bounds:
  assumes "partial_ok (bc_partial_fills cfg)" "0 < lot" "0 < requested" "lot dvd requested"
    and "\<And>v. visible = Some v \<Longrightarrow> 0 \<le> v"
  shows "0 \<le> fillable_quantity requested visible lot cfg"
    and "fillable_quantity requested visible lot cfg \<le> requested"
    and "lot dvd fillable_quantity requested visible lot cfg"
proof -
  let ?r = "pf_maximum_participation_rate (bc_partial_fills cfg)"
  have "0 \<le> dec_floor (dmul (of_int v) ?r) div lot * lot" if "visible = Some v" for v
  proof -
    have "0 \<le> dmul (of_int v) ?r" using assms(1) assms(5)[OF that] by (simp add: dmul_nonneg partial_ok_def)
    then show ?thesis using assms(2) by (simp add: dec_floor_def pos_imp_zdiv_nonneg_iff)
  qed
  then show "0 \<le> fillable_quantity requested visible lot cfg"
    "fillable_quantity requested visible lot cfg \<le> requested"
    "lot dvd fillable_quantity requested visible lot cfg"
    using assms(3,4) by (auto simp: fillable_quantity_def min_def split: option.split)
qed

lemma fillable_full: "\<not> pf_enabled (bc_partial_fills cfg) \<Longrightarrow> fillable_quantity requested visible lot cfg = requested"
  by (simp add: fillable_quantity_def)

lemma order_costs_nonneg: "costs_ok (bc_costs cfg) \<Longrightarrow> 0 \<le> price \<Longrightarrow> 0 \<le> quantity \<Longrightarrow> costs_nonneg (order_costs price quantity e cfg)"
  by (simp add: order_costs_def Let_def costs_nonneg_def costs_ok_def dmul_nonneg dadd_nonneg)

lemma ddiv_nonneg: "0 \<le> x \<Longrightarrow> 0 \<le> y \<Longrightarrow> 0 \<le> ddiv x y"
  by (simp add: ddiv_def dec.rnd_nonneg)

lemma exit_price_nonneg: "0 \<le> fst (exit_price b cfg)"
  by (simp add: exit_price_def Let_def)

subsection \<open>Positions and trades\<close>

definition still_valid :: "signal \<Rightarrow> datetime \<Rightarrow> bool" where
  "still_valid s t \<longleftrightarrow> (case bs_valid_until s of None \<Rightarrow> True | Some u \<Rightarrow> instant t \<le> instant u)"

definition position_ok :: "bt_config \<Rightarrow> open_position \<Rightarrow> bool" where
  "position_ok cfg p \<longleftrightarrow> signal_ok (op_signal p)
     \<and> instant (bs_generated_at (op_signal p)) < instant (op_entry_time p)
     \<and> instant (op_entry_time p) < instant (bs_contract_expiry (op_signal p))
     \<and> still_valid (op_signal p) (op_entry_time p)
     \<and> bs_stop_price (op_signal p) < op_entry_price p \<and> op_entry_price p < bs_target_price (op_signal p)
     \<and> 0 < op_remaining_quantity p \<and> 0 \<le> op_exit_quantity p
     \<and> op_remaining_quantity p + op_exit_quantity p = op_quantity p
     \<and> op_quantity p \<le> requested_quantity (op_signal p)
     \<and> bs_lot_size (op_signal p) dvd op_quantity p \<and> bs_lot_size (op_signal p) dvd op_remaining_quantity p
     \<and> costs_nonneg (op_entry_costs p) \<and> costs_nonneg (op_exit_costs p) \<and> 0 \<le> op_exit_notional p
     \<and> (pf_enabled (bc_partial_fills cfg) \<or> op_last_exit_attempt p = None)"

text \<open>A trade that realises a signal: nothing in it predates the signal or breaks its levels.\<close>

definition trade_for :: "trade \<Rightarrow> signal \<Rightarrow> bool" where
  "trade_for t s \<longleftrightarrow> tr_signal_id t = bs_signal_id s \<and> tr_instrument_id t = bs_instrument_id s
     \<and> instant (bs_generated_at s) < instant (tr_entry_time t)
     \<and> instant (tr_entry_time t) < instant (bs_contract_expiry s)
     \<and> still_valid s (tr_entry_time t)
     \<and> instant (tr_entry_time t) \<le> instant (tr_exit_time t)
     \<and> bs_stop_price s < tr_entry_price t \<and> tr_entry_price t < bs_target_price s
     \<and> 0 < tr_quantity t \<and> tr_quantity t \<le> requested_quantity s \<and> bs_lot_size s dvd tr_quantity t
     \<and> 0 \<le> tr_exit_price t \<and> costs_nonneg (tr_entry_costs t) \<and> costs_nonneg (tr_exit_costs t)
     \<and> tr_net_pnl t \<le> tr_gross_pnl t \<and> 0 < tr_initial_risk t"

lemma dsub_le_grid: "dround x = x \<Longrightarrow> 0 \<le> y \<Longrightarrow> dsub x y \<le> x"
  unfolding dsub_def by (rule dec.rnd_le) auto

lemma dmul_grid: "dround (dmul x y) = dmul x y"
  by (simp add: dmul_def dec.rnd_idem)

lemma risk_pos:
  assumes "stop < entry" "0 < (q::int)"
  shows "0 < dmul (dsub entry stop) (of_int q)"
proof -
  have "0 < dsub entry stop" using assms(1) by (simp add: dsub_def decp.rnd_pos)
  then show ?thesis using assms(2) by (simp add: dmul_def decp.rnd_pos)
qed

text \<open>A position whose whole quantity has been sold always yields its trade.\<close>

lemma close_trade_total:
  assumes "position_ok cfg p" and "bar_ok b" and "instant (op_entry_time p) \<le> instant (ob_timestamp b)"
    and q: "op_signal q = op_signal p" "op_entry_time q = op_entry_time p"
      "op_entry_price q = op_entry_price p" "op_quantity q = op_quantity p"
      "op_entry_costs q = op_entry_costs p" "op_exit_quantity q = op_quantity p"
      "op_last_exit_time q = Some (ob_timestamp b)" "costs_nonneg (op_exit_costs q)" "0 \<le> op_exit_notional q"
  shows "\<exists>t. close_trade b reason q = Inr t \<and> trade_for t (op_signal p) \<and> tr_quantity t = op_quantity p
    \<and> tr_exit_reason t = reason"
proof -
  note p = assms(1)[unfolded position_ok_def]
  have pos: "0 < op_quantity p" "bs_lot_size (op_signal p) \<noteq> 0" using p by (auto simp: signal_ok_def)
  have risk: "0 < dmul (dsub (op_entry_price p) (bs_stop_price (op_signal p))) (of_int (op_quantity p))"
    using p pos by (intro risk_pos) auto
  have "0 \<le> dadd (cost_total (op_entry_costs p)) (cost_total (op_exit_costs q))"
    using p q by (simp add: dadd_nonneg cost_total_nonneg)
  from dsub_le_grid[OF dmul_grid this] have net: "\<And>x y. dsub (dmul x y)
      (dadd (cost_total (op_entry_costs p)) (cost_total (op_exit_costs q))) \<le> dmul x y" .
  show ?thesis
    unfolding close_trade_def Let_def q using pos risk net p q assms(3)
    by (auto simp: trade_for_def exit_time_def ddiv_nonneg)
qed

text \<open>What one exit attempt does, on every branch.\<close>

fun exited_quantity :: "open_position \<times> trade option \<times> journal_entry list \<Rightarrow> int" where
  "exited_quantity (p, None, _) = op_exit_quantity p"
| "exited_quantity (p, Some t, _) = tr_quantity t"

definition entry_quantity :: "string \<Rightarrow> journal_entry \<Rightarrow> int" where
  "entry_quantity i e = (if je_event e = ENTRY \<and> je_signal_id e = i then je_quantity e else 0)"

definition exit_quantity :: "string \<Rightarrow> journal_entry \<Rightarrow> int" where
  "exit_quantity i e = (if je_event e = EXIT_FILL \<and> je_signal_id e = i then je_quantity e else 0)"

definition skipped :: "string \<Rightarrow> journal_entry \<Rightarrow> int" where
  "skipped i e = (if je_event e = SKIPPED \<and> je_signal_id e = i then 1 else 0)"

definition exit_facts :: "bt_config \<Rightarrow> open_position \<Rightarrow> exit_outcome \<Rightarrow> bool" where
  "exit_facts cfg p out \<longleftrightarrow> (case out of (p', finished, entries) \<Rightarrow>
     op_signal p' = op_signal p \<and> op_entry_time p' = op_entry_time p \<and> op_quantity p' = op_quantity p
     \<and> (\<forall>i. tally (skipped i) entries = 0 \<and> tally (entry_quantity i) entries = 0
          \<and> tally (exit_quantity i) entries = (if bs_signal_id (op_signal p) = i
               then exited_quantity out - op_exit_quantity p else 0))
     \<and> (case finished of None \<Rightarrow> pf_enabled (bc_partial_fills cfg) \<and> position_ok cfg p'
        | Some t \<Rightarrow> trade_for t (op_signal p) \<and> tr_quantity t = op_quantity p))"

lemma journal_simps [simp]:
  "je_event (journal t ev s m) = ev" "je_signal_id (journal t ev s m) = bs_signal_id s"
  "je_quantity (journal t ev s m) = 0"
  "je_event (journal_fill t ev s m q x) = ev" "je_signal_id (journal_fill t ev s m q x) = bs_signal_id s"
  "je_quantity (journal_fill t ev s m q x) = q"
  by (simp_all add: journal_def journal_fill_def)

lemma fill_exit_simps [simp]:
  "op_signal (fill_exit cfg b n p) = op_signal p" "op_entry_time (fill_exit cfg b n p) = op_entry_time p"
  "op_entry_price (fill_exit cfg b n p) = op_entry_price p" "op_quantity (fill_exit cfg b n p) = op_quantity p"
  "op_entry_costs (fill_exit cfg b n p) = op_entry_costs p"
  "op_remaining_quantity (fill_exit cfg b n p) = op_remaining_quantity p - n"
  "op_exit_quantity (fill_exit cfg b n p) = op_exit_quantity p + n"
  "op_last_exit_time (fill_exit cfg b n p) = Some (ob_timestamp b)"
  "op_last_exit_attempt (fill_exit cfg b n p) = op_last_exit_attempt p"
  by (simp_all add: fill_exit_def Let_def split: prod.split)

lemma attempt_exit_simps [simp]:
  "op_signal (attempt_exit b r p) = op_signal p" "op_entry_time (attempt_exit b r p) = op_entry_time p"
  "op_entry_price (attempt_exit b r p) = op_entry_price p" "op_quantity (attempt_exit b r p) = op_quantity p"
  "op_entry_costs (attempt_exit b r p) = op_entry_costs p"
  "op_remaining_quantity (attempt_exit b r p) = op_remaining_quantity p"
  "op_exit_quantity (attempt_exit b r p) = op_exit_quantity p"
  "op_exit_costs (attempt_exit b r p) = op_exit_costs p"
  "op_exit_notional (attempt_exit b r p) = op_exit_notional p"
  by (simp_all add: attempt_exit_def)

lemma fill_exit_money:
  assumes "costs_ok (bc_costs cfg)" "costs_nonneg (op_exit_costs p)" "0 \<le> op_exit_notional p" "0 \<le> n"
  shows "costs_nonneg (op_exit_costs (fill_exit cfg b n p))" "0 \<le> op_exit_notional (fill_exit cfg b n p)"
  using assms exit_price_nonneg[of b cfg]
  by (auto simp: fill_exit_def Let_def costs_nonneg_add order_costs_nonneg dadd_nonneg dmul_nonneg split: prod.split)

lemma execute_exit_total:
  assumes cfg: "bt_config_ok cfg" and p: "position_ok cfg p" and b: "bar_ok b"
    and t: "instant (op_entry_time p) \<le> instant (ob_timestamp b)"
  shows "\<exists>out. execute_exit cfg p b reason = Inr out \<and> exit_facts cfg p out"
proof -
  let ?s = "op_signal p"
  let ?n = "fillable_quantity (op_remaining_quantity p) (ob_bid_quantity b) (bs_lot_size ?s) cfg"
  let ?a = "attempt_exit b reason p"
  let ?q = "fill_exit cfg b ?n ?a"
  let ?r = "case op_exit_reason p of None \<Rightarrow> reason | Some r \<Rightarrow> r"
  note p' = p[unfolded position_ok_def]
  have n: "0 \<le> ?n" "?n \<le> op_remaining_quantity p" "bs_lot_size ?s dvd ?n"
    using fillable_bounds[of cfg "bs_lot_size ?s" "op_remaining_quantity p" "ob_bid_quantity b"] cfg p' b
    by (auto simp: bt_config_ok_def signal_ok_def bar_ok_def)
  have money: "costs_nonneg (op_exit_costs ?q)" "0 \<le> op_exit_notional ?q"
    using fill_exit_money[of cfg ?a ?n b] cfg p' n(1) by (auto simp: bt_config_ok_def)
  have full: "\<not> pf_enabled (bc_partial_fills cfg) \<Longrightarrow> ?n = op_remaining_quantity p" by (rule fillable_full)
  consider (no_fill) "?n = 0" | (part) "?n \<noteq> 0" "?n < op_remaining_quantity p" | (all) "?n \<noteq> 0" "?n = op_remaining_quantity p"
    using n by linarith
  then show ?thesis
  proof cases
    case no_fill
    then have "pf_enabled (bc_partial_fills cfg)" using full p' by auto
    then have "position_ok cfg ?a" using p' by (simp add: position_ok_def)
    then show ?thesis using no_fill \<open>pf_enabled _\<close>
      by (simp add: execute_exit_def Let_def exit_facts_def skipped_def entry_quantity_def exit_quantity_def)
  next
    case part
    then have "pf_enabled (bc_partial_fills cfg)" using full by auto
    then have "position_ok cfg ?q" using part p' money n by (simp add: position_ok_def)
    then show ?thesis using part \<open>pf_enabled _\<close>
      by (simp add: execute_exit_def Let_def exit_facts_def skipped_def entry_quantity_def exit_quantity_def)
  next
    case all
    then have eq: "op_exit_quantity ?q = op_quantity p" using p' by simp
    obtain t where tr: "close_trade b ?r ?q = Inr t" "trade_for t ?s" "tr_quantity t = op_quantity p"
      using close_trade_total[OF p b t, of ?q ?r] money eq by auto
    then show ?thesis using all eq
      by (auto simp add: execute_exit_def Let_def exit_facts_def skipped_def entry_quantity_def exit_quantity_def)
  qed
qed

end
