(* ===== verification/BtReplay.thy ===== *)
theory BtReplay
  imports BtInv
begin

text \<open>
  The invariant of the replay loop and its totality: on validated frames no step raises, and
  the books (signals, quantities) balance after every step.
\<close>

definition hit :: "string \<Rightarrow> signal \<Rightarrow> int" where
  "hit i s = (if bs_signal_id s = i then 1 else 0)"

definition position_weight :: "string \<Rightarrow> (open_position \<Rightarrow> int) \<Rightarrow> open_position \<Rightarrow> int" where
  "position_weight i w p = (if bs_signal_id (op_signal p) = i then w p else 0)"

definition trade_weight :: "string \<Rightarrow> (trade \<Rightarrow> int) \<Rightarrow> trade \<Rightarrow> int" where
  "trade_weight i w t = (if tr_signal_id t = i then w t else 0)"

definition held :: "string \<Rightarrow> (open_position \<Rightarrow> int) \<Rightarrow> replay \<Rightarrow> int" where
  "held i w s = tally (\<lambda>kv. position_weight i w (snd kv)) (rs_positions s)"

definition traded :: "string \<Rightarrow> (trade \<Rightarrow> int) \<Rightarrow> replay \<Rightarrow> int" where
  "traded i w s = tally (trade_weight i w) (rs_trades s)"

definition logged :: "(journal_entry \<Rightarrow> int) \<Rightarrow> replay \<Rightarrow> int" where
  "logged w s = tally w (rs_journal s)"

text \<open>
  The books for one signal id: every signal seen is waiting (in the state or in \<open>todo\<close>), held,
  traded or skipped, and the journal's fills are the quantities of positions and trades.
\<close>

definition books :: "string \<Rightarrow> signal list \<Rightarrow> signal list \<Rightarrow> replay \<Rightarrow> bool" where
  "books i seen todo s \<longleftrightarrow>
     tally (hit i) seen = tally (hit i) todo + tally (hit i) (rs_pending s) + held i (\<lambda>_. 1) s
       + traded i (\<lambda>_. 1) s + logged (skipped i) s
     \<and> logged (entry_quantity i) s = held i op_quantity s + traded i tr_quantity s
     \<and> logged (exit_quantity i) s = held i op_exit_quantity s + traded i tr_quantity s"

definition holds_position :: "bt_config \<Rightarrow> signal list \<Rightarrow> int \<Rightarrow> (string \<times> bar) list \<Rightarrow> string \<Rightarrow> open_position \<Rightarrow> bool" where
  "holds_position cfg seen now latest k p \<longleftrightarrow> position_ok cfg p \<and> bs_instrument_id (op_signal p) = k
     \<and> op_signal p \<in> set seen \<and> instant (op_entry_time p) \<le> now
     \<and> (\<exists>b. map_of latest k = Some b \<and> instant (op_entry_time p) \<le> instant (ob_timestamp b))"

definition replay_inv :: "bt_config \<Rightarrow> signal list \<Rightarrow> int \<Rightarrow> signal list \<Rightarrow> replay \<Rightarrow> bool" where
  "replay_inv cfg seen now todo s \<longleftrightarrow> distinct (List.map fst (rs_positions s))
     \<and> (\<forall>k p. map_of (rs_positions s) k = Some p \<longrightarrow> holds_position cfg seen now (rs_latest s) k p)
     \<and> (\<forall>k b. map_of (rs_latest s) k = Some b \<longrightarrow> bar_ok b)
     \<and> set todo \<subseteq> set seen \<and> set (rs_pending s) \<subseteq> set seen \<and> (\<forall>sg\<in>set seen. signal_ok sg)
     \<and> (\<forall>t\<in>set (rs_trades s). \<exists>sg\<in>set seen. trade_for t sg)
     \<and> (\<forall>i. books i seen todo s)"

lemma replay_invD:
  assumes "replay_inv cfg seen now todo s"
  shows "distinct (List.map fst (rs_positions s))"
    and "map_of (rs_positions s) k = Some p \<Longrightarrow> holds_position cfg seen now (rs_latest s) k p"
    and "map_of (rs_latest s) k = Some b \<Longrightarrow> bar_ok b"
    and "books i seen todo s"
  using assms by (auto simp: replay_inv_def)

lemma replay_inv_initial: "replay_inv cfg [] now [] initial_replay"
  by (simp add: replay_inv_def initial_replay_def books_def held_def traded_def logged_def)

subsection \<open>Exits\<close>

lemma held_simps [simp]:
  "map_of (rs_positions s) k = Some u \<Longrightarrow> held i w (s\<lparr>rs_positions := AList.update k v (rs_positions s)\<rparr>)
     = held i w s - position_weight i w u + position_weight i w v"
  "map_of (rs_positions s) k = None \<Longrightarrow> held i w (s\<lparr>rs_positions := AList.update k v (rs_positions s)\<rparr>)
     = held i w s + position_weight i w v"
  "distinct (List.map fst (rs_positions s)) \<Longrightarrow> map_of (rs_positions s) k = Some u
     \<Longrightarrow> held i w (s\<lparr>rs_positions := AList.delete k (rs_positions s)\<rparr>) = held i w s - position_weight i w u"
  by (simp_all add: held_def tally_update_old[where w = "position_weight i w"]
      tally_update_new[where w = "position_weight i w"] tally_delete[where w = "position_weight i w"])

lemma tally_frame [simp]:
  "held i w (s\<lparr>rs_journal := j\<rparr>) = held i w s" "held i w (s\<lparr>rs_trades := ts\<rparr>) = held i w s"
  "held i w (s\<lparr>rs_pending := ps\<rparr>) = held i w s" "held i w (s\<lparr>rs_latest := l\<rparr>) = held i w s"
  "traded i f (s\<lparr>rs_journal := j\<rparr>) = traded i f s" "traded i f (s\<lparr>rs_positions := d\<rparr>) = traded i f s"
  "traded i f (s\<lparr>rs_pending := ps\<rparr>) = traded i f s" "traded i f (s\<lparr>rs_latest := l\<rparr>) = traded i f s"
  "traded i f (s\<lparr>rs_trades := rs_trades s' @ [t]\<rparr>) = traded i f s' + trade_weight i f t"
  "logged g (s\<lparr>rs_trades := ts\<rparr>) = logged g s" "logged g (s\<lparr>rs_positions := d\<rparr>) = logged g s"
  "logged g (s\<lparr>rs_pending := ps\<rparr>) = logged g s" "logged g (s\<lparr>rs_latest := l\<rparr>) = logged g s"
  "logged g (s\<lparr>rs_journal := rs_journal s' @ es\<rparr>) = logged g s' + tally g es"
  by (simp_all add: held_def traded_def logged_def)

lemma books_settle:
  assumes "books i seen todo s" "exit_facts cfg p out"
    and "map_of (rs_positions s) k = Some p" "distinct (List.map fst (rs_positions s))"
  shows "books i seen todo (settle_exit k out s)"
proof -
  obtain p' fin es where out: "out = (p', fin, es)" by (cases out)
  show ?thesis
  proof (cases fin)
    case None
    then show ?thesis using assms unfolding out
      by (auto simp: books_def settle_exit_def exit_facts_def position_weight_def)
  next
    case (Some t)
    then show ?thesis using assms unfolding out
      by (auto simp: books_def settle_exit_def exit_facts_def position_weight_def trade_weight_def
          trade_for_def)
  qed
qed

lemma settle_exit_inv:
  assumes "replay_inv cfg seen now todo s" "exit_facts cfg p out" "map_of (rs_positions s) k = Some p"
  shows "replay_inv cfg seen now todo (settle_exit k out s)" "rs_latest (settle_exit k out s) = rs_latest s"
proof -
  obtain p' fin es where out: "out = (p', fin, es)" by (cases out)
  note inv = replay_invD[OF assms(1)]
  have p: "holds_position cfg seen now (rs_latest s) k p" by (rule inv(2)[OF assms(3)])
  have bk: "\<forall>i. books i seen todo (settle_exit k out s)"
    using books_settle[OF inv(4) assms(2,3) inv(1)] by blast
  show "rs_latest (settle_exit k out s) = rs_latest s"
    by (simp add: settle_exit_def out split: option.split)
  show "replay_inv cfg seen now todo (settle_exit k out s)"
  proof (cases fin)
    case None
    then have "position_ok cfg p'" "op_signal p' = op_signal p" "op_entry_time p' = op_entry_time p"
      using assms(2) by (auto simp: out exit_facts_def)
    then have "holds_position cfg seen now (rs_latest s) k p'" using p by (simp add: holds_position_def)
    then show ?thesis using None assms(1) bk
      by (auto simp: replay_inv_def settle_exit_def out map_of_AList_update distinct_fst_update)
  next
    case (Some t)
    then have "trade_for t (op_signal p)" using assms(2) by (auto simp: out exit_facts_def)
    then have "\<exists>sg\<in>set seen. trade_for t sg" using p by (auto simp: holds_position_def)
    then show ?thesis using Some assms(1) bk
      by (auto simp: replay_inv_def settle_exit_def out map_of_AList_delete distinct_delete)
  qed
qed

lemma exit_total:
  assumes "bt_config_ok cfg" "replay_inv cfg seen now todo s" "map_of (rs_positions s) k = Some p"
    and "bar_ok b" "instant (op_entry_time p) \<le> instant (ob_timestamp b)"
  shows "\<exists>out. execute_exit cfg p b reason = Inr out \<and> exit_facts cfg p out
    \<and> replay_inv cfg seen now todo (settle_exit k out s) \<and> rs_latest (settle_exit k out s) = rs_latest s"
  using execute_exit_total[OF assms(1) _ assms(4,5), of reason] settle_exit_inv[OF assms(2) _ assms(3)]
    replay_invD(2)[OF assms(2,3)] by (fastforce simp: holds_position_def)

definition frame_bars_ok :: "int \<Rightarrow> (string \<times> bar) list \<Rightarrow> (string \<times> bar) list \<Rightarrow> bool" where
  "frame_bars_ok t bars latest \<longleftrightarrow> (\<forall>k b. map_of bars k = Some b
     \<longrightarrow> map_of latest k = Some b \<and> bar_ok b \<and> instant (ob_timestamp b) = t)"

lemma exit_position_total:
  assumes "bt_config_ok cfg" "replay_inv cfg seen t todo s" "frame_bars_ok t bars (rs_latest s)"
  shows "\<exists>s'. exit_position cfg bars k s = Inr s' \<and> replay_inv cfg seen t todo s' \<and> rs_latest s' = rs_latest s"
proof (cases "map_of (rs_positions s) k")
  case None
  then show ?thesis using assms by (simp add: exit_position_def)
next
  case (Some p)
  note p = Some
  show ?thesis
  proof (cases "map_of bars k")
    case None
    then show ?thesis using p assms by (simp add: exit_position_def)
  next
    case (Some b)
    with assms(3) have b: "bar_ok b" "instant (ob_timestamp b) = t" by (auto simp: frame_bars_ok_def)
    moreover have "instant (op_entry_time p) \<le> t"
      using replay_invD(2)[OF assms(2) p] by (simp add: holds_position_def)
    ultimately have le: "instant (op_entry_time p) \<le> instant (ob_timestamp b)" by simp
    show ?thesis
    proof (cases "exit_reason_for p b")
      case None
      then show ?thesis using p Some assms(2) by (simp add: exit_position_def)
    next
      case reason: (Some r)
      then show ?thesis using exit_total[OF assms(1,2) p b(1) le, of r] p Some
        by (auto simp: exit_position_def)
    qed
  qed
qed

subsection \<open>Entries\<close>

lemma books_simps [simp]:
  "books i seen todo (log_entry e s) \<longleftrightarrow>
     tally (hit i) seen = tally (hit i) todo + tally (hit i) (rs_pending s) + held i (\<lambda>_. 1) s
       + traded i (\<lambda>_. 1) s + logged (skipped i) s + skipped i e
     \<and> logged (entry_quantity i) s + entry_quantity i e = held i op_quantity s + traded i tr_quantity s
     \<and> logged (exit_quantity i) s + exit_quantity i e = held i op_exit_quantity s + traded i tr_quantity s"
  "books i seen todo (keep_pending sg s) \<longleftrightarrow> books i seen (sg # todo) s"
  by (auto simp: books_def log_entry_def keep_pending_def held_def traded_def logged_def)

lemma log_inv:
  assumes "replay_inv cfg seen t todo s" "\<And>i. skipped i e = 0 \<and> entry_quantity i e = 0 \<and> exit_quantity i e = 0"
  shows "replay_inv cfg seen t todo (log_entry e s)"
proof -
  have "books i seen todo (log_entry e s)" for i
    using replay_invD(4)[OF assms(1), of i] assms(2)[of i] by (simp add: books_def[of i seen todo s])
  then show ?thesis using assms(1) by (simp add: replay_inv_def log_entry_def)
qed

lemma keep_pending_inv: "replay_inv cfg seen t (sg # todo) s \<Longrightarrow> replay_inv cfg seen t todo (keep_pending sg s)"
  unfolding replay_inv_def books_simps by (simp add: keep_pending_def)

lemma skip_inv:
  assumes "replay_inv cfg seen t (sg # todo) s"
  shows "replay_inv cfg seen t todo (skip sg d m s)"
proof -
  have "books i seen todo (skip sg d m s)" for i
    using replay_invD(4)[OF assms, of i]
    by (simp add: skip_def books_def[of i seen "sg # todo"] hit_def skipped_def entry_quantity_def exit_quantity_def)
  then show ?thesis using assms by (simp add: replay_inv_def skip_def log_entry_def)
qed

lemma opened_simps [simp]:
  "op_signal (opened cfg d sg b n) = sg" "op_entry_time (opened cfg d sg b n) = d"
  "op_quantity (opened cfg d sg b n) = n" "op_exit_quantity (opened cfg d sg b n) = 0"
  by (simp_all add: opened_def split: prod.split)

lemma opened_ok:
  assumes "bt_config_ok cfg" "signal_ok sg" "instant (bs_generated_at sg) < instant d"
    and "instant d < instant (bs_contract_expiry sg)" "still_valid sg d"
    and "bs_stop_price sg < fst (entry_price b cfg)" "fst (entry_price b cfg) < bs_target_price sg"
    and "0 < n" "n \<le> requested_quantity sg" "bs_lot_size sg dvd n"
  shows "position_ok cfg (opened cfg d sg b n)"
proof -
  have "0 \<le> fst (entry_price b cfg)" using assms(2,6) by (auto simp: signal_ok_def)
  then have "costs_nonneg (order_costs (fst (entry_price b cfg)) n True cfg)"
    using assms(1,8) by (simp add: order_costs_nonneg bt_config_ok_def)
  then show ?thesis using assms by (auto simp: position_ok_def opened_def split: prod.split)
qed

lemma open_entry_inv:
  assumes inv: "replay_inv cfg seen t (sg # todo) s" and new: "map_of (rs_positions s) (bs_instrument_id sg) = None"
    and "position_ok cfg (opened cfg d sg b n)" "instant d = t"
    and "map_of (rs_latest s) (bs_instrument_id sg) = Some b" "instant (ob_timestamp b) = t"
  shows "replay_inv cfg seen t todo (open_entry cfg d sg b n s)"
proof -
  have "books i seen todo (open_entry cfg d sg b n s)" for i
    using replay_invD(4)[OF inv, of i] new
    by (simp add: open_entry_def books_def[of i seen "sg # todo"] hit_def skipped_def entry_quantity_def
        exit_quantity_def position_weight_def)
  moreover have "holds_position cfg seen t (rs_latest s) (bs_instrument_id sg) (opened cfg d sg b n)"
    using assms inv by (simp add: holds_position_def replay_inv_def)
  ultimately show ?thesis using inv
    by (simp add: replay_inv_def open_entry_def log_entry_def map_of_AList_update distinct_fst_update)
qed

lemma requested_pos: "signal_ok sg \<Longrightarrow> 0 < requested_quantity sg"
  by (simp add: signal_ok_def requested_quantity_def)

lemma latest_entry [simp]:
  "rs_latest (log_entry e s) = rs_latest s" "rs_latest (keep_pending sg s) = rs_latest s"
  "rs_latest (skip sg d m s) = rs_latest s" "rs_latest (open_entry cfg d sg b n s) = rs_latest s"
  by (simp_all add: log_entry_def keep_pending_def skip_def open_entry_def)

lemma fill_entry_total:
  assumes cfg: "bt_config_ok cfg" and inv: "replay_inv cfg seen t (sg # todo) s"
    and new: "map_of (rs_positions s) (bs_instrument_id sg) = None"
    and b: "map_of (rs_latest s) (bs_instrument_id sg) = Some b" "bar_ok b" "instant (ob_timestamp b) = t"
    and d: "instant d = t" "instant (bs_generated_at sg) < instant d"
      "instant d < instant (bs_contract_expiry sg)" "still_valid sg d"
  shows "\<exists>s'. fill_entry cfg d sg b s = Inr s' \<and> replay_inv cfg seen t todo s' \<and> rs_latest s' = rs_latest s"
proof -
  let ?n = "fillable_quantity (requested_quantity sg) (ob_ask_quantity b) (bs_lot_size sg) cfg"
  have sg: "signal_ok sg" using inv by (simp add: replay_inv_def)
  have n: "0 \<le> ?n" "?n \<le> requested_quantity sg" "bs_lot_size sg dvd ?n"
    using fillable_bounds[of cfg "bs_lot_size sg" "requested_quantity sg" "ob_ask_quantity b"] cfg sg b
      requested_pos[OF sg]
    by (auto simp: bt_config_ok_def signal_ok_def bar_ok_def requested_quantity_def)
  consider (none) "?n = 0" "pf_enabled (bc_partial_fills cfg)" | (zero) "?n = 0" "\<not> pf_enabled (bc_partial_fills cfg)"
    | (level) "?n \<noteq> 0" "\<not> (bs_stop_price sg < fst (entry_price b cfg) \<and> fst (entry_price b cfg) < bs_target_price sg)"
    | (fill) "?n \<noteq> 0" "bs_stop_price sg < fst (entry_price b cfg) \<and> fst (entry_price b cfg) < bs_target_price sg" by blast
  then show ?thesis
  proof cases
    case none
    then show ?thesis using log_inv[OF keep_pending_inv[OF inv]]
      by (simp add: fill_entry_def Let_def skipped_def entry_quantity_def exit_quantity_def)
  next
    case zero
    then show ?thesis using requested_pos[OF sg] by (simp add: fillable_full)
  next
    case level
    then show ?thesis using skip_inv[OF inv] by (auto simp: fill_entry_def Let_def)
  next
    case fill
    then have "position_ok cfg (opened cfg d sg b ?n)" using opened_ok[OF cfg sg d(2-4), of b ?n] n by simp
    from open_entry_inv[OF inv new this d(1) b(1,3)] fill show ?thesis by (simp add: fill_entry_def Let_def)
  qed
qed

lemma execute_signal_total:
  assumes cfg: "bt_config_ok cfg" and inv: "replay_inv cfg seen t (sg # todo) s"
    and bars: "frame_bars_ok t bars (rs_latest s)" and d: "instant d = t"
  shows "\<exists>s'. execute_signal cfg d bars sg s = Inr s' \<and> replay_inv cfg seen t todo s' \<and> rs_latest s' = rs_latest s"
proof -
  let ?late = "case bs_valid_until sg of None \<Rightarrow> False | Some u \<Rightarrow> utc u < utc d"
  consider (early) "utc d \<le> utc (bs_generated_at sg)"
    | (expired) "\<not> utc d \<le> utc (bs_generated_at sg)" "utc (bs_contract_expiry sg) \<le> utc d"
    | (late) "\<not> utc d \<le> utc (bs_generated_at sg)" "\<not> utc (bs_contract_expiry sg) \<le> utc d" ?late
    | (live) "\<not> utc d \<le> utc (bs_generated_at sg)" "\<not> utc (bs_contract_expiry sg) \<le> utc d" "\<not> ?late"
    by blast
  then show ?thesis
  proof cases
    case early
    then show ?thesis using keep_pending_inv[OF inv] by (simp add: execute_signal_def)
  next
    case expired
    then show ?thesis using skip_inv[OF inv] by (simp add: execute_signal_def)
  next
    case late
    then show ?thesis using skip_inv[OF inv] by (simp add: execute_signal_def)
  next
    case live
    then have v: "still_valid sg d" by (simp add: still_valid_def utc_def split: option.splits)
    show ?thesis
    proof (cases "map_of bars (bs_instrument_id sg)")
      case None
      then show ?thesis using live keep_pending_inv[OF inv] by (simp add: execute_signal_def)
    next
      case (Some b)
      then have b: "map_of (rs_latest s) (bs_instrument_id sg) = Some b" "bar_ok b" "instant (ob_timestamp b) = t"
        using bars by (auto simp: frame_bars_ok_def)
      show ?thesis
      proof (cases "map_of (rs_positions s) (bs_instrument_id sg)")
        case None
        from fill_entry_total[OF cfg inv None b d] live v None Some show ?thesis
          by (simp add: execute_signal_def utc_def)
      next
        case held: (Some p)
        then show ?thesis using live Some skip_inv[OF inv] by (simp add: execute_signal_def)
      qed
    qed
  qed
qed

lemma execute_pending_total:
  assumes "bt_config_ok cfg" "replay_inv cfg seen t [] s" "frame_bars_ok t bars (rs_latest s)" "instant d = t"
  shows "\<exists>s'. execute_pending cfg d bars s = Inr s' \<and> replay_inv cfg seen t [] s' \<and> rs_latest s' = rs_latest s"
proof -
  have "books i seen (rs_pending s) (s\<lparr>rs_pending := []\<rparr>)" for i
    using replay_invD(4)[OF assms(2), of i] by (simp add: books_def)
  then have start: "replay_inv cfg seen t (rs_pending s) (s\<lparr>rs_pending := []\<rparr>)"
    using assms(2) by (simp add: replay_inv_def)
  have body: "\<exists>u'. execute_signal cfg d bars sg u = Inr u' \<and> replay_inv cfg seen t todo u' \<and> rs_latest u' = rs_latest s"
    if "replay_inv cfg seen t (sg # todo) u \<and> rs_latest u = rs_latest s" for sg todo u
    using execute_signal_total[OF assms(1), of seen t sg todo u bars d] that assms(3,4) by auto
  show ?thesis
    unfolding execute_pending_def
    using fold_res_total[where I = "\<lambda>todo u. replay_inv cfg seen t todo u \<and> rs_latest u = rs_latest s",
        OF _ body] start by simp
qed

end
