(* ===== verification/BtRun.thy ===== *)
theory BtRun
  imports BtReplay
begin

text \<open>From one frame to the whole run: every frame step and the final liquidation succeed.\<close>

subsection \<open>The bars of a frame\<close>

lemma map_of_bar_dict:
  "map_of (bar_dict d bs) k = (case find (\<lambda>b. ob_instrument_id b = k) (rev bs) of Some b \<Rightarrow> Some b | None \<Rightarrow> map_of d k)"
proof (induction bs arbitrary: d)
  case Nil
  then show ?case by (simp add: bar_dict_def)
next
  case (Cons b bs)
  have app: "find P (xs @ [b]) = (case find P xs of None \<Rightarrow> (if P b then Some b else None) | Some y \<Rightarrow> Some y)"
    for P and xs :: "bar list" by (induction xs) auto
  show ?case
    using Cons[of "AList.update (ob_instrument_id b) b d"]
    by (simp add: bar_dict_def app map_of_AList_update split: option.split)
qed

lemma bar_dict_in: "map_of (bar_dict d bs) k = Some b \<Longrightarrow> b \<in> set bs \<or> map_of d k = Some b"
  by (auto simp: map_of_bar_dict find_Some_iff split: option.splits) (metis nth_mem set_rev length_rev)

lemma bar_dict_same: "map_of (bar_dict [] bs) k = Some b \<Longrightarrow> map_of (bar_dict d bs) k = Some b \<and> b \<in> set bs"
  using bar_dict_in[of "[]" bs k b] by (auto simp: map_of_bar_dict split: option.splits)

lemma bar_dict_keeps: "map_of d k = Some b \<Longrightarrow> \<exists>b'. map_of (bar_dict d bs) k = Some b' \<and> (b' = b \<or> b' \<in> set bs)"
  using bar_dict_in[of d bs k] by (cases "map_of (bar_dict d bs) k") (auto simp: map_of_bar_dict split: option.splits)

definition valid_frame :: "replay_frame \<Rightarrow> bool" where
  "valid_frame f \<longleftrightarrow> frame_ok f \<and> (\<forall>b\<in>set (rf_bars f). bar_ok b) \<and> (\<forall>sg\<in>set (rf_signals f). signal_ok sg)"

lemma observe_inv:
  assumes inv: "replay_inv cfg seen now [] s" and f: "valid_frame f" and t: "t = instant (rf_timestamp f)" "now \<le> t"
  defines "l \<equiv> bar_dict (rs_latest s) (rf_bars f)"
  shows "replay_inv cfg seen t [] (s\<lparr>rs_latest := l\<rparr>)" and "frame_bars_ok t (bar_dict [] (rf_bars f)) l"
proof -
  have bars: "bar_ok b \<and> instant (ob_timestamp b) = t" if "b \<in> set (rf_bars f)" for b
    using that f t by (auto simp: valid_frame_def frame_ok_def)
  then show "frame_bars_ok t (bar_dict [] (rf_bars f)) l"
    unfolding frame_bars_ok_def l_def using bar_dict_same by metis
  have "holds_position cfg seen t l k p" if "map_of (rs_positions s) k = Some p" for k p
  proof -
    from replay_invD(2)[OF inv that] obtain b where h: "holds_position cfg seen now (rs_latest s) k p"
      and b: "map_of (rs_latest s) k = Some b" "instant (op_entry_time p) \<le> instant (ob_timestamp b)"
      by (auto simp: holds_position_def)
    obtain b' where "map_of l k = Some b'" "b' = b \<or> b' \<in> set (rf_bars f)"
      using bar_dict_keeps[OF b(1)] unfolding l_def by blast
    then have "\<exists>b. map_of l k = Some b \<and> instant (op_entry_time p) \<le> instant (ob_timestamp b)"
      using b(2) bars h t(2) by (auto simp: holds_position_def)
    then show ?thesis using h t(2) by (auto simp: holds_position_def)
  qed
  moreover have "bar_ok b" if "map_of l k = Some b" for k b
    using bar_dict_in[of "rs_latest s" "rf_bars f" k b] that bars inv by (auto simp: l_def replay_inv_def)
  ultimately show "replay_inv cfg seen t [] (s\<lparr>rs_latest := l\<rparr>)"
    using inv by (simp add: replay_inv_def books_def)
qed

lemma queue_inv:
  assumes "replay_inv cfg seen t [] s" "signal_ok sg"
  shows "replay_inv cfg (seen @ [sg]) t [] (queue_signal d s sg)"
proof -
  have "books i (seen @ [sg]) [] (queue_signal d s sg)" for i
    using replay_invD(4)[OF assms(1), of i]
    by (auto simp: books_def queue_signal_def keep_pending_def log_entry_def held_def traded_def
        logged_def skipped_def entry_quantity_def exit_quantity_def)
  then show ?thesis using assms
    by (fastforce simp: replay_inv_def queue_signal_def keep_pending_def log_entry_def holds_position_def)
qed

lemma queue_signals_inv:
  "replay_inv cfg seen t [] s \<Longrightarrow> \<forall>sg\<in>set sgs. signal_ok sg
   \<Longrightarrow> replay_inv cfg (seen @ sgs) t [] (foldl (queue_signal d) s sgs)"
  using queue_inv by (induction sgs arbitrary: seen s) fastforce+

lemma replay_step_total:
  assumes cfg: "bt_config_ok cfg" and inv: "replay_inv cfg seen now [] s" and f: "valid_frame f"
    and t: "now \<le> instant (rf_timestamp f)"
  shows "\<exists>s'. replay_step cfg f s = Inr s'
    \<and> replay_inv cfg (seen @ rf_signals f) (instant (rf_timestamp f)) [] s'"
proof -
  let ?t = "instant (rf_timestamp f)" and ?bars = "bar_dict [] (rf_bars f)"
  let ?s1 = "s\<lparr>rs_latest := bar_dict (rs_latest s) (rf_bars f)\<rparr>"
  from observe_inv[OF inv f refl t]
  have s1: "replay_inv cfg seen ?t [] ?s1" "frame_bars_ok ?t ?bars (rs_latest ?s1)" by simp_all
  let ?I = "\<lambda>(ks :: string list) u. replay_inv cfg seen ?t [] u \<and> rs_latest u = rs_latest ?s1"
  have body: "\<exists>u'. exit_position cfg ?bars k u = Inr u' \<and> ?I ks u'" if "?I (k # ks) u" for k ks u
    using exit_position_total[OF cfg, of seen ?t "[]" u ?bars k] that s1(2) by auto
  obtain s2 where s2: "fold_res (exit_position cfg ?bars) (position_keys ?s1) ?s1 = Inr s2" "?I [] s2"
    using fold_res_total[where I = ?I and f = "exit_position cfg ?bars" and xs = "position_keys ?s1" and s = ?s1, OF _ body] s1 by auto
  obtain s3 where s3: "execute_pending cfg (rf_timestamp f) ?bars s2 = Inr s3" "replay_inv cfg seen ?t [] s3"
    using execute_pending_total[OF cfg, of seen ?t s2 ?bars "rf_timestamp f"] s2(2) s1(2) by auto
  have "\<forall>sg\<in>set (rf_signals f). signal_ok sg" using f by (simp add: valid_frame_def)
  from queue_signals_inv[OF s3(2) this] show ?thesis
    using s2(1) s3(1) by (simp add: replay_step_def Let_def)
qed

definition seen_signals :: "replay_frame list \<Rightarrow> signal list" where
  "seen_signals frames = concat (List.map rf_signals frames)"

fun in_order :: "int \<Rightarrow> replay_frame list \<Rightarrow> bool" where
  "in_order now [] = True"
| "in_order now (f # fs) = (now \<le> instant (rf_timestamp f) \<and> in_order (instant (rf_timestamp f)) fs)"

lemma replay_frames_total:
  assumes "bt_config_ok cfg"
  shows "replay_inv cfg seen now [] s \<Longrightarrow> \<forall>f\<in>set fs. valid_frame f \<Longrightarrow> in_order now fs
    \<Longrightarrow> \<exists>s' now'. replay_frames cfg fs s = Inr s' \<and> replay_inv cfg (seen @ seen_signals fs) now' [] s'"
proof (induction fs arbitrary: seen now s)
  case Nil
  then show ?case by (auto simp: replay_frames_def seen_signals_def)
next
  case (Cons f fs)
  obtain u where u: "replay_step cfg f s = Inr u"
    "replay_inv cfg (seen @ rf_signals f) (instant (rf_timestamp f)) [] u"
    using replay_step_total[OF assms Cons.prems(1), of f] Cons.prems by auto
  from Cons.IH[OF u(2)] Cons.prems u(1) show ?case by (simp add: replay_frames_def seen_signals_def)
qed

subsection \<open>End of data\<close>

text \<open>When fills are never partial, liquidation closes every position it visits.\<close>

definition full_fills :: "bt_config \<Rightarrow> bool" where
  "full_fills cfg \<longleftrightarrow> \<not> pf_enabled (bc_partial_fills cfg)"

lemma set_map_fst_delete: "fst ` set (AList.delete k d) = fst ` set d - {k}"
  by (induction d) auto

lemma settle_full:
  assumes "full_fills cfg" "exit_facts cfg p out"
  shows "fst ` set (rs_positions (settle_exit k out s)) = fst ` set (rs_positions s) - {k}"
proof -
  obtain p' fin es where out: "out = (p', fin, es)" by (cases out)
  then show ?thesis using assms
    by (cases fin) (auto simp: full_fills_def exit_facts_def settle_exit_def set_map_fst_delete)
qed

definition left_open :: "bt_config \<Rightarrow> string list \<Rightarrow> replay \<Rightarrow> bool" where
  "left_open cfg ks s \<longleftrightarrow> (full_fills cfg \<longrightarrow> fst ` set (rs_positions s) \<subseteq> set ks)"

lemma end_of_data_total:
  assumes cfg: "bt_config_ok cfg" and inv: "replay_inv cfg seen now [] s" and left: "left_open cfg (k # ks) s"
  shows "\<exists>s'. end_of_data cfg k s = Inr s' \<and> replay_inv cfg seen now [] s' \<and> left_open cfg ks s'"
proof (cases "map_of (rs_positions s) k")
  case None
  then have "k \<notin> fst ` set (rs_positions s)" by (simp add: map_of_eq_None_iff)
  then show ?thesis using None inv left by (auto simp: end_of_data_def left_open_def)
next
  case (Some p)
  from replay_invD(2)[OF inv Some] obtain b where p: "position_ok cfg p"
    and b: "map_of (rs_latest s) k = Some b" "instant (op_entry_time p) \<le> instant (ob_timestamp b)"
    by (auto simp: holds_position_def)
  have b_ok: "bar_ok b" by (rule replay_invD(3)[OF inv b(1)])
  let ?r = "case op_exit_reason p of None \<Rightarrow> END_OF_DATA | Some r \<Rightarrow> r"
  obtain out where out: "execute_exit cfg p b ?r = Inr out" "exit_facts cfg p out"
    "replay_inv cfg seen now [] (settle_exit k out s)"
    using exit_total[OF cfg inv Some b_ok b(2), of ?r] by auto
  show ?thesis
  proof (cases "case op_last_exit_attempt p of None \<Rightarrow> False | Some a \<Rightarrow> dt_eq a (ob_timestamp b)")
    case True
    then have "\<not> full_fills cfg" using p by (auto simp: position_ok_def full_fills_def)
    then show ?thesis using True Some b inv by (simp add: end_of_data_def left_open_def utc_def)
  next
    case False
    then have "end_of_data cfg k s = Inr (settle_exit k out s)"
      using Some b out(1) by (simp add: end_of_data_def utc_def)
    moreover have "left_open cfg ks (settle_exit k out s)"
      using settle_full[OF _ out(2), of k s] left by (auto simp: left_open_def)
    ultimately show ?thesis using out(3) by simp
  qed
qed

lemma liquidate_total:
  assumes "bt_config_ok cfg" "replay_inv cfg seen now [] s"
  shows "\<exists>s'. liquidate cfg s = Inr s' \<and> replay_inv cfg seen now [] s' \<and> left_open cfg [] s'"
proof -
  let ?I = "\<lambda>ks u. replay_inv cfg seen now [] u \<and> left_open cfg ks u"
  have body: "\<exists>u'. end_of_data cfg k u = Inr u' \<and> ?I ks u'" if "?I (k # ks) u" for k ks u
    using end_of_data_total[OF assms(1), of seen now u k ks] that by blast
  have "left_open cfg (position_keys s) s" by (simp add: left_open_def position_keys_def)
  with assms(2) show ?thesis
    unfolding liquidate_def
    using fold_res_total[where I = ?I and f = "end_of_data cfg" and xs = "position_keys s" and s = s, OF _ body] by blast
qed

subsection \<open>The sequence check\<close>

definition note_signal :: "signal \<Rightarrow> string list \<Rightarrow> string list res" where
  "note_signal sg seen = bindr (ensure (bs_signal_id sg \<notin> set seen)
     ''signal IDs must be unique throughout a replay'') (\<lambda>_. Inr (bs_signal_id sg # seen))"

lemma check_frame_eq:
  "check_frame f (previous, ids) =
    bindr (ensure (case previous of None \<Rightarrow> True | Some p \<Rightarrow> p < utc (rf_timestamp f))
      ''replay frame timestamps must be strictly sorted and unique'') (\<lambda>_.
    bindr (fold_res note_signal (rf_signals f) ids) (\<lambda>ids'. Inr (Some (utc (rf_timestamp f)), ids')))"
  by (simp add: check_frame_def note_signal_def[abs_def])

lemma note_signals:
  "fold_res note_signal sgs ids = Inr out \<longleftrightarrow>
    distinct (List.map bs_signal_id sgs) \<and> set (List.map bs_signal_id sgs) \<inter> set ids = {}
    \<and> out = rev (List.map bs_signal_id sgs) @ ids"
proof (induction sgs arbitrary: ids)
  case Nil
  then show ?case by auto
next
  case (Cons sg sgs)
  show ?case unfolding fold_res.simps bindr_eq_Inr Cons.IH
    by (auto simp: note_signal_def bindr_eq_Inr ensure_eq_Inr)
qed

definition strictly_after :: "int option \<Rightarrow> replay_frame list \<Rightarrow> bool" where
  "strictly_after previous fs \<longleftrightarrow> sorted_wrt (<) (List.map (\<lambda>f. instant (rf_timestamp f)) fs)
     \<and> (\<forall>p. previous = Some p \<longrightarrow> (\<forall>f\<in>set fs. p < instant (rf_timestamp f)))"

lemma strictly_after_Cons:
  "strictly_after previous (f # fs) \<longleftrightarrow>
    (case previous of None \<Rightarrow> True | Some p \<Rightarrow> p < instant (rf_timestamp f))
    \<and> strictly_after (Some (instant (rf_timestamp f))) fs"
  by (cases previous) (auto simp: strictly_after_def intro: less_trans)

lemma seen_signals_Cons: "seen_signals (f # fs) = rf_signals f @ seen_signals fs"
  by (simp add: seen_signals_def)

lemma check_frames:
  "(\<exists>st. fold_res check_frame fs (previous, ids) = Inr st) \<longleftrightarrow> strictly_after previous fs
    \<and> distinct (List.map bs_signal_id (seen_signals fs))
    \<and> set (List.map bs_signal_id (seen_signals fs)) \<inter> set ids = {}"
proof (induction fs arbitrary: previous ids)
  case Nil
  then show ?case by (simp add: strictly_after_def seen_signals_def)
next
  case (Cons f fs)
  have "(\<exists>st. fold_res check_frame (f # fs) (previous, ids) = Inr st) \<longleftrightarrow>
    (case previous of None \<Rightarrow> True | Some p \<Rightarrow> p < utc (rf_timestamp f))
    \<and> distinct (List.map bs_signal_id (rf_signals f)) \<and> set (List.map bs_signal_id (rf_signals f)) \<inter> set ids = {}
    \<and> (\<exists>st. fold_res check_frame fs (Some (utc (rf_timestamp f)), rev (List.map bs_signal_id (rf_signals f)) @ ids) = Inr st)"
    by (auto simp: check_frame_eq bindr_eq_Inr ensure_eq_Inr note_signals)
  then show ?case unfolding Cons.IH strictly_after_Cons seen_signals_Cons utc_def
    by (simp add: Int_Un_distrib Int_Un_distrib2) (auto simp: Int_commute)
qed

text \<open>The sequences the run accepts.\<close>

definition valid_sequence :: "replay_frame list \<Rightarrow> bool" where
  "valid_sequence fs \<longleftrightarrow> fs \<noteq> [] \<and> sorted_wrt (<) (List.map (\<lambda>f. instant (rf_timestamp f)) fs)
     \<and> distinct (List.map bs_signal_id (seen_signals fs))"

lemma validate_sequence_iff: "validate_sequence fs = Inr () \<longleftrightarrow> valid_sequence fs"
  using check_frames[of fs None "[]"]
  by (auto simp: validate_sequence_def bindr_eq_Inr valid_sequence_def strictly_after_def)

lemma in_order_sorted:
  "sorted_wrt (<) (List.map (\<lambda>f. instant (rf_timestamp f)) fs) \<Longrightarrow> (\<And>f. f \<in> set fs \<Longrightarrow> now \<le> instant (rf_timestamp f))
   \<Longrightarrow> in_order now fs"
  by (induction fs arbitrary: now) (auto simp: less_imp_le)

lemma run_state:
  assumes cfg: "bt_config_ok cfg" and fs: "valid_sequence fs" "\<forall>f\<in>set fs. valid_frame f"
  shows "\<exists>s now. run cfg fs = Inr (report cfg (rf_timestamp (hd fs)) (rf_timestamp (last fs)) s)
    \<and> replay_inv cfg (seen_signals fs) now [] s \<and> left_open cfg [] s"
proof -
  let ?now = "instant (rf_timestamp (hd fs))"
  have "?now \<le> instant (rf_timestamp f)" if "f \<in> set fs" for f
    using that fs(1) by (cases fs) (auto simp: valid_sequence_def less_imp_le)
  with fs(1) have "in_order ?now fs" by (intro in_order_sorted) (auto simp: valid_sequence_def)
  with replay_frames_total[OF cfg replay_inv_initial fs(2)] obtain s now where
    s: "replay_frames cfg fs initial_replay = Inr s" "replay_inv cfg (seen_signals fs) now [] s" by fastforce
  obtain s' where "liquidate cfg s = Inr s'" "replay_inv cfg (seen_signals fs) now [] s'" "left_open cfg [] s'"
    using liquidate_total[OF cfg s(2)] by blast
  moreover have "validate_sequence fs = Inr ()" using fs(1) by (simp add: validate_sequence_iff)
  ultimately show ?thesis using s(1) by (auto simp: run_def)
qed

end
