(* ===== verification/BtDemo.thy ===== *)
theory BtDemo
  imports BtRun
begin

text \<open>
  A small replay on which the properties of the engine are instantiated: three frames, two
  signals on the option A (a target exit and a liquidation) and one on B, which never trades.
\<close>

definition demo_config :: bt_config where
  "demo_config = \<lparr>bc_initial_capital = 100000,
     bc_slippage = \<lparr>sl_entry_bps = 0, sl_exit_bps = 0, sl_fixed_entry_per_unit = 0, sl_fixed_exit_per_unit = 0\<rparr>,
     bc_costs = \<lparr>cc_brokerage_per_order = 20, cc_entry_tax_rate = 0, cc_exit_tax_rate = 1 / 1000,
       cc_transaction_fee_rate = 0, cc_regulatory_fee_rate = 0, cc_gst_rate = 1 / 5\<rparr>,
     bc_partial_fills = \<lparr>pf_enabled = False, pf_maximum_participation_rate = 1\<rparr>\<rparr>"

definition demo_time :: "int \<Rightarrow> datetime" where
  "demo_time n = at_utc (seconds (60 * n))"

definition demo_bar :: "int \<Rightarrow> rat \<Rightarrow> bar" where
  "demo_bar n price = \<lparr>ob_instrument_id = ''A'', ob_timestamp = demo_time n, ob_open = price,
     ob_high = price + 2, ob_low = price - 2, ob_close = price, ob_bid = price - 1, ob_ask = price + 1,
     ob_bid_quantity = None, ob_ask_quantity = None\<rparr>"

definition demo_signal :: "int \<Rightarrow> string \<Rightarrow> string \<Rightarrow> rat \<Rightarrow> rat \<Rightarrow> signal" where
  "demo_signal n i instrument stop target = \<lparr>bs_signal_id = i, bs_instrument_id = instrument,
     bs_generated_at = demo_time n, bs_option_side = ''CE'', bs_lots = 2, bs_lot_size = 50,
     bs_stop_price = stop, bs_target_price = target, bs_contract_expiry = demo_time 1000,
     bs_score = 80, bs_score_band = ''HIGH'', bs_market = ''NIFTY'', bs_expiry_bucket = ''W'',
     bs_moneyness = ''ATM'', bs_time_bucket = ''AM'', bs_volatility_bucket = ''LOW'',
     bs_regime = ''TREND'', bs_max_holding = None, bs_valid_until = None, bs_tags = []\<rparr>"

definition demo_frames :: "replay_frame list" where
  "demo_frames =
    [\<lparr>rf_timestamp = demo_time 0, rf_bars = [], rf_signals = [demo_signal 0 ''s1'' ''A'' 80 130]\<rparr>,
     \<lparr>rf_timestamp = demo_time 1, rf_bars = [demo_bar 1 100],
       rf_signals = [demo_signal 1 ''s2'' ''B'' 80 130, demo_signal 1 ''s3'' ''A'' 90 160]\<rparr>,
     \<lparr>rf_timestamp = demo_time 2, rf_bars = [demo_bar 2 140], rf_signals = []\<rparr>]"

definition demo_final :: replay where
  "demo_final = (case bindr (replay_frames demo_config demo_frames initial_replay) (liquidate demo_config) of
     Inr s \<Rightarrow> s | Inl _ \<Rightarrow> initial_replay)"

definition demo_report :: bt_report where
  "demo_report = report demo_config (rf_timestamp (hd demo_frames)) (rf_timestamp (last demo_frames)) demo_final"

lemma demo_config_ok: "bt_config_ok demo_config"
  by (simp add: demo_config_def bt_config_ok_def slippage_ok_def costs_ok_def partial_ok_def)

lemma demo_frames_valid: "list_all valid_frame demo_frames"
  by (simp add: demo_frames_def valid_frame_def frame_ok_def bar_ok_def demo_bar_def signal_ok_def
      demo_signal_def demo_time_def seconds_def py_strip_Nil_iff is_space_def)

lemma demo_sequence_valid: "valid_sequence demo_frames"
  by (simp add: valid_sequence_def demo_frames_def demo_time_def seen_signals_def demo_signal_def seconds_def)

lemma demo_run: "run demo_config demo_frames = Inr demo_report"
proof -
  obtain s where "run demo_config demo_frames =
      Inr (report demo_config (rf_timestamp (hd demo_frames)) (rf_timestamp (last demo_frames)) s)"
    using run_state[OF demo_config_ok demo_sequence_valid] demo_frames_valid by (auto simp: list_all_iff)
  then show ?thesis by (auto simp: run_def bindr_eq_Inr demo_report_def demo_final_def)
qed

lemma demo_trades:
  "List.map (\<lambda>t. (tr_signal_id t, tr_quantity t, tr_net_pnl t)) (rs_trades demo_final)
     = [(''s1'', 100, 37381 / 10), (''s3'', 100, - 2619 / 10)]"
  by code_simp

text \<open>The first trade of the run.\<close>

definition demo_trade :: trade where
  "demo_trade = hd (rp_trades demo_report)"

lemma demo_trade: "demo_trade \<in> set (rp_trades demo_report)" "tr_signal_id demo_trade = ''s1''"
  "tr_quantity demo_trade = 100"
proof -
  have r: "rp_trades demo_report = rs_trades demo_final" by (simp add: demo_report_def report_def Let_def)
  then obtain t ts where "rs_trades demo_final = t # ts" "tr_signal_id t = ''s1''" "tr_quantity t = 100"
    using demo_trades by (cases "rs_trades demo_final") auto
  then show "demo_trade \<in> set (rp_trades demo_report)" "tr_signal_id demo_trade = ''s1''"
    "tr_quantity demo_trade = 100" by (simp_all add: demo_trade_def r)
qed

end
