(* ===== verification/BtClaims.thy ===== *)
theory BtClaims
  imports BtDemo "HOL-Library.Sublist"
begin

text \<open>Properties of the replay engine and its report.\<close>

lemma run_cases:
  assumes "bt_config_ok cfg" "list_all valid_frame fs" "run cfg fs = Inr r"
  obtains s now where "r = report cfg (rf_timestamp (hd fs)) (rf_timestamp (last fs)) s"
    "replay_inv cfg (seen_signals fs) now [] s" "left_open cfg [] s" "valid_sequence fs"
proof -
  have fs: "valid_sequence fs"
    using assms(3) by (auto simp: run_def bindr_eq_Inr simp flip: validate_sequence_iff)
  with run_state[OF assms(1) fs] assms(2,3) that show ?thesis by (auto simp: list_all_iff)
qed

lemma report_simps [simp]:
  "rp_trades (report cfg a b s) = rs_trades s"
  "rp_journal (report cfg a b s) = rs_journal s @ List.map (never_filled b) (rs_pending s)"
  "rp_open_positions (report cfg a b s) = List.map open_summary
     (sort_key (\<lambda>p. bs_signal_id (op_signal p)) (List.map snd (rs_positions s)))"
  by (simp_all add: report_def Let_def)

lemma tally_cong: "(\<And>x. x \<in> set xs \<Longrightarrow> v x = w x) \<Longrightarrow> tally v xs = tally w xs"
  by (induction xs) auto

lemma tally_count: "tally (\<lambda>x. if f x = i then 1 else 0) xs = int (count (mset (List.map f xs)) i)"
  by (induction xs) auto

lemma tally_sort: "tally w (sort_key f xs) = tally w xs"
proof -
  have "sum_mset (image_mset w (mset (sort_key f xs))) = sum_mset (image_mset w (mset xs))" by simp
  then show ?thesis by (simp add: tally_def flip: sum_mset_sum_list)
qed

subsection \<open>Growth of trades and journal\<close>

lemma settle_prefix:
  "prefix (rs_trades s) (rs_trades (settle_exit k out s)) \<and> prefix (rs_journal s) (rs_journal (settle_exit k out s))"
  by (simp add: settle_exit_def split: prod.split option.split)

definition extends :: "replay \<Rightarrow> replay \<Rightarrow> bool" where
  "extends s s' \<longleftrightarrow> prefix (rs_trades s) (rs_trades s') \<and> prefix (rs_journal s) (rs_journal s')"

lemma extends_refl [simp]: "extends s s"
  by (simp add: extends_def)

lemma extends_trans: "extends s t \<Longrightarrow> extends t u \<Longrightarrow> extends s u"
  by (auto simp: extends_def intro: prefix_order.trans)

lemma extends_fold: "fold_res f xs s = Inr s' \<Longrightarrow> (\<And>x u u'. f x u = Inr u' \<Longrightarrow> extends u u') \<Longrightarrow> extends s s'"
  by (rule fold_res_invariant[where I = "extends s"]) (auto intro: extends_trans)

lemma extends_exit: "exit_position cfg bars k s = Inr s' \<Longrightarrow> extends s s'"
  and extends_end: "end_of_data cfg k s = Inr s' \<Longrightarrow> extends s s'"
  using settle_prefix by (auto simp: exit_position_def end_of_data_def extends_def bindr_eq_Inr split: option.splits if_splits)

lemma extends_entry: "extends s (log_entry e s)" "extends s (keep_pending sg s)"
  "extends s (skip sg d m s)" "extends s (open_entry cfg d sg b n s)" "extends s (log_entry e (keep_pending sg s))"
  by (simp_all add: extends_def log_entry_def keep_pending_def skip_def open_entry_def)

lemma extends_signal: "execute_signal cfg d bars sg s = Inr s' \<Longrightarrow> extends s s'"
  by (auto simp: execute_signal_def fill_entry_def Let_def extends_entry split: if_splits option.splits)

lemma extends_queue: "extends s (foldl (queue_signal t) s sgs)"
proof (induction sgs arbitrary: s)
  case Nil
  then show ?case by simp
next
  case (Cons sg sgs)
  have "extends s (queue_signal t s sg)" by (simp add: queue_signal_def extends_entry)
  then show ?case using Cons by (auto intro: extends_trans)
qed

lemma extends_step: "replay_step cfg f s = Inr s' \<Longrightarrow> extends s s'"
proof -
  let ?bars = "bar_dict [] (rf_bars f)" and ?t = "rf_timestamp f"
  let ?s1 = "s\<lparr>rs_latest := bar_dict (rs_latest s) (rf_bars f)\<rparr>"
  assume "replay_step cfg f s = Inr s'"
  then obtain s2 s3 where s2: "fold_res (exit_position cfg ?bars) (position_keys ?s1) ?s1 = Inr s2"
    and s3: "execute_pending cfg ?t ?bars s2 = Inr s3" and s': "s' = foldl (queue_signal ?t) s3 (rf_signals f)"
    by (auto simp: replay_step_def Let_def bindr_eq_Inr)
  have "extends s ?s1" by (simp add: extends_def)
  moreover have "extends ?s1 s2" by (rule extends_fold[OF s2 extends_exit])
  moreover have "extends (s2\<lparr>rs_pending := []\<rparr>) s3"
    by (rule extends_fold[OF s3[unfolded execute_pending_def] extends_signal])
  then have "extends s2 s3" by (simp add: extends_def)
  moreover have "extends s3 s'" unfolding s' by (rule extends_queue)
  ultimately show ?thesis by (blast intro: extends_trans)
qed

text \<open>A signal id occurs at most once, so a traded one is not held and has one trade.\<close>

lemma seen_once: "valid_sequence fs \<Longrightarrow> tally (hit i) (seen_signals fs) \<le> 1"
  using distinct_count_atmost_1[of "List.map bs_signal_id (seen_signals fs)"]
  by (simp add: valid_sequence_def hit_def[abs_def] tally_count)

lemma weight_zero: "tally (\<lambda>x. if f x = i then 1 else 0) xs = 0 \<Longrightarrow> tally (\<lambda>x. if f x = i then w x else 0) xs = 0"
proof (induction xs)
  case Nil
  then show ?case by simp
next
  case (Cons x xs)
  have "0 \<le> tally (\<lambda>x. if f x = i then 1 else 0) xs" by (rule tally_nonneg) simp
  then have "f x \<noteq> i" using Cons.prems by auto
  then show ?case using Cons by simp
qed

lemma weight_once:
  assumes "x \<in> set xs" "f x = i" "tally (\<lambda>x. if f x = i then 1 else 0) xs \<le> 1"
  shows "tally (\<lambda>x. if f x = i then w x else 0) xs = w x"
proof -
  from assms(1) obtain ys zs where xs: "xs = ys @ x # zs" by (auto simp: in_set_conv_decomp)
  have nn: "0 \<le> tally (\<lambda>x. if f x = i then 1 else 0) us" for us by (rule tally_nonneg) simp
  have "tally (\<lambda>x. if f x = i then 1 else 0) ys = 0" "tally (\<lambda>x. if f x = i then 1 else 0) zs = 0"
    using assms(2,3) nn[of ys] nn[of zs] by (simp_all add: xs)
  from this[THEN weight_zero] show ?thesis using assms(2) by (simp add: xs)
qed

lemma traded_once:
  assumes t: "t \<in> set (rs_trades s)" and once: "traded (tr_signal_id t) (\<lambda>_. 1) s + held (tr_signal_id t) (\<lambda>_. 1) s \<le> 1"
  shows "traded (tr_signal_id t) w s = w t \<and> held (tr_signal_id t) v s = 0"
proof -
  let ?i = "tr_signal_id t"
  have h: "0 \<le> held ?i (\<lambda>_. 1) s" unfolding held_def by (rule tally_nonneg) (simp add: position_weight_def)
  then have "traded ?i (\<lambda>_. 1) s \<le> 1" using once by simp
  then have w: "traded ?i w s = w t" for w
    unfolding traded_def trade_weight_def using weight_once[OF t refl] by blast
  then have "held ?i (\<lambda>_. 1) s = 0" using once h w[of "\<lambda>_. 1"] by simp
  then have "held ?i v s = 0"
    using weight_zero[of "\<lambda>kv. bs_signal_id (op_signal (snd kv))" ?i "rs_positions s" "\<lambda>kv. v (snd kv)"]
    by (simp add: held_def position_weight_def)
  with w show ?thesis by blast
qed

lemma held_split:
  assumes "replay_inv cfg seen now todo s"
  shows "held i op_quantity s = held i op_exit_quantity s + tally (\<lambda>p. if bs_signal_id (op_signal p) = i
    then op_remaining_quantity p else 0) (List.map snd (rs_positions s))"
proof -
  have split: "op_quantity p = op_exit_quantity p + op_remaining_quantity p" if "(k, p) \<in> set (rs_positions s)" for k p
    using replay_invD(1,2)[OF assms] that by (fastforce simp: holds_position_def position_ok_def)
  have add: "tally (\<lambda>x. v x + w x) xs = tally v xs + tally w xs" for v w and xs :: "(string \<times> open_position) list"
    by (induction xs) auto
  show ?thesis unfolding held_def tally_map add[symmetric]
    by (rule tally_cong) (use split in \<open>auto simp: position_weight_def\<close>)
qed

subsection \<open>Properties\<close>



text \<open>
  C4: every trade realises a signal of the replay: its entry is strictly later than the moment
  the signal became available, before the contract expires and inside the validity window, at a
  price strictly between stop and target; it is closed no earlier than it was opened, in whole
  lots and for at most the requested quantity.
\<close>

theorem no_look_ahead:
  assumes "bt_config_ok cfg" and "list_all valid_frame fs" and "run cfg fs = Inr r"
    and "t \<in> set (rp_trades r)"
  shows "\<exists>s\<in>set (seen_signals fs). tr_signal_id t = bs_signal_id s
    \<and> tr_instrument_id t = bs_instrument_id s
    \<and> instant (bs_generated_at s) < instant (tr_entry_time t)
    \<and> instant (tr_entry_time t) < instant (bs_contract_expiry s) \<and> still_valid s (tr_entry_time t)
    \<and> instant (tr_entry_time t) \<le> instant (tr_exit_time t)
    \<and> bs_stop_price s < tr_entry_price t \<and> tr_entry_price t < bs_target_price s
    \<and> 0 < tr_quantity t \<and> tr_quantity t \<le> requested_quantity s \<and> bs_lot_size s dvd tr_quantity t"
  by (rule run_cases[OF assms(1-3)]) (use assms(4) in \<open>auto simp: replay_inv_def trade_for_def\<close>)

lemma no_look_ahead_witness:
  "\<exists>s\<in>set (seen_signals demo_frames). bs_signal_id s = ''s1''
    \<and> instant (bs_generated_at s) < instant (tr_entry_time demo_trade)"
  using no_look_ahead[OF demo_config_ok demo_frames_valid demo_run demo_trade(1)] demo_trade(2) by auto

text \<open>
  C30: what happens up to a point of the replay does not depend on later frames: the trades and the
  journal of the frames replayed so far are an initial part of those of any longer run.
\<close>

theorem replay_is_causal:
  assumes "run cfg (fs @ gs) = Inr r"
  shows "\<exists>s. replay_frames cfg fs initial_replay = Inr s
    \<and> prefix (rs_trades s) (rp_trades r) \<and> prefix (rs_journal s) (rp_journal r)"
proof -
  obtain s s' s'' where s: "replay_frames cfg fs initial_replay = Inr s"
    and s': "replay_frames cfg gs s = Inr s'" and s'': "liquidate cfg s' = Inr s''"
    and r: "r = report cfg (rf_timestamp (hd (fs @ gs))) (rf_timestamp (last (fs @ gs))) s''"
    using assms by (auto simp: run_def bindr_eq_Inr replay_frames_def fold_res_append)
  have "extends s s'" by (rule extends_fold[OF s'[unfolded replay_frames_def] extends_step])
  moreover have "extends s' s''" by (rule extends_fold[OF s''[unfolded liquidate_def] extends_end])
  ultimately have "extends s s''" by (rule extends_trans)
  then show ?thesis using s r by (auto simp: extends_def prefix_prefix)
qed

lemma replay_is_causal_witness:
  "\<exists>s. replay_frames demo_config (take 2 demo_frames) initial_replay = Inr s
    \<and> prefix (rs_trades s) (rp_trades demo_report) \<and> prefix (rs_journal s) (rp_journal demo_report)"
  using replay_is_causal[of demo_config "take 2 demo_frames" "drop 2 demo_frames"] demo_run by simp

text \<open>
  every signal of the replay ends in exactly one place: it was traded, it is still open, it was
  skipped, or the journal ends with its entry as never filled.
\<close>

theorem signals_accounted:
  assumes "bt_config_ok cfg" and "list_all valid_frame fs" and "run cfg fs = Inr r"
  shows "\<exists>waiting earlier. rp_journal r = earlier @ List.map (never_filled (rp_ended_at r)) waiting
    \<and> mset (List.map bs_signal_id (seen_signals fs)) =
        mset (List.map tr_signal_id (rp_trades r)) + mset (List.map os_signal_id (rp_open_positions r))
        + mset (List.map je_signal_id (filter (\<lambda>e. je_event e = SKIPPED) (rp_journal r)))
        + mset (List.map bs_signal_id waiting)"
proof -
  obtain s now where r: "r = report cfg (rf_timestamp (hd fs)) (rf_timestamp (last fs)) s"
    and inv: "replay_inv cfg (seen_signals fs) now [] s" by (rule run_cases[OF assms])
  have j: "rp_journal r = rs_journal s @ List.map (never_filled (rp_ended_at r)) (rs_pending s)"
    by (simp add: r report_def Let_def)
  have none: "filter (\<lambda>e. je_event e = SKIPPED) (List.map (never_filled d) sgs) = []" for d sgs
    by (induction sgs) (simp_all add: never_filled_def)
  have skips: "tally (skipped i) es = int (count (mset (List.map je_signal_id (filter (\<lambda>e. je_event e = SKIPPED) es))) i)"
    for i es by (induction es) (auto simp: skipped_def)
  have positions: "held i (\<lambda>_. 1) s = int (count (mset (List.map os_signal_id (rp_open_positions r))) i)" for i
    using tally_count[of "\<lambda>kv. bs_signal_id (op_signal (snd kv))" i "rs_positions s"]
    by (simp add: r held_def position_weight_def open_summary_def comp_def multiset.map_comp)
  have "int (count (mset (List.map bs_signal_id (seen_signals fs))) i) =
      int (count (mset (List.map tr_signal_id (rp_trades r)) + mset (List.map os_signal_id (rp_open_positions r))
        + mset (List.map je_signal_id (filter (\<lambda>e. je_event e = SKIPPED) (rp_journal r)))
        + mset (List.map bs_signal_id (rs_pending s))) i)" for i
    using replay_invD(4)[OF inv, of i] positions[of i]
    by (simp add: books_def hit_def[abs_def] traded_def logged_def trade_weight_def[abs_def] tally_count skips j none r)
  then have "mset (List.map bs_signal_id (seen_signals fs)) =
      mset (List.map tr_signal_id (rp_trades r)) + mset (List.map os_signal_id (rp_open_positions r))
        + mset (List.map je_signal_id (filter (\<lambda>e. je_event e = SKIPPED) (rp_journal r)))
        + mset (List.map bs_signal_id (rs_pending s))"
    by (intro multiset_eqI) (simp only: of_nat_eq_iff)
  with j show ?thesis by blast
qed

lemma signals_accounted_witness:
  "\<exists>waiting earlier. rp_journal demo_report = earlier @ List.map (never_filled (rp_ended_at demo_report)) waiting
    \<and> {#''s1'', ''s2'', ''s3''#} =
        mset (List.map tr_signal_id (rp_trades demo_report)) + mset (List.map os_signal_id (rp_open_positions demo_report))
        + mset (List.map je_signal_id (filter (\<lambda>e. je_event e = SKIPPED) (rp_journal demo_report)))
        + mset (List.map bs_signal_id waiting)"
proof -
  have "mset (List.map bs_signal_id (seen_signals demo_frames)) = {#''s1'', ''s2'', ''s3''#}"
    by (simp add: demo_frames_def seen_signals_def demo_signal_def)
  then show ?thesis using signals_accounted[OF demo_config_ok demo_frames_valid demo_run] by simp
qed

text \<open>
  C29: quantities are conserved.  The journal's entry fill of a trade is its quantity and its exit
  fills add up to it; for every signal, what was bought is what was sold plus what is still open.
\<close>

theorem quantities_conserved:
  assumes "bt_config_ok cfg" and "list_all valid_frame fs" and "run cfg fs = Inr r"
  shows "(\<forall>t\<in>set (rp_trades r). tally (entry_quantity (tr_signal_id t)) (rp_journal r) = tr_quantity t
      \<and> tally (exit_quantity (tr_signal_id t)) (rp_journal r) = tr_quantity t)
    \<and> (\<forall>i. tally (entry_quantity i) (rp_journal r) = tally (exit_quantity i) (rp_journal r)
        + tally (\<lambda>p. if os_signal_id p = i then os_remaining_quantity p else 0) (rp_open_positions r))"
proof -
  obtain s now where r: "r = report cfg (rf_timestamp (hd fs)) (rf_timestamp (last fs)) s"
    and inv: "replay_inv cfg (seen_signals fs) now [] s" and fs: "valid_sequence fs" by (rule run_cases[OF assms])
  have quiet: "tally (entry_quantity i) (List.map (never_filled d) sgs) = 0"
    "tally (exit_quantity i) (List.map (never_filled d) sgs) = 0" for i d sgs
    by (induction sgs) (simp_all add: never_filled_def entry_quantity_def exit_quantity_def)
  have j: "tally (entry_quantity i) (rp_journal r) = logged (entry_quantity i) s"
    "tally (exit_quantity i) (rp_journal r) = logged (exit_quantity i) s" for i
    by (simp_all add: r logged_def quiet)
  note books = replay_invD(4)[OF inv]
  have once: "traded i (\<lambda>_. 1) s + held i (\<lambda>_. 1) s \<le> 1" for i
  proof -
    have "0 \<le> tally (hit i) (rs_pending s)" by (rule tally_nonneg) (simp add: hit_def)
    moreover have "0 \<le> logged (skipped i) s" unfolding logged_def by (rule tally_nonneg) (simp add: skipped_def)
    ultimately show ?thesis using books[of i] seen_once[OF fs, of i] by (simp add: books_def)
  qed
  have "logged (entry_quantity (tr_signal_id t)) s = tr_quantity t \<and> logged (exit_quantity (tr_signal_id t)) s = tr_quantity t"
    if t: "t \<in> set (rs_trades s)" for t
    using traded_once[OF t once] books[of "tr_signal_id t"] by (simp add: books_def)
  moreover have "logged (entry_quantity i) s = logged (exit_quantity i) s
      + tally (\<lambda>p. if os_signal_id p = i then os_remaining_quantity p else 0) (rp_open_positions r)" for i
    using books[of i] held_split[OF inv, of i]
    by (simp add: books_def r tally_map tally_sort open_summary_def cong: if_cong)
  ultimately show ?thesis unfolding j by (simp only: r report_simps) blast
qed

lemma quantities_conserved_witness:
  "tally (entry_quantity ''s1'') (rp_journal demo_report) = 100
    \<and> tally (exit_quantity ''s1'') (rp_journal demo_report) = 100"
  using quantities_conserved[OF demo_config_ok demo_frames_valid demo_run] demo_trade by metis

text \<open>
  when partial fills are switched off no position survives the replay: the last bar of each
  instrument liquidates whatever its stop, target, expiry or holding limit has not closed.
\<close>

theorem full_fills_leave_nothing_open:
  assumes "bt_config_ok cfg" and "list_all valid_frame fs" and "run cfg fs = Inr r"
    and "\<not> pf_enabled (bc_partial_fills cfg)"
  shows "rp_open_positions r = []"
proof -
  obtain s now where r: "r = report cfg (rf_timestamp (hd fs)) (rf_timestamp (last fs)) s"
    and left: "left_open cfg [] s" by (rule run_cases[OF assms(1-3)])
  then have "rs_positions s = []" using assms(4) by (simp add: left_open_def full_fills_def)
  then show ?thesis by (simp add: r)
qed

lemma full_fills_leave_nothing_open_witness: "rp_open_positions demo_report = []"
  by (rule full_fills_leave_nothing_open[OF demo_config_ok demo_frames_valid demo_run])
    (simp add: demo_config_def)

text \<open>
  C37: the money of every trade is sound: the exit price and every cost component are never
  negative, the risk is positive and the net result never exceeds the gross one.
\<close>

theorem trade_money_sound:
  assumes "bt_config_ok cfg" and "list_all valid_frame fs" and "run cfg fs = Inr r"
    and "t \<in> set (rp_trades r)"
  shows "0 \<le> tr_exit_price t \<and> costs_nonneg (tr_entry_costs t) \<and> costs_nonneg (tr_exit_costs t)
    \<and> 0 \<le> trade_total_costs t \<and> 0 < tr_initial_risk t \<and> tr_net_pnl t \<le> tr_gross_pnl t"
proof -
  have "\<exists>sg. trade_for t sg"
    by (rule run_cases[OF assms(1-3)]) (use assms(4) in \<open>auto simp: replay_inv_def\<close>)
  then show ?thesis by (auto simp: trade_for_def trade_total_costs_def cost_total_nonneg dadd_nonneg)
qed

lemma trade_money_sound_witness:
  "0 < tr_initial_risk demo_trade \<and> tr_net_pnl demo_trade \<le> tr_gross_pnl demo_trade"
  using trade_money_sound[OF demo_config_ok demo_frames_valid demo_run demo_trade(1)] by blast

text \<open>
  the report metrics of any list of trades are within their ranges: the win rate and the
  exposure ratio lie between 0 and 1, wins and losses are disjoint, gross profit and profit factor are never negative, and the drawdown is at least every fall of the running
  equity below the initial capital.
\<close>

theorem metrics_within_bounds:
  "let m = calculate_metrics capital started ended ts;
       pnls = List.map tr_net_pnl (sort_key (\<lambda>t. (instant (tr_exit_time t), tr_signal_id t)) ts) in
    0 \<le> mt_win_rate m \<and> mt_win_rate m \<le> 1 \<and> 0 \<le> mt_exposure_ratio m \<and> mt_exposure_ratio m \<le> 1
    \<and> mt_wins m + mt_losses m \<le> mt_trades m \<and> 0 \<le> mt_gross_profit m \<and> mt_gross_loss m \<le> 0
    \<and> list_all (\<lambda>x. 0 \<le> x) (case mt_profit_factor m of None \<Rightarrow> [] | Some x \<Rightarrow> [x])
    \<and> 0 \<le> mt_max_drawdown m
    \<and> list_all (\<lambda>n. dsub capital (foldl dadd capital (take n pnls)) \<le> mt_max_drawdown m) [1..<Suc (length ts)]"
proof -
  define m where "m = calculate_metrics capital started ended ts"
  define pnls where "pnls = List.map tr_net_pnl (sort_key (\<lambda>t. (instant (tr_exit_time t), tr_signal_id t)) ts)"
  have profit: "0 \<le> mt_gross_profit m" and lose: "mt_gross_loss m \<le> 0"
    by (auto simp: m_def calculate_metrics_def Let_def win_def loss_def intro!: dsum_nonneg dsum_nonpos)
  have "0 \<le> dabs x" for x by (simp add: dabs_def dec.rnd_nonneg)
  then have "list_all (\<lambda>x. 0 \<le> x) (case mt_profit_factor m of None \<Rightarrow> [] | Some x \<Rightarrow> [x])"
    using profit by (simp add: m_def calculate_metrics_def Let_def profit_factor_def ddiv_nonneg)
  moreover have "mt_wins m + mt_losses m \<le> mt_trades m"
  proof -
    have "length (filter win ts) + length (filter loss ts) \<le> length ts"
      by (induction ts) (auto simp: win_def loss_def)
    then show ?thesis by (simp add: m_def calculate_metrics_def Let_def count_if_def len_def)
  qed
  moreover have "list_all (\<lambda>n. dsub capital (foldl dadd capital (take n pnls)) \<le> mt_max_drawdown m) [1..<Suc (length ts)]"
    unfolding list_all_iff m_def calculate_metrics_def Let_def
    by (auto simp: maximum_drawdown_def pnls_def intro!: drawdown_loop_covers)
  ultimately show ?thesis
    using profit lose win_rate_unit[of ts] exposure_ratio_unit[of started ended ts] maximum_drawdown_nonneg[of capital ts]
    by (simp add: m_def pnls_def calculate_metrics_def Let_def)
qed

text \<open>
  each breakdown of a report is the specification by comprehension: its labels are strictly
  sorted, they are exactly the labels of the trades, and the metrics under a label are those of the
  trades that carry it, in their order.
\<close>

theorem breakdowns_partition_trades:
  assumes "map_of breakdown_dimensions dimension = Some f"
  shows "\<exists>groups. map_of (build_breakdowns ts) dimension = Some groups
    \<and> sorted_wrt (<) (List.map fst groups)
    \<and> set groups = (\<lambda>label. (label, trade_breakdown (filter (\<lambda>t. f t = label) ts))) ` f ` set ts"
proof -
  have "map_of (build_breakdowns ts) dimension = Some (breakdown_by f ts)"
    using assms by (auto simp: build_breakdowns_def map_of_map)
  moreover have "sorted_wrt (<) (List.map fst (breakdown_by f ts))"
  proof -
    have labels: "List.map fst (breakdown_by f ts) = List.map fst (group_by f ts)"
      by (simp add: breakdown_by_def comp_def split_def)
    show ?thesis unfolding labels by (rule group_by_sorted)
  qed
  moreover have "set (breakdown_by f ts) = (\<lambda>label. (label, trade_breakdown (filter (\<lambda>t. f t = label) ts))) ` f ` set ts"
    unfolding breakdown_by_def set_map by (force simp: in_group_by image_iff)
  ultimately show ?thesis by blast
qed

lemma breakdowns_partition_trades_witness:
  "\<exists>groups. map_of (build_breakdowns (rp_trades demo_report)) ''market'' = Some groups
    \<and> sorted_wrt (<) (List.map fst groups)
    \<and> set groups = (\<lambda>label. (label, trade_breakdown (filter (\<lambda>t. tr_market t = label) (rp_trades demo_report))))
        ` tr_market ` set (rp_trades demo_report)"
  by (rule breakdowns_partition_trades) (simp add: breakdown_dimensions_def)

end
