(* ===== verification/Candles.thy ===== *)
theory Candles
  imports Clock Grouping "HOL-Library.Product_Lexorder"
begin

text \<open>
  The candles of \<open>analytics/models.py\<close>.  A number at the boundary is a \<open>Decimal\<close>, a \<open>float\<close>, an
  \<open>int\<close> or a \<open>bool\<close>; strings are not modelled.  \<open>mk_candle\<close> is the constructor with its checks.
\<close>

datatype TrendDirection = BULLISH | BEARISH | NEUTRAL | INSUFFICIENT_DATA

datatype boundary = BDecimal decimal | BFloat float64 | BInt int | BBool bool

text \<open>\<open>Decimal(str(x))\<close>.\<close>

fun decimal_of_str :: "float64 \<Rightarrow> decimal" where
  "decimal_of_str (FFinite x) = Finite (float_repr x)"
| "decimal_of_str (FInfinite b) = Infinite b"
| "decimal_of_str FNaN = NaN"

definition analytics_error :: "string \<Rightarrow> 'a res" where
  "analytics_error m = Inl (AnalyticsInputError m)"

definition demand :: "bool \<Rightarrow> string \<Rightarrow> unit res" where
  "demand b m = (if b then Inr () else analytics_error m)"

lemma demand_eq_Inr [res_simps]: "demand b m = Inr u \<longleftrightarrow> b"
  by (simp add: demand_def analytics_error_def)

definition finite_decimal :: "string \<Rightarrow> decimal \<Rightarrow> rat res" where
  "finite_decimal name d = (if dec_is_finite d then Inr (dec_val d)
     else analytics_error (name @ '' must be finite''))"

lemma finite_decimal_eq_Inr [res_simps]: "finite_decimal name d = Inr x \<longleftrightarrow> d = Finite x"
  by (cases d) (auto simp: finite_decimal_def analytics_error_def)

fun decimal_value :: "string \<Rightarrow> boundary \<Rightarrow> rat res" where
  "decimal_value name (BBool b) = analytics_error (name @ '' must be numeric'')"
| "decimal_value name (BDecimal d) = finite_decimal name d"
| "decimal_value name (BFloat f) = finite_decimal name (decimal_of_str f)"
| "decimal_value name (BInt n) = Inr (of_int n)"

definition aware :: "string \<Rightarrow> datetime \<Rightarrow> datetime res" where
  "aware name t = (if is_aware t then Inr t else analytics_error (name @ '' must be timezone-aware''))"

lemma aware_eq_Inr [res_simps]: "aware name t = Inr t' \<longleftrightarrow> is_aware t \<and> t' = t"
  by (auto simp: aware_def analytics_error_def)

record 'd candle =
  ca_start :: datetime
  ca_end :: datetime
  ca_open :: 'd
  ca_high :: 'd
  ca_low :: 'd
  ca_close :: 'd
  ca_volume :: 'd
  ca_completed :: bool

definition positive_field :: "string \<Rightarrow> boundary \<Rightarrow> rat res" where
  "positive_field field v = bindr (decimal_value (''candle '' @ field) v) (\<lambda>x.
     if x \<le> 0 then analytics_error (''candle '' @ field @ '' must be positive'') else Inr x)"

lemma positive_field_eq_Inr [res_simps]:
  "positive_field field v = Inr x \<longleftrightarrow> decimal_value (''candle '' @ field) v = Inr x \<and> 0 < x"
  by (cases "decimal_value (''candle '' @ field) v") (auto simp: positive_field_def analytics_error_def)

definition check_ohlc :: "rat candle \<Rightarrow> rat candle res" where
  "check_ohlc c =
    bindr (demand (max (ca_open c) (max (ca_close c) (ca_low c)) \<le> ca_high c)
      ''candle high is below an OHLC value'') (\<lambda>_.
    bindr (demand (ca_low c \<le> min (ca_open c) (min (ca_close c) (ca_high c)))
      ''candle low is above an OHLC value'') (\<lambda>_.
      Inr c))"

definition mk_candle :: "boundary candle \<Rightarrow> rat candle res" where
  "mk_candle c =
    bindr (aware ''candle start'' (ca_start c)) (\<lambda>_.
    bindr (aware ''candle end'' (ca_end c)) (\<lambda>_.
    bindr (demand (instant (ca_start c) < instant (ca_end c)) ''candle end must be after candle start'') (\<lambda>_.
    bindr (positive_field ''open'' (ca_open c)) (\<lambda>op.
    bindr (positive_field ''high'' (ca_high c)) (\<lambda>hi.
    bindr (positive_field ''low'' (ca_low c)) (\<lambda>lo.
    bindr (positive_field ''close'' (ca_close c)) (\<lambda>cl.
    bindr (decimal_value ''candle volume'' (ca_volume c)) (\<lambda>vol.
    bindr (demand (0 \<le> vol) ''candle volume cannot be negative'') (\<lambda>_.
      check_ohlc \<lparr>ca_start = ca_start c, ca_end = ca_end c, ca_open = op, ca_high = hi, ca_low = lo,
        ca_close = cl, ca_volume = vol, ca_completed = ca_completed c\<rparr>)))))))))"

definition candle_ok :: "rat candle \<Rightarrow> bool" where
  "candle_ok c \<longleftrightarrow> is_aware (ca_start c) \<and> is_aware (ca_end c) \<and> instant (ca_start c) < instant (ca_end c)
     \<and> 0 < ca_low c \<and> ca_low c \<le> ca_open c \<and> ca_open c \<le> ca_high c
     \<and> ca_low c \<le> ca_close c \<and> ca_close c \<le> ca_high c \<and> 0 \<le> ca_volume c"

lemma mk_candle_ok: "mk_candle c = Inr v \<Longrightarrow> candle_ok v"
  unfolding mk_candle_def check_ohlc_def bindr_eq_Inr demand_eq_Inr aware_eq_Inr positive_field_eq_Inr
  by (elim exE conjE) (auto simp: candle_ok_def)

text \<open>The constructor on values that already are decimals.\<close>

definition decimal_candle :: "rat candle \<Rightarrow> boundary candle" where
  "decimal_candle c = \<lparr>ca_start = ca_start c, ca_end = ca_end c, ca_open = BDecimal (Finite (ca_open c)),
     ca_high = BDecimal (Finite (ca_high c)), ca_low = BDecimal (Finite (ca_low c)),
     ca_close = BDecimal (Finite (ca_close c)), ca_volume = BDecimal (Finite (ca_volume c)),
     ca_completed = ca_completed c\<rparr>"

lemma mk_decimal_candle: "candle_ok c \<Longrightarrow> mk_candle (decimal_candle c) = Inr c"
  by (simp add: mk_candle_def decimal_candle_def candle_ok_def check_ohlc_def positive_field_def
      demand_def aware_def finite_decimal_def)

subsection \<open>Completed candles\<close>

definition visible :: "datetime option \<Rightarrow> rat candle \<Rightarrow> bool" where
  "visible as_of c \<longleftrightarrow> ca_completed c \<and> (case as_of of None \<Rightarrow> True | Some t \<Rightarrow> instant (ca_end c) \<le> instant t)"

definition candle_key :: "rat candle \<Rightarrow> int \<times> int" where
  "candle_key c = (instant (ca_end c), instant (ca_start c))"

fun no_overlap :: "rat candle option \<Rightarrow> rat candle list \<Rightarrow> bool" where
  "no_overlap previous [] = True"
| "no_overlap previous (c # cs) =
     ((case previous of None \<Rightarrow> True | Some p \<Rightarrow> instant (ca_end p) \<le> instant (ca_start c)) \<and> no_overlap (Some c) cs)"

definition completed :: "datetime option \<Rightarrow> rat candle list \<Rightarrow> rat candle list res" where
  "completed as_of cs =
    bindr (case as_of of None \<Rightarrow> Inr () | Some t \<Rightarrow> bindr (aware ''indicator evaluation time'' t) (\<lambda>_. Inr ())) (\<lambda>_.
    let selected = sort_key candle_key (filter (visible as_of) cs) in
    if no_overlap None selected then Inr selected else analytics_error ''completed candles overlap'')"

lemma completedD:
  assumes "completed as_of cs = Inr sel"
  shows "sel = sort_key candle_key (filter (visible as_of) cs)" "no_overlap None sel"
    "c \<in> set sel \<Longrightarrow> c \<in> set cs \<and> visible as_of c"
  using assms by (auto simp: completed_def Let_def bindr_eq_Inr analytics_error_def split: if_splits)

lemma no_overlap_iff:
  "\<forall>c\<in>set cs. candle_ok c \<Longrightarrow> no_overlap p cs \<longleftrightarrow> sorted_wrt (\<lambda>a b. instant (ca_end a) \<le> instant (ca_start b)) cs
    \<and> (\<forall>q. p = Some q \<longrightarrow> (\<forall>c\<in>set cs. instant (ca_end q) \<le> instant (ca_start c)))"
proof (induction cs arbitrary: p)
  case Nil
  then show ?case by simp
next
  case (Cons c cs)
  have c: "instant (ca_start c) < instant (ca_end c)" using Cons.prems by (simp add: candle_ok_def)
  have ih: "no_overlap (Some c) cs \<longleftrightarrow> sorted_wrt (\<lambda>a b. instant (ca_end a) \<le> instant (ca_start b)) cs
    \<and> (\<forall>d\<in>set cs. instant (ca_end c) \<le> instant (ca_start d))"
    using Cons.IH[of "Some c"] Cons.prems by simp
  show ?case unfolding no_overlap.simps ih using c by (cases p) fastforce+
qed

text \<open>
  Sorting makes the selection independent of the order of the candles: sorted candles that do not
  overlap have distinct keys, and two of them with the same key overlap in either order.
\<close>

lemma sort_key_mset_unique:
  assumes "mset xs = mset ys" "distinct (List.map f xs)"
  shows "sort_key f xs = sort_key f ys"
proof (rule properties_for_sort_key[symmetric])
  show "mset (sort_key f xs) = mset ys" using assms(1) by simp
  show "sorted (List.map f (sort_key f xs))" by simp
  show "filter (\<lambda>x. f k = f x) (sort_key f xs) = filter (\<lambda>x. f k = f x) ys" if "k \<in> set (sort_key f xs)" for k
  proof -
    have k: "k \<in> set xs" "k \<in> set ys" using that assms(1) by (auto dest: mset_eq_setD)
    have single: "filter (\<lambda>x. f k = f x) zs = [k]" if z: "mset zs = mset xs" "k \<in> set zs" for zs
    proof -
      from z have d: "distinct (List.map f zs)" using assms(2)
        by (metis mset_map distinct_count_atmost_1 mset_eq_setD)
      from z(2) obtain a b where "zs = a @ k # b" by (auto simp: in_set_conv_decomp)
      with d show ?thesis by (auto simp: filter_empty_conv image_iff)
    qed
    show ?thesis using single[of "sort_key f xs"] single[of ys] k assms(1) by simp
  qed
qed

end
