(* ===== verification/Indicators.thy ===== *)
theory Indicators
  imports Candles
begin

text \<open>
  Indicators over completed candles (\<open>analytics/indicators.py\<close>).  \<open>as_of\<close> is the evaluation time:
  no indicator reads a candle that is not completed or ends later.
\<close>

definition period :: "int \<Rightarrow> int res" where
  "period n = (if n \<le> 0 then analytics_error ''indicator period must be a positive integer'' else Inr n)"

lemma period_eq_Inr [res_simps]: "period n = Inr p \<longleftrightarrow> 0 < n \<and> p = n"
  by (auto simp: period_def analytics_error_def)

type_synonym bars = "rat candle list"

text \<open>\<open>values[:n]\<close>, \<open>values[n:]\<close>, \<open>values[-n:]\<close> and \<open>len(values)\<close> for a positive \<open>n\<close>.\<close>

definition first_n :: "int \<Rightarrow> 'a list \<Rightarrow> 'a list" where "first_n n xs = take (nat n) xs"
definition rest_n :: "int \<Rightarrow> 'a list \<Rightarrow> 'a list" where "rest_n n xs = drop (nat n) xs"
definition last_n :: "int \<Rightarrow> 'a list \<Rightarrow> 'a list" where "last_n n xs = drop (length xs - nat n) xs"
definition size_of :: "'a list \<Rightarrow> int" where "size_of xs = int (length xs)"

subsection \<open>Averages\<close>

definition typical_price :: "rat candle \<Rightarrow> rat" where
  "typical_price c = ddiv (dadd (dadd (ca_high c) (ca_low c)) (ca_close c)) 3"

definition vwap :: "bars \<Rightarrow> datetime option \<Rightarrow> rat option res" where
  "vwap cs as_of = bindr (completed as_of cs) (\<lambda>sel.
    let total = dsum (List.map ca_volume sel) in
    if total = 0 then Inr None
    else Inr (Some (ddiv (dsum (List.map (\<lambda>c. dmul (typical_price c) (ca_volume c)) sel)) total)))"

definition ema_step :: "rat \<Rightarrow> rat \<Rightarrow> rat \<Rightarrow> rat" where
  "ema_step alpha current value = dadd (dmul value alpha) (dmul current (dsub 1 alpha))"

definition ema_values :: "rat list \<Rightarrow> int \<Rightarrow> rat option res" where
  "ema_values values n = bindr (period n) (\<lambda>p.
    if size_of values < p then Inr None
    else let seed = ddiv (dsum (first_n p values)) (of_int p); alpha = ddiv 2 (of_int (p + 1)) in
      Inr (Some (foldl (ema_step alpha) seed (rest_n p values))))"

definition ema :: "bars \<Rightarrow> int \<Rightarrow> datetime option \<Rightarrow> rat option res" where
  "ema cs n as_of = bindr (completed as_of cs) (\<lambda>sel. ema_values (List.map ca_close sel) n)"

definition wma :: "bars \<Rightarrow> int \<Rightarrow> datetime option \<Rightarrow> rat option res" where
  "wma cs n as_of = bindr (period n) (\<lambda>p. bindr (completed as_of cs) (\<lambda>sel.
    if size_of sel < p then Inr None
    else let window = last_n p sel;
             numerator = dsum (List.map (\<lambda>(i, c). dmul (ca_close c) (of_int i)) (zip [1..p] window)) in
      Inr (Some (ddiv numerator (of_int (p * (p + 1) div 2))))))"

subsection \<open>Wilder smoothing\<close>

definition wilder :: "int \<Rightarrow> rat \<Rightarrow> rat \<Rightarrow> rat" where
  "wilder p average value = ddiv (dadd (dmul average (of_int (p - 1))) value) (of_int p)"

definition seed_average :: "int \<Rightarrow> rat list \<Rightarrow> rat" where
  "seed_average p values = ddiv (dsum (first_n p values)) (of_int p)"

definition smoothed :: "int \<Rightarrow> rat list \<Rightarrow> rat" where
  "smoothed p values = foldl (wilder p) (seed_average p values) (rest_n p values)"

definition price_changes :: "rat list \<Rightarrow> rat list" where
  "price_changes closes = List.map (\<lambda>(previous, current). dsub current previous) (zip closes (tl closes))"

definition rsi_of :: "rat \<Rightarrow> rat \<Rightarrow> rat" where
  "rsi_of average_gain average_loss =
    (if average_loss = 0 then (if average_gain = 0 then 50 else 100)
     else fround (dsub 100 (ddiv 100 (dadd 1 (ddiv average_gain average_loss)))))"

definition wilder_rsi :: "bars \<Rightarrow> int \<Rightarrow> datetime option \<Rightarrow> rat option res" where
  "wilder_rsi cs n as_of = bindr (period n) (\<lambda>p. bindr (completed as_of cs) (\<lambda>sel.
    if size_of sel < p + 1 then Inr None
    else let changes = price_changes (List.map ca_close sel);
             gains = List.map (\<lambda>x. max x 0) changes;
             losses = List.map (\<lambda>x. max (dneg x) 0) changes in
      Inr (Some (rsi_of (smoothed p gains) (smoothed p losses)))))"

definition true_range :: "rat candle \<Rightarrow> boundary option \<Rightarrow> rat res" where
  "true_range c previous = bindr (demand (ca_completed c) ''true range requires a completed candle'') (\<lambda>_.
    case previous of None \<Rightarrow> Inr (dsub (ca_high c) (ca_low c))
    | Some v \<Rightarrow> bindr (decimal_value ''previous close'' v) (\<lambda>x.
        bindr (demand (0 < x) ''previous close must be positive'') (\<lambda>_.
          Inr (max (dsub (ca_high c) (ca_low c))
            (max (dabs (dsub (ca_high c) x)) (dabs (dsub (ca_low c) x)))))))"

fun true_ranges :: "boundary option \<Rightarrow> bars \<Rightarrow> rat list res" where
  "true_ranges previous [] = Inr []"
| "true_ranges previous (c # cs) = bindr (true_range c previous) (\<lambda>r.
     bindr (true_ranges (Some (BDecimal (Finite (ca_close c)))) cs) (\<lambda>rs. Inr (r # rs)))"

definition atr :: "bars \<Rightarrow> int \<Rightarrow> datetime option \<Rightarrow> rat option res" where
  "atr cs n as_of = bindr (period n) (\<lambda>p. bindr (completed as_of cs) (\<lambda>sel.
    if size_of sel < p then Inr None
    else bindr (true_ranges None sel) (\<lambda>ranges. Inr (Some (smoothed p ranges)))))"

subsection \<open>Resampling\<close>

text \<open>A \<open>timedelta\<close> is its microseconds; \<open>replace(hour=0, ...)\<close> goes to midnight of the own offset.\<close>

definition duration_microseconds :: "string \<Rightarrow> int \<Rightarrow> int res" where
  "duration_microseconds name us = (if us \<le> 0 then analytics_error (name @ '' must be positive'') else Inr us)"

definition utc_microseconds :: "datetime \<Rightarrow> int" where
  "utc_microseconds t = instant t"

fun midnight :: "datetime \<Rightarrow> datetime" where
  "midnight (Naive w) = Naive (w - w mod day_us)"
| "midnight (Aware u off) = Aware (u - (u + off) mod day_us) off"

definition bucket_of :: "int \<Rightarrow> int \<Rightarrow> rat candle \<Rightarrow> int" where
  "bucket_of anchor interval c = (utc_microseconds (ca_start c) - anchor) div interval"

definition crosses :: "int \<Rightarrow> int \<Rightarrow> rat candle \<Rightarrow> bool" where
  "crosses anchor interval c \<longleftrightarrow>
     anchor + (bucket_of anchor interval c + 1) * interval < utc_microseconds (ca_end c)"

definition contiguous :: "bars \<Rightarrow> bool" where
  "contiguous g \<longleftrightarrow> list_all (\<lambda>(l, r). dt_eq (ca_end l) (ca_start r)) (zip g (tl g))"

definition full_bucket :: "datetime \<Rightarrow> datetime \<Rightarrow> bars \<Rightarrow> bool" where
  "full_bucket lo hi g \<longleftrightarrow> dt_eq (ca_start (hd g)) lo \<and> dt_eq (ca_end (last g)) hi \<and> contiguous g"

definition merged :: "datetime \<Rightarrow> datetime \<Rightarrow> bars \<Rightarrow> rat candle" where
  "merged lo hi g = \<lparr>ca_start = lo, ca_end = hi, ca_open = ca_open (hd g),
     ca_high = Max (set (List.map ca_high g)), ca_low = Min (set (List.map ca_low g)),
     ca_close = ca_close (last g), ca_volume = dsum (List.map ca_volume g), ca_completed = True\<rparr>"

fun emit_buckets :: "datetime \<Rightarrow> int \<Rightarrow> (int \<times> bars) list \<Rightarrow> bars res" where
  "emit_buckets anchor interval [] = Inr []"
| "emit_buckets anchor interval ((k, g) # rest) =
    (let lo = plus_us anchor (k * interval); hi = plus_us lo interval in
     if \<not> full_bucket lo hi g then emit_buckets anchor interval rest
     else bindr (mk_candle (decimal_candle (merged lo hi g))) (\<lambda>c.
       bindr (emit_buckets anchor interval rest) (\<lambda>cs. Inr (c # cs))))"

definition resample_completed_candles ::
  "bars \<Rightarrow> int \<Rightarrow> datetime \<Rightarrow> datetime option \<Rightarrow> bars res" where
  "resample_completed_candles cs interval as_of anchor =
    bindr (aware ''resampling evaluation time'' as_of) (\<lambda>_.
    bindr (duration_microseconds ''resampling interval'' interval) (\<lambda>us.
    bindr (completed (Some as_of) cs) (\<lambda>sel.
    if sel = [] then Inr []
    else let origin = (case anchor of None \<Rightarrow> midnight (ca_start (hd sel)) | Some a \<Rightarrow> a) in
      bindr (aware ''resampling anchor'' origin) (\<lambda>_.
      bindr (demand (\<not> list_ex (crosses (utc_microseconds origin) us) sel)
        ''source candle crosses a resampling bucket boundary'') (\<lambda>_.
        emit_buckets origin us (group_by (bucket_of (utc_microseconds origin) us) sel))))))"

subsection \<open>Hourly confirmation\<close>

record hourly_confirmation_result =
  hc_as_of :: datetime
  hc_last_completed_hour :: "datetime option"
  hc_fast_ema :: "rat option"
  hc_slow_ema :: "rat option"
  hc_direction :: TrendDirection
  hc_completed_hours :: int

fun trend :: "rat option \<Rightarrow> rat option \<Rightarrow> TrendDirection" where
  "trend (Some f) (Some s) = (if s < f then BULLISH else if f < s then BEARISH else NEUTRAL)"
| "trend _ _ = INSUFFICIENT_DATA"

definition hour_us :: int where "hour_us = 3600000000"

definition hourly_confirmation ::
  "bars \<Rightarrow> datetime \<Rightarrow> int \<Rightarrow> int \<Rightarrow> datetime option \<Rightarrow> hourly_confirmation_result res" where
  "hourly_confirmation cs as_of fast_period slow_period anchor =
    bindr (period fast_period) (\<lambda>fast. bindr (period slow_period) (\<lambda>slow.
    bindr (demand (fast < slow) ''hourly fast period must be below slow period'') (\<lambda>_.
    bindr (resample_completed_candles cs hour_us as_of anchor) (\<lambda>hourly.
    bindr (ema hourly fast None) (\<lambda>f. bindr (ema hourly slow None) (\<lambda>s.
      Inr \<lparr>hc_as_of = as_of,
        hc_last_completed_hour = (if hourly = [] then None else Some (ca_end (last hourly))),
        hc_fast_ema = f, hc_slow_ema = s, hc_direction = trend f s,
        hc_completed_hours = size_of hourly\<rparr>))))))"

end
