(* ===== verification/IndicatorClaims.thy ===== *)
theory IndicatorClaims
  imports Indicators
begin

text \<open>Properties of the candle indicators.\<close>

subsection \<open>The selection of candles\<close>

lemma disjoint_keys:
  "\<forall>c\<in>set cs. candle_ok c \<Longrightarrow> sorted_wrt (\<lambda>a b. instant (ca_end a) \<le> instant (ca_start b)) cs
   \<Longrightarrow> distinct (List.map candle_key cs)"
  by (induction cs) (fastforce simp: candle_key_def candle_ok_def)+

lemma completed_mset:
  assumes ok: "\<forall>c\<in>set cs. candle_ok c"
    and eq: "mset (filter (visible t) cs) = mset (filter (visible t) ds)"
  shows "completed t cs = completed t ds"
proof -
  let ?xs = "filter (visible t) cs" and ?ys = "filter (visible t) ds"
  have set_eq: "set ?xs = set ?ys" using eq by (rule mset_eq_setD)
  have unique: "sort_key candle_key us = sort_key candle_key vs"
    if "no_overlap None (sort_key candle_key us)" "set us = set ?xs" "mset us = mset vs" for us vs
  proof -
    have us: "\<forall>c\<in>set (sort_key candle_key us). candle_ok c" using ok that(2) by auto
    then have "distinct (List.map candle_key (sort_key candle_key us))"
      using that(1) by (intro disjoint_keys) (simp_all add: no_overlap_iff)
    moreover have "mset (List.map candle_key (sort_key candle_key us)) = mset (List.map candle_key us)" by simp
    ultimately have "distinct (List.map candle_key us)" by (metis mset_eq_imp_distinct_iff)
    with that(3) show ?thesis by (rule sort_key_mset_unique)
  qed
  show ?thesis
  proof (cases "no_overlap None (sort_key candle_key ?xs) \<or> no_overlap None (sort_key candle_key ?ys)")
    case True
    then have "sort_key candle_key ?xs = sort_key candle_key ?ys"
    proof
      assume "no_overlap None (sort_key candle_key ?xs)"
      then show ?thesis by (rule unique[OF _ refl eq])
    next
      assume "no_overlap None (sort_key candle_key ?ys)"
      from unique[OF this set_eq[symmetric] eq[symmetric]] show ?thesis by (rule sym)
    qed
    then show ?thesis by (simp add: completed_def Let_def)
  next
    case False
    then show ?thesis by (simp add: completed_def Let_def)
  qed
qed

subsection \<open>Signs of averages\<close>

lemma seed_nonneg: "0 \<le> p \<Longrightarrow> \<forall>x\<in>set vals. 0 \<le> x \<Longrightarrow> 0 \<le> seed_average p vals"
  unfolding seed_average_def ddiv_def first_n_def
  by (intro dec.rnd_nonneg divide_nonneg_nonneg dsum_nonneg) (auto dest: in_set_takeD)

lemma wilder_nonneg: "0 < p \<Longrightarrow> 0 \<le> a \<Longrightarrow> 0 \<le> x \<Longrightarrow> 0 \<le> wilder p a x"
  unfolding wilder_def ddiv_def dadd_def dmul_def by (intro dec.rnd_nonneg divide_nonneg_nonneg add_nonneg_nonneg mult_nonneg_nonneg) auto

lemma smoothed_nonneg:
  assumes "0 < p" "\<forall>x\<in>set vals. 0 \<le> x"
  shows "0 \<le> smoothed p vals"
proof -
  have "0 \<le> foldl (wilder p) a vs" if "0 \<le> a" "\<forall>x\<in>set vs. 0 \<le> x" for a vs
    using that by (induction vs arbitrary: a) (auto simp: wilder_nonneg assms(1))
  then show ?thesis
    using assms seed_nonneg[of p vals] by (auto simp: smoothed_def rest_n_def dest: in_set_dropD)
qed

lemma rsi_of_bounds:
  assumes "0 \<le> g" "0 \<le> l"
  shows "0 \<le> rsi_of g l \<and> rsi_of g l \<le> 100"
proof -
  let ?d = "ddiv 100 (dadd 1 (ddiv g l))"
  have "1 \<le> dadd 1 (ddiv g l)"
    unfolding dadd_def ddiv_def using assms by (intro dec.rnd_ge_1) (simp add: dec.rnd_nonneg)
  then have d: "0 \<le> ?d" "?d \<le> 100"
    unfolding ddiv_def by (auto intro!: dec.rnd_nonneg dec.rnd_le simp: divide_le_eq)
  have "0 \<le> dsub 100 ?d" "dsub 100 ?d \<le> 100"
    unfolding dsub_def using d by (auto intro!: dec.rnd_nonneg dec.rnd_le)
  then show ?thesis by (auto simp: rsi_of_def intro!: flt.rnd_nonneg flt.rnd_le)
qed

lemma true_ranges_nonneg: "true_ranges prev cs = Inr rs \<Longrightarrow> \<forall>c\<in>set cs. candle_ok c \<Longrightarrow> \<forall>r\<in>set rs. 0 \<le> r"
proof (induction cs arbitrary: prev rs)
  case Nil
  then show ?case by simp
next
  case (Cons c cs)
  then obtain r rest where r: "true_range c prev = Inr r"
    "true_ranges (Some (BDecimal (Finite (ca_close c)))) cs = Inr rest" "rs = r # rest"
    by (auto simp: bindr_eq_Inr)
  have "ca_low c \<le> ca_high c" using Cons.prems(2) by (auto simp: candle_ok_def)
  then have "0 \<le> dsub (ca_high c) (ca_low c)" by (simp add: dsub_def dec.rnd_nonneg)
  then have "0 \<le> r" using r(1)
    by (auto simp: true_range_def bindr_eq_Inr le_max_iff_disj split: option.splits)
  then show ?case using Cons.IH[OF r(2)] Cons.prems(2) r(3) by simp
qed

subsection \<open>Buckets\<close>

lemma aware_plus [simp]: "is_aware (plus_us t d) = is_aware t" "instant (plus_us t d) = instant t + d"
  by (cases t; simp)+

lemma merged_ok:
  assumes "g \<noteq> []" "\<forall>c\<in>set g. candle_ok c" "is_aware lo" "is_aware hi" "instant lo < instant hi"
  shows "candle_ok (merged lo hi g)"
proof -
  have h: "hd g \<in> set g" "last g \<in> set g" using assms(1) by auto
  have "0 < Min (ca_low ` set g)" using assms(1,2) by (simp add: candle_ok_def)
  moreover have "Min (ca_low ` set g) \<le> ca_open c" "Min (ca_low ` set g) \<le> ca_close c"
    "ca_open c \<le> Max (ca_high ` set g)" "ca_close c \<le> Max (ca_high ` set g)" if "c \<in> set g" for c
  proof -
    have l: "Min (ca_low ` set g) \<le> ca_low c" and u: "ca_high c \<le> Max (ca_high ` set g)" using that by simp_all
    have c: "ca_low c \<le> ca_open c" "ca_low c \<le> ca_close c" "ca_open c \<le> ca_high c" "ca_close c \<le> ca_high c"
      using that assms(2) by (simp_all add: candle_ok_def)
    show "Min (ca_low ` set g) \<le> ca_open c" "Min (ca_low ` set g) \<le> ca_close c"
      by (rule order_trans[OF l c(1)], rule order_trans[OF l c(2)])
    show "ca_open c \<le> Max (ca_high ` set g)" "ca_close c \<le> Max (ca_high ` set g)"
      by (rule order_trans[OF c(3) u], rule order_trans[OF c(4) u])
  qed
  moreover have "0 \<le> dsum (List.map ca_volume g)" using assms(2) by (intro dsum_nonneg) (auto simp: candle_ok_def)
  ultimately show ?thesis using assms(3-5) h by (simp add: candle_ok_def merged_def)
qed

definition bucket_lo :: "datetime \<Rightarrow> int \<Rightarrow> int \<Rightarrow> datetime" where
  "bucket_lo a i k = plus_us a (k * i)"

definition bucket_hi :: "datetime \<Rightarrow> int \<Rightarrow> int \<Rightarrow> datetime" where
  "bucket_hi a i k = plus_us (bucket_lo a i k) i"

lemma emit_buckets_total:
  assumes a: "is_aware a" "0 < i"
  shows "sorted_wrt (<) (List.map fst gs) \<Longrightarrow> \<forall>(k, g)\<in>set gs. g \<noteq> [] \<and> (\<forall>c\<in>set g. candle_ok c)
    \<Longrightarrow> \<exists>out. emit_buckets a i gs = Inr out
      \<and> (\<forall>c\<in>set out. \<exists>(k, g)\<in>set gs. full_bucket (bucket_lo a i k) (bucket_hi a i k) g
            \<and> c = merged (bucket_lo a i k) (bucket_hi a i k) g)
      \<and> sorted_wrt (\<lambda>c d. instant (ca_end c) \<le> instant (ca_start d)) out"
proof (induction gs)
  case Nil
  then show ?case by simp
next
  case (Cons kg gs)
  obtain k g where kg: "kg = (k, g)" by (cases kg)
  let ?lo = "bucket_lo a i k" and ?hi = "bucket_hi a i k"
  have later: "\<forall>(k', g')\<in>set gs. k < k'" using Cons.prems(1) kg by auto
  from Cons obtain out where out: "emit_buckets a i gs = Inr out"
    "\<forall>c\<in>set out. \<exists>(k, g)\<in>set gs. full_bucket (bucket_lo a i k) (bucket_hi a i k) g
            \<and> c = merged (bucket_lo a i k) (bucket_hi a i k) g"
    "sorted_wrt (\<lambda>c d. instant (ca_end c) \<le> instant (ca_start d)) out" by auto
  show ?case
  proof (cases "full_bucket ?lo ?hi g")
    case False
    then show ?thesis using out kg by (fastforce simp: bucket_lo_def bucket_hi_def Let_def)
  next
    case True
    have "candle_ok (merged ?lo ?hi g)"
      using Cons.prems(2) kg a by (intro merged_ok) (auto simp: bucket_lo_def bucket_hi_def)
    from mk_decimal_candle[OF this] have em: "emit_buckets a i (kg # gs) = Inr (merged ?lo ?hi g # out)"
      using True out(1) kg by (simp add: bucket_lo_def bucket_hi_def Let_def)
    have "instant (ca_end (merged ?lo ?hi g)) \<le> instant (ca_start d)" if d: "d \<in> set out" for d
    proof -
      from out(2) d obtain k' g' where "(k', g') \<in> set gs" "d = merged (bucket_lo a i k') (bucket_hi a i k') g'" by auto
      moreover from this(1) later have "(k + 1) * i \<le> k' * i" using a(2) by (intro mult_right_mono) auto
      ultimately show ?thesis by (simp add: merged_def bucket_lo_def bucket_hi_def algebra_simps)
    qed
    with em out True kg show ?thesis by fastforce
  qed
qed

lemma contiguous_between:
  assumes "full_bucket lo hi g" "g \<noteq> []"
  shows "instant (ca_start (hd g)) = instant lo" "instant (ca_end (last g)) = instant hi"
  using assms by (simp_all add: full_bucket_def dt_eq_def)

text \<open>Without crossing candles, the candles of a bucket are those inside its interval.\<close>

lemma bucket_filter:
  assumes i: "0 < i" and c: "candle_ok c" "\<not> crosses (instant a) i c"
  shows "bucket_of (instant a) i c = k \<longleftrightarrow> instant (bucket_lo a i k) \<le> instant (ca_start c)
    \<and> instant (ca_end c) \<le> instant (bucket_hi a i k)"
proof -
  let ?x = "instant (ca_start c) - instant a"
  have lt: "instant (ca_start c) < instant (ca_end c)" using c(1) by (simp add: candle_ok_def)
  have b: "bucket_of (instant a) i c = ?x div i" by (simp add: bucket_of_def utc_microseconds_def)
  have x: "?x div i * i \<le> ?x" "?x < ?x div i * i + i"
    using i by (simp_all add: minus_mod_eq_div_mult[symmetric])
  have en: "instant (ca_end c) \<le> instant a + (?x div i + 1) * i"
    using c(2) by (simp add: crosses_def b utc_microseconds_def)
  show ?thesis
  proof
    assume "bucket_of (instant a) i c = k"
    then show "instant (bucket_lo a i k) \<le> instant (ca_start c) \<and> instant (ca_end c) \<le> instant (bucket_hi a i k)"
      using x en by (auto simp: b bucket_lo_def bucket_hi_def algebra_simps)
  next
    assume "instant (bucket_lo a i k) \<le> instant (ca_start c) \<and> instant (ca_end c) \<le> instant (bucket_hi a i k)"
    then have "k * i \<le> ?x" "?x < k * i + i" using lt by (auto simp: bucket_lo_def bucket_hi_def)
    then have "?x div i = k" using i by (intro int_div_pos_eq[of _ _ _ "?x - k * i"]) auto
    then show "bucket_of (instant a) i c = k" by (simp add: b)
  qed
qed

subsection \<open>Properties\<close>

text \<open>
  C32: no indicator looks at an unfinished or future candle, and none depends on the order in which
  candles are supplied: two collections with the same candles completed by the evaluation time give
  the same VWAP, EMA, WMA, RSI, ATR and hourly confirmation, or the same error.
\<close>

theorem indicators_use_visible_candles_only:
  assumes "list_all candle_ok cs"
    and "mset (filter (visible (Some t)) cs) = mset (filter (visible (Some t)) ds)"
  shows "vwap cs (Some t) = vwap ds (Some t) \<and> ema cs n (Some t) = ema ds n (Some t)
    \<and> wma cs n (Some t) = wma ds n (Some t) \<and> wilder_rsi cs n (Some t) = wilder_rsi ds n (Some t)
    \<and> atr cs n (Some t) = atr ds n (Some t)
    \<and> hourly_confirmation cs t fast slow anchor = hourly_confirmation ds t fast slow anchor"
proof -
  have "completed (Some t) cs = completed (Some t) ds"
    using assms by (intro completed_mset) (simp_all add: list_all_iff)
  then show ?thesis
    by (simp add: vwap_def ema_def wma_def wilder_rsi_def atr_def hourly_confirmation_def
        resample_completed_candles_def)
qed

definition demo_candle :: "int \<Rightarrow> rat \<Rightarrow> rat candle" where
  "demo_candle n price = \<lparr>ca_start = at_utc (n * 1800000000), ca_end = at_utc ((n + 1) * 1800000000),
     ca_open = price, ca_high = price + 3, ca_low = price - 3, ca_close = price + 1, ca_volume = 10,
     ca_completed = True\<rparr>"

lemma demo_candle_ok: "3 < price \<Longrightarrow> candle_ok (demo_candle n price)"
  by (simp add: candle_ok_def demo_candle_def)

lemma indicators_use_visible_candles_only_witness:
  "hourly_confirmation [demo_candle 0 100, demo_candle 1 102, demo_candle 2 90] (at_utc 3600000000) 1 2 None
   = hourly_confirmation [demo_candle 1 102, demo_candle 0 100] (at_utc 3600000000) 1 2 None"
proof -
  have vis: "visible (Some (at_utc 3600000000)) (demo_candle 0 100)" "visible (Some (at_utc 3600000000)) (demo_candle 1 102)"
    "\<not> visible (Some (at_utc 3600000000)) (demo_candle 2 90)"
    by (simp_all add: visible_def demo_candle_def)
  show ?thesis
    using indicators_use_visible_candles_only[of "[demo_candle 0 100, demo_candle 1 102, demo_candle 2 90]"
        "at_utc 3600000000" "[demo_candle 1 102, demo_candle 0 100]"]
    by (simp add: demo_candle_ok vis)
qed

text \<open>
  on valid candles a computed RSI lies between 0 and 100, and an ATR is never negative.
\<close>

theorem oscillators_within_range:
  assumes "list_all candle_ok cs"
  shows "list_all (\<lambda>x. 0 \<le> x \<and> x \<le> 100) (case wilder_rsi cs n as_of of Inr (Some x) \<Rightarrow> [x] | _ \<Rightarrow> [])
    \<and> list_all (\<lambda>x. 0 \<le> x) (case atr cs n as_of of Inr (Some x) \<Rightarrow> [x] | _ \<Rightarrow> [])"
proof
  have "0 \<le> x \<and> x \<le> 100" if rsi: "wilder_rsi cs n as_of = Inr (Some x)" for x
  proof -
    obtain sel where sel: "completed as_of cs = Inr sel" "0 < n" "x = rsi_of (smoothed n (List.map (\<lambda>x. max x 0) (price_changes (List.map ca_close sel))))
        (smoothed n (List.map (\<lambda>x. max (dneg x) 0) (price_changes (List.map ca_close sel))))"
      using rsi by (auto simp: wilder_rsi_def bindr_eq_Inr period_eq_Inr Let_def split: if_splits)
    show ?thesis unfolding sel(3) using sel(2) by (intro rsi_of_bounds smoothed_nonneg) auto
  qed
  then show "list_all (\<lambda>x. 0 \<le> x \<and> x \<le> 100) (case wilder_rsi cs n as_of of Inr (Some x) \<Rightarrow> [x] | _ \<Rightarrow> [])"
    by (simp split: sum.split option.split)
  have "0 \<le> x" if atr: "atr cs n as_of = Inr (Some x)" for x
  proof -
    obtain sel rs where sel: "completed as_of cs = Inr sel" "0 < n" "true_ranges None sel = Inr rs" "x = smoothed n rs"
      using atr by (auto simp: atr_def bindr_eq_Inr period_eq_Inr split: if_splits)
    have "\<forall>c\<in>set sel. candle_ok c" using completedD(3)[OF sel(1)] assms by (auto simp: list_all_iff)
    from true_ranges_nonneg[OF sel(3) this] sel show ?thesis by (simp add: smoothed_nonneg)
  qed
  then show "list_all (\<lambda>x. 0 \<le> x) (case atr cs n as_of of Inr (Some x) \<Rightarrow> [x] | _ \<Rightarrow> [])"
    by (simp split: sum.split option.split)
qed

lemma oscillators_within_range_witness:
  "0 \<le> (case wilder_rsi [demo_candle 0 100, demo_candle 1 102] 1 None of Inr (Some x) \<Rightarrow> x | _ \<Rightarrow> - 1)"
proof -
  have "is_ok (wilder_rsi [demo_candle 0 100, demo_candle 1 102] 1 None)
    \<and> wilder_rsi [demo_candle 0 100, demo_candle 1 102] 1 None \<noteq> Inr None" by code_simp
  then obtain x where x: "wilder_rsi [demo_candle 0 100, demo_candle 1 102] 1 None = Inr (Some x)"
    by (auto simp: is_ok_iff)
  have "list_all candle_ok [demo_candle 0 100, demo_candle 1 102]" by (simp add: demo_candle_ok)
  from oscillators_within_range[OF this, of 1 None] x show ?thesis by simp
qed

text \<open>
  resampling valid, non-overlapping candles that do not cross a bucket boundary succeeds.  The
  emitted candles are valid, ordered and disjoint; each spans exactly one bucket of the anchor's
  grid, ends no later than the evaluation time, and aggregates precisely the completed source candles
  inside it, which cover the bucket without a gap.
\<close>

theorem resampling_is_exact:
  assumes cs: "list_all candle_ok cs" "completed (Some t) cs = Inr sel" "is_aware t"
    and i: "0 < i" and a: "is_aware a" "\<not> list_ex (crosses (instant a) i) sel"
  shows "\<exists>out. resample_completed_candles cs i t (Some a) = Inr out
    \<and> sorted_wrt (\<lambda>c d. instant (ca_end c) \<le> instant (ca_start d)) out
    \<and> list_all (\<lambda>c. candle_ok c \<and> ca_completed c \<and> instant (ca_end c) = instant (ca_start c) + i
        \<and> (instant (ca_start c) - instant a) mod i = 0 \<and> instant (ca_end c) \<le> instant t
        \<and> (let g = filter (\<lambda>d. instant (ca_start c) \<le> instant (ca_start d) \<and> instant (ca_end d) \<le> instant (ca_end c)) sel
           in contiguous g \<and> c = merged (ca_start c) (ca_end c) g)) out"
proof -
  let ?gs = "group_by (bucket_of (instant a) i) sel"
  have sel: "candle_ok c" "instant (ca_end c) \<le> instant t" "\<not> crosses (instant a) i c" if "c \<in> set sel" for c
    using completedD(3)[OF cs(2) that] cs(1) a(2) that by (auto simp: list_all_iff list_ex_iff visible_def)
  have gs: "\<forall>(k, g)\<in>set ?gs. g \<noteq> [] \<and> (\<forall>c\<in>set g. candle_ok c)"
    using sel(1) by (auto simp: in_group_by filter_empty_conv eq_commute[of "[]"])
  obtain out where out: "emit_buckets a i ?gs = Inr out"
    "\<forall>c\<in>set out. \<exists>(k, g)\<in>set ?gs. full_bucket (bucket_lo a i k) (bucket_hi a i k) g
            \<and> c = merged (bucket_lo a i k) (bucket_hi a i k) g"
    "sorted_wrt (\<lambda>c d. instant (ca_end c) \<le> instant (ca_start d)) out"
    using emit_buckets_total[OF a(1) i group_by_sorted gs] by blast
  have res: "resample_completed_candles cs i t (Some a) = Inr out"
  proof (cases "sel = []")
    case True
    then have "out = []" using out(1) by (simp add: group_by_def)
    then show ?thesis using True cs i by (simp add: resample_completed_candles_def aware_def duration_microseconds_def)
  next
    case False
    then show ?thesis using cs i a out(1)
      by (simp add: resample_completed_candles_def aware_def duration_microseconds_def demand_def utc_microseconds_def)
  qed
  have each: "candle_ok c \<and> ca_completed c \<and> instant (ca_end c) = instant (ca_start c) + i
      \<and> (instant (ca_start c) - instant a) mod i = 0 \<and> instant (ca_end c) \<le> instant t
      \<and> (let g = filter (\<lambda>d. instant (ca_start c) \<le> instant (ca_start d) \<and> instant (ca_end d) \<le> instant (ca_end c)) sel
         in contiguous g \<and> c = merged (ca_start c) (ca_end c) g)" if c: "c \<in> set out" for c
  proof -
    obtain k g where kg: "(k, g) \<in> set ?gs" "full_bucket (bucket_lo a i k) (bucket_hi a i k) g"
      "c = merged (bucket_lo a i k) (bucket_hi a i k) g" using out(2) c by blast
    have g: "g = filter (\<lambda>d. bucket_of (instant a) i d = k) sel" "g \<noteq> []" "\<forall>d\<in>set g. candle_ok d"
      using kg(1) bspec[OF gs kg(1)] by (simp_all add: in_group_by)
    have ends: "ca_start c = bucket_lo a i k" "ca_end c = bucket_hi a i k" "ca_completed c"
      by (simp_all add: kg(3) merged_def)
    have "g = filter (\<lambda>d. instant (ca_start c) \<le> instant (ca_start d) \<and> instant (ca_end d) \<le> instant (ca_end c)) sel"
      unfolding g(1) ends using bucket_filter[OF i, of _ a k] sel by (intro filter_cong) auto
    moreover have "last g \<in> set sel" using g by (metis filter_is_subset last_in_set subsetD)
    from sel(2)[OF this] have "instant (ca_end c) \<le> instant t" using contiguous_between(2)[OF kg(2) g(2)] by (simp add: ends)
    moreover have "candle_ok c" unfolding kg(3)
      using g a(1) i by (intro merged_ok) (auto simp: bucket_lo_def bucket_hi_def)
    moreover have "contiguous g" using kg(2) by (simp add: full_bucket_def)
    ultimately show ?thesis using ends kg(3) by (simp add: bucket_lo_def bucket_hi_def Let_def)
  qed
  show ?thesis unfolding list_all_iff using res out(3) each by blast
qed

lemma resampling_is_exact_witness:
  "\<exists>out. resample_completed_candles [demo_candle 0 100, demo_candle 1 102] 3600000000 (at_utc 3600000000)
    (Some (at_utc 0)) = Inr out"
proof -
  let ?cs = "[demo_candle 0 100, demo_candle 1 102]"
  have "completed (Some (at_utc 3600000000)) ?cs = Inr ?cs" by code_simp
  moreover have "list_all candle_ok ?cs" by (simp add: demo_candle_ok)
  moreover have "\<not> list_ex (crosses (instant (at_utc 0)) 3600000000) ?cs" by code_simp
  ultimately show ?thesis
    using resampling_is_exact[of ?cs "at_utc 3600000000" ?cs 3600000000 "at_utc 0"] by auto
qed

end
