(* ===== verification/Domain.thy ===== *)
theory Domain
  imports Clock Enums
begin

text \<open>
  The normalized records of \<open>domain/models.py\<close>.  Prices are finite decimals; the numbers whose
  finiteness the signal code itself checks (Greeks, implied volatility, account figures) keep their
  raw type.  The identity hashes (\<open>contract_key\<close>, component hashes in the metadata) rest on
  \<open>sha256\<close> and the printed form of decimals and are parameters of the functions that use them.
\<close>

record instrument_id =
  in_exchange :: Exchange
  in_segment :: string
  in_security_id :: string
  in_symbol :: string

record master_provenance =
  mp_batch_id :: string
  mp_provider :: string
  mp_source_url :: string
  mp_content_hash :: string
  mp_schema_version :: string
  mp_fetched_at :: datetime
  mp_row_count :: int

record master_record =
  mr_instrument :: instrument_id
  mr_display_name :: string
  mr_instrument_type :: string
  mr_underlying_security_id :: "string option"
  mr_expiry :: "datetime option"
  mr_strike :: "rat option"
  mr_option_type :: "OptionType option"
  mr_lot_size :: "int option"
  mr_tick_size :: "rat option"

record contract_spec =
  cs_underlying :: instrument_id
  cs_market_kind :: MarketKind
  cs_pricing_model :: PricingModel
  cs_option_expiry :: datetime
  cs_lot_size :: int
  cs_strike_interval :: rat
  cs_tick_size :: rat
  cs_master :: master_provenance
  cs_option_contracts :: "master_record list"
  cs_futures :: "master_record option"

record greeks =
  gk_delta :: "float64 option"
  gk_gamma :: "float64 option"
  gk_theta :: "float64 option"
  gk_vega :: "float64 option"
  gk_theoretical_price :: "decimal option"

record option_quote =
  oq_security_id :: string
  oq_strike :: rat
  oq_option_type :: OptionType
  oq_expiry :: datetime
  oq_bid :: "rat option"
  oq_ask :: "rat option"
  oq_ltp :: "rat option"
  oq_volume :: "int option"
  oq_open_interest :: "int option"
  oq_previous_open_interest :: "int option"
  oq_change_open_interest :: "int option"
  oq_implied_volatility :: "float64 option"
  oq_greeks :: greeks
  oq_observed_at :: datetime
  oq_bid_quantity :: "int option"
  oq_ask_quantity :: "int option"
  oq_previous_close :: "rat option"
  oq_change_oi_source_snapshot_id :: "string option"
  oq_change_oi_interval_seconds :: "rat option"

definition quote_key :: "option_quote \<Rightarrow> rat \<times> OptionType" where
  "quote_key q = (oq_strike q, oq_option_type q)"

definition quote_spread :: "option_quote \<Rightarrow> rat option" where
  "quote_spread q = (case (oq_bid q, oq_ask q) of (Some b, Some a) \<Rightarrow> Some (dsub a b) | _ \<Rightarrow> None)"

definition quote_spread_ratio :: "option_quote \<Rightarrow> rat option" where
  "quote_spread_ratio q = (case (quote_spread q, oq_ask q) of
     (Some s, Some a) \<Rightarrow> if a \<le> 0 then None else Some (fround (ddiv s a)) | _ \<Rightarrow> None)"

record market_state =
  ms_observed_at :: datetime
  ms_spot_price :: "rat option"
  ms_futures_price :: "rat option"
  ms_previous_close :: "rat option"
  ms_day_open :: "rat option"
  ms_day_high :: "rat option"
  ms_day_low :: "rat option"
  ms_vwap :: "rat option"
  ms_futures_open_interest :: "int option"

definition pricing_underlying :: "market_state \<Rightarrow> MarketKind \<Rightarrow> rat option" where
  "pricing_underlying m kind = (if kind = COMMODITY then ms_futures_price m else ms_spot_price m)"

record technical_state =
  ts_observed_at :: datetime
  ts_ema_9 :: "rat option"
  ts_ema_21 :: "rat option"
  ts_wma_44 :: "rat option"
  ts_previous_wma_44 :: "rat option"
  ts_rsi_14 :: "rat option"
  ts_atr_14 :: "rat option"
  ts_reference_volatility :: "rat option"
  ts_timeframe :: string
  ts_completed_candle :: bool

record strategy_context =
  sc_operating_mode :: OperatingMode
  sc_trading_style :: TradingStyle
  sc_account_capital :: decimal
  sc_risk_per_trade :: float64
  sc_maximum_premium_allocation :: float64
  sc_event_risk_active :: "bool option"
  sc_price_action_confirmed :: "bool option"
  sc_signal_candle_high :: rat
  sc_signal_candle_low :: rat
  sc_expected_holding_hours :: rat

text \<open>
  The entries of the frozen metadata mapping that the code reads; a raw payload is its canonical
  JSON, an entry of another type than the code expects counts as absent.
\<close>

record snapshot_metadata =
  md_raw_payload_hash :: "string option"
  md_component_hashes :: "(string \<times> string) list option"
  md_raw_option_payload :: "string option"
  md_raw_option_hash :: "string option"

record atomic_snapshot =
  sn_snapshot_id :: string
  sn_sequence :: int
  sn_source :: DataSource
  sn_source_timestamp :: datetime
  sn_received_at :: datetime
  sn_contract :: contract_spec
  sn_market :: market_state
  sn_technicals :: technical_state
  sn_context :: strategy_context
  sn_option_chain :: "option_quote list"
  sn_strategy_version :: string
  sn_metadata :: snapshot_metadata

text \<open>\<open>content_hash\<close> (SHA-256 over canonical JSON) of the parts of a snapshot.\<close>

record hashers =
  hs_contract :: "contract_spec \<Rightarrow> string"
  hs_market :: "market_state \<Rightarrow> string"
  hs_technicals :: "technical_state \<Rightarrow> string"
  hs_context :: "strategy_context \<Rightarrow> string"
  hs_chain :: "option_quote list \<Rightarrow> string"
  hs_payload :: "string \<Rightarrow> string"

definition component_hashes :: "hashers \<Rightarrow> atomic_snapshot \<Rightarrow> (string \<times> string) list" where
  "component_hashes h s = [(''contract'', hs_contract h (sn_contract s)), (''market'', hs_market h (sn_market s)),
     (''technicals'', hs_technicals h (sn_technicals s)), (''context'', hs_context h (sn_context s)),
     (''option_chain'', hs_chain h (sn_option_chain s))]"

text \<open>The constructor writes the component hashes into the metadata.\<close>

definition init_snapshot :: "hashers \<Rightarrow> atomic_snapshot \<Rightarrow> atomic_snapshot" where
  "init_snapshot h s = s\<lparr>sn_metadata := (sn_metadata s)\<lparr>md_component_hashes := Some (component_hashes h s)\<rparr>\<rparr>"

record previous_snapshot =
  pv_snapshot_id :: string
  pv_sequence :: int
  pv_source :: DataSource
  pv_source_timestamp :: datetime
  pv_contract_key :: string
  pv_option_chain :: "option_quote list"

subsection \<open>Manual overrides\<close>

text \<open>The values are of any type; \<open>None\<close> as override value means inactive.\<close>

record 'v manual_override =
  mo_field_name :: string
  mo_imported_value :: 'v
  mo_override_value :: "'v option"
  mo_overridden_by :: "string option"
  mo_overridden_at :: "datetime option"
  mo_reason :: "string option"
  mo_expires_at :: "datetime option"

definition MANUAL_OVERRIDE_FIELDS :: "string list" where
  "MANUAL_OVERRIDE_FIELDS = [''context.operating_mode'', ''context.trading_style'',
     ''context.account_capital'', ''context.risk_per_trade'', ''context.maximum_premium_allocation'',
     ''context.event_risk_active'', ''context.price_action_confirmed'',
     ''context.signal_candle_high'', ''context.signal_candle_low'',
     ''context.expected_holding_hours'', ''technicals.reference_volatility'']"

definition check :: "bool \<Rightarrow> string \<Rightarrow> unit res" where
  "check b m = (if b then Inr () else Inl (ValueError m))"

lemma check_eq_Inr [res_simps]: "check b m = Inr u \<longleftrightarrow> b"
  by (simp add: check_def)

definition non_blank :: "string option \<Rightarrow> bool" where
  "non_blank s = (case s of None \<Rightarrow> False | Some x \<Rightarrow> py_strip x \<noteq> [])"

definition override_active :: "'v manual_override \<Rightarrow> bool" where
  "override_active m \<longleftrightarrow> mo_override_value m \<noteq> None"

definition check_expiry :: "'v manual_override \<Rightarrow> datetime \<Rightarrow> unit res" where
  "check_expiry m overridden_at = (case mo_expires_at m of None \<Rightarrow> Inr ()
   | Some e \<Rightarrow> bindr (check (is_aware e) ''manual-override expiry must be timezone-aware'') (\<lambda>_.
      bindr (check (override_active m) ''an inactive manual override cannot have an expiry'') (\<lambda>_.
        check (instant overridden_at < instant e)
          ''manual-override expiry must be after its override timestamp'')))"

definition mk_manual_override :: "'v manual_override \<Rightarrow> 'v manual_override res" where
  "mk_manual_override m =
    bindr (check (mo_field_name m \<in> set MANUAL_OVERRIDE_FIELDS)
      (''unsupported manual-override field: '' @ [CHR 0x27] @ mo_field_name m @ [CHR 0x27])) (\<lambda>_.
    bindr (check (non_blank (mo_overridden_by m)) ''manual override requires a non-empty actor'') (\<lambda>_.
    bindr (check (non_blank (mo_reason m)) ''manual override requires a non-empty reason'') (\<lambda>_.
    case mo_overridden_at m of
      None \<Rightarrow> Inl (ValueError ''manual override requires a timezone-aware override timestamp'')
    | Some t \<Rightarrow> bindr (check (is_aware t) ''manual override requires a timezone-aware override timestamp'') (\<lambda>_.
        bindr (check_expiry m t) (\<lambda>_. Inr m)))))"

text \<open>\<open>effective_value\<close>; \<open>clock\<close> is \<open>datetime.now(UTC)\<close>, read when no time is given.\<close>

definition effective_value :: "'v manual_override \<Rightarrow> datetime option \<Rightarrow> datetime \<Rightarrow> 'v res" where
  "effective_value m now clock = (case mo_override_value m of None \<Rightarrow> Inr (mo_imported_value m)
   | Some v \<Rightarrow>
      if (case now of None \<Rightarrow> False | Some t \<Rightarrow> \<not> is_aware t)
      then Inl (ValueError ''manual-override evaluation time must be timezone-aware'')
      else case mo_expires_at m of None \<Rightarrow> Inr v
      | Some e \<Rightarrow> let t = (case now of None \<Rightarrow> clock | Some t \<Rightarrow> t) in
          if instant e \<le> instant t then Inr (mo_imported_value m) else Inr v)"

subsection \<open>Validation reports\<close>

text \<open>The outcome of \<open>ingestion/validation.py\<close>, which the pipeline reads.\<close>

record validation_issue =
  vi_code :: string
  vi_severity :: ValidationSeverity
  vi_path :: string
  vi_message :: string

record validation_report =
  vr_issues :: "validation_issue list"
  vr_snapshot_id :: "string option"
  vr_snapshot_hash :: "string option"

definition report_accepted :: "validation_report \<Rightarrow> bool" where
  "report_accepted r \<longleftrightarrow> \<not> list_ex (\<lambda>i. vi_severity i = ERROR) (vr_issues r)"

definition report_errors :: "validation_report \<Rightarrow> validation_issue list" where
  "report_errors r = filter (\<lambda>i. vi_severity i = ERROR) (vr_issues r)"

definition report_warnings :: "validation_report \<Rightarrow> validation_issue list" where
  "report_warnings r = filter (\<lambda>i. vi_severity i = WARNING) (vr_issues r)"

definition has_code :: "validation_report \<Rightarrow> string \<Rightarrow> bool" where
  "has_code r code \<longleftrightarrow> list_ex (\<lambda>i. vi_code i = code) (vr_issues r)"

lemma accepted_iff_no_errors: "report_accepted r \<longleftrightarrow> report_errors r = []"
  by (simp add: report_accepted_def report_errors_def list_ex_iff filter_empty_conv)

end
