(* ===== verification/Pipeline.thy ===== *)
theory Pipeline
  imports Domain Strategy Sqrt "HOL-Library.Product_Lexorder"
begin

text \<open>
  The signal pipeline (\<open>signals/pipeline.py\<close> with \<open>signals/policy.py\<close> and \<open>signals/models.py\<close>):
  from a snapshot bound to its validation report to a ranked chain, a decision and a trade plan.
  A \<open>platform\<close> holds what the code takes from outside: the hash of a snapshot, of a contract and of
  a plan identity (\<open>content_hash\<close>, SHA-256 over canonical JSON) and the C library.
\<close>

record platform =
  env_snapshot_hash :: "atomic_snapshot \<Rightarrow> string"
  env_contract_key :: "contract_spec \<Rightarrow> string"
  env_identity_hash :: "(string \<times> string) list \<Rightarrow> string"
  env_libm :: libm

subsection \<open>Policy\<close>

record 'f evidence_policy =
  ep_version :: string
  ep_premium_momentum_saturation :: 'f
  ep_volatility_ratio_floor :: 'f
  ep_volatility_ratio_ceiling :: 'f
  ep_theoretical_error_ceiling :: 'f
  ep_daily_theta_drag_ceiling :: 'f
  ep_reward_risk_full_score :: 'f

definition policy_values :: "'f evidence_policy \<Rightarrow> 'f list" where
  "policy_values p = [ep_premium_momentum_saturation p, ep_volatility_ratio_floor p,
     ep_volatility_ratio_ceiling p, ep_theoretical_error_ceiling p, ep_daily_theta_drag_ceiling p,
     ep_reward_risk_full_score p]"

definition finite_policy :: "float64 evidence_policy \<Rightarrow> rat evidence_policy" where
  "finite_policy p = \<lparr>ep_version = ep_version p,
     ep_premium_momentum_saturation = flt_val (ep_premium_momentum_saturation p),
     ep_volatility_ratio_floor = flt_val (ep_volatility_ratio_floor p),
     ep_volatility_ratio_ceiling = flt_val (ep_volatility_ratio_ceiling p),
     ep_theoretical_error_ceiling = flt_val (ep_theoretical_error_ceiling p),
     ep_daily_theta_drag_ceiling = flt_val (ep_daily_theta_drag_ceiling p),
     ep_reward_risk_full_score = flt_val (ep_reward_risk_full_score p)\<rparr>"

definition mk_evidence_policy :: "float64 evidence_policy \<Rightarrow> rat evidence_policy res" where
  "mk_evidence_policy p =
    (if list_ex (\<lambda>v. \<not> isfinite v \<or> flt_val v \<le> 0) (policy_values p)
     then Inl (ValueError ''evidence-policy numeric values must be finite and positive'')
     else if 1 \<le> flt_val (ep_volatility_ratio_floor p) \<or> flt_val (ep_volatility_ratio_ceiling p) \<le> 1
     then Inl (ValueError ''volatility ratio bounds must surround 1.0'')
     else Inr (finite_policy p))"

definition DEFAULT_EVIDENCE_POLICY :: "rat evidence_policy" where
  "DEFAULT_EVIDENCE_POLICY = \<lparr>ep_version = ''teco-evidence-1.0.0'',
     ep_premium_momentum_saturation = fround (2 / 100), ep_volatility_ratio_floor = 1 / 2,
     ep_volatility_ratio_ceiling = 2, ep_theoretical_error_ceiling = 1 / 4,
     ep_daily_theta_drag_ceiling = fround (1 / 10), ep_reward_risk_full_score = 2\<rparr>"

definition policy_ok :: "rat evidence_policy \<Rightarrow> bool" where
  "policy_ok p \<longleftrightarrow> (\<forall>v\<in>set (policy_values p). 0 < v)
     \<and> ep_volatility_ratio_floor p < 1 \<and> 1 < ep_volatility_ratio_ceiling p"

lemma mk_evidence_policy_ok: "mk_evidence_policy p = Inr v \<Longrightarrow> policy_ok v"
  by (auto simp: mk_evidence_policy_def policy_ok_def policy_values_def finite_policy_def not_le split: if_splits)

subsection \<open>Results\<close>

record evidence_breakdown =
  eb_factors :: "(string \<times> rat) list"
  eb_points :: "(string \<times> rat) list"
  eb_total :: rat

record candidate =
  cd_quote :: option_quote
  cd_score :: rat
  cd_evidence :: "evidence_breakdown option"
  cd_liquidity_score :: rat
  cd_eligible :: bool
  cd_rejection_reasons :: "string list"
  cd_risk_distance :: "rat option"

record ranked_strike =
  rk_rank :: int
  rk_security_id :: string
  rk_strike :: rat
  rk_option_type :: OptionType
  rk_entry_ask :: "rat option"
  rk_score :: rat
  rk_evidence :: "evidence_breakdown option"
  rk_liquidity_score :: rat
  rk_eligible :: bool
  rk_rejection_reasons :: "string list"

record plan_draft =
  tp_signal_id :: string
  tp_snapshot_id :: string
  tp_contract_key :: string
  tp_strategy_version :: string
  tp_evidence_version :: string
  tp_generated_at :: datetime
  tp_symbol :: string
  tp_security_id :: string
  tp_option_type :: OptionType
  tp_strike :: rat
  tp_expiry :: datetime
  tp_score :: rat
  tp_score_gap :: rat
  tp_entry :: rat
  tp_stop :: rat
  tp_targets :: "rat list"
  tp_lot_size :: int
  tp_lots :: int
  tp_quantity :: int
  tp_maximum_risk :: rat
  tp_risk_per_lot :: rat
  tp_premium_required :: rat

text \<open>The final plan is the draft with the decision.\<close>

record signal_plan = plan_draft +
  tp_decision :: DecisionState
  tp_actionable :: bool

definition finalize :: "plan_draft \<Rightarrow> DecisionState \<Rightarrow> signal_plan" where
  "finalize d decision = plan_draft.extend d \<lparr>tp_decision = decision, tp_actionable = is_buy decision\<rparr>"

record pipeline_result =
  pr_snapshot_id :: string
  pr_generated_at :: datetime
  pr_decision :: DecisionState
  pr_reason :: DecisionReason
  pr_call_score :: rat
  pr_put_score :: rat
  pr_score_gap :: rat
  pr_ranked_strikes :: "ranked_strike list"
  pr_trade_plan :: "signal_plan option"
  pr_warnings :: "string list"

record pipeline =
  sp_strategy :: "rat strategy_config"
  sp_evidence :: "rat evidence_policy"
  sp_cost_per_lot :: rat

definition mk_pipeline :: "rat strategy_config \<Rightarrow> rat evidence_policy \<Rightarrow> decimal \<Rightarrow> pipeline res" where
  "mk_pipeline s e cost = (if \<not> dec_is_finite cost \<or> dec_val cost < 0
     then Inl (ValueError ''estimated round-trip cost must be finite and non-negative'')
     else Inr \<lparr>sp_strategy = s, sp_evidence = e, sp_cost_per_lot = dec_val cost\<rparr>)"

subsection \<open>Rounding to ticks, clamping\<close>

definition clamp :: "rat \<Rightarrow> rat" where
  "clamp x = min 1 (max 0 x)"

definition round_up :: "rat \<Rightarrow> rat \<Rightarrow> rat res" where
  "round_up v tick = bindr (ddivr v tick) (\<lambda>q. Inr (dmul (of_int (dec_ceiling q)) tick))"

definition round_down :: "rat \<Rightarrow> rat \<Rightarrow> rat res" where
  "round_down v tick = bindr (ddivr v tick) (\<lambda>q. Inr (dmul (of_int (dec_floor q)) tick))"

definition replace_quote_greeks :: "option_quote \<Rightarrow> (string \<times> greeks) list \<Rightarrow> option_quote res" where
  "replace_quote_greeks q gs = (case map_of gs (oq_security_id q) of
     None \<Rightarrow> Inl (OtherException ''KeyError'') | Some g \<Rightarrow> Inr (q\<lparr>oq_greeks := g\<rparr>))"

subsection \<open>Factors\<close>

text \<open>
  \<open>min(premium_distance, atr_distance)\<close> with \<open>delta\<close> converted by \<open>Decimal(str(abs(delta)))\<close>: an
  infinite delta makes the ATR distance infinite, a NaN makes the comparison raise.
\<close>

definition risk_distance :: "pipeline \<Rightarrow> atomic_snapshot \<Rightarrow> option_quote \<Rightarrow> rat option res" where
  "risk_distance p s q = (case (oq_ask q, gk_delta (oq_greeks q)) of
     (Some ask, Some delta) \<Rightarrow> if ask \<le> 0 then Inr None else
       (case ts_atr_14 (sn_technicals s) of None \<Rightarrow> Inr None
        | Some atr \<Rightarrow> if atr \<le> 0 then Inr None else
           let premium = dmul ask (float_repr (premium_stop_ratio (sp_strategy p)));
               tick = cs_tick_size (sn_contract s) in
           (case delta of
              FFinite d \<Rightarrow> Inr (Some (max tick (min premium
                (dmul (dmul atr (float_repr \<bar>d\<bar>)) (float_repr (atr_stop_multiple (sp_strategy p)))))))
            | FInfinite _ \<Rightarrow> Inr (Some (max tick premium))
            | FNaN \<Rightarrow> Inl InvalidOperation))
   | _ \<Rightarrow> Inr None)"

definition theoretical_fit :: "pipeline \<Rightarrow> decimal option \<Rightarrow> rat \<Rightarrow> rat res" where
  "theoretical_fit p theoretical ltp = (case theoretical of
     Some (Finite t) \<Rightarrow> if 0 \<le> t then bindr (ddivr (dabs (dsub t ltp)) ltp) (\<lambda>e.
         Inr (clamp (fsub 1 (fdiv (fround e) (ep_theoretical_error_ceiling (sp_evidence p))))))
       else Inr (1 / 2)
   | _ \<Rightarrow> Inr (1 / 2))"

definition theta_fit :: "pipeline \<Rightarrow> float64 option \<Rightarrow> rat \<Rightarrow> rat res" where
  "theta_fit p theta ltp = (case theta of
     Some (FFinite t) \<Rightarrow> bindr (fdivr \<bar>t\<bar> (fround ltp)) (\<lambda>drag.
       Inr (clamp (fsub 1 (fdiv drag (ep_daily_theta_drag_ceiling (sp_evidence p))))))
   | _ \<Rightarrow> Inr (1 / 2))"

definition shape_part :: "float64 option \<Rightarrow> rat" where
  "shape_part g = (case g of None \<Rightarrow> 1 | Some (FFinite x) \<Rightarrow> if 0 \<le> x then 1 else 0 | _ \<Rightarrow> 0)"

definition delta_fit :: "rat \<times> rat \<Rightarrow> rat \<Rightarrow> rat" where
  "delta_fit allowed d = (case allowed of (lo, hi) \<Rightarrow>
     let mid = fdiv (fadd lo hi) 2; half_width = max (fdiv (fsub hi lo) 2) (fround (1 / 1000000000)) in
     clamp (fsub 1 (fdiv \<bar>fsub \<bar>d\<bar> mid\<bar> half_width)))"

definition greeks_factor :: "pipeline \<Rightarrow> atomic_snapshot \<Rightarrow> option_quote \<Rightarrow> rat \<Rightarrow> rat \<Rightarrow> rat res" where
  "greeks_factor p s q d ltp =
    bindr (theoretical_fit p (gk_theoretical_price (oq_greeks q)) ltp) (\<lambda>tf.
    bindr (theta_fit p (gk_theta (oq_greeks q)) ltp) (\<lambda>th.
      let df = delta_fit (delta_range (sp_strategy p) (sc_trading_style (sn_context s))) d;
          shape = fmul (shape_part (gk_gamma (oq_greeks q))) (shape_part (gk_vega (oq_greeks q))) in
      Inr (clamp (fadd (fadd (fadd (fmul (fround (45 / 100)) df) (fmul (1 / 4) tf))
        (fmul (fround (20 / 100)) th)) (fmul (fround (10 / 100)) shape)))))"

definition volatility_factor :: "platform \<Rightarrow> pipeline \<Rightarrow> float64 \<Rightarrow> rat \<Rightarrow> rat res" where
  "volatility_factor pl p iv reference = (case iv of
     FFinite v \<Rightarrow> if v \<le> 0 \<or> reference \<le> 0 then Inr 0 else
       let ratio = fdiv v reference; lo = ep_volatility_ratio_floor (sp_evidence p);
           hi = ep_volatility_ratio_ceiling (sp_evidence p) in
       if ratio < lo then Inr (clamp (fdiv ratio lo))
       else if hi < ratio then Inr (clamp (fdiv hi ratio))
       else bindr (fdivr \<bar>lm_log (env_libm pl) ratio\<bar> (max \<bar>lm_log (env_libm pl) lo\<bar> \<bar>lm_log (env_libm pl) hi\<bar>)) (\<lambda>x.
         Inr (clamp (fsub 1 x)))
   | _ \<Rightarrow> Inr 0)"

definition trend_factor :: "bool \<Rightarrow> bool list \<Rightarrow> bool \<Rightarrow> bool \<Rightarrow> rat" where
  "trend_factor bullish comparisons rsi_supports futures_supports =
    (let votes = List.map (\<lambda>b. b = bullish) comparisons @ [rsi_supports, futures_supports] in
     fdiv (of_int (int (length (filter id votes)))) 6)"

definition rsi_supports :: "bool \<Rightarrow> rat option \<Rightarrow> bool" where
  "rsi_supports bullish rsi = (case rsi of None \<Rightarrow> False
     | Some r \<Rightarrow> if bullish then 50 \<le> r \<and> r \<le> 75 else 25 \<le> r \<and> r \<le> 50)"

definition futures_supports :: "bool \<Rightarrow> market_state \<Rightarrow> bool" where
  "futures_supports bullish m = (case (ms_spot_price m, ms_futures_price m) of
     (Some spot, Some fut) \<Rightarrow> if bullish then spot \<le> fut else fut \<le> spot
   | _ \<Rightarrow> True)"

definition premium_factor :: "pipeline \<Rightarrow> rat \<Rightarrow> rat" where
  "premium_factor p momentum =
     clamp (fadd (1 / 2) (fdiv momentum (fmul 2 (ep_premium_momentum_saturation (sp_evidence p)))))"

definition open_interest_factor :: "rat \<Rightarrow> int \<Rightarrow> rat" where
  "open_interest_factor momentum change =
    (if 0 < momentum \<and> 0 < change then 1 else if 0 < momentum then fround (70 / 100)
     else if 0 < change then 1 / 4 else 0)"

definition expected_premium_move :: "atomic_snapshot \<Rightarrow> rat \<Rightarrow> rat \<Rightarrow> rat \<Rightarrow> rat res" where
  "expected_premium_move s underlying reference d =
    bindr (dt_minus (cs_option_expiry (sn_contract s)) (sn_source_timestamp s)) (\<lambda>us.
      let years = max 0 (fdiv (total_seconds us) 31536000);
          move = (if 0 < years then dmul underlying (float_repr (fmul reference (fsqrt years))) else 0) in
      Inr (dmul move (float_repr \<bar>d\<bar>)))"

definition reward_factor :: "pipeline \<Rightarrow> rat \<Rightarrow> rat option \<Rightarrow> rat" where
  "reward_factor p move distance = (case distance of None \<Rightarrow> 0
     | Some r \<Rightarrow> if 0 < r then clamp (fdiv (fround (ddiv move r)) (ep_reward_risk_full_score (sp_evidence p)))
         else 0)"

type_synonym factor_values = "(string \<times> rat) list"

definition factors_of :: "platform \<Rightarrow> pipeline \<Rightarrow> atomic_snapshot \<Rightarrow> option_quote \<Rightarrow> rat \<Rightarrow> bool list
    \<Rightarrow> rat \<Rightarrow> rat \<Rightarrow> float64 \<Rightarrow> rat \<Rightarrow> rat \<Rightarrow> rat \<Rightarrow> factor_values option res" where
  "factors_of pl p s q underlying comparisons ltp previous_ltp iv reference d liquidity_points =
    (let bullish = (oq_option_type q = CALL);
         trend = trend_factor bullish comparisons (rsi_supports bullish (ts_rsi_14 (sn_technicals s)))
           (futures_supports bullish (sn_market s));
         momentum = fround (ddiv (dsub ltp previous_ltp) previous_ltp) in
     case oq_change_open_interest q of None \<Rightarrow> Inr None
     | Some change \<Rightarrow>
       bindr (greeks_factor p s q d ltp) (\<lambda>gk.
       bindr (volatility_factor pl p iv reference) (\<lambda>vol.
       bindr (risk_distance p s q) (\<lambda>distance.
       bindr (expected_premium_move s underlying reference d) (\<lambda>move.
         Inr (Some [(''trend'', clamp trend), (''premium'', premium_factor p momentum),
           (''open_interest'', open_interest_factor momentum change),
           (''liquidity'', clamp (fdiv liquidity_points 100)), (''greeks'', gk), (''volatility'', vol),
           (''risk_reward'', reward_factor p move distance)]))))))"

definition evidence_factors :: "platform \<Rightarrow> pipeline \<Rightarrow> atomic_snapshot \<Rightarrow> option_quote
    \<Rightarrow> option_quote option \<Rightarrow> rat \<Rightarrow> factor_values option res" where
  "evidence_factors pl p s q previous liquidity_points =
    (let t = sn_technicals s in
     case (pricing_underlying (sn_market s) (cs_market_kind (sn_contract s)), ts_ema_9 t, ts_ema_21 t,
       ts_wma_44 t, ts_previous_wma_44 t, ts_atr_14 t, oq_ask q, oq_ltp q) of
       (Some u, Some e9, Some e21, Some w, Some pw, Some _, Some _, Some ltp) \<Rightarrow>
         (case previous of None \<Rightarrow> Inr None
          | Some prev \<Rightarrow>
            (case (oq_ltp prev, oq_implied_volatility q, ts_reference_volatility t, gk_delta (oq_greeks q)) of
               (Some pl_ltp, Some iv, Some ref, Some (FFinite d)) \<Rightarrow>
                 if pl_ltp \<le> 0 \<or> ref \<le> 0 then Inr None
                 else factors_of pl p s q u [e9 < u, e21 < e9, w < e21, pw < w] ltp pl_ltp iv ref d liquidity_points
             | _ \<Rightarrow> Inr None))
     | _ \<Rightarrow> Inr None)"

subsection \<open>Candidates\<close>

text \<open>\<open>tuple(dict.fromkeys(reasons))\<close>: the first occurrence of each reason.\<close>

definition first_occurrences :: "'a list \<Rightarrow> 'a list" where
  "first_occurrences xs = rev (remdups (rev xs))"

definition quote_reasons :: "pipeline \<Rightarrow> atomic_snapshot \<Rightarrow> option_quote \<Rightarrow> option_quote option \<Rightarrow> string list" where
  "quote_reasons p s q previous =
    (if oq_ask q = None \<or> oq_ltp q = None \<or> oq_implied_volatility q = None
     then [''INCOMPLETE_OPTION_QUOTE''] else [])
    @ (case previous of None \<Rightarrow> [''PREVIOUS_SNAPSHOT_REQUIRED'']
       | Some v \<Rightarrow> (case oq_ltp v of None \<Rightarrow> [''PREVIOUS_SNAPSHOT_REQUIRED'']
          | Some l \<Rightarrow> if l \<le> 0 then [''PREVIOUS_SNAPSHOT_REQUIRED''] else []))
    @ (let (lo, hi) = delta_range (sp_strategy p) (sc_trading_style (sn_context s)) in
       case gk_delta (oq_greeks q) of
         Some (FFinite d) \<Rightarrow> if lo \<le> \<bar>d\<bar> \<and> \<bar>d\<bar> \<le> hi then [] else [''DELTA_OUT_OF_RANGE'']
       | _ \<Rightarrow> [''DELTA_UNAVAILABLE''])"

definition score_evidence :: "pipeline \<Rightarrow> factor_values \<Rightarrow> evidence_breakdown res" where
  "score_evidence p factors =
    bindr (weighted_score (sp_strategy p) (\<lambda>k. map_option FFinite (map_of factors k))) (\<lambda>scored.
      Inr \<lparr>eb_factors = factors, eb_points = sr_points scored, eb_total = sr_total scored\<rparr>)"

definition score_candidate :: "platform \<Rightarrow> pipeline \<Rightarrow> atomic_snapshot \<Rightarrow> option_quote
    \<Rightarrow> option_quote option \<Rightarrow> candidate res" where
  "score_candidate pl p s q previous =
    (let liquidity = liquidity_score (sp_strategy p) (oq_bid q) (oq_ask q) (oq_volume q) (oq_open_interest q);
         reasons = lr_rejection_reasons liquidity @ quote_reasons p s q previous in
     bindr (evidence_factors pl p s q previous (lr_score liquidity)) (\<lambda>factors.
     bindr (risk_distance p s q) (\<lambda>distance.
     bindr (case factors of None \<Rightarrow> Inr None | Some f \<Rightarrow> bindr (score_evidence p f) (\<lambda>e. Inr (Some e))) (\<lambda>evidence.
       Inr \<lparr>cd_quote = q, cd_score = (case evidence of None \<Rightarrow> 0 | Some e \<Rightarrow> eb_total e),
         cd_evidence = evidence, cd_liquidity_score = lr_score liquidity,
         cd_eligible = (reasons = [] \<and> evidence \<noteq> None \<and> lr_eligible liquidity),
         cd_rejection_reasons = first_occurrences reasons, cd_risk_distance = distance\<rparr>))))"

definition quote_dict :: "option_quote list \<Rightarrow> (string \<times> option_quote) list" where
  "quote_dict = foldl (\<lambda>d q. AList.update (oq_security_id q) q d) []"

definition previous_by_security :: "platform \<Rightarrow> pipeline \<Rightarrow> atomic_snapshot \<Rightarrow> previous_snapshot option
    \<Rightarrow> (string \<times> option_quote) list res" where
  "previous_by_security pl p s previous = (case previous of None \<Rightarrow> Inr []
   | Some v \<Rightarrow>
      if pv_contract_key v \<noteq> env_contract_key pl (sn_contract s) \<or> pv_source v \<noteq> sn_source s
        \<or> sn_sequence s \<le> pv_sequence v then Inr []
      else bindr (dt_less (pv_source_timestamp v) (sn_source_timestamp s)) (\<lambda>earlier.
        if \<not> earlier then Inr []
        else bindr (dt_minus (sn_source_timestamp s) (pv_source_timestamp v)) (\<lambda>us.
          let interval = total_seconds us in
          if 0 < interval \<and> interval \<le> live_max_age_seconds (sp_strategy p)
          then Inr (quote_dict (pv_option_chain v)) else Inr [])))"

definition rank_key :: "atomic_snapshot \<Rightarrow> candidate \<Rightarrow> bool \<times> rat \<times> rat \<times> rat \<times> string" where
  "rank_key s c = (\<not> cd_eligible c, - cd_score c,
     (case pricing_underlying (sn_market s) (cs_market_kind (sn_contract s)) of
        None \<Rightarrow> 0 | Some u \<Rightarrow> dabs (dsub (oq_strike (cd_quote c)) u)),
     oq_strike (cd_quote c), option_type_value (oq_option_type (cd_quote c)))"

definition ranked_of :: "int \<Rightarrow> candidate \<Rightarrow> ranked_strike" where
  "ranked_of i c = \<lparr>rk_rank = i, rk_security_id = oq_security_id (cd_quote c),
     rk_strike = oq_strike (cd_quote c), rk_option_type = oq_option_type (cd_quote c),
     rk_entry_ask = oq_ask (cd_quote c), rk_score = cd_score c, rk_evidence = cd_evidence c,
     rk_liquidity_score = cd_liquidity_score c, rk_eligible = cd_eligible c,
     rk_rejection_reasons = cd_rejection_reasons c\<rparr>"

definition rank :: "atomic_snapshot \<Rightarrow> candidate list \<Rightarrow> ranked_strike list" where
  "rank s cs = List.map (\<lambda>(i, c). ranked_of i c) (zip [1..int (length cs)] (sort_key (rank_key s) cs))"

text \<open>\<open>max(eligible, key=score, default=None)\<close>: the first of the best.\<close>

definition best :: "candidate list \<Rightarrow> OptionType \<Rightarrow> candidate option" where
  "best cs ty = (case filter (\<lambda>c. oq_option_type (cd_quote c) = ty \<and> cd_eligible c) cs of
     [] \<Rightarrow> None | c # es \<Rightarrow> Some (arg_min_list (\<lambda>c. - cd_score c) (c # es)))"

subsection \<open>The plan\<close>

definition symbol_of :: "contract_spec \<Rightarrow> string \<Rightarrow> string res" where
  "symbol_of c security = (case find (\<lambda>r. in_security_id (mr_instrument r) = security) (cs_option_contracts c) of
     None \<Rightarrow> Inl StopIteration | Some r \<Rightarrow> Inr (in_symbol (mr_instrument r)))"

definition plan_identity :: "platform \<Rightarrow> pipeline \<Rightarrow> atomic_snapshot \<Rightarrow> option_quote \<Rightarrow> (string \<times> string) list" where
  "plan_identity pl p s q = [(''snapshot_id'', sn_snapshot_id s),
     (''contract_key'', env_contract_key pl (sn_contract s)), (''security_id'', oq_security_id q),
     (''side'', option_type_value (oq_option_type q)), (''strategy'', sn_strategy_version s),
     (''evidence'', ep_version (sp_evidence p))]"

definition plan_prices :: "pipeline \<Rightarrow> rat \<Rightarrow> rat \<Rightarrow> rat \<Rightarrow> (rat \<times> rat \<times> rat list) res" where
  "plan_prices p tick ask distance =
    bindr (round_up ask tick) (\<lambda>entry.
    bindr (round_up (max tick (dsub entry distance)) tick) (\<lambda>raised.
      let stop = min (dsub entry tick) raised; risk = dsub entry stop in
      bindr (traverse (\<lambda>m. round_down (dadd entry (dmul risk (float_repr m))) tick)
          (target_r_multiples (sp_strategy p))) (\<lambda>targets.
        Inr (entry, stop, targets))))"

definition draft_plan :: "platform \<Rightarrow> pipeline \<Rightarrow> atomic_snapshot \<Rightarrow> candidate \<Rightarrow> rat \<Rightarrow> rat \<Rightarrow> datetime
    \<Rightarrow> (plan_draft \<times> position_size_result) res" where
  "draft_plan pl p s c calls puts generated_at =
    (let q = cd_quote c; contract = sn_contract s; ctx = sn_context s in
     case (oq_ask q, cd_risk_distance c) of
       (Some ask, Some distance) \<Rightarrow>
         bindr (plan_prices p (cs_tick_size contract) ask distance) (\<lambda>(entry, stop, targets).
         bindr (calculate_position_size (sp_strategy p) (sc_account_capital ctx) (sc_risk_per_trade ctx)
             (sc_maximum_premium_allocation ctx) (Finite entry) (Finite stop) (cs_lot_size contract)
             (Finite (sp_cost_per_lot p))) (\<lambda>position.
         bindr (symbol_of contract (oq_security_id q)) (\<lambda>symbol.
           Inr (\<lparr>tp_signal_id = ''signal:'' @ env_identity_hash pl (plan_identity pl p s q),
             tp_snapshot_id = sn_snapshot_id s, tp_contract_key = env_contract_key pl contract,
             tp_strategy_version = sn_strategy_version s, tp_evidence_version = ep_version (sp_evidence p),
             tp_generated_at = generated_at, tp_symbol = symbol, tp_security_id = oq_security_id q,
             tp_option_type = oq_option_type q, tp_strike = oq_strike q, tp_expiry = oq_expiry q,
             tp_score = cd_score c, tp_score_gap = \<bar>fsub calls puts\<bar>, tp_entry = entry, tp_stop = stop,
             tp_targets = targets, tp_lot_size = cs_lot_size contract,
             tp_lots = ps_maximum_lots position, tp_quantity = ps_quantity position,
             tp_maximum_risk = ps_maximum_risk position, tp_risk_per_lot = ps_risk_per_lot position,
             tp_premium_required = dmul (ps_premium_per_lot position) (of_int (ps_maximum_lots position))\<rparr>,
             position))))
     | _ \<Rightarrow> Inl (AssertionError []))"

subsection \<open>Evaluation\<close>

definition require_bound_report :: "platform \<Rightarrow> atomic_snapshot \<Rightarrow> validation_report \<Rightarrow> unit res" where
  "require_bound_report pl s r =
    (if vr_snapshot_id r \<noteq> Some (sn_snapshot_id s) \<or> vr_snapshot_hash r \<noteq> Some (env_snapshot_hash pl s)
     then Inl (ValueError ''validation report is not bound to this snapshot'') else Inr ())"

definition modelled_quote :: "(string \<times> greeks) list option \<Rightarrow> option_quote \<Rightarrow> option_quote res" where
  "modelled_quote modeled q = (case modeled of None \<Rightarrow> Inr q | Some gs \<Rightarrow> replace_quote_greeks q gs)"

definition check_modelled :: "atomic_snapshot \<Rightarrow> (string \<times> greeks) list option \<Rightarrow> unit res" where
  "check_modelled s modeled = (case modeled of None \<Rightarrow> Inr ()
   | Some gs \<Rightarrow> if set (List.map fst gs) \<noteq> set (List.map oq_security_id (sn_option_chain s))
       then Inl (ValueError ''modeled Greeks must cover the exact snapshot option chain'') else Inr ())"

definition candidates_of :: "platform \<Rightarrow> pipeline \<Rightarrow> atomic_snapshot \<Rightarrow> (string \<times> option_quote) list
    \<Rightarrow> (string \<times> greeks) list option \<Rightarrow> candidate list res" where
  "candidates_of pl p s previous modeled = traverse (\<lambda>q.
     bindr (modelled_quote modeled q) (\<lambda>q'. score_candidate pl p s q' (map_of previous (oq_security_id q))))
     (sn_option_chain s)"

definition side_score :: "candidate option \<Rightarrow> rat" where
  "side_score c = (case c of None \<Rightarrow> 0 | Some x \<Rightarrow> cd_score x)"

definition leading_candidate :: "candidate option \<Rightarrow> candidate option \<Rightarrow> candidate option" where
  "leading_candidate call put = (if side_score put \<le> side_score call then call else put)"

definition confirmed_price :: "atomic_snapshot \<Rightarrow> candidate option \<Rightarrow> bool option res" where
  "confirmed_price s leading =
    (case (pricing_underlying (sn_market s) (cs_market_kind (sn_contract s)), leading) of
       (Some u, Some c) \<Rightarrow> bindr (confirm_price_action (oq_option_type (cd_quote c)) u
           (sc_signal_candle_high (sn_context s)) (sc_signal_candle_low (sn_context s))) (\<lambda>b. Inr (Some b))
     | _ \<Rightarrow> Inr None)"

definition leading_draft :: "platform \<Rightarrow> pipeline \<Rightarrow> atomic_snapshot \<Rightarrow> candidate option \<Rightarrow> rat \<Rightarrow> rat
    \<Rightarrow> datetime \<Rightarrow> (plan_draft \<times> position_size_result) option res" where
  "leading_draft pl p s leading calls puts generated_at = (case leading of None \<Rightarrow> Inr None
   | Some c \<Rightarrow> if cd_risk_distance c = None then Inr None
      else bindr (draft_plan pl p s c calls puts generated_at) (\<lambda>d. Inr (Some d)))"

definition inputs_of :: "pipeline \<Rightarrow> atomic_snapshot \<Rightarrow> validation_report \<Rightarrow> candidate list
    \<Rightarrow> candidate option \<Rightarrow> candidate option \<Rightarrow> bool option \<Rightarrow> (plan_draft \<times> position_size_result) option
    \<Rightarrow> rat \<Rightarrow> rat \<Rightarrow> decision_inputs" where
  "inputs_of p s r cs call put confirmed draft age expiry_seconds =
    \<lparr>data_complete = (report_accepted r \<and> call \<noteq> None \<and> put \<noteq> None
       \<and> list_all (\<lambda>c. case c of None \<Rightarrow> False | Some x \<Rightarrow> cd_evidence x \<noteq> None) [call, put]),
     data_stale = (age < - future_clock_skew_seconds (sp_strategy p) \<or> live_max_age_seconds (sp_strategy p) < age),
     expiry_valid = (0 < expiry_seconds),
     extreme_expiry_risk = (0 < expiry_seconds \<and> expiry_seconds \<le> extreme_expiry_seconds (sp_strategy p)),
     event_risk_active = sc_event_risk_active (sn_context s),
     liquid_strike_available = list_ex cd_eligible cs,
     affordable_input = (case draft of None \<Rightarrow> False | Some d \<Rightarrow> ps_affordable (snd d)),
     call_score = FFinite (side_score call), put_score = FFinite (side_score put),
     price_action_confirmed = confirmed, operating_mode = sc_operating_mode (sn_context s)\<rparr>"

definition evaluate :: "platform \<Rightarrow> pipeline \<Rightarrow> atomic_snapshot \<Rightarrow> validation_report
    \<Rightarrow> previous_snapshot option \<Rightarrow> (string \<times> greeks) list option \<Rightarrow> datetime \<Rightarrow> pipeline_result res" where
  "evaluate pl p s r previous modeled now =
    bindr (check (is_aware now) ''signal evaluation time must be timezone-aware'') (\<lambda>_.
    bindr (require_bound_report pl s r) (\<lambda>_.
    bindr (previous_by_security pl p s previous) (\<lambda>prev.
    bindr (check_modelled s modeled) (\<lambda>_.
    bindr (candidates_of pl p s prev modeled) (\<lambda>cs.
    let call = best cs CALL; put = best cs PUT; leading = leading_candidate call put in
    bindr (confirmed_price s leading) (\<lambda>confirmed.
    bindr (leading_draft pl p s leading (side_score call) (side_score put) now) (\<lambda>draft.
    bindr (dt_minus now (sn_source_timestamp s)) (\<lambda>age.
    bindr (dt_minus (cs_option_expiry (sn_contract s)) now) (\<lambda>left.
    bindr (resolve_decision (sp_strategy p) (inputs_of p s r cs call put confirmed draft
        (total_seconds age) (total_seconds left))) (\<lambda>outcome.
      Inr \<lparr>pr_snapshot_id = sn_snapshot_id s, pr_generated_at = now, pr_decision = do_state outcome,
        pr_reason = do_reason outcome, pr_call_score = side_score call, pr_put_score = side_score put,
        pr_score_gap = do_score_gap outcome, pr_ranked_strikes = rank s cs,
        pr_trade_plan = map_option (\<lambda>d. finalize (fst d) (do_state outcome)) draft,
        pr_warnings = List.map vi_code (report_warnings r)\<rparr>))))))))))"

end
