(* ===== verification/PipelineClaims.thy ===== *)
theory PipelineClaims
  imports Pipeline
begin

text \<open>Properties of the signal pipeline: what stands behind a BUY, the plan it carries and the ranking.\<close>

subsection \<open>Candidates\<close>

lemma best_Some:
  assumes "best cs ty = Some c"
  shows "c \<in> set cs" "cd_eligible c" "oq_option_type (cd_quote c) = ty"
    and "d \<in> set cs \<Longrightarrow> cd_eligible d \<Longrightarrow> oq_option_type (cd_quote d) = ty \<Longrightarrow> cd_score d \<le> cd_score c"
proof -
  let ?P = "\<lambda>c. oq_option_type (cd_quote c) = ty \<and> cd_eligible c"
  obtain e es where f: "filter ?P cs = e # es" "c = arg_min_list (\<lambda>c. - cd_score c) (e # es)"
    using assms by (cases "filter ?P cs") (auto simp: best_def)
  have "c \<in> set (filter ?P cs)" unfolding f by (rule arg_min_list_in) simp
  then show "c \<in> set cs" "cd_eligible c" "oq_option_type (cd_quote c) = ty" by auto
  show "cd_score d \<le> cd_score c" if "d \<in> set cs" "cd_eligible d" "oq_option_type (cd_quote d) = ty"
  proof -
    have "d \<in> set (e # es)" using that by (simp flip: f(1))
    from arg_min_list_least[OF _ this, of "\<lambda>c. - cd_score c"] show ?thesis by (simp add: f(2))
  qed
qed

lemma score_candidateD:
  assumes "score_candidate pl p s q previous = Inr c"
  shows "cd_quote c = q" "risk_distance p s q = Inr (cd_risk_distance c)"
    "cd_eligible c \<Longrightarrow> lr_eligible (liquidity_score (sp_strategy p) (oq_bid q) (oq_ask q) (oq_volume q) (oq_open_interest q))"
    "cd_eligible c \<Longrightarrow> cd_evidence c \<noteq> None" "cd_eligible c \<Longrightarrow> cd_rejection_reasons c = []"
    "cd_evidence c = Some e \<Longrightarrow> cd_score c = eb_total e"
  using assms by (auto simp: score_candidate_def Let_def bindr_eq_Inr first_occurrences_def)

text \<open>A scored quote is one of the chain, up to the Greeks the model supplies.\<close>

definition same_quote :: "option_quote \<Rightarrow> option_quote \<Rightarrow> bool" where
  "same_quote q q' \<longleftrightarrow> (\<exists>g. q' = q\<lparr>oq_greeks := g\<rparr>)"

lemma same_quote_fields:
  "same_quote q q' \<Longrightarrow> oq_security_id q' = oq_security_id q \<and> oq_option_type q' = oq_option_type q
     \<and> oq_bid q' = oq_bid q \<and> oq_ask q' = oq_ask q \<and> oq_volume q' = oq_volume q
     \<and> oq_open_interest q' = oq_open_interest q \<and> oq_strike q' = oq_strike q \<and> oq_expiry q' = oq_expiry q"
  by (auto simp: same_quote_def)

lemma modelled_quote_same: "modelled_quote m q = Inr q' \<Longrightarrow> same_quote q q'"
  by (auto simp: modelled_quote_def replace_quote_greeks_def same_quote_def split: option.splits)
    (metis option_quote.surjective option_quote.update_convs(13))

lemma candidates_ofD:
  assumes "candidates_of pl p s prev m = Inr cs"
  shows "c \<in> set cs \<Longrightarrow> \<exists>q\<in>set (sn_option_chain s). same_quote q (cd_quote c)
      \<and> score_candidate pl p s (cd_quote c) (map_of prev (oq_security_id q)) = Inr c"
    and "length cs = length (sn_option_chain s)"
    and "List.map (\<lambda>c. oq_security_id (cd_quote c)) cs = List.map oq_security_id (sn_option_chain s)"
proof -
  from assms have all: "list_all2 (\<lambda>q c. bindr (modelled_quote m q) (\<lambda>q'.
      score_candidate pl p s q' (map_of prev (oq_security_id q))) = Inr c) (sn_option_chain s) cs"
    by (simp add: candidates_of_def traverse_eq_Inr)
  have one: "same_quote q (cd_quote c) \<and> score_candidate pl p s (cd_quote c) (map_of prev (oq_security_id q)) = Inr c"
    if "bindr (modelled_quote m q) (\<lambda>q'. score_candidate pl p s q' (map_of prev (oq_security_id q))) = Inr c" for q c
    using that by (auto simp: bindr_eq_Inr dest: modelled_quote_same score_candidateD(1))
  show "length cs = length (sn_option_chain s)" using all by (simp add: list_all2_lengthD)
  show "\<exists>q\<in>set (sn_option_chain s). same_quote q (cd_quote c)
      \<and> score_candidate pl p s (cd_quote c) (map_of prev (oq_security_id q)) = Inr c" if "c \<in> set cs"
    using all that one by (auto simp: list_all2_conv_all_nth in_set_conv_nth) (metis nth_mem)
  show "List.map (\<lambda>c. oq_security_id (cd_quote c)) cs = List.map oq_security_id (sn_option_chain s)"
    using all by (induction rule: list_all2_induct) (auto dest!: one same_quote_fields)
qed

subsection \<open>Evaluation\<close>

lemma evaluateD:
  assumes "evaluate pl p s r previous modeled now = Inr res"
  obtains prev cs confirmed draft age left outcome where
    "require_bound_report pl s r = Inr ()" "previous_by_security pl p s previous = Inr prev"
    "candidates_of pl p s prev modeled = Inr cs"
    "confirmed_price s (leading_candidate (best cs CALL) (best cs PUT)) = Inr confirmed"
    "leading_draft pl p s (leading_candidate (best cs CALL) (best cs PUT)) (side_score (best cs CALL))
       (side_score (best cs PUT)) now = Inr draft"
    "dt_minus now (sn_source_timestamp s) = Inr age"
    "dt_minus (cs_option_expiry (sn_contract s)) now = Inr left"
    "resolve_decision (sp_strategy p) (inputs_of p s r cs (best cs CALL) (best cs PUT) confirmed draft
        (total_seconds age) (total_seconds left)) = Inr outcome"
    "pr_decision res = do_state outcome" "pr_ranked_strikes res = rank s cs"
    "pr_trade_plan res = map_option (\<lambda>d. finalize (fst d) (do_state outcome)) draft"
    "is_aware now"
  using assms unfolding evaluate_def Let_def bindr_eq_Inr check_eq_Inr
  by (elim exE conjE) (rule that; (assumption | auto))

lemma resolve_buy:
  assumes "resolve_decision c i = Inr o'" "is_buy (do_state o')"
  shows "buy_gates c i" "do_state o' = (if flt_val (put_score i) < flt_val (call_score i) then BUY_CALL else BUY_PUT)"
  using assms gate_side[of c i] by (auto simp: resolve_decision_def Let_def gate_buy_iff split: if_splits)

lemma finalize_simps [simp]:
  "tp_decision (finalize d st) = st" "tp_actionable (finalize d st) = is_buy st"
  "plan_draft.truncate (finalize d st) = d" "tp_security_id (finalize d st) = tp_security_id d"
  "tp_option_type (finalize d st) = tp_option_type d" "tp_entry (finalize d st) = tp_entry d"
  "tp_stop (finalize d st) = tp_stop d" "tp_lots (finalize d st) = tp_lots d"
  "tp_lot_size (finalize d st) = tp_lot_size d" "tp_quantity (finalize d st) = tp_quantity d"
  "tp_risk_per_lot (finalize d st) = tp_risk_per_lot d" "tp_symbol (finalize d st) = tp_symbol d"
  "tp_maximum_risk (finalize d st) = tp_maximum_risk d" "tp_score (finalize d st) = tp_score d"
  by (cases d; simp add: finalize_def plan_draft.defs)+

text \<open>Behind a BUY stand the two sides, the leading candidate and its affordable draft.\<close>

lemma buy_leading:
  assumes "evaluate pl p s r previous modeled now = Inr res" "is_buy (pr_decision res)" "0 < conflict_gap (sp_strategy p)"
  obtains call put lead draft position where
    "cd_eligible call" "cd_eligible put" "lead \<in> {call, put}"
    "oq_option_type (cd_quote lead) = (if pr_decision res = BUY_CALL then CALL else PUT)"
    "\<exists>q\<in>set (sn_option_chain s). same_quote q (cd_quote lead) \<and> (\<exists>v. score_candidate pl p s (cd_quote lead) v = Inr lead)"
    "draft_plan pl p s lead (cd_score call) (cd_score put) now = Inr (draft, position)" "ps_affordable position"
    "pr_trade_plan res = Some (finalize draft (pr_decision res))"
    "minimum_tradable_score (sp_strategy p) \<le> cd_score lead"
proof -
  from assms(1) obtain prev cs confirmed draft age left outcome where
    e: "candidates_of pl p s prev modeled = Inr cs"
    "leading_draft pl p s (leading_candidate (best cs CALL) (best cs PUT)) (side_score (best cs CALL))
       (side_score (best cs PUT)) now = Inr draft"
    "resolve_decision (sp_strategy p) (inputs_of p s r cs (best cs CALL) (best cs PUT) confirmed draft
        (total_seconds age) (total_seconds left)) = Inr outcome"
    "pr_decision res = do_state outcome"
    "pr_trade_plan res = map_option (\<lambda>d. finalize (fst d) (do_state outcome)) draft"
    by (rule evaluateD) metis
  note gates = resolve_buy[OF e(3), folded e(4), OF assms(2)]
  obtain call put where side: "best cs CALL = Some call" "best cs PUT = Some put"
    using gates(1) by (auto simp: buy_gates_def inputs_of_def)
  have gap: "cd_score call \<noteq> cd_score put"
    using gates(1) assms(3) by (auto simp: buy_gates_def inputs_of_def side side_score_def fsub_def)
  define lead where "lead = (if cd_score put \<le> cd_score call then call else put)"
  have lead: "leading_candidate (Some call) (Some put) = Some lead"
    by (simp add: leading_candidate_def side_score_def lead_def)
  have ty: "oq_option_type (cd_quote lead) = (if pr_decision res = BUY_CALL then CALL else PUT)"
    using gates(2) gap best_Some(3)[OF side(1)] best_Some(3)[OF side(2)]
    by (auto simp: lead_def inputs_of_def side side_score_def)
  have "lead \<in> set cs" using best_Some(1)[OF side(1)] best_Some(1)[OF side(2)] by (simp add: lead_def)
  from candidates_ofD(1)[OF e(1) this] have chain:
    "\<exists>q\<in>set (sn_option_chain s). same_quote q (cd_quote lead) \<and> (\<exists>v. score_candidate pl p s (cd_quote lead) v = Inr lead)"
    by blast
  obtain d where d: "draft = Some d" "ps_affordable (snd d)"
    using gates(1) by (auto simp: buy_gates_def inputs_of_def split: option.splits)
  then have dp: "draft_plan pl p s lead (cd_score call) (cd_score put) now = Inr d"
    using e(2) by (auto simp: leading_draft_def lead side side_score_def bindr_eq_Inr split: if_splits)
  have "minimum_tradable_score (sp_strategy p) \<le> cd_score lead"
    using gates(1) by (auto simp: buy_gates_def inputs_of_def side side_score_def lead_def max_def split: if_splits)
  with best_Some(2)[OF side(1)] best_Some(2)[OF side(2)] ty chain dp d e(4,5) show ?thesis
    by (intro that[of call put lead "fst d" "snd d"]) (auto simp: lead_def)
qed

end
