(* ===== verification/PipelineDemo.thy ===== *)
theory PipelineDemo
  imports PipelineClaims
begin

text \<open>
  A snapshot of one call and one put on which the pipeline decides to buy the call.
\<close>

definition demo_libm :: libm where
  "demo_libm = \<lparr>lm_exp = (\<lambda>x. Some 1), lm_log = (\<lambda>x. x - 1), lm_erf = (\<lambda>x. 0)\<rparr>"

definition demo_platform :: platform where
  "demo_platform = \<lparr>env_snapshot_hash = (\<lambda>_. ''hash''), env_contract_key = (\<lambda>_. ''contract:1''),
     env_identity_hash = (\<lambda>_. ''id''), env_libm = demo_libm\<rparr>"

definition demo_strategy :: "rat strategy_config" where
  "demo_strategy = \<lparr>version = ''1.0.0'', risk_free_rate = 1 / 16, dividend_yield = 0,
     maximum_risk_per_trade = 1 / 64, intraday_delta_minimum = 1 / 4, intraday_delta_maximum = 3 / 4,
     positional_delta_minimum = 1 / 2, positional_delta_maximum = 3 / 4, minimum_volume = 1000,
     minimum_open_interest = 1000, maximum_spread_ratio = 1 / 32, minimum_liquidity_score = 60,
     watchlist_score = 65, minimum_tradable_score = 75, strong_setup_score = 85, conflict_gap = 8,
     live_max_age_seconds = 30, component_skew_seconds = 5, future_clock_skew_seconds = 2,
     instrument_master_max_age_seconds = 129600, extreme_expiry_seconds = 32400, premium_stop_ratio = 1 / 4,
     atr_stop_multiple = 1, target_r_multiples = [1, 2], event_risk_blocks_new_trades = True,
     weights = \<lparr>w_trend = 20, w_premium = 15, w_open_interest = 15, w_liquidity = 15, w_greeks = 15,
       w_volatility = 10, w_risk_reward = 10\<rparr>\<rparr>"

definition demo_policy :: "rat evidence_policy" where
  "demo_policy = \<lparr>ep_version = ''v1'', ep_premium_momentum_saturation = 1 / 32, ep_volatility_ratio_floor = 1 / 2,
     ep_volatility_ratio_ceiling = 2, ep_theoretical_error_ceiling = 1 / 4, ep_daily_theta_drag_ceiling = 1 / 8,
     ep_reward_risk_full_score = 2\<rparr>"

definition demo_pipeline :: pipeline where
  "demo_pipeline = \<lparr>sp_strategy = demo_strategy, sp_evidence = demo_policy,
     sp_cost_per_lot = 0\<rparr>"

definition demo_instrument :: "string \<Rightarrow> string \<Rightarrow> string \<Rightarrow> instrument_id" where
  "demo_instrument segment security symbol = \<lparr>in_exchange = NSE, in_segment = segment,
     in_security_id = security, in_symbol = symbol\<rparr>"

definition demo_expiry :: datetime where "demo_expiry = at_utc (seconds 7884060)"
definition demo_now :: datetime where "demo_now = at_utc (seconds 61)"

definition demo_record :: "string \<Rightarrow> string \<Rightarrow> rat \<Rightarrow> OptionType \<Rightarrow> master_record" where
  "demo_record security symbol strike ty = \<lparr>mr_instrument = demo_instrument ''NSE_FNO'' security symbol,
     mr_display_name = symbol, mr_instrument_type = ''OPTIDX'', mr_underlying_security_id = Some ''26000'',
     mr_expiry = Some demo_expiry, mr_strike = Some strike, mr_option_type = Some ty, mr_lot_size = Some 50,
     mr_tick_size = Some (1 / 20)\<rparr>"

definition demo_future :: master_record where
  "demo_future = \<lparr>mr_instrument = demo_instrument ''NSE_FNO'' ''F1'' ''NIFTYFUT'', mr_display_name = ''NIFTYFUT'',
     mr_instrument_type = ''FUTIDX'', mr_underlying_security_id = Some ''26000'', mr_expiry = Some demo_expiry,
     mr_strike = None, mr_option_type = None, mr_lot_size = Some 50, mr_tick_size = Some (1 / 20)\<rparr>"

text \<open>The two legs that trade, and the other eight of the five strikes around the money.\<close>

definition demo_legs :: "(string \<times> string \<times> rat \<times> OptionType) list" where
  "demo_legs = [(''C1'', ''NIFTY20000CE'', 20000, CALL), (''P1'', ''NIFTY20000PE'', 20000, PUT)]"

definition demo_other_legs :: "(string \<times> string \<times> rat \<times> OptionType) list" where
  "demo_other_legs = [(''C2'', ''NIFTY19900CE'', 19900, CALL), (''P2'', ''NIFTY19900PE'', 19900, PUT),
     (''C3'', ''NIFTY19950CE'', 19950, CALL), (''P3'', ''NIFTY19950PE'', 19950, PUT),
     (''C4'', ''NIFTY20050CE'', 20050, CALL), (''P4'', ''NIFTY20050PE'', 20050, PUT),
     (''C5'', ''NIFTY20100CE'', 20100, CALL), (''P5'', ''NIFTY20100PE'', 20100, PUT)]"

definition demo_contract :: contract_spec where
  "demo_contract = \<lparr>cs_underlying = demo_instrument ''IDX_I'' ''13'' ''NIFTY'', cs_market_kind = INDEX,
     cs_pricing_model = BLACK_SCHOLES, cs_option_expiry = demo_expiry, cs_lot_size = 50,
     cs_strike_interval = 50, cs_tick_size = 1 / 20,
     cs_master = \<lparr>mp_batch_id = ''b'', mp_provider = ''p'', mp_source_url = ''u'', mp_content_hash = replicate 64 (CHR ''0''),
       mp_schema_version = ''1'', mp_fetched_at = at_utc 0, mp_row_count = 12\<rparr>,
     cs_option_contracts = List.map (\<lambda>(i, n, k, t). demo_record i n k t) (demo_legs @ demo_other_legs),
     cs_futures = Some demo_future\<rparr>"

text \<open>What Black-Scholes gives at the money with \<open>demo_libm\<close>.\<close>

definition demo_greeks :: "rat \<Rightarrow> greeks" where
  "demo_greeks delta = \<lparr>gk_delta = Some (FFinite delta),
     gk_gamma = Some (FFinite (5887349290771097 / 36893488147419103232)),
     gk_theta = Some (FFinite (if 0 < delta then - 1010114029419527 / 140737488355328
       else - 8450181273160213 / 2251799813685248)),
     gk_vega = Some (FFinite (5614613098168003 / 140737488355328)), gk_theoretical_price = Some (Finite 0)\<rparr>"

definition demo_quote :: "string \<Rightarrow> rat \<Rightarrow> OptionType \<Rightarrow> rat \<Rightarrow> rat \<Rightarrow> int \<Rightarrow> (int \<times> string) option \<Rightarrow> datetime
    \<Rightarrow> option_quote" where
  "demo_quote security strike ty ltp delta oi change t = \<lparr>oq_security_id = security, oq_strike = strike, oq_option_type = ty,
     oq_expiry = demo_expiry, oq_bid = Some 100, oq_ask = Some 101, oq_ltp = Some ltp, oq_volume = Some 1000000,
     oq_open_interest = Some oi, oq_previous_open_interest = None, oq_change_open_interest = map_option fst change,
     oq_implied_volatility = Some (FFinite (1 / 4)),
     oq_greeks = demo_greeks delta,
     oq_observed_at = t, oq_bid_quantity = None, oq_ask_quantity = None, oq_previous_close = None,
     oq_change_oi_source_snapshot_id = map_option snd change,
     oq_change_oi_interval_seconds = map_option (\<lambda>_. 2) change\<rparr>"

definition demo_call_quote :: option_quote where
  "demo_call_quote = demo_quote ''C1'' 20000 CALL 100 (1 / 2) 1000000 (Some (100, ''s1'')) (at_utc (seconds 60))"

definition demo_put_quote :: option_quote where
  "demo_put_quote = demo_quote ''P1'' 20000 PUT 100 (- 1 / 2) 1000000 (Some (100, ''s1'')) (at_utc (seconds 60))"

definition demo_snapshot :: atomic_snapshot where
  "demo_snapshot = \<lparr>sn_snapshot_id = ''s2'', sn_sequence = 2, sn_source = DHAN_REST,
     sn_source_timestamp = at_utc (seconds 60), sn_received_at = at_utc (seconds 60), sn_contract = demo_contract,
     sn_market = \<lparr>ms_observed_at = at_utc (seconds 60), ms_spot_price = Some 20000, ms_futures_price = Some 20000,
       ms_previous_close = Some 19900, ms_day_open = Some 19900, ms_day_high = Some 20100, ms_day_low = Some 19800,
       ms_vwap = Some 19950, ms_futures_open_interest = None\<rparr>,
     sn_technicals = \<lparr>ts_observed_at = at_utc (seconds 60), ts_ema_9 = Some 19990, ts_ema_21 = Some 19980,
       ts_wma_44 = Some 19970, ts_previous_wma_44 = Some 19960, ts_rsi_14 = Some 60, ts_atr_14 = Some 100,
       ts_reference_volatility = Some (1 / 4), ts_timeframe = ''15m'', ts_completed_candle = True\<rparr>,
     sn_context = \<lparr>sc_operating_mode = PRO, sc_trading_style = INTRADAY, sc_account_capital = Finite 1000000,
       sc_risk_per_trade = FFinite (1 / 64), sc_maximum_premium_allocation = FFinite (1 / 2),
       sc_event_risk_active = Some False, sc_price_action_confirmed = Some True,
       sc_signal_candle_high = 19995, sc_signal_candle_low = 19900, sc_expected_holding_hours = 4\<rparr>,
     sn_option_chain = [demo_call_quote, demo_put_quote], sn_strategy_version = ''1.0.0'',
     sn_metadata = \<lparr>md_raw_payload_hash = Some (replicate 64 (CHR ''1'')), md_component_hashes = None,
       md_raw_option_payload = Some ''payload'', md_raw_option_hash = Some (replicate 64 (CHR ''1''))\<rparr>\<rparr>"

definition demo_old :: "string \<Rightarrow> OptionType \<Rightarrow> rat \<Rightarrow> option_quote" where
  "demo_old security ty ltp = demo_quote security 20000 ty ltp (if ty = CALL then 1 / 2 else - 1 / 2) 999900 None
     (at_utc (seconds 58))"

definition demo_previous :: previous_snapshot where
  "demo_previous = \<lparr>pv_snapshot_id = ''s1'', pv_sequence = 1, pv_source = DHAN_REST, pv_source_timestamp = at_utc (seconds 58),
     pv_contract_key = ''contract:1'', pv_option_chain = [demo_old ''C1'' CALL 80, demo_old ''P1'' PUT 125]\<rparr>"

definition demo_validation :: validation_report where
  "demo_validation = \<lparr>vr_issues = [], vr_snapshot_id = Some ''s2'', vr_snapshot_hash = Some ''hash''\<rparr>"

subsection \<open>The evaluation, step by step\<close>

lemma demo_greeks_factor:
  "greeks_factor demo_pipeline demo_snapshot demo_call_quote (1 / 2) 100 = Inr (1430260668732537 / 2251799813685248)"
  "greeks_factor demo_pipeline demo_snapshot demo_put_quote (- 1 / 2) 100 = Inr (3107293919786745 / 4503599627370496)"
proof -
  have fits: "theoretical_fit demo_pipeline (gk_theoretical_price (oq_greeks demo_call_quote)) 100 = Inr 0"
    "theoretical_fit demo_pipeline (gk_theoretical_price (oq_greeks demo_put_quote)) 100 = Inr 0"
    "theta_fit demo_pipeline (gk_theta (oq_greeks demo_call_quote)) 100 = Inr (1917707712056507 / 4503599627370496)"
    "theta_fit demo_pipeline (gk_theta (oq_greeks demo_put_quote)) 100 = Inr (1575785311832431 / 2251799813685248)" by code_simp+
  show "greeks_factor demo_pipeline demo_snapshot demo_call_quote (1 / 2) 100 = Inr (1430260668732537 / 2251799813685248)"
    unfolding greeks_factor_def fits bindr_simps Let_def by code_simp
  show "greeks_factor demo_pipeline demo_snapshot demo_put_quote (- 1 / 2) 100 = Inr (3107293919786745 / 4503599627370496)"
    unfolding greeks_factor_def fits bindr_simps Let_def by code_simp
qed

lemma demo_parts:
  "volatility_factor demo_platform demo_pipeline (FFinite (1 / 4)) (1 / 4) = Inr 1"
  "risk_distance demo_pipeline demo_snapshot demo_call_quote = Inr (Some (101 / 4))"
  "risk_distance demo_pipeline demo_snapshot demo_put_quote = Inr (Some (101 / 4))"
  "expected_premium_move demo_snapshot 20000 (1 / 4) (1 / 2) = Inr 1250"
  "expected_premium_move demo_snapshot 20000 (1 / 4) (- 1 / 2) = Inr 1250"
  by code_simp+

definition demo_liquidity :: rat where "demo_liquidity = 5922122034753901 / 70368744177664"

definition demo_call_factors :: factor_values where
  "demo_call_factors = [(''trend'', 1), (''premium'', 1), (''open_interest'', 1),
     (''liquidity'', 7580316204484993 / 9007199254740992), (''greeks'', 1430260668732537 / 2251799813685248),
     (''volatility'', 1), (''risk_reward'', 1)]"

definition demo_put_factors :: factor_values where
  "demo_put_factors = [(''trend'', 6004799503160661 / 36028797018963968), (''premium'', 0), (''open_interest'', 1 / 4),
     (''liquidity'', 7580316204484993 / 9007199254740992), (''greeks'', 3107293919786745 / 4503599627370496),
     (''volatility'', 1), (''risk_reward'', 1)]"

lemma demo_change:
  "oq_change_open_interest demo_call_quote = Some 100" "oq_change_open_interest demo_put_quote = Some 100"
  by code_simp+

lemma demo_factor_values:
  "factors_of demo_platform demo_pipeline demo_snapshot demo_call_quote 20000 [True, True, True, True] 100 80
     (FFinite (1 / 4)) (1 / 4) (1 / 2) demo_liquidity = Inr (Some demo_call_factors)"
  "factors_of demo_platform demo_pipeline demo_snapshot demo_put_quote 20000 [True, True, True, True] 100 125
     (FFinite (1 / 4)) (1 / 4) (- 1 / 2) demo_liquidity = Inr (Some demo_put_factors)"
proof -
  show "factors_of demo_platform demo_pipeline demo_snapshot demo_call_quote 20000 [True, True, True, True] 100 80
     (FFinite (1 / 4)) (1 / 4) (1 / 2) demo_liquidity = Inr (Some demo_call_factors)"
    unfolding factors_of_def demo_change option.case demo_greeks_factor demo_parts bindr_simps Let_def by code_simp
  show "factors_of demo_platform demo_pipeline demo_snapshot demo_put_quote 20000 [True, True, True, True] 100 125
     (FFinite (1 / 4)) (1 / 4) (- 1 / 2) demo_liquidity = Inr (Some demo_put_factors)"
    unfolding factors_of_def demo_change option.case demo_greeks_factor demo_parts bindr_simps Let_def by code_simp
qed

lemma demo_evidence:
  "evidence_factors demo_platform demo_pipeline demo_snapshot demo_call_quote (Some (demo_old ''C1'' CALL 80)) demo_liquidity
     = Inr (Some demo_call_factors)"
  "evidence_factors demo_platform demo_pipeline demo_snapshot demo_put_quote (Some (demo_old ''P1'' PUT 125)) demo_liquidity
     = Inr (Some demo_put_factors)"
  using demo_factor_values
  by (simp_all add: evidence_factors_def pricing_underlying_def demo_snapshot_def[THEN arg_cong, of sn_market]
    demo_snapshot_def[THEN arg_cong, of sn_technicals] demo_snapshot_def[THEN arg_cong, of sn_contract]
    demo_contract_def demo_old_def demo_quote_def demo_greeks_def demo_call_quote_def[THEN arg_cong, of oq_ask]
    demo_call_quote_def[THEN arg_cong, of oq_ltp] demo_call_quote_def[THEN arg_cong, of oq_implied_volatility]
    demo_call_quote_def[THEN arg_cong, of oq_greeks] demo_put_quote_def[THEN arg_cong, of oq_ask]
    demo_put_quote_def[THEN arg_cong, of oq_ltp] demo_put_quote_def[THEN arg_cong, of oq_implied_volatility]
    demo_put_quote_def[THEN arg_cong, of oq_greeks])

definition demo_call_points :: "(string \<times> rat) list" where
  "demo_call_points = [(''trend'', 20), (''premium'', 15), (''open_interest'', 15),
     (''liquidity'', 7106546441704681 / 562949953421312), (''greeks'', 2681738753873507 / 281474976710656),
     (''volatility'', 10), (''risk_reward'', 10)]"

definition demo_put_points :: "(string \<times> rat) list" where
  "demo_put_points = [(''trend'', 3752999689475413 / 1125899906842624), (''premium'', 0), (''open_interest'', 15 / 4),
     (''liquidity'', 7106546441704681 / 562949953421312), (''greeks'', 5826176099600147 / 562949953421312),
     (''volatility'', 10), (''risk_reward'', 10)]"

lemma demo_points:
  "traverse (score_point (\<lambda>k. map_option FFinite (map_of demo_call_factors k)))
     (weights_mapping (weights demo_strategy)) = Inr demo_call_points"
  "traverse (score_point (\<lambda>k. map_option FFinite (map_of demo_put_factors k)))
     (weights_mapping (weights demo_strategy)) = Inr demo_put_points"
  by (simp add: demo_call_factors_def demo_put_factors_def score_point_def weights_mapping_def demo_strategy_def,
    code_simp)+

lemma demo_totals:
  "clamp_score (fsum (List.map snd demo_call_points)) = 3242282543058971 / 35184372088832"
  "clamp_score (fsum (List.map snd demo_put_points)) = 3522410472474837 / 70368744177664"
  by code_simp+

lemma demo_rounding:
  "round_up 101 (1 / 20) = Inr 101" "round_up (303 / 4) (1 / 20) = Inr (303 / 4)"
  "round_down (505 / 4) (1 / 20) = Inr (505 / 4)" "round_down (303 / 2) (1 / 20) = Inr (303 / 2)"
proof -
  have q: "ddivr 101 (1 / 20) = Inr 2020" "ddivr (303 / 4) (1 / 20) = Inr 1515"
    "ddivr (505 / 4) (1 / 20) = Inr 2525" "ddivr (303 / 2) (1 / 20) = Inr 3030" by code_simp+
  show "round_up 101 (1 / 20) = Inr 101" unfolding round_up_def q bindr_simps by code_simp
  show "round_up (303 / 4) (1 / 20) = Inr (303 / 4)" unfolding round_up_def q bindr_simps by code_simp
  show "round_down (505 / 4) (1 / 20) = Inr (505 / 4)" unfolding round_down_def q bindr_simps by code_simp
  show "round_down (303 / 2) (1 / 20) = Inr (303 / 2)" unfolding round_down_def q bindr_simps by code_simp
qed

lemma demo_prices:
  "plan_prices demo_pipeline (1 / 20) 101 (101 / 4) = Inr (101, 303 / 4, [505 / 4, 303 / 2])"
proof -
  have a: "max (1 / 20) (dsub 101 (101 / 4)) = 303 / 4" "min (dsub 101 (1 / 20)) (303 / 4) = 303 / 4"
    "dadd 101 (dmul (dsub 101 (303 / 4)) (float_repr 1)) = 505 / 4"
    "dadd 101 (dmul (dsub 101 (303 / 4)) (float_repr 2)) = 303 / 2"
    "target_r_multiples (sp_strategy demo_pipeline) = [1, 2]" by code_simp+
  show ?thesis unfolding plan_prices_def demo_rounding bindr_simps Let_def a traverse.simps by simp
qed

definition demo_call_evidence :: evidence_breakdown where
  "demo_call_evidence = \<lparr>eb_factors = demo_call_factors, eb_points = demo_call_points,
     eb_total = 3242282543058971 / 35184372088832\<rparr>"

definition demo_put_evidence :: evidence_breakdown where
  "demo_put_evidence = \<lparr>eb_factors = demo_put_factors, eb_points = demo_put_points,
     eb_total = 3522410472474837 / 70368744177664\<rparr>"

lemma demo_scores:
  "score_evidence demo_pipeline demo_call_factors = Inr demo_call_evidence"
  "score_evidence demo_pipeline demo_put_factors = Inr demo_put_evidence"
proof -
  have s: "sp_strategy demo_pipeline = demo_strategy" by (simp add: demo_pipeline_def)
  have m: "filter (\<lambda>n. map_option FFinite (map_of demo_call_factors n) = None) (List.map fst (weights_mapping (weights demo_strategy))) = []"
    "filter (\<lambda>n. map_option FFinite (map_of demo_put_factors n) = None) (List.map fst (weights_mapping (weights demo_strategy))) = []"
    by code_simp+
  show "score_evidence demo_pipeline demo_call_factors = Inr demo_call_evidence"
    "score_evidence demo_pipeline demo_put_factors = Inr demo_put_evidence"
    unfolding score_evidence_def weighted_score_def s m demo_points demo_totals Let_def bindr_simps
    by (simp_all add: demo_call_evidence_def demo_put_evidence_def sort_key_def)
qed

definition demo_candidate :: "option_quote \<Rightarrow> evidence_breakdown \<Rightarrow> candidate" where
  "demo_candidate q e = \<lparr>cd_quote = q, cd_score = eb_total e, cd_evidence = Some e,
     cd_liquidity_score = demo_liquidity, cd_eligible = True, cd_rejection_reasons = [],
     cd_risk_distance = Some (101 / 4)\<rparr>"

lemma demo_candidates:
  "score_candidate demo_platform demo_pipeline demo_snapshot demo_call_quote (Some (demo_old ''C1'' CALL 80))
     = Inr (demo_candidate demo_call_quote demo_call_evidence)"
  "score_candidate demo_platform demo_pipeline demo_snapshot demo_put_quote (Some (demo_old ''P1'' PUT 125))
     = Inr (demo_candidate demo_put_quote demo_put_evidence)"
proof -
  have l: "liquidity_score (sp_strategy demo_pipeline) (oq_bid demo_call_quote) (oq_ask demo_call_quote)
      (oq_volume demo_call_quote) (oq_open_interest demo_call_quote)
    = \<lparr>lr_score = demo_liquidity, lr_eligible = True, lr_rejection_reasons = []\<rparr>"
    "liquidity_score (sp_strategy demo_pipeline) (oq_bid demo_put_quote) (oq_ask demo_put_quote)
      (oq_volume demo_put_quote) (oq_open_interest demo_put_quote)
    = \<lparr>lr_score = demo_liquidity, lr_eligible = True, lr_rejection_reasons = []\<rparr>" by code_simp+
  have r: "quote_reasons demo_pipeline demo_snapshot demo_call_quote (Some (demo_old ''C1'' CALL 80)) = []"
    "quote_reasons demo_pipeline demo_snapshot demo_put_quote (Some (demo_old ''P1'' PUT 125)) = []" by code_simp+
  show "score_candidate demo_platform demo_pipeline demo_snapshot demo_call_quote (Some (demo_old ''C1'' CALL 80))
     = Inr (demo_candidate demo_call_quote demo_call_evidence)"
    "score_candidate demo_platform demo_pipeline demo_snapshot demo_put_quote (Some (demo_old ''P1'' PUT 125))
     = Inr (demo_candidate demo_put_quote demo_put_evidence)"
    unfolding score_candidate_def l r demo_parts by (simp_all add: demo_evidence demo_scores demo_parts
      demo_candidate_def first_occurrences_def)
qed

lemma demo_all_candidates:
  "candidates_of demo_platform demo_pipeline demo_snapshot
     [(''C1'', demo_old ''C1'' CALL 80), (''P1'', demo_old ''P1'' PUT 125)] None
   = Inr [demo_candidate demo_call_quote demo_call_evidence, demo_candidate demo_put_quote demo_put_evidence]"
proof -
  have c: "sn_option_chain demo_snapshot = [demo_call_quote, demo_put_quote]"
    by (simp add: demo_snapshot_def)
  have i: "oq_security_id demo_call_quote = ''C1''" "oq_security_id demo_put_quote = ''P1''" by code_simp+
  show ?thesis unfolding candidates_of_def c by (simp add: i modelled_quote_def demo_candidates)
qed

lemma demo_previous_quotes:
  "previous_by_security demo_platform demo_pipeline demo_snapshot (Some demo_previous)
   = Inr [(''C1'', demo_old ''C1'' CALL 80), (''P1'', demo_old ''P1'' PUT 125)]"
  by code_simp

definition demo_call :: candidate where "demo_call = demo_candidate demo_call_quote demo_call_evidence"
definition demo_put :: candidate where "demo_put = demo_candidate demo_put_quote demo_put_evidence"

lemma demo_best:
  "best [demo_call, demo_put] CALL = Some demo_call" "best [demo_call, demo_put] PUT = Some demo_put"
  by (simp_all add: best_def demo_call_def demo_put_def demo_candidate_def demo_call_quote_def demo_put_quote_def
    demo_quote_def)

lemma demo_side_scores:
  "side_score (Some demo_call) = 3242282543058971 / 35184372088832"
  "side_score (Some demo_put) = 3522410472474837 / 70368744177664"
  by (simp_all add: side_score_def demo_call_def demo_put_def demo_candidate_def demo_call_evidence_def
    demo_put_evidence_def)

lemma demo_leading: "leading_candidate (Some demo_call) (Some demo_put) = Some demo_call"
  unfolding leading_candidate_def demo_side_scores by simp

lemma demo_confirmed: "confirmed_price demo_snapshot (Some demo_call) = Inr (Some True)" by code_simp

definition demo_draft :: plan_draft where
  "demo_draft = \<lparr>tp_signal_id = ''signal:id'', tp_snapshot_id = ''s2'', tp_contract_key = ''contract:1'',
     tp_strategy_version = ''1.0.0'', tp_evidence_version = ''v1'', tp_generated_at = demo_now,
     tp_symbol = ''NIFTY20000CE'', tp_security_id = ''C1'', tp_option_type = CALL, tp_strike = 20000,
     tp_expiry = demo_expiry, tp_score = 3242282543058971 / 35184372088832,
     tp_score_gap = \<bar>fsub (3242282543058971 / 35184372088832) (3522410472474837 / 70368744177664)\<bar>,
     tp_entry = 101, tp_stop = 303 / 4, tp_targets = [505 / 4, 303 / 2], tp_lot_size = 50, tp_lots = 12,
     tp_quantity = 600, tp_maximum_risk = 15625, tp_risk_per_lot = 2525 / 2,
     tp_premium_required = dmul 5050 12\<rparr>"

definition demo_position :: position_size_result where
  "demo_position = \<lparr>ps_maximum_risk = 15625, ps_risk_per_lot = 2525 / 2, ps_premium_per_lot = 5050,
     ps_lots_by_risk = 12, ps_lots_by_allocation = 99, ps_maximum_lots = 12, ps_quantity = 600,
     ps_affordable = True\<rparr>"

lemma demo_position_size:
  "calculate_position_size (sp_strategy demo_pipeline) (sc_account_capital (sn_context demo_snapshot))
     (sc_risk_per_trade (sn_context demo_snapshot)) (sc_maximum_premium_allocation (sn_context demo_snapshot))
     (Finite 101) (Finite (303 / 4)) (cs_lot_size (sn_contract demo_snapshot)) (Finite (sp_cost_per_lot demo_pipeline))
   = Inr demo_position"
  by code_simp

lemma demo_leading_draft:
  "leading_draft demo_platform demo_pipeline demo_snapshot (Some demo_call)
     (3242282543058971 / 35184372088832) (3522410472474837 / 70368744177664) demo_now
   = Inr (Some (demo_draft, demo_position))"
proof -
  have q: "cd_quote demo_call = demo_call_quote" "cd_risk_distance demo_call = Some (101 / 4)"
    "cd_score demo_call = 3242282543058971 / 35184372088832"
    by (simp_all add: demo_call_def demo_candidate_def demo_call_evidence_def)
  have f: "oq_ask demo_call_quote = Some 101" "oq_security_id demo_call_quote = ''C1''"
    "oq_option_type demo_call_quote = CALL" "oq_strike demo_call_quote = 20000"
    "oq_expiry demo_call_quote = demo_expiry"
    by (simp_all add: demo_call_quote_def demo_quote_def)
  have c: "cs_tick_size (sn_contract demo_snapshot) = 1 / 20" "cs_lot_size (sn_contract demo_snapshot) = 50"
    "symbol_of (sn_contract demo_snapshot) ''C1'' = Inr ''NIFTY20000CE''" by code_simp+
  have "draft_plan demo_platform demo_pipeline demo_snapshot demo_call (3242282543058971 / 35184372088832)
      (3522410472474837 / 70368744177664) demo_now = Inr (demo_draft, demo_position)"
    unfolding draft_plan_def Let_def q f c option.case prod.case demo_prices bindr_simps demo_position_size[unfolded c]
    by (simp add: demo_draft_def demo_position_def demo_platform_def demo_pipeline_def demo_policy_def demo_snapshot_def)
  then show ?thesis by (simp add: leading_draft_def q)
qed

definition demo_result :: pipeline_result where
  "demo_result = \<lparr>pr_snapshot_id = ''s2'', pr_generated_at = demo_now, pr_decision = BUY_CALL,
     pr_reason = BULLISH_CONFIRMED, pr_call_score = 3242282543058971 / 35184372088832,
     pr_put_score = 3522410472474837 / 70368744177664,
     pr_score_gap = 2962154613643105 / 70368744177664,
     pr_ranked_strikes = rank demo_snapshot [demo_call, demo_put],
     pr_trade_plan = Some (finalize demo_draft BUY_CALL), pr_warnings = []\<rparr>"

lemma demo_decision:
  "resolve_decision (sp_strategy demo_pipeline) (inputs_of demo_pipeline demo_snapshot demo_validation [demo_call, demo_put]
     (Some demo_call) (Some demo_put) (Some True) (Some (demo_draft, demo_position)) 1 7883999)
   = Inr \<lparr>do_state = BUY_CALL, do_reason = BULLISH_CONFIRMED, do_call_band = STRONG, do_put_band = REJECTED_BAND,
       do_leading_score = 3242282543058971 / 35184372088832, do_score_gap = 2962154613643105 / 70368744177664\<rparr>"
  by code_simp

lemma demo_evaluation:
  "evaluate demo_platform demo_pipeline demo_snapshot demo_validation (Some demo_previous) None demo_now = Inr demo_result"
proof -
  have t: "is_aware demo_now = True" "require_bound_report demo_platform demo_snapshot demo_validation = Inr ()"
    "check_modelled demo_snapshot None = Inr ()"
    "dt_minus demo_now (sn_source_timestamp demo_snapshot) = Inr 1000000"
    "dt_minus (cs_option_expiry (sn_contract demo_snapshot)) demo_now = Inr 7883999000000"
    "total_seconds 1000000 = 1" "total_seconds 7883999000000 = 7883999"
    "List.map vi_code (report_warnings demo_validation) = []" by code_simp+
  show ?thesis
    unfolding evaluate_def t check_def if_True bindr_simps demo_previous_quotes demo_all_candidates
      demo_call_def[symmetric] demo_put_def[symmetric] Let_def demo_best demo_leading demo_confirmed demo_side_scores
      demo_leading_draft demo_decision
    by (simp add: demo_result_def demo_snapshot_def)
qed

end
