(* ===== verification/SignalClaims.thy ===== *)
theory SignalClaims
  imports PipelineDemo
begin

text \<open>
  What stands behind the result of the signal pipeline: the conditions of a BUY, the soundness of
  the plan it carries and the ranking of the chain.
\<close>

subsection \<open>The conditions of a BUY\<close>

lemma side_score_eq: "pr_call_score res = side_score c \<Longrightarrow> c = Some x \<Longrightarrow> pr_call_score res = cd_score x"
  by (simp add: side_score_def)

lemma evaluate_buy_gates:
  assumes "evaluate pl p s r previous modeled now = Inr res" "is_buy (pr_decision res)"
  obtains cs confirmed draft age left where
    "require_bound_report pl s r = Inr ()"
    "confirmed_price s (leading_candidate (best cs CALL) (best cs PUT)) = Inr confirmed"
    "dt_minus now (sn_source_timestamp s) = Inr age"
    "dt_minus (cs_option_expiry (sn_contract s)) now = Inr left"
    "buy_gates (sp_strategy p) (inputs_of p s r cs (best cs CALL) (best cs PUT) confirmed draft
        (total_seconds age) (total_seconds left))"
    "pr_call_score res = side_score (best cs CALL)" "pr_put_score res = side_score (best cs PUT)"
  using assms resolve_buy(1)
  unfolding evaluate_def Let_def bindr_eq_Inr check_eq_Inr
  by (elim exE conjE) (rule that; (assumption | force))

lemma confirmed_priceD:
  assumes "confirmed_price s leading = Inr (Some True)"
  shows "\<exists>u c. leading = Some c \<and> pricing_underlying (sn_market s) (cs_market_kind (sn_contract s)) = Some u
    \<and> confirm_price_action (oq_option_type (cd_quote c)) u
        (sc_signal_candle_high (sn_context s)) (sc_signal_candle_low (sn_context s)) = Inr True"
  using assms by (auto simp: confirmed_price_def bindr_eq_Inr split: option.splits)

text \<open>
  C2: The pipeline decides to buy only on a snapshot bound to its own error-free validation report,
  neither stale nor from the future, before the extreme expiry window, in PRO mode, with no event
  risk where the strategy blocks on it, with the price action confirmed beyond the signal candle,
  the leading side's score tradable and the two sides further apart than the conflict gap.
\<close>

theorem buy_requires_everything:
  assumes "evaluate pl p s r previous modeled now = Inr res" "is_buy (pr_decision res)"
  shows "vr_snapshot_id r = Some (sn_snapshot_id s) \<and> vr_snapshot_hash r = Some (env_snapshot_hash pl s)
    \<and> report_errors r = []
    \<and> (\<exists>age. dt_minus now (sn_source_timestamp s) = Inr age
        \<and> - future_clock_skew_seconds (sp_strategy p) \<le> total_seconds age
        \<and> total_seconds age \<le> live_max_age_seconds (sp_strategy p))
    \<and> (\<exists>left. dt_minus (cs_option_expiry (sn_contract s)) now = Inr left \<and> 0 < total_seconds left
        \<and> extreme_expiry_seconds (sp_strategy p) < total_seconds left)
    \<and> sc_operating_mode (sn_context s) = PRO
    \<and> (\<not> event_risk_blocks_new_trades (sp_strategy p) \<or> sc_event_risk_active (sn_context s) = Some False)
    \<and> (\<exists>u ty. pricing_underlying (sn_market s) (cs_market_kind (sn_contract s)) = Some u
        \<and> confirm_price_action ty u (sc_signal_candle_high (sn_context s)) (sc_signal_candle_low (sn_context s)) = Inr True)
    \<and> minimum_tradable_score (sp_strategy p) \<le> max (pr_call_score res) (pr_put_score res)
    \<and> conflict_gap (sp_strategy p) \<le> \<bar>fsub (pr_call_score res) (pr_put_score res)\<bar>"
proof -
  from assms obtain cs confirmed draft age left where e:
    "require_bound_report pl s r = Inr ()"
    "confirmed_price s (leading_candidate (best cs CALL) (best cs PUT)) = Inr confirmed"
    "dt_minus now (sn_source_timestamp s) = Inr age"
    "dt_minus (cs_option_expiry (sn_contract s)) now = Inr left"
    and g: "buy_gates (sp_strategy p) (inputs_of p s r cs (best cs CALL) (best cs PUT) confirmed draft
        (total_seconds age) (total_seconds left))"
    and sc: "pr_call_score res = side_score (best cs CALL)" "pr_put_score res = side_score (best cs PUT)"
    by (rule evaluate_buy_gates)
  from g have "confirmed = Some True" by (simp add: buy_gates_def inputs_of_def)
  with e(2) have price: "\<exists>u ty. pricing_underlying (sn_market s) (cs_market_kind (sn_contract s)) = Some u
      \<and> confirm_price_action ty u (sc_signal_candle_high (sn_context s)) (sc_signal_candle_low (sn_context s)) = Inr True"
    by (blast dest: confirmed_priceD)
  show ?thesis
    using e(1) g price
    by (auto simp: require_bound_report_def buy_gates_def inputs_of_def e(3,4) sc accepted_iff_no_errors not_less
      split: if_splits)
qed

lemma demo_result_buys: "is_buy (pr_decision demo_result)"
  by (simp add: demo_result_def is_buy_def)

lemma buy_requires_everything_witness:
  "is_buy (pr_decision demo_result) \<and> report_errors demo_validation = []
    \<and> minimum_tradable_score demo_strategy \<le> max (pr_call_score demo_result) (pr_put_score demo_result)"
  using buy_requires_everything[OF demo_evaluation demo_result_buys] demo_result_buys
  by (simp add: demo_pipeline_def)

subsection \<open>The plan\<close>

lemma draft_planD:
  assumes "draft_plan pl p s c calls puts now = Inr (d, position)"
  shows "tp_security_id d = oq_security_id (cd_quote c)" "tp_option_type d = oq_option_type (cd_quote c)"
    "tp_score d = cd_score c" "tp_lot_size d = cs_lot_size (sn_contract s)"
    "tp_lots d = ps_maximum_lots position" "tp_quantity d = ps_quantity position"
    "tp_maximum_risk d = ps_maximum_risk position" "tp_risk_per_lot d = ps_risk_per_lot position"
    "symbol_of (sn_contract s) (tp_security_id d) = Inr (tp_symbol d)"
    "calculate_position_size (sp_strategy p) (sc_account_capital (sn_context s)) (sc_risk_per_trade (sn_context s))
       (sc_maximum_premium_allocation (sn_context s)) (Finite (tp_entry d)) (Finite (tp_stop d))
       (tp_lot_size d) (Finite (sp_cost_per_lot p)) = Inr position"
  using assms by (auto simp: draft_plan_def Let_def bindr_eq_Inr split: option.splits)

lemma symbol_ofD:
  "symbol_of c security = Inr symbol \<Longrightarrow>
    \<exists>m\<in>set (cs_option_contracts c). in_security_id (mr_instrument m) = security \<and> in_symbol (mr_instrument m) = symbol"
  by (auto simp: symbol_of_def find_Some_iff split: option.splits)

text \<open>
  C38: Where the conflict gap is positive, a BUY carries a plan for an option of its own side: a
  liquid quote of the chain that the contract master lists, a stop below the entry, a positive
  number of whole lots, and a total risk within the budget up to one decimal rounding.
\<close>

theorem actionable_plan_sound:
  assumes "evaluate pl p s r previous modeled now = Inr res" "is_buy (pr_decision res)"
    and "0 < conflict_gap (sp_strategy p)"
  shows "\<exists>plan q m. pr_trade_plan res = Some plan \<and> tp_decision plan = pr_decision res \<and> tp_actionable plan
    \<and> tp_option_type plan = (if pr_decision res = BUY_CALL then CALL else PUT)
    \<and> q \<in> set (sn_option_chain s) \<and> oq_security_id q = tp_security_id plan \<and> oq_option_type q = tp_option_type plan
    \<and> lr_eligible (liquidity_score (sp_strategy p) (oq_bid q) (oq_ask q) (oq_volume q) (oq_open_interest q))
    \<and> m \<in> set (cs_option_contracts (sn_contract s)) \<and> in_security_id (mr_instrument m) = tp_security_id plan
    \<and> in_symbol (mr_instrument m) = tp_symbol plan
    \<and> 0 \<le> tp_stop plan \<and> tp_stop plan < tp_entry plan
    \<and> 0 < tp_lots plan \<and> tp_lot_size plan = cs_lot_size (sn_contract s) \<and> tp_quantity plan = tp_lots plan * tp_lot_size plan
    \<and> of_int (tp_lots plan) * tp_risk_per_lot plan \<le> (1 + dec_unit) * tp_maximum_risk plan
    \<and> minimum_tradable_score (sp_strategy p) \<le> tp_score plan"
proof -
  from buy_leading[OF assms] obtain call put lead d position where b:
    "lead \<in> {call, put}" "cd_eligible call" "cd_eligible put"
    "oq_option_type (cd_quote lead) = (if pr_decision res = BUY_CALL then CALL else PUT)"
    "\<exists>q\<in>set (sn_option_chain s). same_quote q (cd_quote lead) \<and> (\<exists>v. score_candidate pl p s (cd_quote lead) v = Inr lead)"
    "draft_plan pl p s lead (cd_score call) (cd_score put) now = Inr (d, position)" "ps_affordable position"
    "pr_trade_plan res = Some (finalize d (pr_decision res))"
    "minimum_tradable_score (sp_strategy p) \<le> cd_score lead"
    by metis
  then obtain q v where q: "q \<in> set (sn_option_chain s)" "same_quote q (cd_quote lead)"
    "score_candidate pl p s (cd_quote lead) v = Inr lead" by blast
  have "cd_eligible lead" using b(1-3) by auto
  note liquid = score_candidateD(3)[OF q(3) this]
  note dp = draft_planD[OF b(6)] and f = same_quote_fields[OF q(2)]
  obtain m where m: "m \<in> set (cs_option_contracts (sn_contract s))"
    "in_security_id (mr_instrument m) = tp_security_id d" "in_symbol (mr_instrument m) = tp_symbol d"
    using symbol_ofD[OF dp(9)] by blast
  note size = position_size_facts[OF dp(10)]
  show ?thesis
    using b(4,7,9) f liquid m q(1) size(1,3-8) assms(2)
    by (intro exI[of _ "finalize d (pr_decision res)"] exI[of _ q] exI[of _ m]) (simp add: b(8) dp(1-8))
qed

lemma actionable_plan_sound_witness:
  "\<exists>plan. pr_trade_plan demo_result = Some plan \<and> tp_stop plan < tp_entry plan \<and> 0 < tp_lots plan
    \<and> tp_option_type plan = CALL"
proof -
  have "0 < conflict_gap (sp_strategy demo_pipeline)" by (simp add: demo_pipeline_def demo_strategy_def)
  from actionable_plan_sound[OF demo_evaluation demo_result_buys this] show ?thesis
    by (auto simp: demo_result_def)
qed

subsection \<open>The ranking\<close>

lemma rank_nth:
  "i < length (rank s cs) \<Longrightarrow> rank s cs ! i = ranked_of (int i + 1) (sort_key (rank_key s) cs ! i)"
  by (simp add: rank_def add.commute)

lemma rank_order:
  assumes "i < j" "j < length (rank s cs)"
  shows "rk_eligible (rank s cs ! j) \<Longrightarrow> rk_eligible (rank s cs ! i)"
    and "rk_eligible (rank s cs ! i) = rk_eligible (rank s cs ! j) \<Longrightarrow>
      rk_score (rank s cs ! j) \<le> rk_score (rank s cs ! i)"
proof -
  have len: "j < length (sort_key (rank_key s) cs)" using assms(2) by (simp add: rank_def)
  have le: "rank_key s (sort_key (rank_key s) cs ! i) \<le> rank_key s (sort_key (rank_key s) cs ! j)"
    using sorted_nth_mono[OF sorted_sort_key, of i j "rank_key s" cs] assms(1) len by simp
  note n = rank_nth[OF assms(2)] rank_nth[of i s cs] 
  show "rk_eligible (rank s cs ! j) \<Longrightarrow> rk_eligible (rank s cs ! i)"
    using le n assms by (auto simp: ranked_of_def rank_key_def less_eq_prod_def)
  show "rk_eligible (rank s cs ! i) = rk_eligible (rank s cs ! j) \<Longrightarrow> rk_score (rank s cs ! j) \<le> rk_score (rank s cs ! i)"
    using le n assms by (auto simp: ranked_of_def rank_key_def less_eq_prod_def)
qed

lemma rank_members:
  "mset (List.map (\<lambda>r. rk_security_id r) (rank s cs)) = mset (List.map (\<lambda>c. oq_security_id (cd_quote c)) cs)"
proof -
  have "List.map rk_security_id (rank s cs) = List.map (\<lambda>c. oq_security_id (cd_quote c)) (sort_key (rank_key s) cs)"
    by (rule nth_equalityI) (simp_all add: rank_nth rank_def ranked_of_def)
  then show ?thesis by simp
qed

text \<open>
  The ranked chain lists every quote of the snapshot exactly once, numbered from one, with the
  eligible strikes first and, among strikes of the same eligibility, never a lower score before a
  higher one.
\<close>

theorem ranking_is_complete_and_ordered:
  assumes "evaluate pl p s r previous modeled now = Inr res"
  shows "mset (List.map rk_security_id (pr_ranked_strikes res)) = mset (List.map oq_security_id (sn_option_chain s))
    \<and> List.map rk_rank (pr_ranked_strikes res) = [1..int (length (sn_option_chain s))]
    \<and> sorted_wrt (\<lambda>a b. (rk_eligible b \<longrightarrow> rk_eligible a) \<and> (rk_eligible a = rk_eligible b \<longrightarrow> rk_score b \<le> rk_score a))
        (pr_ranked_strikes res)"
proof -
  from assms obtain prev cs where e: "candidates_of pl p s prev modeled = Inr cs" "pr_ranked_strikes res = rank s cs"
    by (rule evaluateD)
  note c = candidates_ofD(2,3)[OF e(1)]
  have "List.map rk_rank (rank s cs) = [1..int (length cs)]"
    by (rule nth_equalityI) (simp_all add: rank_nth rank_def ranked_of_def)
  then show ?thesis
    using rank_order[of _ _ s cs] rank_members[of s cs] by (simp add: e(2) c sorted_wrt_iff_nth_less)
qed

lemma ranking_is_complete_and_ordered_witness:
  "mset (List.map rk_security_id (pr_ranked_strikes demo_result)) = {#''C1'', ''P1''#}
    \<and> List.map rk_rank (pr_ranked_strikes demo_result) = [1, 2]"
  using ranking_is_complete_and_ordered[OF demo_evaluation]
  by (simp add: demo_snapshot_def demo_call_quote_def demo_put_quote_def demo_quote_def upto_rec2)

subsection \<open>Two corners\<close>

text \<open>
  On a tie the plan is drafted for the call while the decision is for the put, which a conflict gap
  of zero (an accepted configuration) lets through.
\<close>

lemma tie_drafts_call_and_buys_put:
  assumes "cd_score call = cd_score put"
    and "buy_gates c i" "call_score i = FFinite (cd_score call)" "put_score i = FFinite (cd_score put)"
    and "resolve_decision c i = Inr outcome"
  shows "leading_candidate (Some call) (Some put) = Some call \<and> do_state outcome = BUY_PUT"
  using assms gate_side[of c i]
  by (auto simp: leading_candidate_def side_score_def resolve_decision_def Let_def gate_buy_iff split: if_splits)

text \<open>
  A NaN delta is listed as a reason for rejection, but the risk distance computed for the same quote
  raises, and with it the whole evaluation.
\<close>

lemma nan_delta_aborts_scoring:
  assumes "gk_delta (oq_greeks q) = Some FNaN" "oq_ask q = Some a" "0 < a"
    and "ts_atr_14 (sn_technicals s) = Some t" "0 < t"
  shows "score_candidate pl p s q previous = Inl InvalidOperation"
proof -
  have "evidence_factors pl p s q previous x = Inr None" for x
    using assms(1) by (auto simp: evidence_factors_def Let_def split: option.splits)
  moreover have "risk_distance p s q = Inl InvalidOperation"
    using assms by (simp add: risk_distance_def)
  ultimately show ?thesis by (simp add: score_candidate_def Let_def)
qed

end
