(* ===== verification/Validation.thy ===== *)
theory Validation
  imports Domain Pipeline
begin

text \<open>
  The snapshot validator (\<open>ingestion/validation.py\<close>): every check appends issues to the report,
  in the order of the code.  An issue's \<open>observed\<close> and \<open>expected\<close> values, which are only
  displayed, are left out; prices of a snapshot are finite decimals here, so the \<open>is_finite\<close> tests
  on them hold by type.  The loader of earlier snapshots is a parameter and may raise.
\<close>

subsection \<open>Issues\<close>

definition err :: "string \<Rightarrow> string \<Rightarrow> string \<Rightarrow> validation_issue" where
  "err code path msg = \<lparr>vi_code = code, vi_severity = ERROR, vi_path = path, vi_message = msg\<rparr>"

definition warn :: "string \<Rightarrow> string \<Rightarrow> string \<Rightarrow> validation_issue" where
  "warn code path msg = \<lparr>vi_code = code, vi_severity = WARNING, vi_path = path, vi_message = msg\<rparr>"

definition issue_if :: "bool \<Rightarrow> validation_issue \<Rightarrow> validation_issue list" where
  "issue_if b i = (if b then [i] else [])"

definition issue_codes :: "validation_issue list \<Rightarrow> string list" where
  "issue_codes is = List.map vi_code is"

definition aware_issues :: "datetime \<Rightarrow> string \<Rightarrow> validation_issue list" where
  "aware_issues t path = issue_if (\<not> is_aware t)
     (err ''NAIVE_TIMESTAMP'' path ''timestamp must include an explicit timezone'')"

fun is_positive :: "rat option \<Rightarrow> bool" where
  "is_positive None = False"
| "is_positive (Some x) = (0 < x)"

definition hex_digit :: "char \<Rightarrow> bool" where
  "hex_digit c \<longleftrightarrow> c \<in> set ''0123456789abcdefABCDEF''"

definition is_hex64 :: "string \<Rightarrow> bool" where
  "is_hex64 s \<longleftrightarrow> length s = 64 \<and> list_all hex_digit s"

definition is_sha256 :: "string option \<Rightarrow> bool" where
  "is_sha256 v = (case v of None \<Rightarrow> False | Some s \<Rightarrow> is_hex64 s)"

text \<open>\<open>f"{path}[{index}]"\<close>.\<close>

fun show_nat :: "nat \<Rightarrow> string" where
  "show_nat n = (if n < 10 then [char_of (48 + n)] else show_nat (n div 10) @ [char_of (48 + n mod 10)])"

declare show_nat.simps [simp del]

definition indexed :: "string \<Rightarrow> nat \<Rightarrow> string" where
  "indexed path i = path @ ''['' @ show_nat i @ '']''"

text \<open>\<open>==\<close> of two dicts.\<close>

definition dict_eq :: "('k \<times> 'v) list \<Rightarrow> ('k \<times> 'v) list \<Rightarrow> bool" where
  "dict_eq a b \<longleftrightarrow> list_all (\<lambda>k. map_of a k = map_of b k) (List.map fst a @ List.map fst b)"

text \<open>Seconds from one aware time to another.\<close>

definition age_of :: "datetime \<Rightarrow> datetime \<Rightarrow> rat" where
  "age_of now t = total_seconds (instant now - instant t)"

record validator =
  vd_config :: "rat strategy_config"
  vd_loader :: "(string \<Rightarrow> previous_snapshot option res) option"
  vd_hashers :: hashers

subsection \<open>The envelope\<close>

definition source_age_issues :: "rat strategy_config \<Rightarrow> atomic_snapshot \<Rightarrow> datetime \<Rightarrow> validation_issue list" where
  "source_age_issues c s now =
    (if \<not> is_aware (sn_source_timestamp s) then [] else
     (let age = age_of now (sn_source_timestamp s) in
      issue_if (live_max_age_seconds c < age) (err ''STALE_DATA'' ''source_timestamp''
        ''live snapshot exceeds the maximum data age'')
      @ issue_if (age < - future_clock_skew_seconds c) (err ''FUTURE_DATED_DATA'' ''source_timestamp''
        ''source timestamp is materially ahead of the evaluation clock'')))"

definition latency_issues :: "rat strategy_config \<Rightarrow> atomic_snapshot \<Rightarrow> validation_issue list" where
  "latency_issues c s = issue_if (is_aware (sn_source_timestamp s) \<and> is_aware (sn_received_at s)
       \<and> age_of (sn_received_at s) (sn_source_timestamp s) < - future_clock_skew_seconds c)
     (err ''RECEIVED_BEFORE_SOURCE'' ''received_at''
       ''received time precedes source time beyond clock-skew tolerance'')"

definition component_hash_ok :: "hashers \<Rightarrow> atomic_snapshot \<Rightarrow> bool" where
  "component_hash_ok h s \<longleftrightarrow> (case md_component_hashes (sn_metadata s) of None \<Rightarrow> False
     | Some observed \<Rightarrow> dict_eq observed (component_hashes h s))"

definition raw_option_ok :: "hashers \<Rightarrow> atomic_snapshot \<Rightarrow> bool" where
  "raw_option_ok h s \<longleftrightarrow> (case (md_raw_option_payload (sn_metadata s), md_raw_option_hash (sn_metadata s)) of
     (Some payload, Some digest) \<Rightarrow> is_hex64 digest \<and> hs_payload h payload = digest
       \<and> md_raw_payload_hash (sn_metadata s) = Some digest
   | _ \<Rightarrow> False)"

definition provenance_issues :: "hashers \<Rightarrow> atomic_snapshot \<Rightarrow> validation_issue list" where
  "provenance_issues h s =
    issue_if (\<not> is_sha256 (md_raw_payload_hash (sn_metadata s))) (warn ''RAW_HASH_MISSING''
      ''metadata.raw_payload_hash'' ''raw provider payload lacks a valid SHA-256 content address'')
    @ issue_if (\<not> component_hash_ok h s) (err ''COMPONENT_HASH_MISMATCH''
      ''metadata.normalized_component_hashes''
      ''normalized component hashes do not match the evaluated snapshot'')
    @ issue_if (sn_source s = DHAN_REST \<and> \<not> raw_option_ok h s) (err ''RAW_COMPONENT_PROVENANCE_INVALID''
      ''metadata.raw_component_payloads.option_chain''
      ''Dhan option payload and its content hash must be preserved together'')"

definition validate_envelope :: "validator \<Rightarrow> atomic_snapshot \<Rightarrow> datetime \<Rightarrow> validation_issue list" where
  "validate_envelope v s now =
    issue_if (sn_sequence s < 0) (err ''INVALID_SEQUENCE'' ''sequence'' ''snapshot sequence cannot be negative'')
    @ issue_if (sn_strategy_version s \<noteq> version (vd_config v)) (err ''STRATEGY_VERSION_MISMATCH''
      ''strategy_version'' ''snapshot and active strategy versions differ'')
    @ aware_issues (sn_source_timestamp s) ''source_timestamp''
    @ aware_issues (sn_received_at s) ''received_at''
    @ source_age_issues (vd_config v) s now
    @ latency_issues (vd_config v) s
    @ provenance_issues (vd_hashers v) s"

subsection \<open>The contract\<close>

definition expiry_issues :: "rat strategy_config \<Rightarrow> contract_spec \<Rightarrow> datetime \<Rightarrow> validation_issue list" where
  "expiry_issues cfg c now =
    aware_issues (cs_option_expiry c) ''contract.option_expiry''
    @ (if \<not> is_aware (cs_option_expiry c) then [] else
       (let remaining = age_of (cs_option_expiry c) now in
        if remaining \<le> 0 then [err ''INVALID_EXPIRY'' ''contract.option_expiry''
          ''option expiry must be later than evaluation time'']
        else issue_if (remaining \<le> extreme_expiry_seconds cfg) (warn ''EXTREME_EXPIRY_RISK''
          ''contract.option_expiry'' ''time to expiry is inside the extreme-risk lockout window'')))"

definition spec_issue :: "bool \<Rightarrow> string \<Rightarrow> validation_issue list" where
  "spec_issue positive path = issue_if (\<not> positive) (err ''INVALID_CONTRACT_SPEC'' path
     ''contract-controlled numeric values must be positive'')"

definition master_age_issues :: "rat strategy_config \<Rightarrow> master_provenance \<Rightarrow> datetime \<Rightarrow> validation_issue list" where
  "master_age_issues cfg m now =
    aware_issues (mp_fetched_at m) ''contract.master.fetched_at''
    @ (if \<not> is_aware (mp_fetched_at m) then [] else
       (let age = age_of now (mp_fetched_at m) in
        if instrument_master_max_age_seconds cfg < age then [err ''STALE_CONTRACT_MASTER''
          ''contract.master.fetched_at''
          ''contract metadata is older than the configured master-data limit'']
        else issue_if (age < - future_clock_skew_seconds cfg) (err ''FUTURE_DATED_CONTRACT_MASTER''
          ''contract.master.fetched_at''
          ''contract verification time is ahead of the evaluation clock'')))"

definition master_named :: "master_provenance \<Rightarrow> bool" where
  "master_named m \<longleftrightarrow> py_strip (mp_batch_id m) \<noteq> [] \<and> py_strip (mp_provider m) \<noteq> []
     \<and> py_strip (mp_source_url m) \<noteq> [] \<and> py_strip (mp_schema_version m) \<noteq> []"

definition master_issues :: "rat strategy_config \<Rightarrow> master_provenance \<Rightarrow> datetime \<Rightarrow> validation_issue list" where
  "master_issues cfg m now =
    issue_if (\<not> master_named m) (err ''UNVERIFIED_CONTRACT'' ''contract.master''
      ''contract must identify a persisted instrument-master batch'')
    @ issue_if (\<not> is_hex64 (mp_content_hash m)) (err ''INVALID_MASTER_HASH'' ''contract.master.content_hash''
      ''instrument-master content hash must be a SHA-256 hexadecimal digest'')
    @ issue_if (mp_row_count m \<le> 0) (err ''EMPTY_CONTRACT_MASTER'' ''contract.master.row_count''
      ''instrument-master batch must contain at least one record'')
    @ master_age_issues cfg m now"

fun expected_segment :: "Exchange \<Rightarrow> string" where
  "expected_segment NSE = ''NSE_FNO''"
| "expected_segment BSE = ''BSE_FNO''"
| "expected_segment MCX = ''MCX_COMM''"

definition market_kind_issues :: "contract_spec \<Rightarrow> validation_issue list" where
  "market_kind_issues c = (if cs_market_kind c = COMMODITY
     then issue_if (in_exchange (cs_underlying c) \<noteq> MCX) (err ''MARKET_EXCHANGE_MISMATCH''
         ''contract.underlying.exchange'' ''commodity contracts must use an MCX pricing instrument'')
       @ issue_if (cs_pricing_model c \<noteq> BLACK_76) (err ''WRONG_PRICING_MODEL'' ''contract.pricing_model''
         ''commodity options require Black-76'')
     else issue_if (in_exchange (cs_underlying c) = MCX) (err ''MARKET_EXCHANGE_MISMATCH''
         ''contract.underlying.exchange'' ''index and stock policies cannot use an MCX pricing instrument'')
       @ issue_if (cs_pricing_model c \<noteq> BLACK_SCHOLES) (err ''WRONG_PRICING_MODEL'' ''contract.pricing_model''
         ''NSE/BSE index and stock options require the Black-Scholes policy''))"

text \<open>The one non-empty underlying id that every option record agrees on.\<close>

definition underlying_ids :: "contract_spec \<Rightarrow> string list" where
  "underlying_ids c = remdups (concat (List.map (\<lambda>r. case mr_underlying_security_id r of None \<Rightarrow> []
     | Some u \<Rightarrow> if u = [] then [] else [u]) (cs_option_contracts c)))"

definition underlying_missing :: "contract_spec \<Rightarrow> bool" where
  "underlying_missing c \<longleftrightarrow> list_ex (\<lambda>r. mr_underlying_security_id r = None
     \<or> mr_underlying_security_id r = Some []) (cs_option_contracts c)"

definition derivative_underlying_id :: "contract_spec \<Rightarrow> string option" where
  "derivative_underlying_id c = (case underlying_ids c of [u] \<Rightarrow> if underlying_missing c then None else Some u
     | _ \<Rightarrow> None)"

fun exchange_value :: "Exchange \<Rightarrow> string" where
  "exchange_value NSE = ''NSE''"
| "exchange_value BSE = ''BSE''"
| "exchange_value MCX = ''MCX''"

definition canonical_key :: "instrument_id \<Rightarrow> string" where
  "canonical_key i = exchange_value (in_exchange i) @ '':'' @ in_segment i @ '':'' @ in_security_id i"

definition record_placed :: "contract_spec \<Rightarrow> master_record \<Rightarrow> bool" where
  "record_placed c r \<longleftrightarrow> in_exchange (mr_instrument r) = in_exchange (cs_underlying c)
     \<and> py_upper (in_segment (mr_instrument r)) = expected_segment (in_exchange (cs_underlying c))"

text \<open>Indices and commodities: the shared family id; stocks: the quoted equity itself.\<close>

definition underlying_matches :: "contract_spec \<Rightarrow> master_record \<Rightarrow> bool" where
  "underlying_matches c r \<longleftrightarrow> (if cs_market_kind c = STOCK
     then mr_underlying_security_id r = Some (in_security_id (cs_underlying c))
     else derivative_underlying_id c \<noteq> None \<and> mr_underlying_security_id r = derivative_underlying_id c)"

definition futures_mismatch_message :: "MarketKind \<Rightarrow> string" where
  "futures_mismatch_message k = (case k of
     COMMODITY \<Rightarrow> ''MCX futures and options must share one exact derivative-family underlying ID''
   | INDEX \<Rightarrow> ''index futures and options must share one exact derivative-family underlying ID''
   | STOCK \<Rightarrow> ''stock futures must map directly to the selected equity underlying'')"

definition futures_expiry_issues :: "contract_spec \<Rightarrow> master_record \<Rightarrow> validation_issue list" where
  "futures_expiry_issues c f = (case mr_expiry f of
     None \<Rightarrow> [err ''FUTURES_EXPIRY_MISSING'' ''contract.futures.expiry'' ''mapped futures expiry is required'']
   | Some e \<Rightarrow> aware_issues e ''contract.futures.expiry''
       @ issue_if (is_aware e \<and> is_aware (cs_option_expiry c) \<and> instant e < instant (cs_option_expiry c))
         (err ''FUTURES_EXPIRY_MISMATCH'' ''contract.futures.expiry''
           ''underlying futures cannot expire before the option''))"

definition validate_future_record :: "contract_spec \<Rightarrow> master_record \<Rightarrow> validation_issue list" where
  "validate_future_record c f =
    issue_if (\<not> (record_placed c f \<and> take 3 (py_upper (mr_instrument_type f)) = ''FUT''))
      (err ''FUTURES_MASTER_IDENTITY_MISMATCH'' ''contract.futures''
        ''futures exchange, segment, and instrument type must match the contract'')
    @ issue_if (cs_market_kind c = COMMODITY \<and> canonical_key (mr_instrument f) \<noteq> canonical_key (cs_underlying c))
      (err ''MCX_FUTURES_MAPPING_MISMATCH'' ''contract.futures.instrument''
        ''MCX pricing underlying must be the exact mapped futures instrument'')
    @ issue_if (\<not> underlying_matches c f)
      (err ''FUTURES_UNDERLYING_MISMATCH'' ''contract.futures.underlying_security_id''
        (futures_mismatch_message (cs_market_kind c)))
    @ futures_expiry_issues c f
    @ issue_if (mr_lot_size f \<noteq> Some (cs_lot_size c))
      (err ''FUTURES_MASTER_SPEC_MISMATCH'' ''contract.futures''
        ''futures lot size must match the selected option contract revision'')"

definition futures_issues :: "contract_spec \<Rightarrow> validation_issue list" where
  "futures_issues c = (case cs_futures c of
     None \<Rightarrow> [err ''FUTURES_MAPPING_MISSING'' ''contract.futures''
       ''the exact futures contract must be resolved from the same master batch'']
   | Some f \<Rightarrow> validate_future_record c f)"

definition same_expiry :: "datetime option \<Rightarrow> datetime \<Rightarrow> bool" where
  "same_expiry e t = (case e of None \<Rightarrow> False | Some x \<Rightarrow> dt_eq x t)"

text \<open>One option record of the master, given the keys and ids seen before it.\<close>

definition master_record_issues :: "contract_spec \<Rightarrow> string \<Rightarrow> bool \<Rightarrow> rat \<Rightarrow> master_record \<Rightarrow> validation_issue list" where
  "master_record_issues c path seen strike r =
    issue_if (strike \<le> 0) (err ''INVALID_OPTION_MASTER_STRIKE'' (path @ ''.strike'')
      ''option master strike must be a positive finite decimal'')
    @ issue_if seen (err ''DUPLICATE_OPTION_MASTER_RECORD'' path
      ''master option mappings must have unique strike/side and security ID'')
    @ issue_if (\<not> (record_placed c r \<and> underlying_matches c r)) (err ''OPTION_MASTER_IDENTITY_MISMATCH'' path
      (''index and commodity option records must share one derivative-family underlying ID; ''
        @ ''stock option records must map directly to the selected equity underlying''))
    @ issue_if (\<not> same_expiry (mr_expiry r) (cs_option_expiry c))
      (err ''OPTION_MASTER_EXPIRY_MISMATCH'' (path @ ''.expiry'')
        ''option master expiry must match the selected expiry exactly'')
    @ issue_if (mr_lot_size r \<noteq> Some (cs_lot_size c) \<or> mr_tick_size r \<noteq> Some (cs_tick_size c))
      (err ''OPTION_MASTER_SPEC_MISMATCH'' path
        ''option lot size and tick size must match the contract revision'')"

fun master_records_issues :: "contract_spec \<Rightarrow> nat \<Rightarrow> (rat \<times> OptionType) list \<Rightarrow> string list
    \<Rightarrow> master_record list \<Rightarrow> validation_issue list" where
  "master_records_issues c i keys ids [] = []"
| "master_records_issues c i keys ids (r # rs) =
     (let path = indexed ''contract.option_contracts'' i; sid = in_security_id (mr_instrument r) in
      case (mr_strike r, mr_option_type r) of
        (Some strike, Some side) \<Rightarrow>
          master_record_issues c path ((strike, side) \<in> set keys \<or> sid \<in> set ids) strike r
          @ master_records_issues c (Suc i) ((strike, side) # keys) (sid # ids) rs
      | _ \<Rightarrow> err ''INVALID_OPTION_MASTER_RECORD'' path ''option master record requires strike and side''
          # master_records_issues c (Suc i) keys ids rs)"

definition validate_contract :: "validator \<Rightarrow> atomic_snapshot \<Rightarrow> datetime \<Rightarrow> validation_issue list" where
  "validate_contract v s now =
    (let c = sn_contract s in
     expiry_issues (vd_config v) c now
     @ spec_issue (0 < cs_lot_size c) ''contract.lot_size''
     @ spec_issue (0 < cs_strike_interval c) ''contract.strike_interval''
     @ spec_issue (0 < cs_tick_size c) ''contract.tick_size''
     @ master_issues (vd_config v) (cs_master c) now
     @ market_kind_issues c
     @ futures_issues c
     @ master_records_issues c 0 [] [] (cs_option_contracts c))"

end
