(* ===== verification/Validator.thy ===== *)
theory Validator
  imports Validation
begin

text \<open>
  The rest of the validator: market, technicals, context, the option chain with its change-OI
  references, the coherence of the components, and \<open>validate\<close> itself.
\<close>

subsection \<open>Market, technicals and context\<close>

definition market_field_issue :: "string \<times> rat option \<Rightarrow> validation_issue list" where
  "market_field_issue nv = issue_if (\<not> is_positive (snd nv)) (err ''MARKET_FIELD_MISSING'' (''market.'' @ fst nv)
     ''positive market-structure input is required'')"

definition required_prices :: "market_state \<Rightarrow> (string \<times> rat option) list" where
  "required_prices m = [(''previous_close'', ms_previous_close m), (''day_open'', ms_day_open m),
     (''day_high'', ms_day_high m), (''day_low'', ms_day_low m), (''vwap'', ms_vwap m)]"

fun day_range_inverted :: "rat option \<Rightarrow> rat option \<Rightarrow> bool" where
  "day_range_inverted (Some high) (Some low) = (0 < high \<and> 0 < low \<and> high < low)"
| "day_range_inverted _ _ = False"

definition validate_market :: "atomic_snapshot \<Rightarrow> validation_issue list" where
  "validate_market s =
    (let m = sn_market s; kind = cs_market_kind (sn_contract s) in
     aware_issues (ms_observed_at m) ''market.observed_at''
     @ issue_if (\<not> is_positive (pricing_underlying m kind)) (err ''PRICING_UNDERLYING_MISSING''
         ''market.pricing_underlying'' ''the correct positive pricing underlying is required'')
     @ issue_if (kind \<noteq> COMMODITY \<and> \<not> is_positive (ms_futures_price m)) (err ''FUTURES_PRICE_MISSING''
         ''market.futures_price'' ''relevant futures price is required as directional context'')
     @ concat (List.map market_field_issue (required_prices m))
     @ issue_if (day_range_inverted (ms_day_high m) (ms_day_low m)) (err ''INVALID_DAY_RANGE''
         ''market.day_high'' ''day high cannot be below day low''))"

definition technical_field_issue :: "string \<times> rat option \<Rightarrow> validation_issue list" where
  "technical_field_issue nv = issue_if (\<not> is_positive (snd nv)) (err ''TECHNICAL_FIELD_MISSING''
     (''technicals.'' @ fst nv) ''positive completed-candle indicator is required'')"

fun rsi_in_range :: "rat option \<Rightarrow> bool" where
  "rsi_in_range None = False"
| "rsi_in_range (Some r) = (0 \<le> r \<and> r \<le> 100)"

definition required_indicators :: "technical_state \<Rightarrow> (string \<times> rat option) list" where
  "required_indicators t = [(''ema_9'', ts_ema_9 t), (''ema_21'', ts_ema_21 t), (''wma_44'', ts_wma_44 t),
     (''previous_wma_44'', ts_previous_wma_44 t)]"

definition validate_technicals :: "atomic_snapshot \<Rightarrow> validation_issue list" where
  "validate_technicals s =
    (let t = sn_technicals s in
     aware_issues (ts_observed_at t) ''technicals.observed_at''
     @ issue_if (\<not> ts_completed_candle t) (err ''INCOMPLETE_TECHNICAL_CANDLE'' ''technicals.completed_candle''
         ''technical indicators must use completed candles only'')
     @ concat (List.map technical_field_issue (required_indicators t))
     @ issue_if (\<not> rsi_in_range (ts_rsi_14 t)) (err ''INVALID_RSI'' ''technicals.rsi_14'' ''RSI must be within 0..100'')
     @ issue_if (\<not> is_positive (ts_atr_14 t)) (err ''INVALID_ATR'' ''technicals.atr_14''
         ''ATR must be positive and must not be substituted with RSI'')
     @ issue_if (\<not> is_positive (ts_reference_volatility t)) (err ''REFERENCE_VOLATILITY_MISSING''
         ''technicals.reference_volatility'' ''reference volatility must be a positive decimal ratio''))"

definition float_within :: "float64 \<Rightarrow> rat \<Rightarrow> bool" where
  "float_within f limit \<longleftrightarrow> isfinite f \<and> 0 < flt_val f \<and> flt_val f \<le> limit"

definition signal_candle_issues :: "strategy_context \<Rightarrow> validation_issue list" where
  "signal_candle_issues x =
    (if sc_signal_candle_high x \<le> 0 \<or> sc_signal_candle_low x \<le> 0
     then [err ''SIGNAL_CANDLE_MISSING'' ''context.signal_candle_high''
       ''positive signal-candle high and low are required'']
     else issue_if (sc_signal_candle_high x < sc_signal_candle_low x) (err ''INVALID_SIGNAL_CANDLE''
       ''context.signal_candle_high'' ''signal-candle high cannot be below its low''))"

definition validate_context :: "validator \<Rightarrow> atomic_snapshot \<Rightarrow> validation_issue list" where
  "validate_context v s =
    (let x = sn_context s in
     issue_if (\<not> (dec_is_finite (sc_account_capital x) \<and> 0 < dec_val (sc_account_capital x)))
       (err ''INVALID_ACCOUNT_CAPITAL'' ''context.account_capital'' ''account capital must be positive'')
     @ issue_if (\<not> float_within (sc_risk_per_trade x) (maximum_risk_per_trade (vd_config v)))
       (err ''RISK_LIMIT_EXCEEDED'' ''context.risk_per_trade''
         ''risk per trade must be positive and within the hard ceiling'')
     @ issue_if (\<not> float_within (sc_maximum_premium_allocation x) 1)
       (err ''INVALID_PREMIUM_ALLOCATION'' ''context.maximum_premium_allocation''
         ''premium allocation must be within (0, 1]'')
     @ signal_candle_issues x
     @ issue_if (sc_expected_holding_hours x \<le> 0) (err ''INVALID_HOLDING_PERIOD''
         ''context.expected_holding_hours'' ''expected holding period must be positive'')
     @ issue_if (sc_event_risk_active x = None) (warn ''EVENT_RISK_UNKNOWN'' ''context.event_risk_active''
         ''unknown event risk is accepted for display but blocks a trade decision''))"

subsection \<open>A quote\<close>

definition quote_price_issue :: "string \<Rightarrow> string \<times> rat option \<Rightarrow> validation_issue list" where
  "quote_price_issue path nv = issue_if (\<not> is_positive (snd nv)) (err ''QUOTE_FIELD_MISSING''
     (path @ ''.'' @ fst nv) ''bid, ask, and LTP must be present and positive'')"

definition count_ok :: "int option \<Rightarrow> bool" where
  "count_ok n = (case n of None \<Rightarrow> False | Some k \<Rightarrow> 0 \<le> k)"

definition quote_count_issue :: "string \<Rightarrow> string \<times> int option \<Rightarrow> validation_issue list" where
  "quote_count_issue path nv = issue_if (\<not> count_ok (snd nv)) (err ''QUOTE_FIELD_MISSING''
     (path @ ''.'' @ fst nv) ''volume and open interest must be present and non-negative'')"

fun ask_below_bid :: "rat option \<Rightarrow> rat option \<Rightarrow> bool" where
  "ask_below_bid (Some bid) (Some ask) = (0 < bid \<and> 0 < ask \<and> ask < bid)"
| "ask_below_bid _ _ = False"

definition text_given :: "string option \<Rightarrow> bool" where
  "text_given t \<longleftrightarrow> t \<noteq> None \<and> t \<noteq> Some []"

definition interval_bounded :: "rat strategy_config \<Rightarrow> rat option \<Rightarrow> bool" where
  "interval_bounded c i = (case i of None \<Rightarrow> False | Some x \<Rightarrow> 0 < x \<and> x \<le> live_max_age_seconds c)"

definition change_oi_issues :: "rat strategy_config \<Rightarrow> option_quote \<Rightarrow> DataSource \<Rightarrow> string \<Rightarrow> validation_issue list" where
  "change_oi_issues c q source path =
    (if oq_change_open_interest q = None
     then warn ''CHANGE_OI_BASELINE_REQUIRED'' (path @ ''.change_open_interest'')
         ''snapshot can seed the next interval but cannot produce an OI score''
       # issue_if (oq_change_oi_source_snapshot_id q \<noteq> None \<or> oq_change_oi_interval_seconds q \<noteq> None)
         (err ''ORPHAN_CHANGE_OI_PROVENANCE'' (path @ ''.change_oi_source_snapshot_id'')
           ''change-OI provenance cannot exist without a derived value'')
     else if source \<noteq> DHAN_REST
     then [err ''INVALID_CHANGE_OI_SOURCE'' (path @ ''.change_open_interest'')
       ''intraday change OI may only be derived within the Dhan REST stream'']
     else issue_if (\<not> (text_given (oq_change_oi_source_snapshot_id q)
         \<and> interval_bounded c (oq_change_oi_interval_seconds q)))
       (err ''INVALID_CHANGE_OI_PROVENANCE'' (path @ ''.change_oi_source_snapshot_id'')
         ''change OI requires a prior accepted snapshot and bounded positive interval''))"

definition positive_float_field :: "float64 option \<Rightarrow> bool" where
  "positive_float_field f = (case f of None \<Rightarrow> False | Some x \<Rightarrow> isfinite x \<and> 0 < flt_val x)"

definition wide_spread :: "rat strategy_config \<Rightarrow> option_quote \<Rightarrow> bool" where
  "wide_spread c q = (case quote_spread_ratio q of None \<Rightarrow> False | Some r \<Rightarrow> maximum_spread_ratio c < r)"

definition validate_quote :: "rat strategy_config \<Rightarrow> option_quote \<Rightarrow> DataSource \<Rightarrow> string \<Rightarrow> validation_issue list" where
  "validate_quote c q source path =
    aware_issues (oq_expiry q) (path @ ''.expiry'')
    @ aware_issues (oq_observed_at q) (path @ ''.observed_at'')
    @ issue_if (oq_strike q \<le> 0) (err ''INVALID_STRIKE'' (path @ ''.strike'') ''strike must be positive'')
    @ concat (List.map (quote_price_issue path) [(''bid'', oq_bid q), (''ask'', oq_ask q), (''ltp'', oq_ltp q)])
    @ issue_if (ask_below_bid (oq_bid q) (oq_ask q)) (err ''ASK_BELOW_BID'' (path @ ''.ask'') ''ask cannot be below bid'')
    @ issue_if (wide_spread c q) (warn ''WIDE_SPREAD'' (path @ ''.spread_ratio'')
        ''leg exceeds the configured executable spread'')
    @ concat (List.map (quote_count_issue path) [(''volume'', oq_volume q), (''open_interest'', oq_open_interest q)])
    @ change_oi_issues c q source path
    @ issue_if (\<not> positive_float_field (oq_implied_volatility q)) (err ''IV_UNAVAILABLE''
        (path @ ''.implied_volatility'')
        ''the current IV-dependent policy cannot score a leg without positive IV'')"

subsection \<open>The reference of a change in open interest\<close>

type_synonym cache = "(string \<times> previous_snapshot option) list"

definition reference_path :: "string \<Rightarrow> string" where
  "reference_path path = path @ ''.change_oi_source_snapshot_id''"

definition not_accepted :: "string \<Rightarrow> validation_issue" where
  "not_accepted path = err ''CHANGE_OI_REFERENCE_NOT_ACCEPTED'' (reference_path path)
     ''referenced change-OI snapshot is not an accepted snapshot''"

text \<open>The referenced snapshot, loaded at most once; a failed load is remembered as absent.\<close>

definition load_reference :: "validator \<Rightarrow> cache \<Rightarrow> string \<Rightarrow> string
    \<Rightarrow> (validation_issue + previous_snapshot) \<times> cache" where
  "load_reference v loaded rid path = (case vd_loader v of
     None \<Rightarrow> (Inl (err ''CHANGE_OI_REFERENCE_UNAVAILABLE'' (reference_path path)
        ''change OI cannot be accepted without loading its accepted prior snapshot''), loaded)
   | Some load \<Rightarrow> (case map_of loaded rid of
        Some None \<Rightarrow> (Inl (not_accepted path), loaded)
      | Some (Some previous) \<Rightarrow> (Inr previous, loaded)
      | None \<Rightarrow> (case load rid of
           Inl e \<Rightarrow> (Inl (err ''CHANGE_OI_REFERENCE_LOAD_FAILED'' (reference_path path)
             ''accepted prior snapshot could not be loaded''), (rid, None) # loaded)
         | Inr None \<Rightarrow> (Inl (not_accepted path), (rid, None) # loaded)
         | Inr (Some previous) \<Rightarrow> (Inr previous, (rid, Some previous) # loaded))))"

definition reference_matches :: "platform \<Rightarrow> atomic_snapshot \<Rightarrow> string \<Rightarrow> previous_snapshot \<Rightarrow> bool" where
  "reference_matches pl s rid previous \<longleftrightarrow> pv_snapshot_id previous = rid \<and> pv_source previous = DHAN_REST
     \<and> pv_contract_key previous = env_contract_key pl (sn_contract s) \<and> pv_sequence previous < sn_sequence s"

definition same_leg :: "option_quote \<Rightarrow> option_quote \<Rightarrow> bool" where
  "same_leg q prior \<longleftrightarrow> oq_security_id prior = oq_security_id q \<and> oq_strike prior = oq_strike q
     \<and> oq_option_type prior = oq_option_type q \<and> dt_eq (oq_expiry prior) (oq_expiry q)"

definition interval_coherent :: "atomic_snapshot \<Rightarrow> option_quote \<Rightarrow> previous_snapshot \<Rightarrow> option_quote \<Rightarrow> bool" where
  "interval_coherent s q previous prior \<longleftrightarrow>
     instant (sn_source_timestamp s) = instant (oq_observed_at q)
     \<and> instant (pv_source_timestamp previous) = instant (oq_observed_at prior)
     \<and> 0 < age_of (sn_source_timestamp s) (pv_source_timestamp previous)
     \<and> age_of (oq_observed_at q) (oq_observed_at prior) = age_of (sn_source_timestamp s) (pv_source_timestamp previous)
     \<and> (case oq_change_oi_interval_seconds q of None \<Rightarrow> False
        | Some d \<Rightarrow> \<bar>fsub d (age_of (oq_observed_at q) (oq_observed_at prior))\<bar> \<le> fround (1 / 1000000000))"

definition delta_matches :: "option_quote \<Rightarrow> option_quote \<Rightarrow> bool" where
  "delta_matches q prior = (case (oq_open_interest prior, oq_open_interest q) of
     (Some before, Some after) \<Rightarrow> oq_change_open_interest q = Some (after - before) | _ \<Rightarrow> False)"

definition all_aware :: "atomic_snapshot \<Rightarrow> option_quote \<Rightarrow> previous_snapshot \<Rightarrow> option_quote \<Rightarrow> bool" where
  "all_aware s q previous prior \<longleftrightarrow> is_aware (sn_source_timestamp s) \<and> is_aware (oq_observed_at q)
     \<and> is_aware (pv_source_timestamp previous) \<and> is_aware (oq_observed_at prior)"

definition reference_issues :: "platform \<Rightarrow> atomic_snapshot \<Rightarrow> option_quote \<Rightarrow> string \<Rightarrow> string
    \<Rightarrow> previous_snapshot \<Rightarrow> validation_issue list" where
  "reference_issues pl s q path rid previous =
    (if \<not> reference_matches pl s rid previous
     then [err ''CHANGE_OI_REFERENCE_MISMATCH'' (reference_path path)
       ''referenced snapshot must be an earlier Dhan snapshot of the exact contract'']
     else (case filter (same_leg q) (pv_option_chain previous) of
       [prior] \<Rightarrow> if \<not> all_aware s q previous prior
         then [err ''CHANGE_OI_TIMESTAMP_INVALID'' (path @ ''.change_oi_interval_seconds'')
           ''current and prior source/leg timestamps must all be timezone-aware'']
         else issue_if (\<not> interval_coherent s q previous prior) (err ''CHANGE_OI_INTERVAL_MISMATCH''
             (path @ ''.change_oi_interval_seconds'')
             ''declared interval must exactly match coherent prior/current source and leg times'')
           @ issue_if (\<not> delta_matches q prior) (err ''CHANGE_OI_DELTA_MISMATCH''
             (path @ ''.change_open_interest'')
             (''change OI must equal current open interest minus the exact prior leg's open interest''))
     | _ \<Rightarrow> [err ''CHANGE_OI_PRIOR_LEG_MISMATCH'' (reference_path path)
         ''referenced snapshot must contain exactly one matching security/expiry/strike/side'']))"

definition change_oi_reference_issues :: "validator \<Rightarrow> platform \<Rightarrow> atomic_snapshot \<Rightarrow> option_quote \<Rightarrow> string
    \<Rightarrow> cache \<Rightarrow> validation_issue list \<times> cache" where
  "change_oi_reference_issues v pl s q path loaded =
    (if oq_change_open_interest q = None then ([], loaded) else
     (case oq_change_oi_source_snapshot_id q of None \<Rightarrow> ([], loaded)
      | Some rid \<Rightarrow> if rid = [] \<or> sn_source s \<noteq> DHAN_REST then ([], loaded) else
         (case load_reference v loaded rid path of
            (Inl i, loaded') \<Rightarrow> ([i], loaded')
          | (Inr previous, loaded') \<Rightarrow> (reference_issues pl s q path rid previous, loaded'))))"

subsection \<open>The chain\<close>

definition master_by_key :: "contract_spec \<Rightarrow> rat \<times> OptionType \<Rightarrow> master_record option" where
  "master_by_key c key = find (\<lambda>r. mr_strike r = Some (fst key) \<and> mr_option_type r = Some (snd key))
     (rev (cs_option_contracts c))"

definition security_id_issues :: "string \<Rightarrow> string list \<Rightarrow> string \<Rightarrow> validation_issue list" where
  "security_id_issues sid ids path =
    (if sid = [] then [err ''SECURITY_ID_MISSING'' (path @ ''.security_id'') ''provider security ID is required'']
     else issue_if (sid \<in> set ids) (err ''DUPLICATE_SECURITY_ID'' (path @ ''.security_id'')
       ''security ID cannot identify more than one option leg''))"

definition listing_issues :: "contract_spec \<Rightarrow> option_quote \<Rightarrow> string \<Rightarrow> validation_issue list" where
  "listing_issues c q path = (case master_by_key c (quote_key q) of
     None \<Rightarrow> [err ''OPTION_NOT_IN_CONTRACT_MASTER'' path
       ''strike and side are absent from the selected master revision'']
   | Some r \<Rightarrow> issue_if (in_security_id (mr_instrument r) \<noteq> oq_security_id q) (err ''OPTION_SECURITY_ID_MISMATCH''
       (path @ ''.security_id'') ''quote security ID does not match the master strike/side mapping''))"

fun chain_issues :: "validator \<Rightarrow> platform \<Rightarrow> atomic_snapshot \<Rightarrow> nat \<Rightarrow> (rat \<times> OptionType) list \<Rightarrow> string list
    \<Rightarrow> cache \<Rightarrow> option_quote list \<Rightarrow> validation_issue list" where
  "chain_issues v pl s i keys ids loaded [] = []"
| "chain_issues v pl s i keys ids loaded (q # qs) =
    (let path = indexed ''option_chain'' i in
     (case change_oi_reference_issues v pl s q path loaded of (reference, loaded') \<Rightarrow>
     issue_if (quote_key q \<in> set keys) (err ''DUPLICATE_STRIKE_SIDE'' path
       ''strike and option side must be unique within a snapshot'')
     @ security_id_issues (oq_security_id q) ids path
     @ listing_issues (sn_contract s) q path
     @ issue_if (\<not> dt_eq (oq_expiry q) (cs_option_expiry (sn_contract s))) (err ''MIXED_EXPIRY'' (path @ ''.expiry'')
       ''option leg expiry differs from the selected contract'')
     @ validate_quote (vd_config v) q (sn_source s) path
     @ reference
     @ issue_if (oq_change_oi_source_snapshot_id q = Some (sn_snapshot_id s)) (err ''SELF_REFERENTIAL_CHANGE_OI''
       (reference_path path) ''change OI cannot derive from the current snapshot'')
     @ chain_issues v pl s (Suc i) (quote_key q # keys) (oq_security_id q # ids) loaded' qs))"

definition positive_strikes :: "option_quote list \<Rightarrow> rat list" where
  "positive_strikes qs = sort (remdups (filter (\<lambda>k. 0 < k) (List.map oq_strike qs)))"

definition window_strikes :: "rat \<Rightarrow> rat \<Rightarrow> rat list" where
  "window_strikes atm interval = List.map (\<lambda>n. dadd atm (dmul (of_int n) interval)) [- 2, - 1, 0, 1, 2]"

definition window_keys :: "rat list \<Rightarrow> (rat \<times> OptionType) list" where
  "window_keys ks = concat (List.map (\<lambda>k. [(k, CALL), (k, PUT)]) ks)"

definition window_issues :: "contract_spec \<Rightarrow> option_quote list \<Rightarrow> rat list \<Rightarrow> validation_issue list" where
  "window_issues c qs expected =
    issue_if (\<not> list_all (\<lambda>k. k \<in> set (positive_strikes qs)) expected) (err ''FIVE_STRIKE_TOPOLOGY_INVALID''
      ''option_chain'' ''ATM-2 through ATM+2 are not present at the verified interval'')
    @ issue_if (\<not> list_all (\<lambda>k. master_by_key c k \<noteq> None) (window_keys expected))
      (err ''FIVE_STRIKE_MASTER_MAPPING_MISSING'' ''contract.option_contracts''
        ''verified master must map both sides of ATM-2 through ATM+2'')
    @ issue_if (\<not> list_all (\<lambda>k. k \<in> set (List.map quote_key qs)) (window_keys expected))
      (err ''FIVE_STRIKE_LEG_MISSING'' ''option_chain''
        ''both CE and PE are required for each of the five strikes'')"

definition topology_issues :: "atomic_snapshot \<Rightarrow> validation_issue list res" where
  "topology_issues s =
    (case pricing_underlying (sn_market s) (cs_market_kind (sn_contract s)) of None \<Rightarrow> Inr []
     | Some u \<Rightarrow> if u \<le> 0 then Inr [] else
        (let strikes = positive_strikes (sn_option_chain s); interval = cs_strike_interval (sn_contract s) in
         if length strikes < 5 then Inr [err ''FIVE_STRIKES_UNAVAILABLE'' ''option_chain''
           ''at least five unique strikes are required'']
         else bindr (nearest_atm u strikes) (\<lambda>atm.
           if interval \<le> 0 then Inr []
           else Inr (window_issues (sn_contract s) (sn_option_chain s) (window_strikes atm interval)))))"

definition validate_chain :: "validator \<Rightarrow> platform \<Rightarrow> atomic_snapshot \<Rightarrow> validation_issue list res" where
  "validate_chain v pl s =
    (if sn_option_chain s = []
     then Inr [err ''OPTION_CHAIN_MISSING'' ''option_chain'' ''option chain cannot be empty'']
     else bindr (topology_issues s) (\<lambda>topology.
       Inr (chain_issues v pl s 0 [] [] [] (sn_option_chain s) @ topology)))"

subsection \<open>Coherence and the report\<close>

definition component_times :: "atomic_snapshot \<Rightarrow> (string \<times> datetime) list" where
  "component_times s = [(''source_timestamp'', sn_source_timestamp s),
      (''market.observed_at'', ms_observed_at (sn_market s)),
      (''technicals.observed_at'', ts_observed_at (sn_technicals s))]
    @ List.map (\<lambda>(i, q). (indexed ''option_chain'' i @ ''.observed_at'', oq_observed_at q))
        (zip [0..<length (sn_option_chain s)] (sn_option_chain s))"

definition component_issues :: "rat strategy_config \<Rightarrow> datetime \<Rightarrow> string \<times> datetime \<Rightarrow> validation_issue list" where
  "component_issues c now pt = (case pt of (path, t) \<Rightarrow>
     if \<not> is_aware t then [] else
     (let age = age_of now t in
      if live_max_age_seconds c < age then [err ''STALE_COMPONENT'' path ''snapshot component is stale'']
      else issue_if (age < - future_clock_skew_seconds c) (err ''FUTURE_DATED_COMPONENT'' path
        ''snapshot component is ahead of the evaluation clock'')))"

definition aware_instants :: "atomic_snapshot \<Rightarrow> int list" where
  "aware_instants s = List.map instant (filter is_aware (List.map snd (component_times s)))"

definition validate_component_coherence :: "validator \<Rightarrow> atomic_snapshot \<Rightarrow> datetime \<Rightarrow> validation_issue list" where
  "validate_component_coherence v s now =
    concat (List.map (component_issues (vd_config v) now) (component_times s))
    @ (if aware_instants s = [] then []
       else issue_if (component_skew_seconds (vd_config v)
           < total_seconds (Max (set (aware_instants s)) - Min (set (aware_instants s))))
         (err ''ATOMIC_SNAPSHOT_SKEW'' ''snapshot''
           ''components do not belong to one coherent evaluation window''))"

definition report_of :: "platform \<Rightarrow> atomic_snapshot \<Rightarrow> validation_issue list \<Rightarrow> validation_report" where
  "report_of pl s is = \<lparr>vr_issues = is, vr_snapshot_id = Some (sn_snapshot_id s),
     vr_snapshot_hash = Some (env_snapshot_hash pl s)\<rparr>"

definition validate :: "validator \<Rightarrow> platform \<Rightarrow> atomic_snapshot \<Rightarrow> datetime \<Rightarrow> validation_report res" where
  "validate v pl s now =
    (if \<not> is_aware now then Inr (report_of pl s (aware_issues now ''evaluation_time''))
     else bindr (validate_chain v pl s) (\<lambda>chain.
       Inr (report_of pl s (validate_envelope v s now @ validate_contract v s now @ validate_market s
         @ validate_technicals s @ validate_context v s @ chain @ validate_component_coherence v s now))))"

end
