(* ===== verification/ValidationSpec.thy ===== *)
theory ValidationSpec
  imports Validator
begin

text \<open>
  What an accepted snapshot is, stated without issues and loops, and the proof that the validator
  accepts exactly these snapshots.
\<close>

subsection \<open>Reports without errors\<close>

named_theorems clean_simps \<open>error-free lists of issues\<close>

definition clean :: "validation_issue list \<Rightarrow> bool" where
  "clean is \<longleftrightarrow> list_all (\<lambda>i. vi_severity i \<noteq> ERROR) is"

lemma report_accepted_clean: "report_accepted r \<longleftrightarrow> clean (vr_issues r)"
  by (auto simp: report_accepted_def clean_def list_ex_iff list_all_iff)

lemma clean_basics [clean_simps]:
  "clean []" "clean (is @ js) \<longleftrightarrow> clean is \<and> clean js" "\<not> clean (err c p m # is)"
  "clean (warn c p m # is) = clean is" "clean (issue_if b (err c p m)) \<longleftrightarrow> \<not> b" "clean (issue_if b (warn c p m))"
  "clean (concat (List.map f xs)) \<longleftrightarrow> (\<forall>x\<in>set xs. clean (f x))" "clean (aware_issues t path) = is_aware t"
  by (auto simp: clean_def err_def warn_def issue_if_def aware_issues_def list_all_iff)

lemma clean_if [clean_simps]: "clean (if b then is else js) \<longleftrightarrow> (if b then clean is else clean js)"
  by simp

lemma is_positive_iff [clean_simps]: "is_positive x \<longleftrightarrow> (\<exists>v. x = Some v \<and> 0 < v)"
  by (cases x) auto

subsection \<open>Sound components\<close>

definition timely :: "rat strategy_config \<Rightarrow> datetime \<Rightarrow> datetime \<Rightarrow> bool" where
  "timely c now t \<longleftrightarrow> - future_clock_skew_seconds c \<le> age_of now t \<and> age_of now t \<le> live_max_age_seconds c"

definition sound_envelope :: "validator \<Rightarrow> atomic_snapshot \<Rightarrow> datetime \<Rightarrow> bool" where
  "sound_envelope v s now \<longleftrightarrow> 0 \<le> sn_sequence s \<and> sn_strategy_version s = version (vd_config v)
     \<and> is_aware (sn_source_timestamp s) \<and> is_aware (sn_received_at s)
     \<and> timely (vd_config v) now (sn_source_timestamp s)
     \<and> - future_clock_skew_seconds (vd_config v) \<le> age_of (sn_received_at s) (sn_source_timestamp s)
     \<and> component_hash_ok (vd_hashers v) s \<and> (sn_source s = DHAN_REST \<longrightarrow> raw_option_ok (vd_hashers v) s)"

lemma validate_envelope_clean: "clean (validate_envelope v s now) \<longleftrightarrow> sound_envelope v s now"
  by (auto simp: validate_envelope_def sound_envelope_def source_age_issues_def latency_issues_def
      provenance_issues_def timely_def Let_def clean_simps not_less not_le)

definition sound_master :: "rat strategy_config \<Rightarrow> master_provenance \<Rightarrow> datetime \<Rightarrow> bool" where
  "sound_master c m now \<longleftrightarrow> master_named m \<and> is_hex64 (mp_content_hash m) \<and> 0 < mp_row_count m
     \<and> is_aware (mp_fetched_at m) \<and> - future_clock_skew_seconds c \<le> age_of now (mp_fetched_at m)
     \<and> age_of now (mp_fetched_at m) \<le> instrument_master_max_age_seconds c"

definition sound_future :: "contract_spec \<Rightarrow> master_record \<Rightarrow> bool" where
  "sound_future c f \<longleftrightarrow> record_placed c f \<and> take 3 (py_upper (mr_instrument_type f)) = ''FUT''
     \<and> (cs_market_kind c = COMMODITY \<longrightarrow> canonical_key (mr_instrument f) = canonical_key (cs_underlying c))
     \<and> underlying_matches c f \<and> mr_lot_size f = Some (cs_lot_size c)
     \<and> (\<exists>e. mr_expiry f = Some e \<and> is_aware e
          \<and> (is_aware (cs_option_expiry c) \<longrightarrow> instant (cs_option_expiry c) \<le> instant e))"

definition sound_option_record :: "contract_spec \<Rightarrow> master_record \<Rightarrow> bool" where
  "sound_option_record c r \<longleftrightarrow> (\<exists>k. mr_strike r = Some k \<and> 0 < k) \<and> mr_option_type r \<noteq> None
     \<and> record_placed c r \<and> underlying_matches c r \<and> same_expiry (mr_expiry r) (cs_option_expiry c)
     \<and> mr_lot_size r = Some (cs_lot_size c) \<and> mr_tick_size r = Some (cs_tick_size c)"

definition record_key :: "master_record \<Rightarrow> rat option \<times> OptionType option" where
  "record_key r = (mr_strike r, mr_option_type r)"

definition sound_master_records :: "contract_spec \<Rightarrow> bool" where
  "sound_master_records c \<longleftrightarrow> (\<forall>r\<in>set (cs_option_contracts c). sound_option_record c r)
     \<and> distinct (List.map record_key (cs_option_contracts c))
     \<and> distinct (List.map (\<lambda>r. in_security_id (mr_instrument r)) (cs_option_contracts c))"

lemma master_records_clean:
  "clean (master_records_issues c i keys ids rs) \<longleftrightarrow> (\<forall>r\<in>set rs. sound_option_record c r)
     \<and> distinct (List.map record_key rs) \<and> distinct (List.map (\<lambda>r. in_security_id (mr_instrument r)) rs)
     \<and> (\<forall>r\<in>set rs. record_key r \<notin> (\<lambda>(k, t). (Some k, Some t)) ` set keys
          \<and> in_security_id (mr_instrument r) \<notin> set ids)"
proof (induction rs arbitrary: i keys ids)
  case (Cons r rs)
  show ?case
  proof (cases "mr_strike r = None \<or> mr_option_type r = None")
    case True
    then show ?thesis
      by (auto simp: sound_option_record_def clean_simps Let_def split: option.splits)
  next
    case False
    then obtain k t where kt: "mr_strike r = Some k" "mr_option_type r = Some t" by auto
    show ?thesis
      by (auto simp: kt Cons.IH master_record_issues_def sound_option_record_def record_key_def clean_simps Let_def
        not_le image_iff)
  qed
qed (simp add: clean_simps)

definition sound_contract :: "validator \<Rightarrow> contract_spec \<Rightarrow> datetime \<Rightarrow> bool" where
  "sound_contract v c now \<longleftrightarrow> is_aware (cs_option_expiry c) \<and> 0 < age_of (cs_option_expiry c) now
     \<and> 0 < cs_lot_size c \<and> 0 < cs_strike_interval c \<and> 0 < cs_tick_size c
     \<and> sound_master (vd_config v) (cs_master c) now
     \<and> (cs_market_kind c = COMMODITY \<longleftrightarrow> in_exchange (cs_underlying c) = MCX)
     \<and> (cs_pricing_model c = (if cs_market_kind c = COMMODITY then BLACK_76 else BLACK_SCHOLES))
     \<and> (\<exists>f. cs_futures c = Some f \<and> sound_future c f) \<and> sound_master_records c"

lemma future_record_clean: "clean (validate_future_record c f) \<longleftrightarrow> sound_future c f"
  by (auto simp: validate_future_record_def sound_future_def futures_expiry_issues_def clean_simps not_less
      split: option.splits)

lemma master_clean: "clean (master_issues cfg m now) \<longleftrightarrow> sound_master cfg m now"
  by (auto simp: master_issues_def master_age_issues_def sound_master_def clean_simps Let_def not_less not_le)

lemma validate_contract_clean: "clean (validate_contract v s now) \<longleftrightarrow> sound_contract v (sn_contract s) now"
proof -
  have e: "clean (expiry_issues cfg c now) \<longleftrightarrow> is_aware (cs_option_expiry c) \<and> 0 < age_of (cs_option_expiry c) now" for cfg c
    by (auto simp: expiry_issues_def clean_simps Let_def not_le)
  have f: "clean (futures_issues c) \<longleftrightarrow> (\<exists>f. cs_futures c = Some f \<and> sound_future c f)" for c
    by (auto simp: futures_issues_def clean_simps future_record_clean split: option.splits)
  have k: "clean (market_kind_issues c) \<longleftrightarrow> (cs_market_kind c = COMMODITY \<longleftrightarrow> in_exchange (cs_underlying c) = MCX)
      \<and> (cs_pricing_model c = (if cs_market_kind c = COMMODITY then BLACK_76 else BLACK_SCHOLES))" for c
    by (auto simp: market_kind_issues_def clean_simps)
  show ?thesis
    by (auto simp: validate_contract_def sound_contract_def Let_def clean_simps e f k spec_issue_def
      master_clean master_records_clean sound_master_records_def)
qed

definition sound_market :: "market_state \<Rightarrow> MarketKind \<Rightarrow> bool" where
  "sound_market m kind \<longleftrightarrow> is_aware (ms_observed_at m) \<and> is_positive (pricing_underlying m kind)
     \<and> is_positive (ms_futures_price m)
     \<and> list_all is_positive [ms_previous_close m, ms_day_open m, ms_day_high m, ms_day_low m, ms_vwap m]
     \<and> (\<forall>h l. ms_day_high m = Some h \<longrightarrow> ms_day_low m = Some l \<longrightarrow> l \<le> h)"

lemma validate_market_clean:
  "clean (validate_market s) \<longleftrightarrow> sound_market (sn_market s) (cs_market_kind (sn_contract s))"
  by (auto simp: validate_market_def sound_market_def required_prices_def market_field_issue_def
      pricing_underlying_def clean_simps Let_def not_less)

definition sound_technicals :: "technical_state \<Rightarrow> bool" where
  "sound_technicals t \<longleftrightarrow> is_aware (ts_observed_at t) \<and> ts_completed_candle t
     \<and> list_all is_positive [ts_ema_9 t, ts_ema_21 t, ts_wma_44 t, ts_previous_wma_44 t, ts_atr_14 t,
          ts_reference_volatility t] \<and> rsi_in_range (ts_rsi_14 t)"

lemma validate_technicals_clean: "clean (validate_technicals s) \<longleftrightarrow> sound_technicals (sn_technicals s)"
  by (auto simp: validate_technicals_def sound_technicals_def required_indicators_def technical_field_issue_def
      clean_simps Let_def)

definition sound_context :: "rat strategy_config \<Rightarrow> strategy_context \<Rightarrow> bool" where
  "sound_context c x \<longleftrightarrow> (\<exists>a. sc_account_capital x = Finite a \<and> 0 < a)
     \<and> float_within (sc_risk_per_trade x) (maximum_risk_per_trade c)
     \<and> float_within (sc_maximum_premium_allocation x) 1
     \<and> 0 < sc_signal_candle_low x \<and> sc_signal_candle_low x \<le> sc_signal_candle_high x
     \<and> 0 < sc_expected_holding_hours x"

lemma validate_context_clean: "clean (validate_context v s) \<longleftrightarrow> sound_context (vd_config v) (sn_context s)"
proof -
  have a: "dec_is_finite d \<and> 0 < dec_val d \<longleftrightarrow> (\<exists>a. d = Finite a \<and> 0 < a)" for d by (cases d) auto
  show ?thesis
    by (auto simp: validate_context_def sound_context_def signal_candle_issues_def clean_simps Let_def a not_less not_le)
qed

subsection \<open>Sound chains\<close>

definition sound_quote :: "rat strategy_config \<Rightarrow> DataSource \<Rightarrow> option_quote \<Rightarrow> bool" where
  "sound_quote c source q \<longleftrightarrow> is_aware (oq_expiry q) \<and> is_aware (oq_observed_at q) \<and> 0 < oq_strike q
     \<and> (\<exists>b a. oq_bid q = Some b \<and> oq_ask q = Some a \<and> 0 < b \<and> b \<le> a) \<and> is_positive (oq_ltp q)
     \<and> count_ok (oq_volume q) \<and> count_ok (oq_open_interest q) \<and> positive_float_field (oq_implied_volatility q)
     \<and> (if oq_change_open_interest q = None
        then oq_change_oi_source_snapshot_id q = None \<and> oq_change_oi_interval_seconds q = None
        else source = DHAN_REST \<and> text_given (oq_change_oi_source_snapshot_id q)
          \<and> interval_bounded c (oq_change_oi_interval_seconds q))"

lemma validate_quote_clean: "clean (validate_quote c q source path) \<longleftrightarrow> sound_quote c source q"
proof -
  have o: "clean (change_oi_issues c q source path) \<longleftrightarrow> (if oq_change_open_interest q = None
      then oq_change_oi_source_snapshot_id q = None \<and> oq_change_oi_interval_seconds q = None
      else source = DHAN_REST \<and> text_given (oq_change_oi_source_snapshot_id q)
        \<and> interval_bounded c (oq_change_oi_interval_seconds q))"
    by (simp add: change_oi_issues_def clean_simps)
  show ?thesis
    unfolding validate_quote_def sound_quote_def
    by (auto simp: o quote_price_issue_def quote_count_issue_def clean_simps not_le not_less)
qed

text \<open>The reference behind a declared change in open interest.\<close>

definition sound_reference :: "validator \<Rightarrow> platform \<Rightarrow> atomic_snapshot \<Rightarrow> option_quote \<Rightarrow> bool" where
  "sound_reference v pl s q \<longleftrightarrow> (\<exists>rid load previous prior.
     oq_change_oi_source_snapshot_id q = Some rid \<and> vd_loader v = Some load \<and> load rid = Inr (Some previous)
     \<and> reference_matches pl s rid previous \<and> filter (same_leg q) (pv_option_chain previous) = [prior]
     \<and> all_aware s q previous prior \<and> interval_coherent s q previous prior \<and> delta_matches q prior)"

text \<open>What a load amounts to, an exception counting as absent; the cache holds nothing else.\<close>

definition accepted_load :: "(string \<Rightarrow> previous_snapshot option res) \<Rightarrow> string \<Rightarrow> previous_snapshot option" where
  "accepted_load load rid = (case load rid of Inl _ \<Rightarrow> None | Inr p \<Rightarrow> p)"

definition cache_ok :: "validator \<Rightarrow> cache \<Rightarrow> bool" where
  "cache_ok v loaded \<longleftrightarrow> (\<forall>load rid x. vd_loader v = Some load \<longrightarrow> map_of loaded rid = Some x \<longrightarrow> x = accepted_load load rid)"

lemma accepted_load_iff: "accepted_load load rid = Some p \<longleftrightarrow> load rid = Inr (Some p)"
  by (auto simp: accepted_load_def split: sum.splits)

lemma load_reference_cases:
  assumes "cache_ok v loaded" "load_reference v loaded rid path = (out, loaded')"
  shows "cache_ok v loaded'"
    and "out = Inr previous \<longleftrightarrow> (\<exists>load. vd_loader v = Some load \<and> load rid = Inr (Some previous))"
    and "out = Inl i \<Longrightarrow> vi_severity i = ERROR"
proof -
  have hit: "x = accepted_load load rid" if "vd_loader v = Some load" "map_of loaded rid = Some x" for load x
    using assms(1) that by (simp add: cache_ok_def)
  show "cache_ok v loaded'"
    using assms by (auto simp: load_reference_def cache_ok_def accepted_load_def split: option.splits sum.splits if_splits)
  show "out = Inr previous \<longleftrightarrow> (\<exists>load. vd_loader v = Some load \<and> load rid = Inr (Some previous))"
    unfolding accepted_load_iff[symmetric] using assms(2) hit
    by (auto simp: load_reference_def accepted_load_def split: option.splits sum.splits)
  show "out = Inl i \<Longrightarrow> vi_severity i = ERROR"
    using assms(2) by (auto simp: load_reference_def not_accepted_def err_def split: option.splits sum.splits)
qed

lemma reference_issues_clean:
  "clean (reference_issues pl s q path rid previous) \<longleftrightarrow> reference_matches pl s rid previous
     \<and> (\<exists>prior. filter (same_leg q) (pv_option_chain previous) = [prior] \<and> all_aware s q previous prior
        \<and> interval_coherent s q previous prior \<and> delta_matches q prior)"
  by (auto simp: reference_issues_def clean_simps split: list.splits)

lemma change_reference_clean:
  assumes "cache_ok v loaded" "change_oi_reference_issues v pl s q path loaded = (is, loaded')"
    and "sound_quote (vd_config v) (sn_source s) q"
  shows "clean is \<longleftrightarrow> oq_change_open_interest q = None \<or> sound_reference v pl s q"
proof (cases "oq_change_open_interest q = None")
  case True
  then show ?thesis using assms(2) by (simp add: change_oi_reference_issues_def clean_simps)
next
  case False
  then obtain rid where r: "oq_change_oi_source_snapshot_id q = Some rid" "rid \<noteq> []" "sn_source s = DHAN_REST"
    using assms(3) by (auto simp: sound_quote_def text_given_def)
  obtain out where l: "load_reference v loaded rid path = (out, loaded')"
    using assms(2) False r by (auto simp: change_oi_reference_issues_def split: prod.splits sum.splits)
  note c = load_reference_cases[OF assms(1) l]
  show ?thesis
  proof (cases out)
    case (Inl i)
    then have "is = [i]" using assms(2) False r l by (simp add: change_oi_reference_issues_def)
    moreover have "\<not> sound_reference v pl s q" using c(2) Inl r(1) by (auto simp: sound_reference_def)
    ultimately show ?thesis using False c(3)[OF Inl] by (simp add: clean_def)
  next
    case (Inr previous)
    then have "is = reference_issues pl s q path rid previous"
      using assms(2) False r l by (simp add: change_oi_reference_issues_def)
    moreover obtain load where "vd_loader v = Some load" "load rid = Inr (Some previous)" using c(2) Inr by blast
    ultimately show ?thesis using False r(1) by (auto simp: reference_issues_clean sound_reference_def)
  qed
qed

lemma change_reference_cache:
  "cache_ok v loaded \<Longrightarrow> change_oi_reference_issues v pl s q path loaded = (is, loaded') \<Longrightarrow> cache_ok v loaded'"
  by (auto simp: change_oi_reference_issues_def split: if_splits option.splits prod.splits sum.splits
      dest: load_reference_cases(1))

definition sound_leg :: "validator \<Rightarrow> platform \<Rightarrow> atomic_snapshot \<Rightarrow> option_quote \<Rightarrow> bool" where
  "sound_leg v pl s q \<longleftrightarrow> oq_security_id q \<noteq> []
     \<and> (\<exists>r. master_by_key (sn_contract s) (quote_key q) = Some r \<and> in_security_id (mr_instrument r) = oq_security_id q)
     \<and> dt_eq (oq_expiry q) (cs_option_expiry (sn_contract s)) \<and> sound_quote (vd_config v) (sn_source s) q
     \<and> (oq_change_open_interest q = None \<or> sound_reference v pl s q)
     \<and> oq_change_oi_source_snapshot_id q \<noteq> Some (sn_snapshot_id s)"

lemma chain_clean:
  assumes "cache_ok v loaded"
  shows "clean (chain_issues v pl s i keys ids loaded qs) \<longleftrightarrow> (\<forall>q\<in>set qs. sound_leg v pl s q)
     \<and> distinct (List.map quote_key qs) \<and> distinct (List.map oq_security_id qs)
     \<and> (\<forall>q\<in>set qs. quote_key q \<notin> set keys \<and> oq_security_id q \<notin> set ids)"
  using assms
proof (induction qs arbitrary: i keys ids loaded)
  case (Cons q qs)
  obtain reference loaded' where r: "change_oi_reference_issues v pl s q (indexed ''option_chain'' i) loaded = (reference, loaded')"
    by (cases "change_oi_reference_issues v pl s q (indexed ''option_chain'' i) loaded")
  note IH = Cons.IH[OF change_reference_cache[OF Cons.prems r]]
  have id: "clean (security_id_issues sid ids path) \<longleftrightarrow> sid \<noteq> [] \<and> sid \<notin> set ids" for sid path
    by (auto simp: security_id_issues_def clean_simps)
  have li: "clean (listing_issues c q path) \<longleftrightarrow> (\<exists>r. master_by_key c (quote_key q) = Some r
      \<and> in_security_id (mr_instrument r) = oq_security_id q)" for c path
    by (auto simp: listing_issues_def clean_simps split: option.splits)
  show ?case
  proof (cases "sound_quote (vd_config v) (sn_source s) q")
    case True
    note ref = change_reference_clean[OF Cons.prems r True]
    have fresh: "k \<in> f ` set qs \<longleftrightarrow> (\<exists>x\<in>set qs. f x = k)" for f :: "option_quote \<Rightarrow> 'b" and k by auto
    show ?thesis using True
      by (simp add: Let_def r IH ref id li clean_simps validate_quote_clean sound_leg_def fresh) blast
  next
    case False
    then show ?thesis by (simp add: Let_def r clean_simps validate_quote_clean sound_leg_def)
  qed
qed (simp add: clean_simps)

text \<open>Five strikes around the money, both sides of each quoted and listed.\<close>

definition five_strikes :: "atomic_snapshot \<Rightarrow> bool" where
  "five_strikes s \<longleftrightarrow> (\<exists>u atm. pricing_underlying (sn_market s) (cs_market_kind (sn_contract s)) = Some u
     \<and> 5 \<le> length (positive_strikes (sn_option_chain s))
     \<and> nearest_atm u (positive_strikes (sn_option_chain s)) = Inr atm
     \<and> (\<forall>k\<in>set (window_strikes atm (cs_strike_interval (sn_contract s))).
          k \<in> set (positive_strikes (sn_option_chain s))
          \<and> (\<forall>ty. (k, ty) \<in> quote_key ` set (sn_option_chain s) \<and> master_by_key (sn_contract s) (k, ty) \<noteq> None)))"

lemma all_types: "(\<forall>ty. P ty) \<longleftrightarrow> P CALL \<and> P PUT"
  by (metis OptionType.exhaust)

lemma topology_total:
  "\<exists>is. topology_issues s = Inr is"
  by (auto simp: topology_issues_def Let_def nearest_atm_def split: option.splits)

lemma topology_clean:
  assumes "topology_issues s = Inr is" "0 < cs_strike_interval (sn_contract s)"
    and "is_positive (pricing_underlying (sn_market s) (cs_market_kind (sn_contract s)))"
  shows "clean is \<longleftrightarrow> five_strikes s"
proof -
  obtain u where u: "pricing_underlying (sn_market s) (cs_market_kind (sn_contract s)) = Some u" "0 < u"
    using assms(3) by (auto simp: clean_simps)
  show ?thesis
  proof (cases "length (positive_strikes (sn_option_chain s)) < 5")
    case True
    then show ?thesis using assms(1) u by (auto simp: topology_issues_def five_strikes_def clean_simps Let_def)
  next
    case False
    then have "positive_strikes (sn_option_chain s) \<noteq> []" by auto
    then obtain atm where a: "nearest_atm u (positive_strikes (sn_option_chain s)) = Inr atm"
      using u(2) by (auto simp: nearest_atm_def not_le[symmetric])
    have "is = window_issues (sn_contract s) (sn_option_chain s) (window_strikes atm (cs_strike_interval (sn_contract s)))"
      using assms(1,2) u a False by (simp add: topology_issues_def Let_def)
    then show ?thesis using u a False
      by (auto simp: window_issues_def five_strikes_def window_keys_def clean_simps list_all_iff all_types not_less)
  qed
qed

definition sound_chain :: "validator \<Rightarrow> platform \<Rightarrow> atomic_snapshot \<Rightarrow> bool" where
  "sound_chain v pl s \<longleftrightarrow> sn_option_chain s \<noteq> [] \<and> (\<forall>q\<in>set (sn_option_chain s). sound_leg v pl s q)
     \<and> distinct (List.map quote_key (sn_option_chain s)) \<and> distinct (List.map oq_security_id (sn_option_chain s))
     \<and> five_strikes s"

lemma validate_chain_total: "\<exists>is. validate_chain v pl s = Inr is"
  using topology_total[of s] by (auto simp: validate_chain_def)

lemma validate_chain_clean:
  assumes "validate_chain v pl s = Inr is" "0 < cs_strike_interval (sn_contract s)"
    and "is_positive (pricing_underlying (sn_market s) (cs_market_kind (sn_contract s)))"
  shows "clean is \<longleftrightarrow> sound_chain v pl s"
proof (cases "sn_option_chain s = []")
  case True
  then show ?thesis using assms(1) by (auto simp: validate_chain_def sound_chain_def clean_simps)
next
  case False
  then obtain t where t: "topology_issues s = Inr t" "is = chain_issues v pl s 0 [] [] [] (sn_option_chain s) @ t"
    using assms(1) by (auto simp: validate_chain_def bindr_eq_Inr)
  have "cache_ok v []" by (simp add: cache_ok_def)
  from chain_clean[OF this] topology_clean[OF t(1) assms(2,3)] False show ?thesis
    by (auto simp: t(2) sound_chain_def clean_simps)
qed

definition coherent :: "rat strategy_config \<Rightarrow> atomic_snapshot \<Rightarrow> datetime \<Rightarrow> bool" where
  "coherent c s now \<longleftrightarrow> (\<forall>t\<in>snd ` set (component_times s). is_aware t \<longrightarrow> timely c now t)
     \<and> (\<forall>a\<in>set (aware_instants s). \<forall>b\<in>set (aware_instants s). total_seconds (a - b) \<le> component_skew_seconds c)"

lemma skew_bound:
  assumes "xs \<noteq> []"
  shows "total_seconds (Max (set xs) - Min (set xs)) \<le> c \<longleftrightarrow> (\<forall>a\<in>set xs. \<forall>b\<in>set xs. total_seconds (a - b) \<le> c)"
proof
  assume c: "total_seconds (Max (set xs) - Min (set xs)) \<le> c"
  show "\<forall>a\<in>set xs. \<forall>b\<in>set xs. total_seconds (a - b) \<le> c"
  proof (intro ballI)
    fix a b assume "a \<in> set xs" "b \<in> set xs"
    then have "a - b \<le> Max (set xs) - Min (set xs)" by (intro diff_mono) auto
    from total_seconds_mono[OF this] c show "total_seconds (a - b) \<le> c" by simp
  qed
qed (use assms in auto)

lemma coherence_clean: "clean (validate_component_coherence v s now) \<longleftrightarrow> coherent (vd_config v) s now"
proof -
  have one: "clean (component_issues c now pt) \<longleftrightarrow> (is_aware (snd pt) \<longrightarrow> timely c now (snd pt))" for c pt
    by (cases pt) (auto simp: component_issues_def timely_def clean_simps Let_def not_less)
  show ?thesis
    by (cases "aware_instants s = []")
      (auto simp: validate_component_coherence_def coherent_def clean_simps one skew_bound not_less)
qed

subsection \<open>The decision of the validator\<close>

definition sound_snapshot :: "validator \<Rightarrow> platform \<Rightarrow> atomic_snapshot \<Rightarrow> datetime \<Rightarrow> bool" where
  "sound_snapshot v pl s now \<longleftrightarrow> is_aware now \<and> sound_envelope v s now \<and> sound_contract v (sn_contract s) now
     \<and> sound_market (sn_market s) (cs_market_kind (sn_contract s)) \<and> sound_technicals (sn_technicals s)
     \<and> sound_context (vd_config v) (sn_context s) \<and> sound_chain v pl s \<and> coherent (vd_config v) s now"

lemma validate_total: "\<exists>r. validate v pl s now = Inr r"
  using validate_chain_total[of v pl s] by (auto simp: validate_def)

lemma validate_accepts:
  assumes "validate v pl s now = Inr r"
  shows "report_accepted r \<longleftrightarrow> sound_snapshot v pl s now"
proof (cases "is_aware now")
  case False
  then show ?thesis
    using assms by (auto simp: validate_def report_accepted_clean report_of_def sound_snapshot_def clean_simps)
next
  case True
  then obtain chain where c: "validate_chain v pl s = Inr chain"
    and r: "clean (vr_issues r) \<longleftrightarrow> sound_envelope v s now \<and> sound_contract v (sn_contract s) now
     \<and> sound_market (sn_market s) (cs_market_kind (sn_contract s)) \<and> sound_technicals (sn_technicals s)
     \<and> sound_context (vd_config v) (sn_context s) \<and> clean chain \<and> coherent (vd_config v) s now"
    using assms by (auto simp: validate_def report_of_def bindr_eq_Inr clean_simps validate_envelope_clean
      validate_contract_clean validate_market_clean validate_technicals_clean validate_context_clean coherence_clean)
  have "clean chain \<longleftrightarrow> sound_chain v pl s"
    if "sound_contract v (sn_contract s) now" "sound_market (sn_market s) (cs_market_kind (sn_contract s))"
    using validate_chain_clean[OF c] that by (simp add: sound_contract_def sound_market_def)
  then show ?thesis using r True by (auto simp: report_accepted_clean sound_snapshot_def)
qed

end
