(* ===== verification/ValidationDemo.thy ===== *)
theory ValidationDemo
  imports ValidationSpec PipelineDemo
begin

text \<open>
  A Dhan snapshot of the five strikes around the money, in which one call and one put continue an
  accepted snapshot: the validator accepts it and the pipeline buys the call.
\<close>

definition demo_hashers :: hashers where
  "demo_hashers = \<lparr>hs_contract = (\<lambda>_. ''c''), hs_market = (\<lambda>_. ''m''), hs_technicals = (\<lambda>_. ''t''),
     hs_context = (\<lambda>_. ''x''), hs_chain = (\<lambda>_. ''q''), hs_payload = (\<lambda>_. replicate 64 (CHR ''1''))\<rparr>"

definition demo_validator :: validator where
  "demo_validator = \<lparr>vd_config = demo_strategy,
     vd_loader = Some (\<lambda>i. Inr (if i = ''s1'' then Some demo_previous else None)), vd_hashers = demo_hashers\<rparr>"

definition demo_other_quotes :: "option_quote list" where
  "demo_other_quotes = List.map (\<lambda>(i, n, k, t). demo_quote i k t 100 (if t = CALL then 1 / 2 else - 1 / 2) 1000000 None
     (at_utc (seconds 60))) demo_other_legs"

definition demo_full :: atomic_snapshot where
  "demo_full = init_snapshot demo_hashers (demo_snapshot\<lparr>sn_option_chain := [demo_call_quote, demo_put_quote] @ demo_other_quotes\<rparr>)"

lemma demo_full_accepted: "sound_snapshot demo_validator demo_platform demo_full demo_now"
proof -
  have "clean (validate_envelope demo_validator demo_full demo_now)"
    "clean (validate_contract demo_validator demo_full demo_now)" "clean (validate_market demo_full)"
    "clean (validate_technicals demo_full)" "clean (validate_context demo_validator demo_full)"
    "clean (validate_component_coherence demo_validator demo_full demo_now)" "is_aware demo_now" by code_simp+
  moreover have "case validate_chain demo_validator demo_platform demo_full of Inl e \<Rightarrow> False | Inr is \<Rightarrow> clean is"
    by code_simp
  ultimately obtain r where r: "validate demo_validator demo_platform demo_full demo_now = Inr r" "report_accepted r"
    by (auto simp: validate_def report_accepted_clean report_of_def clean_simps split: sum.splits)
  then show ?thesis using validate_accepts by blast
qed

subsection \<open>Evaluation of the full chain\<close>

lemma score_candidate_other_chain:
  "score_candidate pl p (s\<lparr>sn_option_chain := qs, sn_metadata := m\<rparr>) q v = score_candidate pl p s q v"
proof -
  let ?t = "s\<lparr>sn_option_chain := qs, sn_metadata := m\<rparr>"
  have r: "risk_distance p ?t q = risk_distance p s q"
    by (simp add: risk_distance_def cong: option.case_cong float64.case_cong if_cong)
  have g: "greeks_factor p ?t q d l = greeks_factor p s q d l" for d l by (simp add: greeks_factor_def)
  have e: "expected_premium_move ?t u x d = expected_premium_move s u x d" for u x d
    by (simp add: expected_premium_move_def)
  have f: "factors_of pl p ?t q u cs l pv iv x d k = factors_of pl p s q u cs l pv iv x d k" for u cs l pv iv x d k
    by (simp add: factors_of_def r g e cong: option.case_cong)
  have "evidence_factors pl p ?t q v x = evidence_factors pl p s q v x" for x
    by (simp add: evidence_factors_def f Let_def cong: option.case_cong float64.case_cong if_cong)
  moreover have "quote_reasons p ?t q v = quote_reasons p s q v" by (simp add: quote_reasons_def)
  ultimately show ?thesis by (simp add: score_candidate_def r)
qed

lemma leading_draft_other_chain:
  "leading_draft pl p (s\<lparr>sn_option_chain := qs, sn_metadata := m\<rparr>) c x y t = leading_draft pl p s c x y t"
  by (simp add: leading_draft_def draft_plan_def plan_identity_def cong: option.case_cong if_cong)

text \<open>A quote without an earlier one is scored zero and not eligible.\<close>

definition idle_candidate :: "pipeline \<Rightarrow> atomic_snapshot \<Rightarrow> option_quote \<Rightarrow> rat option \<Rightarrow> candidate" where
  "idle_candidate p s q d =
    (let l = liquidity_score (sp_strategy p) (oq_bid q) (oq_ask q) (oq_volume q) (oq_open_interest q) in
     \<lparr>cd_quote = q, cd_score = 0, cd_evidence = None, cd_liquidity_score = lr_score l, cd_eligible = False,
       cd_rejection_reasons = first_occurrences (lr_rejection_reasons l @ quote_reasons p s q None),
       cd_risk_distance = d\<rparr>)"

lemma score_without_previous:
  assumes "risk_distance p s q = Inr d"
  shows "score_candidate pl p s q None = Inr (idle_candidate p s q d)"
proof -
  have "evidence_factors pl p s q None x = Inr None" for x
    by (auto simp: evidence_factors_def Let_def split: option.splits)
  then show ?thesis using assms by (simp add: score_candidate_def idle_candidate_def Let_def)
qed

lemma best_append_idle:
  "list_all (\<lambda>c. \<not> cd_eligible c) ds \<Longrightarrow> best (cs @ ds) ty = best cs ty"
  by (auto simp: best_def list_all_iff filter_empty_conv intro!: arg_cong[where f = "case_list None _"])

definition demo_idle :: "option_quote \<Rightarrow> candidate" where
  "demo_idle q = idle_candidate demo_pipeline demo_snapshot q (Some (101 / 4))"

lemma demo_idle_ineligible: "list_all (\<lambda>c. \<not> cd_eligible c) (List.map demo_idle qs)"
  by (auto simp: list_all_iff demo_idle_def idle_candidate_def Let_def)

lemma demo_full_eq: "\<exists>m. demo_full = demo_snapshot\<lparr>sn_option_chain := [demo_call_quote, demo_put_quote] @ demo_other_quotes,
    sn_metadata := m\<rparr>"
  by (simp add: demo_full_def init_snapshot_def) blast

lemma demo_full_fields:
  "score_candidate pl p demo_full q v = score_candidate pl p demo_snapshot q v"
  "leading_draft pl p demo_full c x y t = leading_draft pl p demo_snapshot c x y t"
  "sn_option_chain demo_full = [demo_call_quote, demo_put_quote] @ demo_other_quotes"
  "confirmed_price demo_full c = confirmed_price demo_snapshot c"
  "previous_by_security pl p demo_full pv = previous_by_security pl p demo_snapshot pv"
  "sn_source_timestamp demo_full = sn_source_timestamp demo_snapshot" "sn_contract demo_full = sn_contract demo_snapshot"
  "sn_context demo_full = sn_context demo_snapshot" "sn_snapshot_id demo_full = sn_snapshot_id demo_snapshot"
proof -
  obtain m where m: "demo_full = demo_snapshot\<lparr>sn_option_chain := [demo_call_quote, demo_put_quote] @ demo_other_quotes,
      sn_metadata := m\<rparr>" using demo_full_eq by blast
  show "score_candidate pl p demo_full q v = score_candidate pl p demo_snapshot q v"
    unfolding m by (rule score_candidate_other_chain)
  show "leading_draft pl p demo_full c x y t = leading_draft pl p demo_snapshot c x y t"
    unfolding m by (rule leading_draft_other_chain)
  show "previous_by_security pl p demo_full pv = previous_by_security pl p demo_snapshot pv"
    unfolding m by (simp add: previous_by_security_def cong: option.case_cong if_cong)
  show "confirmed_price demo_full c = confirmed_price demo_snapshot c"
    unfolding m by (simp add: confirmed_price_def cong: option.case_cong)
  show "sn_option_chain demo_full = [demo_call_quote, demo_put_quote] @ demo_other_quotes"
    "sn_source_timestamp demo_full = sn_source_timestamp demo_snapshot" "sn_contract demo_full = sn_contract demo_snapshot"
    "sn_context demo_full = sn_context demo_snapshot" "sn_snapshot_id demo_full = sn_snapshot_id demo_snapshot"
    unfolding m by simp_all
qed

lemma demo_full_candidates:
  "candidates_of demo_platform demo_pipeline demo_full
     [(''C1'', demo_old ''C1'' CALL 80), (''P1'', demo_old ''P1'' PUT 125)] None
   = Inr ([demo_call, demo_put] @ List.map demo_idle demo_other_quotes)"
proof -
  have "list_all (\<lambda>q. risk_distance demo_pipeline demo_snapshot q = Inr (Some (101 / 4))) demo_other_quotes"
    by code_simp
  then have "score_candidate demo_platform demo_pipeline demo_snapshot q None = Inr (demo_idle q)"
    if "q \<in> set demo_other_quotes" for q
    using that score_without_previous by (auto simp: list_all_iff demo_idle_def)
  moreover have "oq_security_id q \<notin> {''C1'', ''P1''}" if "q \<in> set demo_other_quotes" for q
    using that by (auto simp: demo_other_quotes_def demo_other_legs_def demo_quote_def)
  ultimately have "traverse (\<lambda>q. bindr (modelled_quote None q) (\<lambda>q'. score_candidate demo_platform demo_pipeline demo_snapshot q'
      (map_of [(''C1'', demo_old ''C1'' CALL 80), (''P1'', demo_old ''P1'' PUT 125)] (oq_security_id q)))) demo_other_quotes
      = Inr (List.map demo_idle demo_other_quotes)"
    by (intro traverse_eq_Inr[THEN iffD2]) (auto simp: list_all2_map2 list_all2_same modelled_quote_def)
  moreover have "oq_security_id demo_call_quote = ''C1''" "oq_security_id demo_put_quote = ''P1''" by code_simp+
  ultimately show ?thesis
    by (simp add: candidates_of_def demo_full_fields modelled_quote_def demo_candidates demo_call_def demo_put_def)
qed

lemma demo_full_evaluation:
  assumes "report_accepted r" "require_bound_report demo_platform demo_full r = Inr ()"
  shows "\<exists>res. evaluate demo_platform demo_pipeline demo_full r (Some demo_previous) None demo_now = Inr res
    \<and> pr_decision res = BUY_CALL"
proof -
  let ?cs = "[demo_call, demo_put] @ List.map demo_idle demo_other_quotes"
  have t: "is_aware demo_now = True" "check_modelled demo_full None = Inr ()"
    "dt_minus demo_now (sn_source_timestamp demo_snapshot) = Inr 1000000"
    "dt_minus (cs_option_expiry (sn_contract demo_snapshot)) demo_now = Inr 7883999000000"
    "total_seconds 1000000 = 1" "total_seconds 7883999000000 = 7883999" by code_simp+
  have ok: "report_accepted demo_validation" by code_simp
  have best: "best ?cs CALL = Some demo_call" "best ?cs PUT = Some demo_put"
    unfolding best_append_idle[OF demo_idle_ineligible] by (rule demo_best)+
  have "inputs_of demo_pipeline demo_full r ?cs (Some demo_call) (Some demo_put) (Some True) d 1 7883999
      = inputs_of demo_pipeline demo_snapshot demo_validation [demo_call, demo_put] (Some demo_call) (Some demo_put) (Some True) d 1 7883999" for d
    using assms(1) ok by (simp add: inputs_of_def demo_full_fields demo_call_def demo_candidate_def)
  then show ?thesis
    unfolding evaluate_def t check_def if_True bindr_simps assms(2) demo_full_fields demo_previous_quotes
      demo_full_candidates Let_def best demo_leading demo_confirmed demo_side_scores demo_leading_draft
    by (simp add: demo_decision)
qed

end
