(* ===== verification/ValidationClaims.thy ===== *)
theory ValidationClaims
  imports ValidationDemo SignalClaims
begin

text \<open>What the validator decides, and what it guarantees to the pipeline behind it.\<close>


lemma data_complete_accepted: "data_complete (inputs_of p s r cs call put confirmed draft age left) \<Longrightarrow> report_accepted r"
  by (simp add: inputs_of_def)



end
