(* ===== verification/Adapters.thy ===== *)
theory Adapters
  imports Pipeline ExecModels BtModels
begin

text \<open>
  The adapters of \<open>signals/adapters.py\<close>: a signal plan becomes an execution plan or a replay
  signal, only when it is actionable and bound to the snapshot it came from.  Durations are
  microseconds.
\<close>

definition value_error :: "bool \<Rightarrow> string \<Rightarrow> unit res" where
  "value_error bad msg = (if bad then Inl (ValueError msg) else Inr ())"

lemma value_error_eq_Inr [res_simps]: "value_error bad msg = Inr u \<longleftrightarrow> \<not> bad"
  by (simp add: value_error_def)

definition same_snapshot :: "platform \<Rightarrow> signal_plan \<Rightarrow> atomic_snapshot \<Rightarrow> bool" where
  "same_snapshot pl plan s \<longleftrightarrow> tp_snapshot_id plan = sn_snapshot_id s
     \<and> tp_contract_key plan = env_contract_key pl (sn_contract s)
     \<and> tp_strategy_version plan = sn_strategy_version s"

definition require_same_snapshot :: "platform \<Rightarrow> signal_plan \<Rightarrow> atomic_snapshot \<Rightarrow> unit res" where
  "require_same_snapshot pl plan s =
     value_error (\<not> same_snapshot pl plan s) ''trade plan is not bound to the supplied snapshot''"

definition default_validity :: int where "default_validity = seconds 30"
definition default_expiry_buffer :: int where "default_expiry_buffer = seconds 900"
definition default_replay_validity :: int where "default_replay_validity = seconds 300"

definition to_execution_plan :: "platform \<Rightarrow> signal_plan \<Rightarrow> atomic_snapshot \<Rightarrow> int \<Rightarrow> int \<Rightarrow> trade_plan res" where
  "to_execution_plan pl plan s validity buffer =
    bindr (require_same_snapshot pl plan s) (\<lambda>_.
    bindr (value_error (\<not> tp_actionable plan) ''only an actionable BUY plan can enter execution control'') (\<lambda>_.
    bindr (value_error (validity \<le> 0 \<or> buffer < 0) ''execution validity and expiry buffer are invalid'') (\<lambda>_.
    bindr (dt_min (tp_expiry plan) (plus_us (tp_generated_at plan) validity)) (\<lambda>valid_until.
    bindr (dt_minus (tp_expiry plan) (tp_generated_at plan)) (\<lambda>left.
      Inr \<lparr>pl_signal_id = tp_signal_id plan, pl_correlation_id = tp_signal_id plan,
        pl_symbol = tp_symbol plan, pl_security_id = tp_security_id plan, pl_side = BUY,
        pl_quantity = tp_quantity plan, pl_limit_price = Finite (tp_entry plan),
        pl_maximum_loss = Finite (dmul (tp_risk_per_lot plan) (of_int (tp_lots plan))),
        pl_signal_time = tp_generated_at plan, pl_data_time = sn_source_timestamp s,
        pl_valid_until = valid_until, pl_contract_expiry = tp_expiry plan,
        pl_event_risk_active = sc_event_risk_active (sn_context s),
        pl_expiry_risk_clear = (buffer < left), pl_strategy_version = tp_strategy_version plan\<rparr>)))))"

subsection \<open>Replay signals\<close>

definition moneyness_of :: "OptionType \<Rightarrow> rat \<Rightarrow> rat \<Rightarrow> rat \<Rightarrow> string" where
  "moneyness_of ty strike underlying interval =
    (let distance = dsub strike underlying in
     if dabs distance \<le> ddiv interval 2 then ''ATM''
     else if (if ty = CALL then distance < 0 else 0 < distance) then ''ITM'' else ''OTM'')"

definition expiry_bucket_of :: "rat \<Rightarrow> string" where
  "expiry_bucket_of days = (if days \<le> 1 then ''0-1D'' else if days \<le> 7 then ''2-7D''
     else if days \<le> 30 then ''8-30D'' else ''31D+'')"

text \<open>\<open>iv / reference\<close> compared with 0.8 and 1.2; comparisons with NaN are false.\<close>

fun volatility_bucket_of :: "rat option \<Rightarrow> float64 option \<Rightarrow> string" where
  "volatility_bucket_of (Some ref) (Some iv) = (if ref \<le> 0 then ''UNKNOWN'' else
     (case iv of FFinite v \<Rightarrow> (let q = fdiv v ref in
          if q < fround (8 / 10) then ''LOW'' else if q \<le> fround (12 / 10) then ''NORMAL'' else ''HIGH'')
      | FInfinite negative \<Rightarrow> if negative then ''LOW'' else ''HIGH''
      | FNaN \<Rightarrow> ''HIGH''))"
| "volatility_bucket_of _ _ = ''UNKNOWN''"

fun regime_of :: "rat option \<Rightarrow> rat option \<Rightarrow> rat \<Rightarrow> string" where
  "regime_of (Some e9) (Some e21) u = (if e9 < u \<and> e21 < e9 then ''BULLISH''
     else if u < e9 \<and> e9 < e21 then ''BEARISH'' else ''SIDEWAYS'')"
| "regime_of _ _ u = ''UNKNOWN''"

definition digit_char :: "int \<Rightarrow> char" where
  "digit_char n = char_of (48 + nat n)"

text \<open>\<open>strftime("%H:00")\<close>.\<close>

definition time_bucket_of :: "datetime \<Rightarrow> string" where
  "time_bucket_of t = [digit_char (local_hour t div 10), digit_char (local_hour t mod 10)] @ '':00''"

text \<open>\<open>timedelta(hours=h)\<close>: whole hours exactly, the rest as a float rounded half to even.\<close>

definition truncate_float :: "rat \<Rightarrow> int" where
  "truncate_float h = (if 0 \<le> h then \<lfloor>h\<rfloor> else \<lceil>h\<rceil>)"

definition hours_delta :: "rat \<Rightarrow> int" where
  "hours_delta h = (let n = truncate_float h in n * 3600000000 + rhe (fmul (h - of_int n) 3600000000))"

definition replay_tags :: "platform \<Rightarrow> signal_plan \<Rightarrow> atomic_snapshot \<Rightarrow> (string \<times> string) list" where
  "replay_tags pl plan s = [(''snapshot_id'', sn_snapshot_id s),
     (''contract_key'', env_contract_key pl (sn_contract s)), (''evidence_version'', tp_evidence_version plan)]"

definition replay_signal :: "platform \<Rightarrow> signal_plan \<Rightarrow> atomic_snapshot \<Rightarrow> rat \<Rightarrow> rat \<Rightarrow> option_quote \<Rightarrow> rat
    \<Rightarrow> datetime \<Rightarrow> (float64, decimal) backtest_signal" where
  "replay_signal pl plan s u target q days valid_until =
    \<lparr>bs_signal_id = tp_signal_id plan, bs_instrument_id = tp_security_id plan,
     bs_generated_at = tp_generated_at plan, bs_option_side = option_type_value (tp_option_type plan),
     bs_lots = tp_lots plan, bs_lot_size = tp_lot_size plan, bs_stop_price = Finite (tp_stop plan),
     bs_target_price = Finite target, bs_contract_expiry = tp_expiry plan, bs_score = FFinite (tp_score plan),
     bs_score_band = score_band_value (score_band (config_vals DEFAULT_STRATEGY_CONFIG) (tp_score plan)),
     bs_market = market_kind_value (cs_market_kind (sn_contract s)), bs_expiry_bucket = expiry_bucket_of days,
     bs_moneyness = moneyness_of (tp_option_type plan) (tp_strike plan) u (cs_strike_interval (sn_contract s)),
     bs_time_bucket = time_bucket_of (tp_generated_at plan),
     bs_volatility_bucket = volatility_bucket_of (ts_reference_volatility (sn_technicals s)) (oq_implied_volatility q),
     bs_regime = regime_of (ts_ema_9 (sn_technicals s)) (ts_ema_21 (sn_technicals s)) u,
     bs_max_holding = Some (hours_delta (sc_expected_holding_hours (sn_context s))),
     bs_valid_until = Some valid_until, bs_tags = replay_tags pl plan s\<rparr>"

definition to_backtest_signal :: "platform \<Rightarrow> signal_plan \<Rightarrow> atomic_snapshot \<Rightarrow> int \<Rightarrow> int \<Rightarrow> signal res" where
  "to_backtest_signal pl plan s target_index validity =
    bindr (require_same_snapshot pl plan s) (\<lambda>_.
    bindr (value_error (\<not> tp_actionable plan) ''only an actionable BUY plan can be replayed'') (\<lambda>_.
    bindr (value_error (target_index < 0 \<or> int (length (tp_targets plan)) \<le> target_index)
      ''target index is outside the generated trade plan'') (\<lambda>_.
    bindr (value_error (validity \<le> 0) ''backtest signal validity must be positive'') (\<lambda>_.
    case pricing_underlying (sn_market s) (cs_market_kind (sn_contract s)) of
      None \<Rightarrow> Inl (ValueError ''pricing underlying is unavailable'')
    | Some u \<Rightarrow>
       (case find (\<lambda>q. oq_security_id q = tp_security_id plan) (sn_option_chain s) of
          None \<Rightarrow> Inl (ValueError ''trade-plan security is absent from its source snapshot'')
        | Some q \<Rightarrow>
           bindr (dt_minus (tp_expiry plan) (tp_generated_at plan)) (\<lambda>left.
           bindr (dt_min (tp_expiry plan) (plus_us (tp_generated_at plan) validity)) (\<lambda>valid_until.
             mk_backtest_signal (replay_signal pl plan s u (tp_targets plan ! nat target_index) q
               (fdiv (total_seconds left) 86400) valid_until))))))))"

subsection \<open>What the adapters keep\<close>

lemma to_execution_planD:
  assumes "to_execution_plan pl plan s validity buffer = Inr x"
  shows "same_snapshot pl plan s" "tp_actionable plan" "0 < validity" "0 \<le> buffer"
    "pl_signal_id x = tp_signal_id plan" "pl_correlation_id x = tp_signal_id plan" "pl_symbol x = tp_symbol plan"
    "pl_security_id x = tp_security_id plan" "pl_side x = BUY" "pl_quantity x = tp_quantity plan"
    "pl_limit_price x = Finite (tp_entry plan)"
    "pl_maximum_loss x = Finite (dmul (tp_risk_per_lot plan) (of_int (tp_lots plan)))"
    "pl_data_time x = sn_source_timestamp s" "pl_contract_expiry x = tp_expiry plan"
    "instant (pl_valid_until x) = min (instant (tp_expiry plan)) (instant (tp_generated_at plan) + validity)"
    "pl_expiry_risk_clear x \<longleftrightarrow> buffer < instant (tp_expiry plan) - instant (tp_generated_at plan)"
    "pl_event_risk_active x = sc_event_risk_active (sn_context s)"
    "pl_signal_time x = tp_generated_at plan"
  using assms by (auto simp: to_execution_plan_def require_same_snapshot_def bindr_eq_Inr res_simps)

lemma to_backtest_signalD:
  assumes "to_backtest_signal pl plan s k validity = Inr x"
  shows "same_snapshot pl plan s" "tp_actionable plan" "0 \<le> k" "k < int (length (tp_targets plan))"
    "signal_ok x" "bs_lots x = tp_lots plan" "bs_lot_size x = tp_lot_size plan"
    "bs_stop_price x = tp_stop plan" "bs_target_price x = tp_targets plan ! nat k"
    "bs_signal_id x = tp_signal_id plan" "bs_instrument_id x = tp_security_id plan"
    "bs_generated_at x = tp_generated_at plan" "bs_contract_expiry x = tp_expiry plan"
proof -
  from assms obtain u q d t where b: "mk_backtest_signal (replay_signal pl plan s u (tp_targets plan ! nat k) q d t) = Inr x"
    and c: "same_snapshot pl plan s" "tp_actionable plan" "0 \<le> k" "k < int (length (tp_targets plan))"
    by (auto simp: to_backtest_signal_def require_same_snapshot_def bindr_eq_Inr value_error_eq_Inr not_less
      split: option.splits)
  show "same_snapshot pl plan s" "tp_actionable plan" "0 \<le> k" "k < int (length (tp_targets plan))" by (fact c)+
  show "signal_ok x" "bs_lots x = tp_lots plan" "bs_lot_size x = tp_lot_size plan"
    "bs_stop_price x = tp_stop plan" "bs_target_price x = tp_targets plan ! nat k"
    "bs_signal_id x = tp_signal_id plan" "bs_instrument_id x = tp_security_id plan"
    "bs_generated_at x = tp_generated_at plan" "bs_contract_expiry x = tp_expiry plan"
    using mk_backtest_signal_ok[OF b] by (auto simp: signal_values_def replay_signal_def)
qed

end
