(* ===== verification/Pricing.thy ===== *)
theory Pricing
  imports Candles Sqrt Enums
begin

text \<open>
  The option models of \<open>analytics/pricing.py\<close>: Black-Scholes on spot, Black-76 on futures, in the
  binary64 operations of the source and in their order.  The C library's \<open>exp\<close>, \<open>log\<close> and \<open>erf\<close>
  are the parameter \<open>libm\<close>; \<open>exp\<close> may overflow, which Python raises.
\<close>

subsection \<open>The C library\<close>

definition flog :: "libm \<Rightarrow> rat \<Rightarrow> rat res" where
  "flog m x = (if x \<le> 0 then Inl (ValueError ''math domain error'') else Inr (lm_log m x))"

definition fexp :: "libm \<Rightarrow> rat \<Rightarrow> rat res" where
  "fexp m x = (case lm_exp m x of None \<Rightarrow> Inl (OverflowError ''math range error'') | Some y \<Rightarrow> Inr y)"

definition math_pi :: rat where "math_pi = 884279719003555 / 281474976710656"

definition normal_pdf :: "libm \<Rightarrow> rat \<Rightarrow> rat res" where
  "normal_pdf m x = bindr (fexp m (fmul (fmul (- 1 / 2) x) x)) (\<lambda>e. fdivr e (fsqrt (fmul 2 math_pi)))"

definition normal_cdf :: "libm \<Rightarrow> rat \<Rightarrow> rat" where
  "normal_cdf m x = fmul (1 / 2) (fadd 1 (lm_erf m (fdiv x (fsqrt 2))))"

subsection \<open>Inputs and results\<close>

record option_model_result =
  om_model :: PricingModel
  om_option_type :: OptionType
  om_price :: rat
  om_delta :: rat
  om_gamma :: rat
  om_theta_per_day :: rat
  om_vega_per_vol_point :: rat

record expected_move_result =
  em_underlying :: rat
  em_move :: rat
  em_lower_bound :: rat
  em_upper_bound :: rat

fun finite_float :: "string \<Rightarrow> boundary \<Rightarrow> rat res" where
  "finite_float name (BFloat (FFinite x)) = Inr x"
| "finite_float name (BDecimal (Finite x)) = Inr (fround x)"
| "finite_float name (BInt n) = Inr (fround (of_int n))"
| "finite_float name (BBool b) = analytics_error (name @ '' must be numeric'')"
| "finite_float name _ = analytics_error (name @ '' must be finite'')"

definition positive_float :: "string \<Rightarrow> boundary \<Rightarrow> rat res" where
  "positive_float name v = bindr (finite_float name v) (\<lambda>x.
     bindr (demand (0 < x) (name @ '' must be positive'')) (\<lambda>_. Inr x))"

definition positive_decimal :: "string \<Rightarrow> boundary \<Rightarrow> rat res" where
  "positive_decimal name v = bindr (decimal_value name v) (\<lambda>x.
     bindr (demand (0 < x) (name @ '' must be positive'')) (\<lambda>_. Inr x))"

definition money :: "rat \<Rightarrow> rat" where
  "money v = float_repr (max 0 v)"

definition model_result :: "PricingModel \<Rightarrow> OptionType \<Rightarrow> rat \<Rightarrow> rat \<Rightarrow> rat \<Rightarrow> rat \<Rightarrow> rat
    \<Rightarrow> option_model_result" where
  "model_result model ty price delta gamma theta vega = \<lparr>om_model = model, om_option_type = ty,
     om_price = money price, om_delta = delta, om_gamma = gamma, om_theta_per_day = theta,
     om_vega_per_vol_point = vega\<rparr>"

text \<open>The \<open>except (OverflowError, ValueError, ZeroDivisionError)\<close> around each model.\<close>

fun outside_domain :: "string \<Rightarrow> 'a res \<Rightarrow> 'a res" where
  "outside_domain msg (Inl (OverflowError _)) = analytics_error msg"
| "outside_domain msg (Inl (ValueError _)) = analytics_error msg"
| "outside_domain msg (Inl ZeroDivisionError) = analytics_error msg"
| "outside_domain msg r = r"

lemma outside_domain_eq_Inr [res_simps]: "outside_domain msg r = Inr y \<longleftrightarrow> r = Inr y"
  by (cases "(msg, r)" rule: outside_domain.cases) (auto simp: analytics_error_def)

text \<open>Seconds until the expiry over the day-count basis; \<open>365.0\<close> is the default basis.\<close>

definition year_fraction :: "datetime \<Rightarrow> datetime \<Rightarrow> boundary \<Rightarrow> rat res" where
  "year_fraction observed_at expiry basis_days =
    bindr (aware ''pricing observation time'' observed_at) (\<lambda>_.
    bindr (aware ''option expiry'' expiry) (\<lambda>_.
    bindr (positive_float ''day-count basis'' basis_days) (\<lambda>basis.
    bindr (dt_minus expiry observed_at) (\<lambda>us.
    bindr (demand (0 < total_seconds us) ''option expiry must be after the observation time'') (\<lambda>_.
      fdivr (total_seconds us) (fmul (fmul (fmul basis 24) 60) 60))))))"

lemma total_seconds_posD: "0 < total_seconds us \<Longrightarrow> 0 < us"
  using total_seconds_mono[of us 0] by (cases "us \<le> 0") (auto simp: total_seconds_def flt.rnd_0)

lemma year_fractionD:
  assumes "year_fraction observed_at expiry basis = Inr y"
  shows "is_aware observed_at" "is_aware expiry" "instant observed_at < instant expiry"
  using assms by (auto simp: year_fraction_def bindr_eq_Inr res_simps dest: total_seconds_posD)

subsection \<open>Black-Scholes\<close>

record model_parts =
  bp_d1 :: rat
  bp_d2 :: rat
  bp_asset_discount :: rat
  bp_strike_discount :: rat
  bp_density :: rat
  bp_gamma :: rat
  bp_vega :: rat
  bp_decay :: rat

definition bs_parts :: "libm \<Rightarrow> rat \<Rightarrow> rat \<Rightarrow> rat \<Rightarrow> rat \<Rightarrow> rat \<Rightarrow> rat \<Rightarrow> model_parts res" where
  "bs_parts m spot strike sigma years rate carry =
    (let root = fsqrt years in
     bindr (fdivr spot strike) (\<lambda>q.
     bindr (flog m q) (\<lambda>l.
     bindr (fdivr (fadd l (fmul (fadd (fsub rate carry) (fmul (fmul (1 / 2) sigma) sigma)) years))
       (fmul sigma root)) (\<lambda>d1.
     bindr (fexp m (fmul (- carry) years)) (\<lambda>spot_discount.
     bindr (fexp m (fmul (- rate) years)) (\<lambda>strike_discount.
     bindr (normal_pdf m d1) (\<lambda>density.
     bindr (fdivr (fmul spot_discount density) (fmul (fmul spot sigma) root)) (\<lambda>gamma.
     bindr (fdivr (fmul (fmul (fmul (- spot) spot_discount) density) sigma) (fmul 2 root)) (\<lambda>decay.
       Inr \<lparr>bp_d1 = d1, bp_d2 = fsub d1 (fmul sigma root), bp_asset_discount = spot_discount,
         bp_strike_discount = strike_discount, bp_density = density, bp_gamma = gamma,
         bp_vega = fdiv (fmul (fmul (fmul spot spot_discount) density) root) 100, bp_decay = decay\<rparr>)))))))))"

definition bs_call :: "libm \<Rightarrow> rat \<Rightarrow> rat \<Rightarrow> rat \<Rightarrow> rat \<Rightarrow> model_parts \<Rightarrow> rat \<times> rat \<times> rat" where
  "bs_call m spot strike rate carry p =
    (let n1 = normal_cdf m (bp_d1 p); n2 = normal_cdf m (bp_d2 p);
         spot_discount = bp_asset_discount p; strike_discount = bp_strike_discount p in
     (fsub (fmul (fmul spot spot_discount) n1) (fmul (fmul strike strike_discount) n2),
      fmul spot_discount n1,
      fadd (fsub (bp_decay p) (fmul (fmul (fmul rate strike) strike_discount) n2))
        (fmul (fmul (fmul carry spot) spot_discount) n1)))"

definition bs_put :: "libm \<Rightarrow> rat \<Rightarrow> rat \<Rightarrow> rat \<Rightarrow> rat \<Rightarrow> model_parts \<Rightarrow> rat \<times> rat \<times> rat" where
  "bs_put m spot strike rate carry p =
    (let m1 = normal_cdf m (- bp_d1 p); m2 = normal_cdf m (- bp_d2 p);
         spot_discount = bp_asset_discount p; strike_discount = bp_strike_discount p in
     (fsub (fmul (fmul strike strike_discount) m2) (fmul (fmul spot spot_discount) m1),
      fmul spot_discount (fsub (normal_cdf m (bp_d1 p)) 1),
      fsub (fadd (bp_decay p) (fmul (fmul (fmul rate strike) strike_discount) m2))
        (fmul (fmul (fmul carry spot) spot_discount) m1)))"

definition bs_result :: "libm \<Rightarrow> OptionType \<Rightarrow> rat \<Rightarrow> rat \<Rightarrow> rat \<Rightarrow> rat \<Rightarrow> model_parts \<Rightarrow> option_model_result" where
  "bs_result m ty spot strike rate carry p =
    (case (if ty = CALL then bs_call m spot strike rate carry p else bs_put m spot strike rate carry p) of
       (price, delta, theta) \<Rightarrow>
         model_result BLACK_SCHOLES ty price delta (bp_gamma p) (fdiv theta 365) (bp_vega p))"

definition black_scholes :: "libm \<Rightarrow> OptionType \<Rightarrow> boundary \<Rightarrow> boundary \<Rightarrow> boundary \<Rightarrow> boundary \<Rightarrow> boundary
    \<Rightarrow> boundary \<Rightarrow> option_model_result res" where
  "black_scholes m ty spot strike volatility time_to_expiry risk_free_rate dividend_yield =
    bindr (positive_decimal ''spot'' spot) (\<lambda>s.
    bindr (positive_decimal ''strike'' strike) (\<lambda>k.
    bindr (positive_float ''volatility'' volatility) (\<lambda>sigma.
    bindr (positive_float ''time to expiry'' time_to_expiry) (\<lambda>years.
    bindr (finite_float ''risk-free rate'' risk_free_rate) (\<lambda>rate.
    bindr (finite_float ''dividend yield'' dividend_yield) (\<lambda>carry.
    bindr (outside_domain ''Black-Scholes inputs are outside the numeric domain''
      (bs_parts m (fround s) (fround k) sigma years rate carry)) (\<lambda>p.
      Inr (bs_result m ty (fround s) (fround k) rate carry p))))))))"

subsection \<open>Black-76\<close>

definition b76_parts :: "libm \<Rightarrow> rat \<Rightarrow> rat \<Rightarrow> rat \<Rightarrow> rat \<Rightarrow> rat \<Rightarrow> model_parts res" where
  "b76_parts m futures strike sigma years rate =
    (let root = fsqrt years in
     bindr (fdivr futures strike) (\<lambda>q.
     bindr (flog m q) (\<lambda>l.
     bindr (fdivr (fadd l (fmul (fmul (fmul (1 / 2) sigma) sigma) years)) (fmul sigma root)) (\<lambda>d1.
     bindr (fexp m (fmul (- rate) years)) (\<lambda>discount.
     bindr (normal_pdf m d1) (\<lambda>density.
     bindr (fdivr (fmul discount density) (fmul (fmul futures sigma) root)) (\<lambda>gamma.
     bindr (fdivr (fmul (fmul (fmul discount futures) density) sigma) (fmul 2 root)) (\<lambda>decay.
       Inr \<lparr>bp_d1 = d1, bp_d2 = fsub d1 (fmul sigma root), bp_asset_discount = discount,
         bp_strike_discount = discount, bp_density = density, bp_gamma = gamma,
         bp_vega = fdiv (fmul (fmul (fmul discount futures) density) root) 100, bp_decay = decay\<rparr>))))))))"

definition b76_result :: "libm \<Rightarrow> OptionType \<Rightarrow> rat \<Rightarrow> rat \<Rightarrow> rat \<Rightarrow> model_parts \<Rightarrow> option_model_result" where
  "b76_result m ty futures strike rate p =
    (let discount = bp_asset_discount p;
         price = (if ty = CALL
           then fmul discount (fsub (fmul futures (normal_cdf m (bp_d1 p))) (fmul strike (normal_cdf m (bp_d2 p))))
           else fmul discount (fsub (fmul strike (normal_cdf m (- bp_d2 p))) (fmul futures (normal_cdf m (- bp_d1 p)))));
         delta = (if ty = CALL then fmul discount (normal_cdf m (bp_d1 p))
           else fmul (- discount) (normal_cdf m (- bp_d1 p))) in
     model_result BLACK_76 ty price delta (bp_gamma p)
       (fdiv (fsub (fmul rate price) (bp_decay p)) 365) (bp_vega p))"

definition black_76 :: "libm \<Rightarrow> OptionType \<Rightarrow> boundary \<Rightarrow> boundary \<Rightarrow> boundary \<Rightarrow> boundary \<Rightarrow> boundary
    \<Rightarrow> option_model_result res" where
  "black_76 m ty futures strike volatility time_to_expiry risk_free_rate =
    bindr (positive_decimal ''futures price'' futures) (\<lambda>f.
    bindr (positive_decimal ''strike'' strike) (\<lambda>k.
    bindr (positive_float ''volatility'' volatility) (\<lambda>sigma.
    bindr (positive_float ''time to expiry'' time_to_expiry) (\<lambda>years.
    bindr (finite_float ''risk-free rate'' risk_free_rate) (\<lambda>rate.
    bindr (outside_domain ''Black-76 inputs are outside the numeric domain''
      (b76_parts m (fround f) (fround k) sigma years rate)) (\<lambda>p.
      Inr (b76_result m ty (fround f) (fround k) rate p)))))))"

subsection \<open>Dispatch and the expected move\<close>

definition price_option :: "libm \<Rightarrow> PricingModel \<Rightarrow> OptionType \<Rightarrow> boundary \<Rightarrow> boundary \<Rightarrow> boundary \<Rightarrow> boundary
    \<Rightarrow> boundary \<Rightarrow> boundary \<Rightarrow> option_model_result res" where
  "price_option m model ty underlying strike volatility time_to_expiry risk_free_rate dividend_yield =
    (case model of
       BLACK_SCHOLES \<Rightarrow> black_scholes m ty underlying strike volatility time_to_expiry risk_free_rate dividend_yield
     | BLACK_76 \<Rightarrow> bindr (finite_float ''dividend yield'' dividend_yield) (\<lambda>d.
         bindr (demand (d = 0) ''dividend yield is not an input to Black-76'') (\<lambda>_.
           black_76 m ty underlying strike volatility time_to_expiry risk_free_rate)))"

definition expected_move :: "boundary \<Rightarrow> boundary \<Rightarrow> boundary \<Rightarrow> expected_move_result res" where
  "expected_move underlying volatility time_to_expiry =
    bindr (positive_decimal ''underlying'' underlying) (\<lambda>u.
    bindr (positive_float ''volatility'' volatility) (\<lambda>sigma.
    bindr (positive_float ''time to expiry'' time_to_expiry) (\<lambda>years.
      let move = money (fmul (fmul (fround u) sigma) (fsqrt years)) in
      Inr \<lparr>em_underlying = u, em_move = move, em_lower_bound = max 0 (dsub u move),
        em_upper_bound = dadd u move\<rparr>)))"

subsection \<open>Signs and bounds\<close>

text \<open>What the C library documents of its functions on the values the models use.\<close>

definition sane_libm :: "libm \<Rightarrow> bool" where
  "sane_libm m \<longleftrightarrow> (\<forall>x. - 1 \<le> lm_erf m x \<and> lm_erf m x \<le> 1)
     \<and> (\<forall>x y. lm_exp m x = Some y \<longrightarrow> 0 \<le> y \<and> (x \<le> 0 \<longrightarrow> y \<le> 1))"

lemma normal_cdf_bounds:
  assumes "sane_libm m"
  shows "0 \<le> normal_cdf m x" "normal_cdf m x \<le> 1"
proof -
  define e where "e = lm_erf m (fdiv x (fsqrt 2))"
  have "- 1 \<le> e" "e \<le> 1" using assms by (auto simp: sane_libm_def e_def)
  then have "0 \<le> fadd 1 e" "fadd 1 e \<le> 2"
    using flt.rnd_le[of 2 "1 + e"] fround_of_int[of 2] by (auto simp: fadd_def flt.rnd_nonneg)
  then show "0 \<le> normal_cdf m x" "normal_cdf m x \<le> 1"
    unfolding normal_cdf_def fmul_def e_def[symmetric] by (auto intro: flt.rnd_nonneg flt.rnd_le_1)
qed

lemma fexp_bounds:
  "sane_libm m \<Longrightarrow> fexp m x = Inr y \<Longrightarrow> 0 \<le> y"
  "sane_libm m \<Longrightarrow> fexp m x = Inr y \<Longrightarrow> x \<le> 0 \<Longrightarrow> y \<le> 1"
  by (auto simp: fexp_def sane_libm_def split: option.splits)

lemma float_sign:
  "0 \<le> x \<Longrightarrow> 0 \<le> y \<Longrightarrow> 0 \<le> fmul x y" "0 \<le> x \<Longrightarrow> 0 \<le> y \<Longrightarrow> fdivr x y = Inr z \<Longrightarrow> 0 \<le> z"
  "0 \<le> x \<Longrightarrow> 0 \<le> y \<Longrightarrow> 0 \<le> fdiv x y" "0 \<le> x \<Longrightarrow> y \<le> 0 \<Longrightarrow> fmul x y \<le> 0" "x \<le> 0 \<Longrightarrow> 0 \<le> y \<Longrightarrow> fmul x y \<le> 0"
  "x \<le> y \<Longrightarrow> fsub x y \<le> 0"
  by (auto simp: fmul_def fdivr_def fdiv_def fsub_def flt.rnd_nonneg flt.rnd_nonpos mult_nonneg_nonpos
    mult_nonpos_nonneg split: if_splits)

lemma fmul_le_1: "0 \<le> x \<Longrightarrow> x \<le> 1 \<Longrightarrow> y \<le> 1 \<Longrightarrow> fmul x y \<le> 1"
  unfolding fmul_def using mult_left_mono[of y 1 x] by (intro flt.rnd_le_1) simp

lemma fmul_ge_neg_1: "0 \<le> x \<Longrightarrow> x \<le> 1 \<Longrightarrow> - 1 \<le> y \<Longrightarrow> - 1 \<le> fmul x y"
proof -
  assume "0 \<le> x" "x \<le> 1" "- 1 \<le> y"
  then have "x * (- y) \<le> 1" using mult_left_mono[of "- y" 1 x] by simp
  then have "fround (- (x * y)) \<le> 1" by (intro flt.rnd_le_1) simp
  then show ?thesis by (simp add: fmul_def flt.rnd_minus)
qed

lemma money_nonneg: "0 \<le> money (fround v)"
  unfolding money_def by (rule float_repr_nonneg) (simp_all add: max_def flt.rnd_idem flt.rnd_0)

lemma bs_partsD:
  assumes "bs_parts m spot strike sigma years rate carry = Inr p" "sane_libm m"
    and "0 \<le> spot" "0 \<le> sigma" "0 \<le> years"
  shows "0 \<le> bp_asset_discount p" "0 \<le> bp_strike_discount p" "0 \<le> bp_gamma p" "0 \<le> bp_vega p"
    and "0 \<le> carry \<Longrightarrow> bp_asset_discount p \<le> 1"
proof -
  have root: "0 \<le> fsqrt years" by (rule fsqrt_nonneg)
  have pi: "0 \<le> fsqrt (fmul 2 math_pi)" by (rule fsqrt_nonneg)
  from assms(1) obtain d1 e where d: "fexp m (fmul (- carry) years) = Inr (bp_asset_discount p)"
    "fexp m (fmul (- rate) years) = Inr (bp_strike_discount p)" "normal_pdf m d1 = Inr e"
    "fdivr (fmul (bp_asset_discount p) e) (fmul (fmul spot sigma) (fsqrt years)) = Inr (bp_gamma p)"
    "bp_vega p = fdiv (fmul (fmul (fmul spot (bp_asset_discount p)) e) (fsqrt years)) 100"
    by (auto simp: bs_parts_def Let_def bindr_eq_Inr)
  have e: "0 \<le> e"
    using d(3) pi fexp_bounds(1)[OF assms(2)] by (auto simp: normal_pdf_def bindr_eq_Inr intro: float_sign(2))
  show disc: "0 \<le> bp_asset_discount p" "0 \<le> bp_strike_discount p"
    using fexp_bounds(1)[OF assms(2)] d(1,2) by auto
  show "0 \<le> bp_gamma p" by (rule float_sign(2)[OF _ _ d(4)]) (use disc e root assms(3-5) in \<open>auto intro!: float_sign(1)\<close>)
  show "0 \<le> bp_vega p" unfolding d(5) using disc e root assms(3-5) by (auto intro!: float_sign(1,3))
  show "bp_asset_discount p \<le> 1" if "0 \<le> carry"
    by (rule fexp_bounds(2)[OF assms(2) d(1)], rule float_sign(5)) (use that assms(5) in auto)
qed

lemma b76_partsD:
  assumes "b76_parts m futures strike sigma years rate = Inr p" "sane_libm m"
    and "0 \<le> futures" "0 \<le> sigma" "0 \<le> years"
  shows "0 \<le> bp_asset_discount p" "0 \<le> bp_gamma p" "0 \<le> bp_vega p"
    and "0 \<le> rate \<Longrightarrow> bp_asset_discount p \<le> 1"
proof -
  have root: "0 \<le> fsqrt years" by (rule fsqrt_nonneg)
  have pi: "0 \<le> fsqrt (fmul 2 math_pi)" by (rule fsqrt_nonneg)
  from assms(1) obtain d1 e where d: "fexp m (fmul (- rate) years) = Inr (bp_asset_discount p)"
    "normal_pdf m d1 = Inr e"
    "fdivr (fmul (bp_asset_discount p) e) (fmul (fmul futures sigma) (fsqrt years)) = Inr (bp_gamma p)"
    "bp_vega p = fdiv (fmul (fmul (fmul (bp_asset_discount p) futures) e) (fsqrt years)) 100"
    by (auto simp: b76_parts_def Let_def bindr_eq_Inr)
  have e: "0 \<le> e"
    using d(2) pi fexp_bounds(1)[OF assms(2)] by (auto simp: normal_pdf_def bindr_eq_Inr intro: float_sign(2))
  show disc: "0 \<le> bp_asset_discount p" using fexp_bounds(1)[OF assms(2)] d(1) by auto
  show "0 \<le> bp_gamma p" by (rule float_sign(2)[OF _ _ d(3)]) (use disc e root assms(3-5) in \<open>auto intro!: float_sign(1)\<close>)
  show "0 \<le> bp_vega p" unfolding d(4) using disc e root assms(3-5) by (auto intro!: float_sign(1,3))
  show "bp_asset_discount p \<le> 1" if "0 \<le> rate"
    by (rule fexp_bounds(2)[OF assms(2) d(1)], rule float_sign(5)) (use that assms(5) in auto)
qed

text \<open>Signs of a model's output; the second part needs a non-negative carry.\<close>

definition greeks_signed :: "option_model_result \<Rightarrow> bool" where
  "greeks_signed r \<longleftrightarrow> 0 \<le> om_price r \<and> 0 \<le> om_gamma r \<and> 0 \<le> om_vega_per_vol_point r
     \<and> (if om_option_type r = CALL then 0 \<le> om_delta r else om_delta r \<le> 0)"

lemma bs_result_signed:
  assumes "bs_parts m spot strike sigma years rate carry = Inr p" "sane_libm m"
    and "0 \<le> spot" "0 \<le> sigma" "0 \<le> years"
  shows "greeks_signed (bs_result m ty spot strike rate carry p)"
    and "0 \<le> carry \<Longrightarrow> \<bar>om_delta (bs_result m ty spot strike rate carry p)\<bar> \<le> 1"
proof -
  note p = bs_partsD[OF assms] and n = normal_cdf_bounds[OF assms(2)]
  have c: "0 \<le> fmul (bp_asset_discount p) (normal_cdf m x)" for x
    using p(1) n by (intro float_sign(1)) auto
  have q: "fmul (bp_asset_discount p) (fsub (normal_cdf m x) 1) \<le> 0" for x
    using p(1) n by (intro float_sign(4,6)) auto
  show "greeks_signed (bs_result m ty spot strike rate carry p)"
    using p(3,4) c q
    by (simp add: greeks_signed_def bs_result_def model_result_def bs_call_def bs_put_def Let_def fsub_def[of "fmul _ _"]
      money_nonneg)
  show "\<bar>om_delta (bs_result m ty spot strike rate carry p)\<bar> \<le> 1" if "0 \<le> carry"
  proof -
    have "- 1 \<le> fsub (normal_cdf m x) 1" for x
      using flt.rnd_ge[of "- 1" "normal_cdf m x - 1"] n(1)[of x] fround_of_int[of "- 1"] by (simp add: fsub_def)
    then have "- 1 \<le> fmul (bp_asset_discount p) (fsub (normal_cdf m x) 1)" for x
      using p(1) p(5)[OF that] by (intro fmul_ge_neg_1) auto
    moreover have "fmul (bp_asset_discount p) (normal_cdf m x) \<le> 1" for x
      using p(1) p(5)[OF that] n by (intro fmul_le_1) auto
    ultimately show ?thesis
      using c q by (simp add: bs_result_def model_result_def bs_call_def bs_put_def Let_def abs_of_nonneg abs_of_nonpos minus_le_iff)
  qed
qed

lemma b76_result_signed:
  assumes "b76_parts m futures strike sigma years rate = Inr p" "sane_libm m"
    and "0 \<le> futures" "0 \<le> sigma" "0 \<le> years"
  shows "greeks_signed (b76_result m ty futures strike rate p)"
    and "0 \<le> rate \<Longrightarrow> \<bar>om_delta (b76_result m ty futures strike rate p)\<bar> \<le> 1"
proof -
  note p = b76_partsD[OF assms] and n = normal_cdf_bounds[OF assms(2)]
  have neg: "fmul (- bp_asset_discount p) x = - fmul (bp_asset_discount p) x" for x
    by (simp add: fmul_def flt.rnd_minus)
  have c: "0 \<le> fmul (bp_asset_discount p) (normal_cdf m x)" for x
    using p(1) n by (intro float_sign(1)) auto
  show "greeks_signed (b76_result m ty futures strike rate p)"
    using p(2,3) c
    by (simp add: greeks_signed_def b76_result_def model_result_def Let_def neg fmul_def[of _ "fsub _ _"] money_nonneg)
  show "\<bar>om_delta (b76_result m ty futures strike rate p)\<bar> \<le> 1" if "0 \<le> rate"
  proof -
    have "fmul (bp_asset_discount p) (normal_cdf m x) \<le> 1" for x
      using p(1) p(4)[OF that] n by (intro fmul_le_1) auto
    then show ?thesis using c by (simp add: b76_result_def model_result_def Let_def neg abs_of_nonneg)
  qed
qed

end
