(* ===== verification/Chain.thy ===== *)
theory Chain
  imports Pricing Domain
begin

text \<open>
  Fail-closed analytics of an option chain (\<open>analytics/chain.py\<close>).  Messages that print a price
  leave the number out.
\<close>

record analyzed_leg =
  al_security_id :: string
  al_strike :: rat
  al_option_type :: OptionType
  al_expiry :: datetime
  al_implied_volatility :: rat
  al_time_to_expiry :: rat
  al_pricing_security_id :: string
  al_pricing_underlying :: rat
  al_analytics :: option_model_result
  al_expected_move :: expected_move_result

definition spot_identity :: "contract_spec \<Rightarrow> market_state \<Rightarrow> string \<Rightarrow> (string \<times> rat option) res" where
  "spot_identity c market security =
    bindr (demand (cs_market_kind c \<noteq> COMMODITY \<and> in_exchange (cs_underlying c) \<in> {NSE, BSE})
      ''Black-Scholes requires an NSE/BSE spot contract'') (\<lambda>_.
    bindr (demand (security = in_security_id (cs_underlying c))
      ''spot pricing security does not match the contract underlying'') (\<lambda>_.
      Inr (''spot price'', ms_spot_price market)))"

definition futures_identity :: "contract_spec \<Rightarrow> market_state \<Rightarrow> string \<Rightarrow> (string \<times> rat option) res" where
  "futures_identity c market security =
    bindr (demand (cs_market_kind c = COMMODITY) ''Black-76 is restricted to commodity futures contracts'') (\<lambda>_.
    bindr (demand (in_exchange (cs_underlying c) = MCX) ''commodity Black-76 contract must be an MCX contract'') (\<lambda>_.
    case cs_futures c of None \<Rightarrow> analytics_error ''Black-76 contract is missing its exact futures record''
    | Some f \<Rightarrow>
        bindr (demand (in_exchange (mr_instrument f) = MCX) ''Black-76 pricing future must be an MCX instrument'') (\<lambda>_.
        bindr (demand (security = in_security_id (mr_instrument f))
          ''futures pricing security does not match the exact contract future'') (\<lambda>_.
          Inr (''futures price'', ms_futures_price market)))))"

definition pricing_identity :: "contract_spec \<Rightarrow> market_state \<Rightarrow> string \<Rightarrow> rat res" where
  "pricing_identity c market security =
    bindr (case cs_pricing_model c of BLACK_SCHOLES \<Rightarrow> spot_identity c market security
      | BLACK_76 \<Rightarrow> futures_identity c market security) (\<lambda>(label, price).
      case price of None \<Rightarrow> analytics_error (label @ '' must be finite and positive'')
      | Some p \<Rightarrow> bindr (demand (0 < p) (label @ '' must be finite and positive'')) (\<lambda>_. Inr p))"

text \<open>Membership in the set of verified contracts; datetimes are equal as instants.\<close>

definition known_contract :: "contract_spec \<Rightarrow> option_quote \<Rightarrow> bool" where
  "known_contract c q \<longleftrightarrow> list_ex (\<lambda>r. in_security_id (mr_instrument r) = oq_security_id q
     \<and> mr_strike r = Some (oq_strike q) \<and> mr_option_type r = Some (oq_option_type q)
     \<and> (case mr_expiry r of None \<Rightarrow> False | Some e \<Rightarrow> dt_eq e (oq_expiry q))) (cs_option_contracts c)"

definition quote_name :: "option_quote \<Rightarrow> string \<Rightarrow> string" where
  "quote_name q text = ''option '' @ oq_security_id q @ text"

definition check_quote :: "option_quote \<Rightarrow> unit res" where
  "check_quote q =
    bindr (demand (py_strip (oq_security_id q) \<noteq> []) ''option security id is required'') (\<lambda>_.
      demand (0 < oq_strike q) (quote_name q '' strike must be positive''))"

definition quote_order :: "option_quote \<Rightarrow> rat \<times> string \<times> string" where
  "quote_order q = (oq_strike q, option_type_value (oq_option_type q), oq_security_id q)"

definition quote_volatility :: "option_quote \<Rightarrow> rat res" where
  "quote_volatility q = (case oq_implied_volatility q of
     Some (FFinite v) \<Rightarrow> if 0 < v then Inr v else analytics_error (quote_name q '' IV must be finite and positive'')
   | _ \<Rightarrow> analytics_error (quote_name q '' IV must be finite and positive''))"

text \<open>The checks of one leg, in the order of the loop body.\<close>

definition check_leg :: "contract_spec \<Rightarrow> datetime \<Rightarrow> (rat \<times> OptionType) list \<Rightarrow> option_quote \<Rightarrow> unit res" where
  "check_leg c as_of seen q =
    bindr (demand (quote_key q \<notin> set seen) ''duplicate option leg'') (\<lambda>_.
    bindr (demand (is_aware (oq_observed_at q)) (quote_name q '' has a naive observation time'')) (\<lambda>_.
    bindr (demand (instant (oq_observed_at q) \<le> instant as_of) (quote_name q '' is from the future'')) (\<lambda>_.
    bindr (demand (dt_eq (oq_expiry q) (cs_option_expiry c))
      (quote_name q '' expiry does not match the contract'')) (\<lambda>_.
      demand (known_contract c q) (quote_name q '' is absent from the verified master'')))))"

definition leg_of :: "libm \<Rightarrow> contract_spec \<Rightarrow> string \<Rightarrow> rat \<Rightarrow> datetime \<Rightarrow> rat \<Rightarrow> rat \<Rightarrow> option_quote
    \<Rightarrow> analyzed_leg res" where
  "leg_of m c security underlying as_of rate dividend q =
    bindr (quote_volatility q) (\<lambda>v.
    bindr (year_fraction as_of (oq_expiry q) (BFloat (FFinite 365))) (\<lambda>years.
    bindr (price_option m (cs_pricing_model c) (oq_option_type q) (BDecimal (Finite underlying))
      (BDecimal (Finite (oq_strike q))) (BFloat (FFinite v)) (BFloat (FFinite years)) (BFloat (FFinite rate))
      (BFloat (FFinite dividend))) (\<lambda>analytics.
    bindr (expected_move (BDecimal (Finite underlying)) (BFloat (FFinite v)) (BFloat (FFinite years))) (\<lambda>move.
      Inr \<lparr>al_security_id = oq_security_id q, al_strike = oq_strike q, al_option_type = oq_option_type q,
        al_expiry = oq_expiry q, al_implied_volatility = v, al_time_to_expiry = years,
        al_pricing_security_id = security, al_pricing_underlying = underlying, al_analytics = analytics,
        al_expected_move = move\<rparr>))))"

fun analyze_legs :: "(option_quote \<Rightarrow> analyzed_leg res) \<Rightarrow> contract_spec \<Rightarrow> datetime
    \<Rightarrow> (rat \<times> OptionType) list \<Rightarrow> option_quote list \<Rightarrow> analyzed_leg list res" where
  "analyze_legs leg c as_of seen [] = Inr []"
| "analyze_legs leg c as_of seen (q # qs) =
     bindr (check_leg c as_of seen q) (\<lambda>_.
     bindr (leg q) (\<lambda>l.
     bindr (analyze_legs leg c as_of (quote_key q # seen) qs) (\<lambda>ls. Inr (l # ls))))"

definition analyze_option_chain :: "libm \<Rightarrow> contract_spec \<Rightarrow> market_state \<Rightarrow> option_quote list \<Rightarrow> datetime
    \<Rightarrow> string \<Rightarrow> float64 \<Rightarrow> float64 \<Rightarrow> analyzed_leg list res" where
  "analyze_option_chain m c market quotes as_of security rate dividend =
    bindr (aware ''chain evaluation time'' as_of) (\<lambda>_.
    bindr (demand (is_aware (ms_observed_at market)) ''market observation time must be timezone-aware'') (\<lambda>_.
    bindr (demand (instant (ms_observed_at market) \<le> instant as_of)
      ''market observation cannot be after evaluation time'') (\<lambda>_.
    bindr (demand (py_strip security \<noteq> []) ''pricing security id is required'') (\<lambda>_.
    bindr (demand (isfinite rate \<and> isfinite dividend) ''pricing rates must be finite'') (\<lambda>_.
    bindr (pricing_identity c market security) (\<lambda>underlying.
    bindr (traverse check_quote quotes) (\<lambda>_.
    bindr (analyze_legs (leg_of m c security underlying as_of (flt_val rate) (flt_val dividend)) c as_of []
      (sort_key quote_order quotes)) (\<lambda>legs.
    bindr (demand (legs \<noteq> []) ''option chain cannot be empty'') (\<lambda>_.
      Inr legs)))))))))"

subsection \<open>What an analysed chain guarantees\<close>

lemma analyze_legs_ok:
  assumes "analyze_legs leg c as_of seen qs = Inr ls"
  shows "list_all2 (\<lambda>q l. leg q = Inr l) qs ls"
    and "distinct (List.map quote_key qs)" "set (List.map quote_key qs) \<inter> set seen = {}"
    and "\<forall>q\<in>set qs. is_aware (oq_observed_at q) \<and> instant (oq_observed_at q) \<le> instant as_of
      \<and> dt_eq (oq_expiry q) (cs_option_expiry c) \<and> known_contract c q"
  using assms
proof (induction qs arbitrary: seen ls)
  case (Cons q qs)
  {
    case 1
    then show ?case using Cons.IH(1) by (fastforce simp: bindr_eq_Inr)
  next
    case 2
    then obtain ls' where "analyze_legs leg c as_of (quote_key q # seen) qs = Inr ls'" by (auto simp: bindr_eq_Inr)
    from Cons.IH(2,3)[OF this] show ?case by auto
  next
    case 3
    then obtain ls' where "analyze_legs leg c as_of (quote_key q # seen) qs = Inr ls'" "quote_key q \<notin> set seen"
      by (auto simp: bindr_eq_Inr check_leg_def res_simps)
    with Cons.IH(3) show ?case by fastforce
  next
    case 4
    then obtain ls' where l: "analyze_legs leg c as_of (quote_key q # seen) qs = Inr ls'"
      "check_leg c as_of seen q = Inr ()" by (auto simp: bindr_eq_Inr)
    from Cons.IH(4)[OF l(1)] l(2) show ?case by (auto simp: check_leg_def res_simps bindr_eq_Inr)
  }
qed auto

lemma leg_ofD:
  assumes "leg_of m c security u as_of rate dividend q = Inr l"
  shows "al_security_id l = oq_security_id q" "al_strike l = oq_strike q" "al_option_type l = oq_option_type q"
    "al_pricing_underlying l = u" "al_pricing_security_id l = security"
    "oq_implied_volatility q = Some (FFinite (al_implied_volatility l))" "0 < al_implied_volatility l"
    "instant as_of < instant (oq_expiry q)"
    "price_option m (cs_pricing_model c) (oq_option_type q) (BDecimal (Finite u)) (BDecimal (Finite (oq_strike q)))
       (BFloat (FFinite (al_implied_volatility l))) (BFloat (FFinite (al_time_to_expiry l)))
       (BFloat (FFinite rate)) (BFloat (FFinite dividend)) = Inr (al_analytics l)"
  using assms by (auto simp: leg_of_def bindr_eq_Inr quote_volatility_def analytics_error_def dest: year_fractionD(3)
    split: option.splits float64.splits if_splits)

lemma traverse_checks: "traverse check_quote qs = Inr us \<Longrightarrow> q \<in> set qs \<Longrightarrow> check_quote q = Inr ()"
  by (auto simp: traverse_eq_Inr list_all2_conv_all_nth in_set_conv_nth)

lemma pricing_identityD:
  assumes "pricing_identity c market security = Inr u"
  shows "0 < u" "cs_pricing_model c = BLACK_SCHOLES \<Longrightarrow> cs_market_kind c \<noteq> COMMODITY
      \<and> in_exchange (cs_underlying c) \<in> {NSE, BSE} \<and> security = in_security_id (cs_underlying c) \<and> ms_spot_price market = Some u"
    "cs_pricing_model c = BLACK_76 \<Longrightarrow> cs_market_kind c = COMMODITY \<and> in_exchange (cs_underlying c) = MCX
      \<and> (\<exists>f. cs_futures c = Some f \<and> in_exchange (mr_instrument f) = MCX \<and> security = in_security_id (mr_instrument f))
      \<and> ms_futures_price market = Some u"
  using assms by (auto simp: pricing_identity_def spot_identity_def futures_identity_def bindr_eq_Inr res_simps
      analytics_error_def split: option.splits PricingModel.splits)

text \<open>A well-formed leg for a quote of the chain.\<close>

definition verified_leg :: "contract_spec \<Rightarrow> datetime \<Rightarrow> option_quote \<Rightarrow> analyzed_leg \<Rightarrow> bool" where
  "verified_leg c as_of q l \<longleftrightarrow> al_security_id l = oq_security_id q \<and> al_strike l = oq_strike q
     \<and> al_option_type l = oq_option_type q \<and> 0 < al_strike l
     \<and> known_contract c q \<and> dt_eq (oq_expiry q) (cs_option_expiry c) \<and> instant as_of < instant (oq_expiry q)
     \<and> is_aware (oq_observed_at q) \<and> instant (oq_observed_at q) \<le> instant as_of
     \<and> oq_implied_volatility q = Some (FFinite (al_implied_volatility l)) \<and> 0 < al_implied_volatility l"

lemma analyze_option_chain_verified:
  assumes "analyze_option_chain m c market quotes as_of security rate dividend = Inr legs"
  shows "list_all2 (verified_leg c as_of) (sort_key quote_order quotes) legs" "distinct (List.map quote_key quotes)"
    "legs \<noteq> []" "\<exists>u. pricing_identity c market security = Inr u \<and> list_all (\<lambda>l. al_pricing_underlying l = u) legs"
    "is_aware as_of"
proof -
  from assms obtain u us where d: "pricing_identity c market security = Inr u" "traverse check_quote quotes = Inr us"
    "analyze_legs (leg_of m c security u as_of (flt_val rate) (flt_val dividend)) c as_of []
      (sort_key quote_order quotes) = Inr legs" "legs \<noteq> []" "is_aware as_of"
    by (auto simp: analyze_option_chain_def bindr_eq_Inr res_simps)
  note ok = analyze_legs_ok[OF d(3)]
  have strikes: "0 < oq_strike q" if "q \<in> set quotes" for q
    using traverse_checks[OF d(2) that] by (auto simp: check_quote_def bindr_eq_Inr res_simps)
  show "list_all2 (verified_leg c as_of) (sort_key quote_order quotes) legs"
    by (rule list.rel_mono_strong[OF ok(1)]) (use ok(4) strikes in \<open>auto simp: verified_leg_def dest: leg_ofD\<close>)
  have "mset (List.map quote_key (sort_key quote_order quotes)) = mset (List.map quote_key quotes)" by simp
  then show "distinct (List.map quote_key quotes)" using ok(2) by (metis mset_eq_imp_distinct_iff)
  have "al_pricing_underlying l = u" if "l \<in> set legs" for l
    using ok(1) that by (auto simp: list_all2_conv_all_nth in_set_conv_nth dest: leg_ofD(4))
  then show "\<exists>u. pricing_identity c market security = Inr u \<and> list_all (\<lambda>l. al_pricing_underlying l = u) legs"
    using d(1) by (auto simp: list_all_iff)
  show "legs \<noteq> []" "is_aware as_of" using d by auto
qed

end
