(* ===== verification/Automation.thy ===== *)
theory Automation
  imports Adapters Chain Controller
begin

text \<open>
  The end-to-end run of \<open>automation/service.py\<close>: model analytics (\<open>signals/service.py\<close>), the
  pipeline, the history of evaluations (\<open>automation/history.py\<close>) and the execution controller.
  The history is a table keyed by the hash of the result; the hash and the canonical JSON are
  parameters.
\<close>

subsection \<open>The signal service\<close>

definition pricing_security :: "contract_spec \<Rightarrow> string res" where
  "pricing_security c = (case cs_pricing_model c of
     BLACK_76 \<Rightarrow> (case cs_futures c of
        None \<Rightarrow> Inl (ValueError ''Black-76 evaluation requires the exact mapped future'')
      | Some f \<Rightarrow> Inr (in_security_id (mr_instrument f)))
   | BLACK_SCHOLES \<Rightarrow> Inr (in_security_id (cs_underlying c)))"

definition greeks_of :: "option_model_result \<Rightarrow> greeks" where
  "greeks_of r = \<lparr>gk_delta = Some (FFinite (om_delta r)), gk_gamma = Some (FFinite (om_gamma r)),
     gk_theta = Some (FFinite (om_theta_per_day r)), gk_vega = Some (FFinite (om_vega_per_vol_point r)),
     gk_theoretical_price = Some (Finite (om_price r))\<rparr>"

definition modelled_greeks :: "analyzed_leg list \<Rightarrow> (string \<times> greeks) list" where
  "modelled_greeks legs = foldl (\<lambda>d l. AList.update (al_security_id l) (greeks_of (al_analytics l)) d) [] legs"

definition service_dividend :: "rat strategy_config \<Rightarrow> contract_spec \<Rightarrow> rat" where
  "service_dividend st c = (if cs_pricing_model c = BLACK_76 then 0 else dividend_yield st)"

text \<open>\<open>st\<close> is the strategy of the service, which may differ from the one inside the pipeline.\<close>

definition service_evaluate :: "platform \<Rightarrow> rat strategy_config \<Rightarrow> pipeline \<Rightarrow> atomic_snapshot
    \<Rightarrow> validation_report \<Rightarrow> previous_snapshot option \<Rightarrow> datetime \<Rightarrow> pipeline_result res" where
  "service_evaluate pl st p s r previous now =
    (let c = sn_contract s in
     bindr (pricing_security c) (\<lambda>security.
     bindr (analyze_option_chain (env_libm pl) c (sn_market s) (sn_option_chain s) now security
       (FFinite (risk_free_rate st)) (FFinite (service_dividend st c))) (\<lambda>legs.
       evaluate pl p s r previous (Some (modelled_greeks legs)) now)))"

subsection \<open>The history\<close>

record history_row =
  hr_evaluation_id :: string
  hr_snapshot_id :: string
  hr_generated_at :: datetime
  hr_generated_at_us :: int
  hr_decision :: DecisionState
  hr_reason :: DecisionReason
  hr_call_score :: rat
  hr_put_score :: rat
  hr_score_gap :: rat
  hr_result_json :: string

record serializer =
  ser_json :: "pipeline_result \<Rightarrow> string"
  ser_hash :: "pipeline_result \<Rightarrow> string"

text \<open>\<open>int(utc.timestamp() * 1_000_000)\<close>: seconds as a float, scaled as a float, truncated.\<close>

definition epoch_us :: "datetime \<Rightarrow> int" where
  "epoch_us t = truncate_float (fmul (total_seconds (instant t)) 1000000)"

definition evaluation_id :: "serializer \<Rightarrow> pipeline_result \<Rightarrow> string" where
  "evaluation_id ser r = ''evaluation:'' @ ser_hash ser r"

definition history_row_of :: "serializer \<Rightarrow> pipeline_result \<Rightarrow> history_row" where
  "history_row_of ser r = \<lparr>hr_evaluation_id = evaluation_id ser r, hr_snapshot_id = pr_snapshot_id r,
     hr_generated_at = at_utc (instant (pr_generated_at r)), hr_generated_at_us = epoch_us (pr_generated_at r),
     hr_decision = pr_decision r, hr_reason = pr_reason r, hr_call_score = pr_call_score r,
     hr_put_score = pr_put_score r, hr_score_gap = pr_score_gap r, hr_result_json = ser_json ser r\<rparr>"

definition insert_or_ignore :: "history_row \<Rightarrow> history_row list \<Rightarrow> history_row list" where
  "insert_or_ignore row h = (if hr_evaluation_id row \<in> set (List.map hr_evaluation_id h) then h else h @ [row])"

definition history_record :: "serializer \<Rightarrow> pipeline_result \<Rightarrow> history_row list \<Rightarrow> (string \<times> history_row list) res" where
  "history_record ser r h =
    (if \<not> is_aware (pr_generated_at r) then Inl (ValueError ''signal history requires a timezone-aware generated time'')
     else Inr (evaluation_id ser r, insert_or_ignore (history_row_of ser r) h))"

text \<open>\<open>ORDER BY generated_at_us DESC, evaluation_id DESC LIMIT 1\<close>.\<close>

definition history_key :: "history_row \<Rightarrow> int \<times> string" where
  "history_key row = (hr_generated_at_us row, hr_evaluation_id row)"

definition history_latest :: "history_row list \<Rightarrow> (string \<times> string) option" where
  "history_latest h = (case rev (sort_key history_key h) of [] \<Rightarrow> None
     | row # _ \<Rightarrow> Some (hr_evaluation_id row, hr_result_json row))"

definition history_count :: "history_row list \<Rightarrow> int" where
  "history_count h = int (length h)"

subsection \<open>The run\<close>

record run_result =
  rr_signal :: pipeline_result
  rr_execution :: "execution_result option"
  rr_execution_blocked_reason :: "string option"

record automation =
  au_platform :: platform
  au_serializer :: serializer
  au_strategy :: "rat strategy_config"
  au_pipeline :: pipeline
  au_controller :: controller

text \<open>\<open>try: submit(...) except ExecutionBlockedError\<close>.\<close>

definition submit_or_blocked :: "controller \<Rightarrow> pipeline_result \<Rightarrow> trade_plan \<Rightarrow> datetime \<Rightarrow> run_result action" where
  "submit_or_blocked c r plan now w = (case submit c plan now w of
     (Inr e, w') \<Rightarrow> (Inr \<lparr>rr_signal = r, rr_execution = Some e, rr_execution_blocked_reason = None\<rparr>, w')
   | (Inl (ExecutionBlockedError msg), w') \<Rightarrow>
       (Inr \<lparr>rr_signal = r, rr_execution = None, rr_execution_blocked_reason = Some msg\<rparr>, w')
   | (Inl e, w') \<Rightarrow> (Inl e, w'))"

definition execute_signal_plan :: "automation \<Rightarrow> pipeline_result \<Rightarrow> atomic_snapshot \<Rightarrow> datetime \<Rightarrow> run_result action" where
  "execute_signal_plan a r s now w =
    (let nothing = \<lparr>rr_signal = r, rr_execution = None, rr_execution_blocked_reason = None\<rparr> in
     case pr_trade_plan r of None \<Rightarrow> (Inr nothing, w)
     | Some plan \<Rightarrow>
        if \<not> tp_actionable plan then (Inr nothing, w)
        else (case to_execution_plan (au_platform a) plan s default_validity default_expiry_buffer of
          Inl e \<Rightarrow> (Inl e, w)
        | Inr x \<Rightarrow> submit_or_blocked (au_controller a) r x now w))"

definition process :: "automation \<Rightarrow> atomic_snapshot \<Rightarrow> validation_report \<Rightarrow> previous_snapshot option \<Rightarrow> datetime
    \<Rightarrow> history_row list \<times> world \<Rightarrow> run_result res \<times> (history_row list \<times> world)" where
  "process a s r previous now = (\<lambda>(h, w).
    case service_evaluate (au_platform a) (au_strategy a) (au_pipeline a) s r previous now of
      Inl e \<Rightarrow> (Inl e, (h, w))
    | Inr res \<Rightarrow>
       (case history_record (au_serializer a) res h of
          Inl e \<Rightarrow> (Inl e, (h, w))
        | Inr (_, h') \<Rightarrow> (case execute_signal_plan a res s now w of (out, w') \<Rightarrow> (out, (h', w')))))"

definition execution_registry_for_contract :: "contract_spec \<Rightarrow> (string \<times> string) list" where
  "execution_registry_for_contract c = foldl (\<lambda>d r. AList.update (in_symbol (mr_instrument r))
     (in_security_id (mr_instrument r)) d) [] (cs_option_contracts c)"

end
