(* ===== verification/AutomationDemo.thy ===== *)
theory AutomationDemo
  imports Automation PipelineDemo
begin

text \<open>
  One automated run: the service prices the two legs of the demonstration chain with Black-Scholes,
  the pipeline buys the call and the paper broker fills it.
\<close>

subsection \<open>The analysed legs\<close>

definition demo_years :: rat where "demo_years = 9007198112275333 / 36028797018963968"

definition demo_model :: model_parts where
  "demo_model = \<lparr>bp_d1 = 6755399012631109 / 36028797018963968, bp_d2 = 2251799670877037 / 36028797018963968,
     bp_asset_discount = 1, bp_strike_discount = 1, bp_density = 7186705221432913 / 18014398509481984,
     bp_gamma = 5887349290771097 / 36893488147419103232, bp_vega = 5614613098168003 / 140737488355328,
     bp_decay = - 548302129914155 / 274877906944\<rparr>"

lemma demo_years_fraction:
  "year_fraction demo_now demo_expiry (BFloat (FFinite 365)) = Inr demo_years"
  by code_simp

lemma demo_root: "fsqrt demo_years = 562949917719259 / 1125899906842624"
  by code_simp

lemma demo_bs_parts: "bs_parts demo_libm 20000 20000 (1 / 4) demo_years (1 / 16) 0 = Inr demo_model"
proof -
  define R where "R = (562949917719259 / 1125899906842624 :: rat)"
  have f: "fdivr 20000 20000 = Inr 1" "flog demo_libm 1 = Inr 0"
    "fdivr (fadd 0 (fmul (fadd (fsub (1 / 16) 0) (fmul (fmul (1 / 2) (1 / 4)) (1 / 4))) demo_years)) (fmul (1 / 4) R)
       = Inr (6755399012631109 / 36028797018963968)"
    "fexp demo_libm (fmul (- 0) demo_years) = Inr 1" "fexp demo_libm (fmul (- (1 / 16)) demo_years) = Inr 1"
    "normal_pdf demo_libm (6755399012631109 / 36028797018963968) = Inr (7186705221432913 / 18014398509481984)"
    "fdivr (fmul 1 (7186705221432913 / 18014398509481984)) (fmul (fmul 20000 (1 / 4)) R)
       = Inr (5887349290771097 / 36893488147419103232)"
    "fdivr (fmul (fmul (fmul (- 20000) 1) (7186705221432913 / 18014398509481984)) (1 / 4)) (fmul 2 R)
       = Inr (- 548302129914155 / 274877906944)"
    "fsub (6755399012631109 / 36028797018963968) (fmul (1 / 4) R) = 2251799670877037 / 36028797018963968"
    "fdiv (fmul (fmul (fmul 20000 1) (7186705221432913 / 18014398509481984)) R) 100 = 5614613098168003 / 140737488355328"
    unfolding R_def by code_simp+
  show ?thesis
    unfolding bs_parts_def demo_root R_def[symmetric] Let_def f bindr_simps demo_model_def ..
qed


lemma demo_bs_result:
  "greeks_of (bs_result demo_libm CALL 20000 20000 (1 / 16) 0 demo_model) = demo_greeks (1 / 2)"
  "greeks_of (bs_result demo_libm PUT 20000 20000 (1 / 16) 0 demo_model) = demo_greeks (- 1 / 2)"
proof -
  have n: "normal_cdf demo_libm x = 1 / 2" for x
  proof -
    have "fmul (1 / 2) (fadd 1 0) = (1 / 2 :: rat)" by code_simp
    then show ?thesis by (simp add: normal_cdf_def demo_libm_def)
  qed
  have g: "gk_theta (demo_greeks (1 / 2)) = Some (FFinite (- 1010114029419527 / 140737488355328))"
    "gk_theta (demo_greeks (- 1 / 2)) = Some (FFinite (- 8450181273160213 / 2251799813685248))"
    by (simp_all add: demo_greeks_def)
  have a: "fmul (fmul 20000 1) (1 / 2) = (10000 :: rat)" "fsub 10000 10000 = (0 :: rat)"
    "fmul 1 (1 / 2) = (1 / 2 :: rat)" "fsub (1 / 2) 1 = (- 1 / 2 :: rat)" "fmul 1 (- 1 / 2) = (- 1 / 2 :: rat)"
    "money 0 = 0"
    "fdiv (fadd (fsub (- 548302129914155 / 274877906944) (fmul (fmul (fmul (1 / 16) 20000) 1) (1 / 2)))
       (fmul (fmul (fmul 0 20000) 1) (1 / 2))) 365 = - 1010114029419527 / 140737488355328"
    "fdiv (fsub (fadd (- 548302129914155 / 274877906944) (fmul (fmul (fmul (1 / 16) 20000) 1) (1 / 2)))
       (fmul (fmul (fmul 0 20000) 1) (1 / 2))) 365 = - 8450181273160213 / 2251799813685248" by code_simp+
  show "greeks_of (bs_result demo_libm CALL 20000 20000 (1 / 16) 0 demo_model) = demo_greeks (1 / 2)"
    by (simp add: greeks_of_def bs_result_def bs_call_def model_result_def n Let_def demo_model_def a[simplified] demo_greeks_def)
  show "greeks_of (bs_result demo_libm PUT 20000 20000 (1 / 16) 0 demo_model) = demo_greeks (- 1 / 2)"
    by (simp add: greeks_of_def bs_result_def bs_put_def model_result_def n Let_def demo_model_def a[simplified] demo_greeks_def)
qed

lemma demo_price:
  "price_option demo_libm BLACK_SCHOLES ty (BDecimal (Finite 20000)) (BDecimal (Finite 20000)) (BFloat (FFinite (1 / 4)))
     (BFloat (FFinite demo_years)) (BFloat (FFinite (1 / 16))) (BFloat (FFinite 0))
   = Inr (bs_result demo_libm ty 20000 20000 (1 / 16) 0 demo_model)"
proof -
  have f: "fround 20000 = (20000 :: rat)" by code_simp
  show ?thesis
    by (simp add: price_option_def black_scholes_def positive_decimal_def finite_decimal_def positive_float_def demand_def
      demo_bs_parts f demo_years_def[THEN arg_cong, of "\<lambda>x. 0 < x"])
qed


lemma demo_move: "\<exists>e. expected_move (BDecimal (Finite 20000)) (BFloat (FFinite (1 / 4))) (BFloat (FFinite demo_years)) = Inr e"
proof -
  have "0 < demo_years" by (simp add: demo_years_def)
  then show ?thesis by (simp add: expected_move_def positive_decimal_def finite_decimal_def positive_float_def demand_def Let_def)
qed

lemma demo_leg:
  assumes "q \<in> {demo_call_quote, demo_put_quote}"
  shows "\<exists>l. leg_of demo_libm demo_contract ''13'' 20000 demo_now (1 / 16) 0 q = Inr l
    \<and> al_security_id l = oq_security_id q \<and> greeks_of (al_analytics l) = oq_greeks q"
proof -
  obtain e where e: "expected_move (BDecimal (Finite 20000)) (BFloat (FFinite (1 / 4))) (BFloat (FFinite demo_years)) = Inr e"
    using demo_move by blast
  from assms have q: "quote_volatility q = Inr (1 / 4)" "oq_expiry q = demo_expiry" "oq_strike q = 20000"
    "greeks_of (bs_result demo_libm (oq_option_type q) 20000 20000 (1 / 16) 0 demo_model) = oq_greeks q"
    by (auto simp: demo_call_quote_def demo_put_quote_def demo_quote_def quote_volatility_def demo_bs_result)
  have m: "cs_pricing_model demo_contract = BLACK_SCHOLES" by (simp add: demo_contract_def)
  show ?thesis
    unfolding leg_of_def q(1,2,3) bindr_simps demo_years_fraction m demo_price e by (simp add: q(4))
qed

lemma demo_chain:
  "\<exists>legs. analyze_option_chain demo_libm demo_contract (sn_market demo_snapshot) [demo_call_quote, demo_put_quote]
      demo_now ''13'' (FFinite (1 / 16)) (FFinite 0) = Inr legs
    \<and> modelled_greeks legs = [(''C1'', oq_greeks demo_call_quote), (''P1'', oq_greeks demo_put_quote)]"
proof -
  obtain c p where l: "leg_of demo_libm demo_contract ''13'' 20000 demo_now (1 / 16) 0 demo_call_quote = Inr c"
      "al_security_id c = ''C1''" "greeks_of (al_analytics c) = oq_greeks demo_call_quote"
      "leg_of demo_libm demo_contract ''13'' 20000 demo_now (1 / 16) 0 demo_put_quote = Inr p"
      "al_security_id p = ''P1''" "greeks_of (al_analytics p) = oq_greeks demo_put_quote"
    using demo_leg[of demo_call_quote] demo_leg[of demo_put_quote]
    by (auto simp: demo_call_quote_def[THEN arg_cong, of oq_security_id] demo_put_quote_def[THEN arg_cong, of oq_security_id]
      demo_quote_def)
  have f: "aware ''chain evaluation time'' demo_now = Inr demo_now" "is_aware (ms_observed_at (sn_market demo_snapshot))"
    "instant (ms_observed_at (sn_market demo_snapshot)) \<le> instant demo_now" "py_strip ''13'' \<noteq> []"
    "pricing_identity demo_contract (sn_market demo_snapshot) ''13'' = Inr 20000"
    "traverse check_quote [demo_call_quote, demo_put_quote] = Inr [(), ()]"
    "sort_key quote_order [demo_call_quote, demo_put_quote] = [demo_call_quote, demo_put_quote]"
    "check_leg demo_contract demo_now [] demo_call_quote = Inr ()"
    "check_leg demo_contract demo_now [quote_key demo_call_quote] demo_put_quote = Inr ()" by code_simp+
  show ?thesis
    unfolding analyze_option_chain_def f analyze_legs.simps bindr_simps
    by (simp add: f(2-4) l demand_def modelled_greeks_def)
qed

subsection \<open>The service\<close>

lemma demo_own_greeks:
  "candidates_of demo_platform demo_pipeline demo_snapshot
     [(''C1'', demo_old ''C1'' CALL 80), (''P1'', demo_old ''P1'' PUT 125)]
     (Some [(''C1'', oq_greeks demo_call_quote), (''P1'', oq_greeks demo_put_quote)])
   = candidates_of demo_platform demo_pipeline demo_snapshot
     [(''C1'', demo_old ''C1'' CALL 80), (''P1'', demo_old ''P1'' PUT 125)] None"
proof -
  have c: "sn_option_chain demo_snapshot = [demo_call_quote, demo_put_quote]" by (simp add: demo_snapshot_def)
  have i: "oq_security_id demo_call_quote = ''C1''" "oq_security_id demo_put_quote = ''P1''" by code_simp+
  have "q\<lparr>oq_greeks := oq_greeks q\<rparr> = q" for q :: option_quote by simp
  then show ?thesis
    unfolding candidates_of_def c by (simp add: modelled_quote_def replace_quote_greeks_def i)
qed

lemma demo_service:
  "service_evaluate demo_platform demo_strategy demo_pipeline demo_snapshot demo_validation (Some demo_previous) demo_now
     = Inr demo_result"
proof -
  obtain legs where legs: "analyze_option_chain demo_libm demo_contract (sn_market demo_snapshot)
      [demo_call_quote, demo_put_quote] demo_now ''13'' (FFinite (1 / 16)) (FFinite 0) = Inr legs"
    "modelled_greeks legs = [(''C1'', oq_greeks demo_call_quote), (''P1'', oq_greeks demo_put_quote)]"
    using demo_chain by blast
  have i: "oq_security_id demo_call_quote = ''C1''" "oq_security_id demo_put_quote = ''P1''" by code_simp+
  have f: "pricing_security demo_contract = Inr ''13''" "risk_free_rate demo_strategy = 1 / 16"
    "service_dividend demo_strategy demo_contract = 0" by code_simp+
  have m: "env_libm demo_platform = demo_libm" by (simp add: demo_platform_def)
  have s: "sn_option_chain demo_snapshot = [demo_call_quote, demo_put_quote]" "sn_contract demo_snapshot = demo_contract"
    by (simp_all add: demo_snapshot_def)
  have "check_modelled demo_snapshot (Some [(''C1'', oq_greeks demo_call_quote), (''P1'', oq_greeks demo_put_quote)])
      = check_modelled demo_snapshot None"
    by (simp add: check_modelled_def s i)
  then have "evaluate demo_platform demo_pipeline demo_snapshot demo_validation (Some demo_previous)
      (Some [(''C1'', oq_greeks demo_call_quote), (''P1'', oq_greeks demo_put_quote)]) demo_now
    = evaluate demo_platform demo_pipeline demo_snapshot demo_validation (Some demo_previous) None demo_now"
    unfolding evaluate_def demo_previous_quotes bindr_simps by (simp add: demo_own_greeks)
  then show ?thesis
    unfolding service_evaluate_def Let_def s f m bindr_simps legs by (simp add: demo_evaluation)
qed

end
