(* ===== verification/AutomationClaims.thy ===== *)
theory AutomationClaims
  imports AutomationDemo ValidationClaims ExecutionInv "HOL-Library.Sublist"
begin

text \<open>
  What an automated run guarantees: the analysed chain is verified and its sensitivities have the
  signs of the model, every evaluation is recorded once, and the execution controller is reached
  only through a recorded BUY.
\<close>

subsection \<open>The analysed chain\<close>

lemma price_option_signed:
  assumes "price_option m model ty u k v y rate dividend = Inr r" "sane_libm m"
  shows "greeks_signed r" "om_option_type r = ty" "om_model r = model"
proof -
  have pos: "0 \<le> fround x" if "positive_decimal n b = Inr x" for n b x
    using that by (auto simp: positive_decimal_def bindr_eq_Inr demand_def analytics_error_def flt.rnd_nonneg split: if_splits)
  have fl: "0 \<le> x" if "positive_float n b = Inr x" for n b x
    using that by (auto simp: positive_float_def bindr_eq_Inr demand_def analytics_error_def split: if_splits)
  have kind: "om_option_type (bs_result m ty a b c d p) = ty" "om_model (bs_result m ty a b c d p) = BLACK_SCHOLES"
    "om_option_type (b76_result m ty a b c p) = ty" "om_model (b76_result m ty a b c p) = BLACK_76" for a b c d p
    by (simp_all add: bs_result_def b76_result_def model_result_def Let_def split: prod.split)
  have "greeks_signed r \<and> om_option_type r = ty \<and> om_model r = model"
  proof (cases model)
    case BLACK_SCHOLES
    with assms(1) obtain a b g t i d p where e: "positive_decimal ''spot'' u = Inr a" "positive_decimal ''strike'' k = Inr b"
      "positive_float ''volatility'' v = Inr g" "positive_float ''time to expiry'' y = Inr t"
      "bs_parts m (fround a) (fround b) g t i d = Inr p" "r = bs_result m ty (fround a) (fround b) i d p"
      by (auto simp: price_option_def black_scholes_def bindr_eq_Inr outside_domain_eq_Inr)
    show ?thesis
      using bs_result_signed(1)[OF e(5) assms(2) pos[OF e(1)] fl[OF e(3)] fl[OF e(4)]] by (simp add: e(6) kind BLACK_SCHOLES)
  next
    case BLACK_76
    with assms(1) obtain a b g t i p where e: "positive_decimal ''futures price'' u = Inr a" "positive_decimal ''strike'' k = Inr b"
      "positive_float ''volatility'' v = Inr g" "positive_float ''time to expiry'' y = Inr t"
      "b76_parts m (fround a) (fround b) g t i = Inr p" "r = b76_result m ty (fround a) (fround b) i p"
      by (auto simp: price_option_def black_76_def bindr_eq_Inr outside_domain_eq_Inr)
    show ?thesis
      using b76_result_signed(1)[OF e(5) assms(2) pos[OF e(1)] fl[OF e(3)] fl[OF e(4)]] by (simp add: e(6) kind BLACK_76)
  qed
  then show "greeks_signed r" "om_option_type r = ty" "om_model r = model" by auto
qed

lemma analyze_option_chain_signed:
  assumes "analyze_option_chain m c market quotes as_of security rate dividend = Inr legs" "sane_libm m" "l \<in> set legs"
  shows "greeks_signed (al_analytics l)" "om_option_type (al_analytics l) = al_option_type l"
    "om_model (al_analytics l) = cs_pricing_model c"
proof -
  from assms(1) obtain u ls where d: "analyze_legs (leg_of m c security u as_of (flt_val rate) (flt_val dividend)) c as_of []
      (sort_key quote_order quotes) = Inr legs"
    by (auto simp: analyze_option_chain_def bindr_eq_Inr res_simps)
  obtain q where "leg_of m c security u as_of (flt_val rate) (flt_val dividend) q = Inr l"
    using analyze_legs_ok(1)[OF d] assms(3) by (auto simp: list_all2_conv_all_nth in_set_conv_nth)
  note leg = leg_ofD[OF this]
  show "greeks_signed (al_analytics l)" "om_option_type (al_analytics l) = al_option_type l"
    "om_model (al_analytics l) = cs_pricing_model c"
    using price_option_signed[OF leg(9) assms(2)] leg(3) by auto
qed



subsection \<open>The run\<close>

lemma plan_of_result:
  assumes "evaluate pl p s r previous modeled now = Inr res" "pr_trade_plan res = Some plan"
  shows "tp_actionable plan = is_buy (pr_decision res)" "tp_decision plan = pr_decision res"
proof -
  have "\<exists>d. pr_trade_plan res = map_option (\<lambda>d. finalize d (pr_decision res)) d"
    using assms(1) unfolding evaluate_def Let_def bindr_eq_Inr check_eq_Inr
    by (elim exE conjE) (auto simp: option.map_comp comp_def intro: exI[of _ "map_option fst _"])
  then have "\<exists>d. plan = finalize d (pr_decision res)" unfolding assms(2)
    by (metis (no_types, lifting) map_option_eq_Some)
  then show "tp_actionable plan = is_buy (pr_decision res)" "tp_decision plan = pr_decision res" by auto
qed

lemma processE:
  assumes "process a s r previous now (h, w) = (out, (h', w'))"
  obtains (failed) e where "out = Inl e" "h' = h" "w' = w"
  | (evaluated) res where "service_evaluate (au_platform a) (au_strategy a) (au_pipeline a) s r previous now = Inr res"
    "h' = insert_or_ignore (history_row_of (au_serializer a) res) h" "is_aware (pr_generated_at res)"
    "execute_signal_plan a res s now w = (out, w')"
  using assms
  by (auto simp: process_def history_record_def split: sum.splits prod.splits if_splits)

lemma executeE:
  assumes "execute_signal_plan a res s now w = (out, w')"
  obtains (idle) "w' = w" "out = Inr \<lparr>rr_signal = res, rr_execution = None, rr_execution_blocked_reason = None\<rparr>"
  | (refused) e where "w' = w" "out = Inl e"
  | (submitted) plan x where "pr_trade_plan res = Some plan" "tp_actionable plan"
    "to_execution_plan (au_platform a) plan s default_validity default_expiry_buffer = Inr x"
    "w' = snd (submit (au_controller a) x now w)"
  using assms
  by (auto simp: execute_signal_plan_def submit_or_blocked_def Let_def split: option.splits if_splits sum.splits
      py_error.splits prod.splits)

lemma insert_or_ignore_id: "hr_evaluation_id row \<in> set (List.map hr_evaluation_id (insert_or_ignore row h))"
  by (auto simp: insert_or_ignore_def)

lemma insert_or_ignore_prefix: "prefix h (insert_or_ignore row h)"
  by (simp add: insert_or_ignore_def)

text \<open>
  C7: A run changes the execution state only on a BUY: the pipeline's evaluation of this snapshot,
  with the Greeks of the analysed chain and an error-free report bound to the snapshot, is in the
  history, its plan is actionable and bound to the snapshot, and the change is exactly what the
  controller's submit does with that plan's symbol, quantity, entry price and risk.
\<close>

theorem runs_execute_only_recorded_buys:
  assumes "process a s r previous now (h, w) = (out, (h', w'))" "w' \<noteq> w"
  shows "\<exists>res plan x. service_evaluate (au_platform a) (au_strategy a) (au_pipeline a) s r previous now = Inr res
    \<and> is_buy (pr_decision res) \<and> report_errors r = [] \<and> vr_snapshot_id r = Some (sn_snapshot_id s)
    \<and> evaluation_id (au_serializer a) res \<in> set (List.map hr_evaluation_id h')
    \<and> pr_trade_plan res = Some plan \<and> same_snapshot (au_platform a) plan s
    \<and> w' = snd (submit (au_controller a) x now w)
    \<and> pl_signal_id x = tp_signal_id plan \<and> pl_symbol x = tp_symbol plan \<and> pl_security_id x = tp_security_id plan
    \<and> pl_side x = BUY \<and> pl_quantity x = tp_quantity plan \<and> pl_limit_price x = Finite (tp_entry plan)
    \<and> pl_maximum_loss x = Finite (dmul (tp_risk_per_lot plan) (of_int (tp_lots plan)))
    \<and> pl_event_risk_active x = sc_event_risk_active (sn_context s)"
  using assms(1)
proof (cases rule: processE)
  case failed
  then show ?thesis using assms(2) by simp
next
  case (evaluated res)
  then obtain m where e: "evaluate (au_platform a) (au_pipeline a) s r previous m now = Inr res"
    by (auto simp: service_evaluate_def Let_def bindr_eq_Inr)
  from evaluated(4) show ?thesis
  proof (cases rule: executeE)
    case (submitted plan x)
    have buy: "is_buy (pr_decision res)" using plan_of_result[OF e submitted(1)] submitted(2) by simp
    from evaluate_buy_gates[OF e buy] have "require_bound_report (au_platform a) s r = Inr ()" "report_errors r = []"
      by (metis accepted_iff_no_errors buy_gates_def data_complete_accepted)+
    moreover from this(1) have "vr_snapshot_id r = Some (sn_snapshot_id s)"
      by (simp add: require_bound_report_def split: if_splits)
    ultimately show ?thesis
      using evaluated(1,2) submitted buy to_execution_planD[OF submitted(3)]
        insert_or_ignore_id[of "history_row_of (au_serializer a) res" h]
      by (intro exI[of _ res] exI[of _ plan] exI[of _ x]) (simp add: history_row_of_def)
  qed (use assms(2) in auto)
qed

text \<open>A run of the demonstration service on a paper account.\<close>

definition demo_automation :: automation where
  "demo_automation = \<lparr>au_platform = demo_platform,
     au_serializer = \<lparr>ser_json = (\<lambda>_. ''{}''), ser_hash = pr_snapshot_id\<rparr>, au_strategy = demo_strategy,
     au_pipeline = demo_pipeline,
     au_controller = \<lparr>ct_policy = \<lparr>xp_mode = PAPER_TRADING, xp_max_data_age_seconds = 30,
         xp_future_clock_skew_seconds = 2, xp_min_expiry_buffer_seconds = 900, xp_max_order_quantity = 10000,
         xp_max_order_notional = 1000000, xp_max_plan_loss = 50000, xp_max_daily_loss = 100000,
         xp_max_consecutive_losses = 3, xp_live_enabled = False\<rparr>,
       ct_paper = \<lparr>pc_slippage_bps = 0, pc_partial_fill_ratio = 1\<rparr>, ct_digest = (\<lambda>s. s), ct_live = None\<rparr>\<rparr>"

definition demo_account :: world where
  "demo_account = \<lparr>w_ledger = initial_ledger 0, w_registry = execution_registry_for_contract demo_contract, w_calls = []\<rparr>"

definition demo_order_plan :: trade_plan where
  "demo_order_plan = \<lparr>pl_signal_id = ''signal:id'', pl_correlation_id = ''signal:id'', pl_symbol = ''NIFTY20000CE'',
     pl_security_id = ''C1'', pl_side = BUY, pl_quantity = 600, pl_limit_price = Finite 101,
     pl_maximum_loss = Finite 15150, pl_signal_time = demo_now, pl_data_time = at_utc (seconds 60),
     pl_valid_until = at_utc (seconds 91), pl_contract_expiry = demo_expiry, pl_event_risk_active = Some False,
     pl_expiry_risk_clear = True, pl_strategy_version = ''1.0.0''\<rparr>"

lemma demo_adapted:
  "to_execution_plan demo_platform (finalize demo_draft BUY_CALL) demo_snapshot default_validity default_expiry_buffer
     = Inr demo_order_plan"
  by code_simp

lemma demo_submitted:
  "List.map (\<lambda>o'. (lo_signal_id o', lo_quantity o'))
     (lg_orders (w_ledger (snd (submit (au_controller demo_automation) demo_order_plan demo_now demo_account))))
   = [(''signal:id'', 600)]"
  by code_simp

lemma demo_account_orders: "lg_orders (w_ledger demo_account) = []"
  by code_simp

text \<open>The run of the demonstration: its result and the worlds before and after.\<close>

lemma demo_automation_run:
  "\<exists>out h' w'. process demo_automation demo_snapshot demo_validation (Some demo_previous) demo_now ([], demo_account)
      = (out, (h', w')) \<and> List.map hr_evaluation_id h' = [''evaluation:s2'']
    \<and> List.map (\<lambda>o'. (lo_signal_id o', lo_quantity o')) (lg_orders (w_ledger w')) = [(''signal:id'', 600)]"
proof -
  define w' where "w' = snd (submit (au_controller demo_automation) demo_order_plan demo_now demo_account)"
  have a: "au_platform demo_automation = demo_platform" "au_strategy demo_automation = demo_strategy"
    "au_pipeline demo_automation = demo_pipeline"
    "au_serializer demo_automation = \<lparr>ser_json = (\<lambda>_. ''{}''), ser_hash = pr_snapshot_id\<rparr>"
    by (simp_all add: demo_automation_def)
  have r: "pr_trade_plan demo_result = Some (finalize demo_draft BUY_CALL)" "pr_snapshot_id demo_result = ''s2''"
    "pr_generated_at demo_result = at_utc (seconds 61)"
    by (simp_all add: demo_result_def demo_now_def)
  have "\<exists>out. execute_signal_plan demo_automation demo_result demo_snapshot demo_now demo_account = (out, w')"
    unfolding execute_signal_plan_def Let_def r a option.case demo_adapted
    by (auto simp: is_buy_def submit_or_blocked_def w'_def split: prod.split sum.split py_error.split)
  then obtain out where x: "execute_signal_plan demo_automation demo_result demo_snapshot demo_now demo_account = (out, w')"
    by blast
  have "process demo_automation demo_snapshot demo_validation (Some demo_previous) demo_now ([], demo_account)
      = (out, ([history_row_of (au_serializer demo_automation) demo_result], w'))"
    by (simp add: process_def a demo_service history_record_def r x insert_or_ignore_def)
  then show ?thesis
    using demo_submitted by (auto simp: history_row_of_def evaluation_id_def a r w'_def)
qed

lemma runs_execute_only_recorded_buys_witness:
  "\<exists>out h' w' x. process demo_automation demo_snapshot demo_validation (Some demo_previous) demo_now ([], demo_account)
      = (out, (h', w')) \<and> w' = snd (submit (au_controller demo_automation) x demo_now demo_account)
    \<and> w' \<noteq> demo_account \<and> pl_side x = BUY"
proof -
  obtain out h' w' where p: "process demo_automation demo_snapshot demo_validation (Some demo_previous) demo_now
      ([], demo_account) = (out, (h', w'))" and o: "lg_orders (w_ledger w') \<noteq> []"
    using demo_automation_run by fastforce
  then have "w' \<noteq> demo_account" using demo_account_orders by auto
  with p runs_execute_only_recorded_buys[OF p this] show ?thesis by blast
qed

lemma evaluate_snapshot_id: "evaluate pl p s r previous m now = Inr res \<Longrightarrow> pr_snapshot_id res = sn_snapshot_id s"
  unfolding evaluate_def Let_def bindr_eq_Inr check_eq_Inr by auto

lemma execute_signal: "execute_signal_plan a res s now w = (Inr rr, w') \<Longrightarrow> rr_signal rr = res"
  by (auto simp: execute_signal_plan_def submit_or_blocked_def Let_def split: option.splits if_splits sum.splits
      py_error.splits prod.splits)

text \<open>
  A run refines the execution controller: it leaves the execution state alone or makes one step
  of the controller, so what holds of every reachable controller state holds after any number of
  runs. It only appends to the history, at most one row, under an id of its own; a run that returns a
  signal has recorded it, and a run that fails before recording touches nothing.
\<close>

theorem runs_refine_controller_steps:
  assumes "process a s r previous now (h, w) = (out, (h', w'))"
  shows "(w' = w \<or> controller_step (au_controller a) w w')
    \<and> (reachable initial_world (controller_step (au_controller a)) w \<longrightarrow>
         reachable initial_world (controller_step (au_controller a)) w')
    \<and> prefix h h' \<and> length h' \<le> Suc (length h)
    \<and> (distinct (List.map hr_evaluation_id h) \<longrightarrow> distinct (List.map hr_evaluation_id h'))
    \<and> (\<forall>rr. out = Inr rr \<longrightarrow> evaluation_id (au_serializer a) (rr_signal rr) \<in> set (List.map hr_evaluation_id h')
        \<and> pr_snapshot_id (rr_signal rr) = sn_snapshot_id s)
    \<and> (h' = [] \<longrightarrow> w' = w \<and> (\<exists>e. out = Inl e))"
  using assms
proof (cases rule: processE)
  case failed
  then show ?thesis by simp
next
  case (evaluated res)
  have "w' = w \<or> controller_step (au_controller a) w w'"
    using evaluated(4) by (cases rule: executeE) (auto intro: step_submit[OF prod.collapse[symmetric]])
  moreover from this have "reachable initial_world (controller_step (au_controller a)) w \<Longrightarrow>
      reachable initial_world (controller_step (au_controller a)) w'"
    by (auto intro: reachable_step)
  moreover have "rr_signal rr = res \<and> pr_snapshot_id res = sn_snapshot_id s" if "out = Inr rr" for rr
    using evaluated(1,4) that by (auto simp: service_evaluate_def Let_def bindr_eq_Inr dest: execute_signal evaluate_snapshot_id)
  moreover have "hr_evaluation_id (history_row_of (au_serializer a) res) = evaluation_id (au_serializer a) res"
    by (simp add: history_row_of_def)
  with insert_or_ignore_id[of "history_row_of (au_serializer a) res" h]
  have "evaluation_id (au_serializer a) res \<in> set (List.map hr_evaluation_id h')" by (simp add: evaluated(2))
  moreover from this have "h' \<noteq> []" by auto
  moreover have "prefix h h'" "length h' \<le> Suc (length h)"
    "distinct (List.map hr_evaluation_id h) \<longrightarrow> distinct (List.map hr_evaluation_id h')"
    by (auto simp: evaluated(2) insert_or_ignore_def)
  ultimately show ?thesis by (intro conjI allI impI) (blast | metis)+
qed

lemma runs_refine_controller_steps_witness:
  "\<exists>out h' w'. process demo_automation demo_snapshot demo_validation (Some demo_previous) demo_now ([], demo_account)
      = (out, (h', w')) \<and> length h' = 1 \<and> w' \<noteq> demo_account
    \<and> controller_step (au_controller demo_automation) demo_account w'"
proof -
  obtain out h' w' where p: "process demo_automation demo_snapshot demo_validation (Some demo_previous) demo_now
      ([], demo_account) = (out, (h', w'))" and o: "lg_orders (w_ledger w') \<noteq> []" "List.map hr_evaluation_id h' = [''evaluation:s2'']"
    using demo_automation_run by fastforce
  moreover have "length h' = 1" using o(2) by auto
  moreover have "w' \<noteq> demo_account" using o(1) demo_account_orders by auto
  ultimately show ?thesis using runs_refine_controller_steps[OF p] by blast
qed

end
