(* ===== verification/Json.thy ===== *)
theory Json
  imports Numbers
begin

text \<open>
  JSON documents as the code reads them (\<open>dict\<close>, \<open>list\<close>, scalars), numbers in text and integers
  as text: \<open>Decimal(str)\<close>, \<open>float(str)\<close>, \<open>str(int)\<close>.
\<close>

datatype json = JNull | JBool bool | JInt int | JFloat float64 | JStr string
  | JList "json list" | JObj "(string \<times> json) list"

text \<open>\<open>mapping.get(key)\<close>.\<close>

definition member :: "(string \<times> json) list \<Rightarrow> string \<Rightarrow> json" where
  "member o' k = (case map_of o' k of None \<Rightarrow> JNull | Some j \<Rightarrow> j)"

text \<open>Python's truth value.\<close>

fun truthy :: "json \<Rightarrow> bool" where
  "truthy JNull = False"
| "truthy (JBool b) = b"
| "truthy (JInt n) = (n \<noteq> 0)"
| "truthy (JFloat f) = (f \<noteq> FFinite 0)"
| "truthy (JStr s) = (s \<noteq> [])"
| "truthy (JList xs) = (xs \<noteq> [])"
| "truthy (JObj entries) = (entries \<noteq> [])"

text \<open>\<open>x or {}\<close> that must be a mapping.\<close>

definition object_or_empty :: "json \<Rightarrow> (string \<times> json) list option" where
  "object_or_empty j = (if \<not> truthy j then Some [] else case j of JObj o' \<Rightarrow> Some o' | _ \<Rightarrow> None)"

subsection \<open>Digits\<close>

definition is_digit :: "char \<Rightarrow> bool" where
  "is_digit c \<longleftrightarrow> CHR ''0'' \<le> c \<and> c \<le> CHR ''9''"

definition digit_value :: "char \<Rightarrow> int" where
  "digit_value c = of_char c - 48"

definition digit_char :: "nat \<Rightarrow> char" where
  "digit_char n = char_of (n + 48)"

definition digits_value :: "string \<Rightarrow> int" where
  "digits_value s = foldl (\<lambda>n c. 10 * n + digit_value c) 0 s"

fun nat_text :: "nat \<Rightarrow> string" where
  "nat_text n = (if n < 10 then [digit_char n] else nat_text (n div 10) @ [digit_char (n mod 10)])"

declare nat_text.simps [simp del]

definition int_text :: "int \<Rightarrow> string" where
  "int_text n = (if n < 0 then CHR ''-'' # nat_text (nat (- n)) else nat_text (nat n))"

subsection \<open>Numbers in text\<close>

definition split_sign :: "string \<Rightarrow> bool \<times> string" where
  "split_sign s = (case s of c # t \<Rightarrow> if c = CHR ''-'' then (True, t) else if c = CHR ''+'' then (False, t) else (False, s)
     | [] \<Rightarrow> (False, []))"

definition signed :: "bool \<Rightarrow> 'a::uminus \<Rightarrow> 'a" where
  "signed neg x = (if neg then - x else x)"

definition parse_exponent :: "string \<Rightarrow> int option" where
  "parse_exponent s = (case s of [] \<Rightarrow> Some 0
     | c # t \<Rightarrow> if c \<noteq> CHR ''e'' \<and> c \<noteq> CHR ''E'' then None
         else (case split_sign t of (neg, ds) \<Rightarrow>
           if ds \<noteq> [] \<and> list_all is_digit ds then Some (signed neg (digits_value ds)) else None))"

text \<open>Digits, optionally a point and digits, optionally an exponent.\<close>

definition parse_unsigned :: "string \<Rightarrow> rat option" where
  "parse_unsigned s =
    (let whole = takeWhile is_digit s; rest = dropWhile is_digit s;
         (part, rest') = (case rest of c # t \<Rightarrow> if c = CHR ''.'' then (takeWhile is_digit t, dropWhile is_digit t) else ([], rest)
           | [] \<Rightarrow> ([], []))
     in if whole = [] \<and> part = [] then None
        else map_option (\<lambda>e. of_int (digits_value (whole @ part)) * 10 powi (e - int (length part))) (parse_exponent rest'))"

definition lower_char :: "char \<Rightarrow> char" where
  "lower_char c = (if CHR ''A'' \<le> c \<and> c \<le> CHR ''Z'' then char_of (of_char c + 32 :: nat) else c)"

definition infinity_word :: "string \<Rightarrow> bool" where
  "infinity_word s \<longleftrightarrow> List.map lower_char s \<in> {''inf'', ''infinity''}"

text \<open>\<open>nan\<close> or \<open>snan\<close>, with diagnostic digits.\<close>

definition nan_word :: "string \<Rightarrow> bool" where
  "nan_word s \<longleftrightarrow> (let w = List.map lower_char (takeWhile (\<lambda>c. \<not> is_digit c) s) in
     w \<in> {''nan'', ''snan''} \<and> list_all is_digit (dropWhile (\<lambda>c. \<not> is_digit c) s))"

text \<open>\<open>Decimal(text)\<close>: spaces around and underscores anywhere are dropped.\<close>

definition decimal_of_text :: "string \<Rightarrow> decimal option" where
  "decimal_of_text s = (case split_sign (filter (\<lambda>c. c \<noteq> CHR ''_'') (py_strip s)) of (neg, t) \<Rightarrow>
     if infinity_word t then Some (Infinite neg) else if nan_word t then Some NaN
     else map_option (\<lambda>x. Finite (signed neg x)) (parse_unsigned t))"

text \<open>Underscores between digits only, as \<open>float(text)\<close> allows them.\<close>

fun underscores_ok :: "char \<Rightarrow> string \<Rightarrow> bool" where
  "underscores_ok p [] \<longleftrightarrow> p \<noteq> CHR ''_''"
| "underscores_ok p (c # s) \<longleftrightarrow> (if c = CHR ''_'' then is_digit p else p = CHR ''_'' \<longrightarrow> is_digit c) \<and> underscores_ok c s"

text \<open>Rounding to binary64; a magnitude of at least \<open>2 ^ 1024 - 2 ^ 970\<close> is an overflow.\<close>

definition float_limit :: rat where
  "float_limit = 179769313486231580793728971405303415079934132710037826936173778980444968292764750946649017977587207096330286416692887910946555547851940402630657488671505820681908902000708383676273854845817711531764475730270069855571366959622842914819860834936475292719074168444365510704342711559699508093042880177904174497792"

lemma float_limit_eq: "float_limit = 2 ^ 1024 - 2 ^ 970"
  by (simp add: float_limit_def)

definition to_float :: "rat \<Rightarrow> float64" where
  "to_float x = (if \<bar>x\<bar> < float_limit then FFinite (fround x) else FInfinite (x < 0))"

definition float_of_text :: "string \<Rightarrow> float64 option" where
  "float_of_text s = (let t = py_strip s in if \<not> underscores_ok (CHR 0x00) t then None
     else (case split_sign (filter (\<lambda>c. c \<noteq> CHR ''_'') t) of (neg, u) \<Rightarrow>
       if infinity_word u then Some (FInfinite neg) else if List.map lower_char u = ''nan'' then Some FNaN
       else map_option (\<lambda>x. to_float (signed neg x)) (parse_unsigned u)))"

subsection \<open>Printing and reading integers\<close>

lemma digit_char_simps [simp]:
  assumes "n < 10"
  shows "is_digit (digit_char n)" "digit_value (digit_char n) = int n" "digit_char n \<noteq> CHR ''_''" "digit_char n \<noteq> CHR ''-''"
    "digit_char n \<noteq> CHR ''+''" "\<not> is_space (digit_char n)" "lower_char (digit_char n) = digit_char n"
proof -
  have "n = 0 \<or> n = 1 \<or> n = 2 \<or> n = 3 \<or> n = 4 \<or> n = 5 \<or> n = 6 \<or> n = 7 \<or> n = 8 \<or> n = 9"
    using assms by arith
  moreover have "list_all (\<lambda>n. is_digit (digit_char n) \<and> digit_value (digit_char n) = int n \<and> digit_char n \<noteq> CHR ''_''
      \<and> digit_char n \<noteq> CHR ''-'' \<and> digit_char n \<noteq> CHR ''+'' \<and> \<not> is_space (digit_char n)
      \<and> lower_char (digit_char n) = digit_char n \<and> digit_char n \<noteq> CHR ''i'' \<and> digit_char n \<noteq> CHR ''n'' \<and> digit_char n \<noteq> CHR ''s'')
    [0, 1, 2, 3, 4, 5, 6, 7, 8, 9]" by code_simp
  ultimately show "is_digit (digit_char n)" "digit_value (digit_char n) = int n" "digit_char n \<noteq> CHR ''_''" "digit_char n \<noteq> CHR ''-''"
    "digit_char n \<noteq> CHR ''+''" "\<not> is_space (digit_char n)" "lower_char (digit_char n) = digit_char n"
    by auto
qed

lemma nat_text_chars: "c \<in> set (nat_text n) \<Longrightarrow> \<exists>d<10. c = digit_char d"
proof (induction n rule: nat_text.induct)
  case (1 n)
  show ?case
  proof (cases "n < 10")
    case True
    then show ?thesis using "1.prems" by (auto simp: nat_text.simps[of n])
  next
    case False
    then have "c \<in> set (nat_text (n div 10)) \<or> c = digit_char (n mod 10)"
      using "1.prems" by (subst (asm) nat_text.simps) auto
    moreover have "n mod 10 < 10" by simp
    ultimately show ?thesis using "1.IH"[OF False] by blast
  qed
qed

lemma nat_text_simps [simp]: "nat_text n \<noteq> []" "list_all is_digit (nat_text n)"
  using nat_text_chars[of _ n] by (subst nat_text.simps; simp) (auto simp: list_all_iff dest!: nat_text_chars)

lemma digits_value_snoc: "digits_value (s @ [c]) = 10 * digits_value s + digit_value c"
  by (simp add: digits_value_def)

lemma digits_value_nat_text [simp]: "digits_value (nat_text n) = int n"
proof (induction n rule: nat_text.induct)
  case (1 n)
  show ?case
  proof (cases "n < 10")
    case True
    then show ?thesis by (simp add: nat_text.simps[of n] digits_value_def)
  next
    case False
    moreover have "10 * int (n div 10) + int (n mod 10) = int n" by presburger
    ultimately show ?thesis using "1.IH"[OF False] by (simp add: nat_text.simps[of n] digits_value_snoc)
  qed
qed

lemma takeWhile_digits: "list_all is_digit s \<Longrightarrow> takeWhile is_digit s = s" "list_all is_digit s \<Longrightarrow> dropWhile is_digit s = []"
  by (auto simp: list_all_iff takeWhile_eq_all_conv dropWhile_eq_Nil_conv)

lemma parse_unsigned_nat_text [simp]: "parse_unsigned (nat_text n) = Some (of_nat n)"
  by (simp add: parse_unsigned_def takeWhile_digits parse_exponent_def Let_def)

text \<open>An integer reads back from its text.\<close>

lemma nat_text_plain:
  "filter (\<lambda>c. c \<noteq> CHR ''_'') (nat_text n) = nat_text n"
  "hd (nat_text n) \<noteq> CHR ''-''" "hd (nat_text n) \<noteq> CHR ''+''"
proof -
  show "filter (\<lambda>c. c \<noteq> CHR ''_'') (nat_text n) = nat_text n"
    by (auto simp: filter_id_conv dest!: nat_text_chars)
  obtain d where "d < 10" "hd (nat_text n) = digit_char d" using nat_text_chars[of "hd (nat_text n)" n] by auto
  then show "hd (nat_text n) \<noteq> CHR ''-''" "hd (nat_text n) \<noteq> CHR ''+''" by simp_all
qed

lemma nat_text_no_space: "c \<in> set (nat_text n) \<Longrightarrow> \<not> is_space c"
  by (auto dest!: nat_text_chars)

lemma py_strip_plain: "(\<And>c. c \<in> set s \<Longrightarrow> \<not> is_space c) \<Longrightarrow> py_strip s = s"
proof -
  assume s: "\<And>c. c \<in> set s \<Longrightarrow> \<not> is_space c"
  then have "dropWhile is_space t = t" if "set t \<subseteq> set s" for t using that by (cases t) auto
  then show ?thesis by (simp add: py_strip_def)
qed

lemma digit_words: "\<not> infinity_word (nat_text n)" "\<not> nan_word (nat_text n)"
proof -
  obtain d t where d: "d < 10" "nat_text n = digit_char d # t"
    using nat_text_chars[of "hd (nat_text n)" n] by (cases "nat_text n") auto
  show "\<not> nan_word (nat_text n)" using d by (simp add: nan_word_def)
  have "is_digit (digit_char d)" "\<not> is_digit (CHR ''i'')" using d(1) by (simp, code_simp)
  then have "digit_char d \<noteq> CHR ''i''" by metis
  then show "\<not> infinity_word (nat_text n)" using d by (simp add: infinity_word_def)
qed

lemma split_sign_nat_text: "split_sign (nat_text n) = (False, nat_text n)"
  using nat_text_plain(2,3)[of n] by (cases "nat_text n") (auto simp: split_sign_def)

lemma decimal_of_int_text [simp]: "decimal_of_text (int_text n) = Some (Finite (of_int n))"
proof (cases "n < 0")
  case True
  have "py_strip (CHR ''-'' # nat_text (nat (- n))) = CHR ''-'' # nat_text (nat (- n))"
    by (rule py_strip_plain) (auto dest: nat_text_no_space simp: is_space_def)
  then show ?thesis
    using True by (simp add: int_text_def decimal_of_text_def nat_text_plain(1) split_sign_def digit_words signed_def)
next
  case False
  have "py_strip (nat_text (nat n)) = nat_text (nat n)"
    by (rule py_strip_plain) (rule nat_text_no_space)
  then show ?thesis
    using False by (simp add: int_text_def decimal_of_text_def nat_text_plain(1) split_sign_nat_text digit_words signed_def)
qed

end
