(* ===== verification/Store.thy ===== *)
theory Store
  imports Tables Validation Json
begin

text \<open>
  The tables of the repository (\<open>persistence/sqlite.py\<close>): a row type per table and, per table, the
  constraints that \<open>INSERT\<close> enforces (\<open>PRIMARY KEY\<close>, \<open>UNIQUE\<close>, \<open>CHECK\<close>, \<open>NOT NULL\<close>, foreign keys).
  A record inside a row stands for the columns of its fields; a timestamp's two columns (text and
  microseconds) are its instant.  \<open>CAST(x AS REAL)\<close> of a decimal text is the nearest double.
\<close>

subsection \<open>Rows\<close>

record config_row =
  cf_version :: string
  cf_hash :: string
  cf_json :: string
  cf_published_us :: int

record batch_row =
  br_provenance :: master_provenance
  br_json :: string

record listing_row =
  ml_batch_id :: string
  ml_record :: master_record
  ml_json :: string

record revision_row =
  cv_key :: string
  cv_hash :: string
  cv_json :: string
  cv_contract :: contract_spec
  cv_created_us :: int

record mapping_row =
  cm_key :: string
  cm_batch_id :: string
  cm_record :: master_record

record head_row =
  hd_key :: string
  hd_source :: DataSource
  hd_sequence :: int
  hd_source_us :: int
  hd_snapshot_id :: string

record attempt_row =
  at_snapshot_id :: string
  at_snapshot_hash :: string
  at_contract_key :: string
  at_source :: DataSource
  at_sequence :: int
  at_source_us :: int
  at_source_valid :: bool
  at_received_us :: int
  at_received_valid :: bool
  at_strategy_version :: string
  at_metadata_json :: string
  at_snapshot_json :: string
  at_status :: SnapshotStatus
  at_report_hash :: string
  at_report_json :: string
  at_recorded_us :: int

record accepted_row =
  ac_snapshot_id :: string
  ac_contract_key :: string
  ac_source :: DataSource
  ac_sequence :: int
  ac_source_us :: int

record market_row =
  mk_snapshot_id :: string
  mk_market :: market_state

record technical_row =
  tc_snapshot_id :: string
  tc_technicals :: technical_state

record context_row =
  cx_snapshot_id :: string
  cx_context :: strategy_context

record leg_row =
  ol_snapshot_id :: string
  ol_contract_key :: string
  ol_exchange :: Exchange
  ol_segment :: string
  ol_quote :: option_quote

record issue_row =
  ir_snapshot_id :: string
  ir_index :: nat
  ir_issue :: validation_issue

record override_row =
  ov_override_id :: string
  ov_base_snapshot_id :: string
  ov_override :: "json manual_override"
  ov_created_us :: int

record audit_event =
  ae_occurred_us :: int
  ae_event_type :: string
  ae_aggregate_type :: string
  ae_aggregate_id :: string
  ae_payload :: json
  ae_previous_hash :: "string option"

record audit_row = audit_event +
  ae_event_hash :: string

record store =
  st_closed :: bool
  st_configs :: "config_row list"
  st_batches :: "batch_row list"
  st_listings :: "listing_row list"
  st_revisions :: "revision_row list"
  st_mappings :: "mapping_row list"
  st_heads :: "head_row list"
  st_attempts :: "attempt_row list"
  st_accepted :: "accepted_row list"
  st_markets :: "market_row list"
  st_technicals :: "technical_row list"
  st_contexts :: "context_row list"
  st_legs :: "leg_row list"
  st_issues :: "issue_row list"
  st_overrides :: "override_row list"
  st_audit :: "audit_row list"

definition fresh_store :: store where
  "fresh_store = \<lparr>st_closed = False, st_configs = [], st_batches = [], st_listings = [], st_revisions = [],
     st_mappings = [], st_heads = [], st_attempts = [], st_accepted = [], st_markets = [],
     st_technicals = [], st_contexts = [], st_legs = [], st_issues = [], st_overrides = [], st_audit = []\<rparr>"

subsection \<open>Constraints\<close>

definition fresh_key :: "('row \<Rightarrow> 'k) \<Rightarrow> 'row list \<Rightarrow> 'row \<Rightarrow> bool" where
  "fresh_key f t r \<longleftrightarrow> f r \<notin> set (List.map f t)"

text \<open>\<open>NOT NULL CHECK (CAST(x AS REAL) > 0)\<close>, of a decimal that may be missing or not finite.\<close>

fun positive_real :: "rat option \<Rightarrow> bool" where
  "positive_real None = False"
| "positive_real (Some x) = (0 < fround x)"

fun positive_text :: "decimal \<Rightarrow> bool" where
  "positive_text (Finite x) = (0 < fround x)"
| "positive_text _ = False"

text \<open>A REAL column with bounds: NaN is stored as NULL, which \<open>NOT NULL\<close> refuses.\<close>

definition real_within :: "(rat \<Rightarrow> bool) \<Rightarrow> float64 \<Rightarrow> bool" where
  "real_within P f = (case f of FFinite x \<Rightarrow> P x | _ \<Rightarrow> False)"

text \<open>The binary64 value of \<open>1e308\<close>.\<close>

definition real_limit :: rat where
  "real_limit = 100000000000000001097906362944045541740492309677311846336810682903157585404911491537163328978494688899061249669721172515611590283743140088328307009198146046031271664502933027185697489699588559043338384466165001178426897626212945177628091195786707458122783970171784415105291802893207873272974885715430223118336"

definition config_admits :: "config_row list \<Rightarrow> config_row \<Rightarrow> bool" where
  "config_admits t r \<longleftrightarrow> fresh_key cf_version t r \<and> fresh_key cf_hash t r"

definition batch_id_of :: "batch_row \<Rightarrow> string" where
  "batch_id_of r = mp_batch_id (br_provenance r)"

definition attestation_of :: "batch_row \<Rightarrow> string \<times> string \<times> int \<times> string \<times> string" where
  "attestation_of r = (let p = br_provenance r in (mp_provider p, mp_content_hash p, instant (mp_fetched_at p),
     mp_source_url p, mp_schema_version p))"

definition batch_admits :: "batch_row list \<Rightarrow> batch_row \<Rightarrow> bool" where
  "batch_admits t r \<longleftrightarrow> fresh_key batch_id_of t r \<and> fresh_key attestation_of t r \<and> 0 \<le> mp_row_count (br_provenance r)"

definition listing_id :: "listing_row \<Rightarrow> string \<times> Exchange \<times> string \<times> string" where
  "listing_id r = (let i = mr_instrument (ml_record r) in
     (ml_batch_id r, in_exchange i, in_segment i, in_security_id i))"

definition listing_key :: "listing_row \<Rightarrow> string \<times> string" where
  "listing_key r = (ml_batch_id r, canonical_key (mr_instrument (ml_record r)))"

text \<open>The third unique index of the table contains its primary key.\<close>

definition listing_admits :: "batch_row list \<Rightarrow> listing_row list \<Rightarrow> listing_row \<Rightarrow> bool" where
  "listing_admits batches t r \<longleftrightarrow> fresh_key listing_id t r \<and> fresh_key listing_key t r
     \<and> ml_batch_id r \<in> set (List.map batch_id_of batches)"

definition lists_instrument :: "listing_row list \<Rightarrow> string \<Rightarrow> instrument_id \<Rightarrow> bool" where
  "lists_instrument t batch i \<longleftrightarrow>
     (batch, in_exchange i, in_segment i, in_security_id i) \<in> set (List.map listing_id t)"

definition revision_admits :: "store \<Rightarrow> revision_row list \<Rightarrow> revision_row \<Rightarrow> bool" where
  "revision_admits st t r \<longleftrightarrow> (let c = cv_contract r; batch = mp_batch_id (cs_master c) in
     fresh_key cv_key t r \<and> fresh_key cv_hash t r \<and> 0 < cs_lot_size c
     \<and> batch \<in> set (List.map batch_id_of (st_batches st))
     \<and> lists_instrument (st_listings st) batch (cs_underlying c)
     \<and> (case cs_futures c of None \<Rightarrow> True | Some f \<Rightarrow> lists_instrument (st_listings st) batch (mr_instrument f)))"

definition mapping_leg :: "mapping_row \<Rightarrow> string \<times> rat option \<times> OptionType option" where
  "mapping_leg r = (cm_key r, mr_strike (cm_record r), mr_option_type (cm_record r))"

definition mapping_id :: "mapping_row \<Rightarrow> string \<times> Exchange \<times> string \<times> string" where
  "mapping_id r = (let i = mr_instrument (cm_record r) in (cm_key r, in_exchange i, in_segment i, in_security_id i))"

text \<open>The columns a mapping shares with its master record.\<close>

definition record_terms :: "master_record \<Rightarrow> (Exchange \<times> string \<times> string) \<times> rat option \<times> OptionType option
    \<times> int option \<times> int option \<times> rat option" where
  "record_terms m = (let i = mr_instrument m in ((in_exchange i, in_segment i, in_security_id i), mr_strike m,
     mr_option_type m, map_option instant (mr_expiry m), mr_lot_size m, mr_tick_size m))"

definition mapping_admits :: "store \<Rightarrow> mapping_row list \<Rightarrow> mapping_row \<Rightarrow> bool" where
  "mapping_admits st t r \<longleftrightarrow> (let m = cm_record r in
     fresh_key mapping_leg t r \<and> fresh_key mapping_id t r
     \<and> mr_strike m \<noteq> None \<and> mr_option_type m \<noteq> None \<and> mr_expiry m \<noteq> None \<and> mr_lot_size m \<noteq> None \<and> mr_tick_size m \<noteq> None
     \<and> cm_key r \<in> set (List.map cv_key (st_revisions st))
     \<and> list_ex (\<lambda>l. ml_batch_id l = cm_batch_id r \<and> record_terms (ml_record l) = record_terms m) (st_listings st))"

definition attempt_admits :: "attempt_row list \<Rightarrow> attempt_row \<Rightarrow> bool" where
  "attempt_admits t r \<longleftrightarrow> fresh_key at_snapshot_id t r \<and> fresh_key at_snapshot_hash t r"

definition stream_sequence :: "accepted_row \<Rightarrow> string \<times> DataSource \<times> int" where
  "stream_sequence r = (ac_contract_key r, ac_source r, ac_sequence r)"

definition stream_time :: "accepted_row \<Rightarrow> string \<times> DataSource \<times> int" where
  "stream_time r = (ac_contract_key r, ac_source r, ac_source_us r)"

definition accepted_admits :: "store \<Rightarrow> accepted_row list \<Rightarrow> accepted_row \<Rightarrow> bool" where
  "accepted_admits st t r \<longleftrightarrow> fresh_key ac_snapshot_id t r \<and> 0 \<le> ac_sequence r \<and> fresh_key stream_sequence t r
     \<and> fresh_key stream_time t r \<and> ac_snapshot_id r \<in> set (List.map at_snapshot_id (st_attempts st))
     \<and> ac_contract_key r \<in> set (List.map cv_key (st_revisions st))"

definition is_accepted :: "store \<Rightarrow> string \<Rightarrow> bool" where
  "is_accepted st i \<longleftrightarrow> i \<in> set (List.map ac_snapshot_id (st_accepted st))"

fun high_above_low :: "rat option \<Rightarrow> rat option \<Rightarrow> bool" where
  "high_above_low (Some h) (Some l) = (fround l \<le> fround h)"
| "high_above_low _ _ = True"

definition market_admits :: "store \<Rightarrow> market_row list \<Rightarrow> market_row \<Rightarrow> bool" where
  "market_admits st t r \<longleftrightarrow> (let m = mk_market r in
     fresh_key mk_snapshot_id t r \<and> (ms_spot_price m = None \<or> positive_real (ms_spot_price m))
     \<and> list_all positive_real [ms_futures_price m, ms_previous_close m, ms_day_open m, ms_day_high m, ms_day_low m, ms_vwap m]
     \<and> high_above_low (ms_day_high m) (ms_day_low m) \<and> is_accepted st (mk_snapshot_id r))"

definition technical_admits :: "store \<Rightarrow> technical_row list \<Rightarrow> technical_row \<Rightarrow> bool" where
  "technical_admits st t r \<longleftrightarrow> (let x = tc_technicals r in
     fresh_key tc_snapshot_id t r
     \<and> list_all positive_real [ts_ema_9 x, ts_ema_21 x, ts_wma_44 x, ts_previous_wma_44 x, ts_atr_14 x]
     \<and> (case ts_rsi_14 x of None \<Rightarrow> False | Some v \<Rightarrow> 0 \<le> v \<and> v \<le> 100)
     \<and> (case ts_reference_volatility x of None \<Rightarrow> False | Some v \<Rightarrow> 0 < v \<and> v < real_limit)
     \<and> 0 < sql_length (sql_trim (ts_timeframe x)) \<and> ts_completed_candle x \<and> is_accepted st (tc_snapshot_id r))"

definition context_admits :: "store \<Rightarrow> context_row list \<Rightarrow> context_row \<Rightarrow> bool" where
  "context_admits st t r \<longleftrightarrow> (let x = cx_context r in
     fresh_key cx_snapshot_id t r \<and> positive_text (sc_account_capital x)
     \<and> real_within (\<lambda>v. 0 < v \<and> v \<le> fround (2 / 100)) (sc_risk_per_trade x)
     \<and> real_within (\<lambda>v. 0 < v \<and> v \<le> 1) (sc_maximum_premium_allocation x)
     \<and> 0 < fround (sc_signal_candle_high x) \<and> 0 < fround (sc_signal_candle_low x)
     \<and> fround (sc_signal_candle_low x) \<le> fround (sc_signal_candle_high x)
     \<and> 0 < sc_expected_holding_hours x \<and> sc_expected_holding_hours x < real_limit \<and> is_accepted st (cx_snapshot_id r))"

text \<open>The change-OI columns come together; a \<open>CHECK\<close> that evaluates to NULL passes.\<close>

definition change_columns_ok :: "option_quote \<Rightarrow> bool" where
  "change_columns_ok q = (case (oq_change_open_interest q, oq_change_oi_source_snapshot_id q) of
     (None, None) \<Rightarrow> oq_change_oi_interval_seconds q = None
   | (Some _, Some _) \<Rightarrow> (case oq_change_oi_interval_seconds q of None \<Rightarrow> True | Some d \<Rightarrow> 0 < d \<and> d < real_limit)
   | _ \<Rightarrow> False)"

definition count_stored :: "int option \<Rightarrow> bool" where
  "count_stored n = (case n of None \<Rightarrow> False | Some k \<Rightarrow> 0 \<le> k)"

definition leg_strike :: "leg_row \<Rightarrow> string \<times> rat \<times> OptionType" where
  "leg_strike r = (ol_snapshot_id r, quote_key (ol_quote r))"

definition leg_security :: "leg_row \<Rightarrow> string \<times> string" where
  "leg_security r = (ol_snapshot_id r, oq_security_id (ol_quote r))"

definition leg_mapped :: "mapping_row list \<Rightarrow> leg_row \<Rightarrow> bool" where
  "leg_mapped t r \<longleftrightarrow> list_ex (\<lambda>m. let i = mr_instrument (cm_record m); q = ol_quote r in
     cm_key m = ol_contract_key r \<and> mr_strike (cm_record m) = Some (oq_strike q)
     \<and> mr_option_type (cm_record m) = Some (oq_option_type q) \<and> in_exchange i = ol_exchange r
     \<and> in_segment i = ol_segment r \<and> in_security_id i = oq_security_id q) t"

definition leg_admits :: "store \<Rightarrow> leg_row list \<Rightarrow> leg_row \<Rightarrow> bool" where
  "leg_admits st t r \<longleftrightarrow> (let q = ol_quote r in
     fresh_key leg_strike t r \<and> fresh_key leg_security t r \<and> 0 < fround (oq_strike q)
     \<and> list_all positive_real [oq_bid q, oq_ask q, oq_ltp q] \<and> high_above_low (oq_ask q) (oq_bid q)
     \<and> count_stored (oq_volume q) \<and> count_stored (oq_open_interest q)
     \<and> (case oq_implied_volatility q of None \<Rightarrow> False | Some v \<Rightarrow> real_within (\<lambda>v. 0 < v \<and> v < real_limit) v)
     \<and> change_columns_ok q \<and> is_accepted st (ol_snapshot_id r)
     \<and> (case oq_change_oi_source_snapshot_id q of None \<Rightarrow> True | Some i \<Rightarrow> is_accepted st i)
     \<and> leg_mapped (st_mappings st) r)"

definition issue_id :: "issue_row \<Rightarrow> string \<times> nat" where
  "issue_id r = (ir_snapshot_id r, ir_index r)"

definition issue_admits :: "store \<Rightarrow> issue_row list \<Rightarrow> issue_row \<Rightarrow> bool" where
  "issue_admits st t r \<longleftrightarrow> fresh_key issue_id t r \<and> ir_snapshot_id r \<in> set (List.map at_snapshot_id (st_attempts st))"

definition text_shown :: "string option \<Rightarrow> bool" where
  "text_shown s = (case s of None \<Rightarrow> False | Some x \<Rightarrow> 0 < sql_length (sql_trim x))"

definition override_admits :: "store \<Rightarrow> override_row list \<Rightarrow> override_row \<Rightarrow> bool" where
  "override_admits st t r \<longleftrightarrow> (let m = ov_override r in
     fresh_key ov_override_id t r \<and> text_shown (Some (mo_field_name m)) \<and> text_shown (mo_overridden_by m)
     \<and> text_shown (mo_reason m)
     \<and> (case (mo_overridden_at m, mo_expires_at m) of (None, _) \<Rightarrow> False | (Some _, None) \<Rightarrow> True
        | (Some t, Some e) \<Rightarrow> instant t < instant e)
     \<and> is_accepted st (ov_base_snapshot_id r))"

definition audit_admits :: "audit_row list \<Rightarrow> audit_row \<Rightarrow> bool" where
  "audit_admits t r \<longleftrightarrow> fresh_key ae_event_hash t r"

subsection \<open>The interface of a table\<close>

text \<open>The keys of the tables, as unique indexes.\<close>

interpretation attempts_table: unique_index "\<lambda>r. Some (at_snapshot_id r)" attempt_admits
  by unfold_locales (auto simp: attempt_admits_def fresh_key_def index_keys_total)

interpretation accepted_table: unique_index "\<lambda>r. Some (ac_snapshot_id r)" "accepted_admits st"
  by unfold_locales (auto simp: accepted_admits_def fresh_key_def index_keys_total)

interpretation sequence_index: unique_index "\<lambda>r. Some (stream_sequence r)" "accepted_admits st"
  by unfold_locales (auto simp: accepted_admits_def fresh_key_def index_keys_total)

interpretation legs_table: unique_index "\<lambda>r. Some (leg_strike r)" "leg_admits st"
  by unfold_locales (auto simp: leg_admits_def Let_def fresh_key_def index_keys_total)

interpretation revisions_table: unique_index "\<lambda>r. Some (cv_key r)" "revision_admits st"
  by unfold_locales (auto simp: revision_admits_def Let_def fresh_key_def index_keys_total)

interpretation audit_table: unique_index "\<lambda>r. Some (ae_event_hash r)" audit_admits
  by unfold_locales (auto simp: audit_admits_def fresh_key_def index_keys_total)

end
