(* ===== verification/Repository.thy ===== *)
theory Repository
  imports Store
begin

text \<open>
  The operations of the repository (\<open>persistence/sqlite.py\<close>).  A transaction is a function from the
  store to the store it commits; an exception rolls it back.  The clock readings and the generated
  ids are arguments; canonical JSON and its SHA-256 are parameters.
\<close>

record store_env =
  se_platform :: platform
  se_hash :: "string \<Rightarrow> string"
  se_dumps :: "json \<Rightarrow> string"
  se_loads :: "string \<Rightarrow> json res"
  se_config :: "rat strategy_config \<Rightarrow> json"
  se_provenance :: "master_provenance \<Rightarrow> json"
  se_record :: "master_record \<Rightarrow> json"
  se_contract :: "contract_spec \<Rightarrow> json"
  se_snapshot :: "atomic_snapshot \<Rightarrow> json"
  se_metadata :: "snapshot_metadata \<Rightarrow> json"
  se_report :: "validation_report \<Rightarrow> json"
  se_event_hash :: "audit_event \<Rightarrow> string"

definition demand_that :: "bool \<Rightarrow> py_error \<Rightarrow> unit res" where
  "demand_that b e = (if b then Inr () else Inl e)"

lemma demand_that_eq_Inr [res_simps]: "demand_that b e = Inr u \<longleftrightarrow> b"
  by (simp add: demand_that_def)

text \<open>\<open>_timestamp\<close>: microseconds since the epoch.\<close>

definition epoch_timestamp :: "datetime \<Rightarrow> string \<Rightarrow> int res" where
  "epoch_timestamp t path = (if is_aware t then Inr (instant t)
     else Inl (PersistenceError (path @ '' must be timezone-aware'')))"

lemma epoch_timestamp_eq_Inr [res_simps]: "epoch_timestamp t path = Inr us \<longleftrightarrow> is_aware t \<and> us = instant t"
  by (auto simp: epoch_timestamp_def)

definition optional_timestamp :: "datetime option \<Rightarrow> string \<Rightarrow> int option res" where
  "optional_timestamp t path = (case t of None \<Rightarrow> Inr None
     | Some x \<Rightarrow> bindr (epoch_timestamp x path) (\<lambda>us. Inr (Some us)))"

lemma optional_timestamp_eq_Inr [res_simps]:
  "optional_timestamp t path = Inr us \<longleftrightarrow> (case t of None \<Rightarrow> us = None | Some x \<Rightarrow> is_aware x \<and> us = Some (instant x))"
  by (auto simp: optional_timestamp_def bindr_eq_Inr epoch_timestamp_eq_Inr split: option.splits)

definition bind_optional :: "int option \<Rightarrow> unit res" where
  "bind_optional n = (case n of None \<Rightarrow> Inr () | Some k \<Rightarrow> bindr (bind_int k) (\<lambda>_. Inr ()))"

definition int64 :: "int option \<Rightarrow> bool" where
  "int64 n \<longleftrightarrow> (case n of None \<Rightarrow> True | Some k \<Rightarrow> - (2 ^ 63) \<le> k \<and> k < 2 ^ 63)"

lemma bind_optional_eq_Inr [res_simps]: "bind_optional n = Inr u \<longleftrightarrow> int64 n"
  by (auto simp: bind_optional_def int64_def bindr_eq_Inr bind_int_eq_Inr split: option.splits)

subsection \<open>Transactions\<close>

text \<open>\<open>with self._transaction()\<close>: commit, or roll back and re-raise.\<close>

definition in_transaction :: "(store \<Rightarrow> ('a \<times> store) res) \<Rightarrow> store \<Rightarrow> 'a res \<times> store" where
  "in_transaction f st = (if st_closed st then (Inl (PersistenceError ''repository is closed''), st)
     else case f st of Inl e \<Rightarrow> (Inl e, st) | Inr (a, st') \<Rightarrow> (Inr a, st'))"

text \<open>Checks before the transaction.\<close>

definition guarded :: "'b res \<Rightarrow> ('b \<Rightarrow> store \<Rightarrow> 'a res \<times> store) \<Rightarrow> store \<Rightarrow> 'a res \<times> store" where
  "guarded r f st = (case r of Inl e \<Rightarrow> (Inl e, st) | Inr x \<Rightarrow> f x st)"

lemma guarded_eq: "guarded r f st = (out, st') \<longleftrightarrow>
    (\<exists>e. r = Inl e \<and> out = Inl e \<and> st' = st) \<or> (\<exists>x. r = Inr x \<and> f x st = (out, st'))"
  by (auto simp: guarded_def split: sum.splits)

lemma in_transaction_cases:
  assumes "in_transaction f st = (out, st')"
  obtains (rolled_back) e where "out = Inl e" "st' = st"
  | (committed) a where "out = Inr a" "f st = Inr (a, st')" "\<not> st_closed st"
  using assms by (auto simp: in_transaction_def split: if_splits sum.splits)

subsection \<open>Audit\<close>

definition last_hash :: "audit_row list \<Rightarrow> string option" where
  "last_hash t = (case rev t of [] \<Rightarrow> None | r # _ \<Rightarrow> Some (ae_event_hash r))"

definition audit_row_of :: "store_env \<Rightarrow> audit_event \<Rightarrow> audit_row" where
  "audit_row_of e ev = audit_event.extend ev \<lparr>ae_event_hash = se_event_hash e ev\<rparr>"

definition append_audit :: "store_env \<Rightarrow> string \<Rightarrow> string \<Rightarrow> string \<Rightarrow> json \<Rightarrow> datetime \<Rightarrow> store \<Rightarrow> store res" where
  "append_audit e event_type aggregate_type aggregate_id payload occurred_at st =
    bindr (epoch_timestamp occurred_at ''audit.occurred_at'') (\<lambda>us.
    let ev = \<lparr>ae_occurred_us = us, ae_event_type = event_type, ae_aggregate_type = aggregate_type,
        ae_aggregate_id = aggregate_id, ae_payload = payload, ae_previous_hash = last_hash (st_audit st)\<rparr> in
    bindr (sql_insert audit_admits (audit_row_of e ev) (st_audit st)) (\<lambda>t.
      Inr (st\<lparr>st_audit := t\<rparr>)))"

subsection \<open>Strategy configurations\<close>

definition publish_body :: "store_env \<Rightarrow> rat strategy_config \<Rightarrow> datetime \<Rightarrow> int \<Rightarrow> store \<Rightarrow> (string \<times> store) res" where
  "publish_body e c moment us st =
    (let text = se_dumps e (se_config e c); digest = se_hash e text in
     case sql_first (\<lambda>r. cf_version r = version c) (st_configs st) of
       Some r \<Rightarrow> if cf_hash r \<noteq> digest \<or> cf_json r \<noteq> text
         then Inl (PersistenceError ''strategy version is immutable and already differs'') else Inr (digest, st)
     | None \<Rightarrow>
         bindr (sql_insert config_admits \<lparr>cf_version = version c, cf_hash = digest, cf_json = text,
           cf_published_us = us\<rparr> (st_configs st)) (\<lambda>t.
         bindr (append_audit e ''STRATEGY_CONFIG_PUBLISHED'' ''strategy_config'' (version c)
           (JObj [(''config_hash'', JStr digest)]) moment (st\<lparr>st_configs := t\<rparr>)) (\<lambda>st'.
           Inr (digest, st'))))"

definition publish_strategy_config :: "store_env \<Rightarrow> rat strategy_config \<Rightarrow> datetime \<Rightarrow> store \<Rightarrow> string res \<times> store" where
  "publish_strategy_config e c published_at =
    guarded (epoch_timestamp published_at ''published_at'') (\<lambda>us. in_transaction (publish_body e c published_at us))"

subsection \<open>Instrument masters\<close>

definition check_record :: "master_record \<Rightarrow> unit res" where
  "check_record r =
    bindr (demand_that (in_security_id (mr_instrument r) \<noteq> [] \<and> in_segment (mr_instrument r) \<noteq> [])
      (InstrumentMasterError ''master record identity fields cannot be empty'')) (\<lambda>_.
    bindr (optional_timestamp (mr_expiry r) ''instrument_master_record.expiry'') (\<lambda>_. Inr ()))"

definition validate_master :: "master_provenance \<Rightarrow> master_record list \<Rightarrow> unit res" where
  "validate_master p rs =
    bindr (demand_that (mp_batch_id p \<noteq> [] \<and> mp_provider p \<noteq> [] \<and> mp_content_hash p \<noteq> [])
      (InstrumentMasterError ''master provenance identity fields cannot be empty'')) (\<lambda>_.
    bindr (epoch_timestamp (mp_fetched_at p) ''master.fetched_at'') (\<lambda>_.
    bindr (demand_that (mp_row_count p = int (length rs))
      (InstrumentMasterError ''master provenance row_count must equal the complete supplied record set'')) (\<lambda>_.
    bindr (demand_that (distinct (List.map (\<lambda>r. canonical_key (mr_instrument r)) rs))
      (InstrumentMasterError ''master batch contains duplicate instrument identities'')) (\<lambda>_.
    bindr (traverse check_record rs) (\<lambda>_. Inr ())))))"

definition record_texts :: "store_env \<Rightarrow> master_record list \<Rightarrow> (string \<times> string) list" where
  "record_texts e rs = List.map (\<lambda>r. (canonical_key (mr_instrument r), se_dumps e (se_record e r))) rs"

definition stored_texts :: "string \<Rightarrow> listing_row list \<Rightarrow> (string \<times> string) list" where
  "stored_texts batch t = List.map (\<lambda>l. (canonical_key (mr_instrument (ml_record l)), ml_json l))
     (filter (\<lambda>l. ml_batch_id l = batch) t)"

definition insert_listing :: "store_env \<Rightarrow> string \<Rightarrow> master_record \<Rightarrow> store \<Rightarrow> store res" where
  "insert_listing e batch r st =
    bindr (optional_timestamp (mr_expiry r) ''instrument_master_record.expiry'') (\<lambda>_.
    bindr (bind_optional (mr_lot_size r)) (\<lambda>_.
    bindr (sql_insert (listing_admits (st_batches st)) \<lparr>ml_batch_id = batch, ml_record = r,
      ml_json = se_dumps e (se_record e r)\<rparr> (st_listings st)) (\<lambda>t. Inr (st\<lparr>st_listings := t\<rparr>))))"

definition master_body :: "store_env \<Rightarrow> master_provenance \<Rightarrow> master_record list \<Rightarrow> store \<Rightarrow> (string \<times> store) res" where
  "master_body e p rs st =
    (let text = se_dumps e (se_provenance e p); batch = mp_batch_id p in
     case sql_first (\<lambda>r. batch_id_of r = batch) (st_batches st) of
       Some r \<Rightarrow> if br_json r \<noteq> text \<or> \<not> dict_eq (stored_texts batch (st_listings st)) (record_texts e rs)
         then Inl (InstrumentMasterError ''instrument-master batch is immutable'') else Inr (batch, st)
     | None \<Rightarrow>
         bindr (sql_insert batch_admits \<lparr>br_provenance = p, br_json = text\<rparr> (st_batches st)) (\<lambda>t.
         bindr (fold_res (insert_listing e batch) rs (st\<lparr>st_batches := t\<rparr>)) (\<lambda>st1.
         bindr (append_audit e ''INSTRUMENT_MASTER_RECORDED'' ''instrument_master'' batch
           (JObj [(''content_hash'', JStr (mp_content_hash p)), (''row_count'', JInt (mp_row_count p))])
           (mp_fetched_at p) st1) (\<lambda>st2. Inr (batch, st2)))))"

definition record_instrument_master :: "store_env \<Rightarrow> master_provenance \<Rightarrow> master_record list \<Rightarrow> store
    \<Rightarrow> string res \<times> store" where
  "record_instrument_master e p rs = guarded (validate_master p rs) (\<lambda>_. in_transaction (master_body e p rs))"

subsection \<open>Contracts\<close>

definition find_listing :: "store \<Rightarrow> string \<Rightarrow> instrument_id \<Rightarrow> listing_row option" where
  "find_listing st batch i = sql_first (\<lambda>l. listing_id l = (batch, in_exchange i, in_segment i, in_security_id i))
     (st_listings st)"

definition require_master_instrument :: "store \<Rightarrow> string \<Rightarrow> instrument_id \<Rightarrow> unit res" where
  "require_master_instrument st batch i = demand_that
     (case find_listing st batch i of None \<Rightarrow> False
      | Some l \<Rightarrow> in_symbol (mr_instrument (ml_record l)) = in_symbol i
          \<and> canonical_key (mr_instrument (ml_record l)) = canonical_key i)
     (ContractIntegrityError ''instrument is not an exact master record'')"

definition require_exact_record :: "store_env \<Rightarrow> store \<Rightarrow> string \<Rightarrow> master_record \<Rightarrow> unit res" where
  "require_exact_record e st batch r = demand_that
     (case find_listing st batch (mr_instrument r) of None \<Rightarrow> False
      | Some l \<Rightarrow> ml_json l = se_dumps e (se_record e r))
     (ContractIntegrityError ''contract record differs from master data'')"

text \<open>One option record of a new revision; \<open>seen\<close> are the legs and ids before it.\<close>

definition check_mapping :: "store_env \<Rightarrow> store \<Rightarrow> contract_spec \<Rightarrow> master_record
    \<Rightarrow> (rat \<times> OptionType) list \<times> string list \<Rightarrow> ((rat \<times> OptionType) list \<times> string list) res" where
  "check_mapping e st c r = (\<lambda>(keys, ids).
    case (mr_strike r, mr_option_type r, mr_expiry r) of
      (Some k, Some ty, Some x) \<Rightarrow>
        bindr (demand_that ((k, ty) \<notin> set keys \<and> in_security_id (mr_instrument r) \<notin> set ids)
          (ContractIntegrityError ''contract option mappings must be one-to-one'')) (\<lambda>_.
        bindr (demand_that (dt_eq x (cs_option_expiry c))
          (ContractIntegrityError ''option mapping expiry differs from contract expiry'')) (\<lambda>_.
        bindr (demand_that (mr_lot_size r = Some (cs_lot_size c) \<and> mr_tick_size r = Some (cs_tick_size c))
          (ContractIntegrityError ''option mapping lot/tick differs from contract revision'')) (\<lambda>_.
        bindr (require_exact_record e st (mp_batch_id (cs_master c)) r) (\<lambda>_.
          Inr ((k, ty) # keys, in_security_id (mr_instrument r) # ids)))))
    | _ \<Rightarrow> Inl (ContractIntegrityError ''every option mapping needs strike, side, and expiry''))"

definition check_new_contract :: "store_env \<Rightarrow> contract_spec \<Rightarrow> store \<Rightarrow> unit res" where
  "check_new_contract e c st =
    (let batch = mp_batch_id (cs_master c) in
     case sql_first (\<lambda>r. batch_id_of r = batch) (st_batches st) of
       None \<Rightarrow> Inl (InstrumentMasterError ''instrument-master batch must be recorded first'')
     | Some b \<Rightarrow>
        bindr (demand_that (br_json b = se_dumps e (se_provenance e (cs_master c)))
          (InstrumentMasterError ''contract provenance differs from the persisted master batch'')) (\<lambda>_.
        bindr (demand_that (sql_rowcount (\<lambda>l. ml_batch_id l = batch) (st_listings st) = mp_row_count (br_provenance b))
          (InstrumentMasterError ''instrument-master batch is incomplete'')) (\<lambda>_.
        bindr (require_master_instrument st batch (cs_underlying c)) (\<lambda>_.
        bindr (case cs_futures c of None \<Rightarrow> Inr () | Some f \<Rightarrow> require_exact_record e st batch f) (\<lambda>_.
        bindr (demand_that (cs_option_contracts c \<noteq> [])
          (ContractIntegrityError ''contract revision contains no option mappings'')) (\<lambda>_.
        bindr (fold_res (check_mapping e st c) (cs_option_contracts c) ([], [])) (\<lambda>_. Inr ())))))))"

definition insert_mapping :: "string \<Rightarrow> contract_spec \<Rightarrow> master_record \<Rightarrow> store \<Rightarrow> store res" where
  "insert_mapping key c r st = (case mr_expiry r of
     None \<Rightarrow> Inl (ContractIntegrityError ''contract option mappings require expiry and option type'')
   | Some x \<Rightarrow>
       bindr (epoch_timestamp x ''contract.option.expiry'') (\<lambda>_.
       bindr (sql_insert (mapping_admits st) \<lparr>cm_key = key, cm_batch_id = mp_batch_id (cs_master c), cm_record = r\<rparr>
         (st_mappings st)) (\<lambda>t. Inr (st\<lparr>st_mappings := t\<rparr>))))"

definition insert_contract :: "store_env \<Rightarrow> contract_spec \<Rightarrow> int \<Rightarrow> store \<Rightarrow> store res" where
  "insert_contract e c created_us st =
    (let key = env_contract_key (se_platform e) c; text = se_dumps e (se_contract e c) in
     bindr (check_new_contract e c st) (\<lambda>_.
     bindr (epoch_timestamp (cs_option_expiry c) ''contract.option_expiry'') (\<lambda>_.
     bindr (bind_int (cs_lot_size c)) (\<lambda>_.
     bindr (sql_insert (revision_admits st) \<lparr>cv_key = key, cv_hash = se_hash e text, cv_json = text, cv_contract = c,
       cv_created_us = created_us\<rparr> (st_revisions st)) (\<lambda>t.
       fold_res (insert_mapping key c) (cs_option_contracts c) (st\<lparr>st_revisions := t\<rparr>))))))"

definition ensure_contract :: "store_env \<Rightarrow> contract_spec \<Rightarrow> int \<Rightarrow> store \<Rightarrow> store res" where
  "ensure_contract e c created_us st =
    (let key = env_contract_key (se_platform e) c; text = se_dumps e (se_contract e c) in
     case sql_first (\<lambda>r. cv_key r = key) (st_revisions st) of
       Some r \<Rightarrow> if cv_hash r \<noteq> se_hash e text \<or> cv_json r \<noteq> text
         then Inl (ContractIntegrityError ''contract revision is immutable'') else Inr st
     | None \<Rightarrow> insert_contract e c created_us st)"

subsection \<open>Order and provenance\<close>

definition ensure_strategy_exists :: "string \<Rightarrow> store \<Rightarrow> unit res" where
  "ensure_strategy_exists v st = demand_that (sql_first (\<lambda>r. cf_version r = v) (st_configs st) \<noteq> None)
     (PersistenceError ''strategy config must be published before ingestion'')"

definition find_head :: "string \<Rightarrow> DataSource \<Rightarrow> store \<Rightarrow> head_row option" where
  "find_head key source st = sql_first (\<lambda>h. hd_key h = key \<and> hd_source h = source) (st_heads st)"

definition enforce_order :: "string \<Rightarrow> DataSource \<Rightarrow> int \<Rightarrow> int \<Rightarrow> store \<Rightarrow> unit res" where
  "enforce_order key source n us st = (case find_head key source st of None \<Rightarrow> Inr ()
   | Some h \<Rightarrow>
       bindr (demand_that (hd_sequence h < n) (SnapshotOrderingError ''sequence must advance'')) (\<lambda>_.
         demand_that (hd_source_us h < us) (SnapshotOrderingError ''source timestamp must advance monotonically'')))"

text \<open>The accepted snapshot and its stored leg that a change in open interest refers to.\<close>

definition prior_leg :: "store \<Rightarrow> string \<Rightarrow> option_quote \<Rightarrow> (accepted_row \<times> leg_row) option" where
  "prior_leg st i q =
    (case sql_first (\<lambda>a. ac_snapshot_id a = i) (st_accepted st) of None \<Rightarrow> None
     | Some a \<Rightarrow> map_option (\<lambda>l. (a, l)) (sql_first (\<lambda>l. ol_snapshot_id l = i
         \<and> oq_security_id (ol_quote l) = oq_security_id q \<and> quote_key (ol_quote l) = quote_key q) (st_legs st)))"

definition max_change_oi_seconds :: rat where "max_change_oi_seconds = 30"

definition check_prior :: "string \<Rightarrow> atomic_snapshot \<Rightarrow> option_quote \<Rightarrow> rat \<Rightarrow> int \<Rightarrow> accepted_row \<times> leg_row \<Rightarrow> unit res" where
  "check_prior key s q declared source_us = (\<lambda>(a, l).
    bindr (epoch_timestamp (oq_expiry q) ''option.expiry'') (\<lambda>expiry_us.
    bindr (epoch_timestamp (oq_observed_at q) ''option.observed_at'') (\<lambda>observed_us.
    let prior_us = instant (oq_observed_at (ol_quote l));
        source_interval = total_seconds (source_us - ac_source_us a);
        leg_interval = total_seconds (observed_us - prior_us) in
    bindr (demand_that (ac_source a = DHAN_REST \<and> ac_contract_key a = key \<and> ac_sequence a < sn_sequence s
        \<and> instant (oq_expiry (ol_quote l)) = expiry_us)
      (ChangeOIProvenanceError ''change-OI reference differs in source, contract, sequence, or expiry'')) (\<lambda>_.
    bindr (demand_that (observed_us = source_us)
      (ChangeOIProvenanceError ''current option observation time must equal the Dhan source time'')) (\<lambda>_.
    bindr (demand_that (prior_us = ac_source_us a \<and> 0 < source_interval \<and> leg_interval = source_interval
        \<and> \<bar>fsub declared leg_interval\<bar> \<le> fround (1 / 1000000000))
      (ChangeOIProvenanceError ''declared change-OI interval differs from exact source/leg timestamps'')) (\<lambda>_.
      demand_that (case (oq_open_interest (ol_quote l), oq_open_interest q) of
          (Some before, Some after) \<Rightarrow> oq_change_open_interest q = Some (after - before) | _ \<Rightarrow> False)
        (ChangeOIProvenanceError ''change OI does not equal current minus exact prior open interest'')))))))"

definition check_quote_provenance :: "string \<Rightarrow> atomic_snapshot \<Rightarrow> int \<Rightarrow> store \<Rightarrow> option_quote \<Rightarrow> unit res" where
  "check_quote_provenance key s source_us st q =
    (case oq_change_open_interest q of
       None \<Rightarrow> demand_that (oq_change_oi_source_snapshot_id q = None \<and> oq_change_oi_interval_seconds q = None)
         (ChangeOIProvenanceError ''change-OI provenance cannot exist without a derived value'')
     | Some _ \<Rightarrow>
        bindr (demand_that (sn_source s = DHAN_REST)
          (ChangeOIProvenanceError ''change OI may only be accepted within the Dhan REST stream'')) (\<lambda>_.
        case (oq_change_oi_source_snapshot_id q, oq_change_oi_interval_seconds q) of
          (Some i, Some d) \<Rightarrow>
            bindr (demand_that (i \<noteq> [] \<and> 0 < d \<and> d \<le> max_change_oi_seconds)
              (ChangeOIProvenanceError ''change OI requires a bounded interval and prior snapshot ID'')) (\<lambda>_.
            bindr (epoch_timestamp (oq_expiry q) ''option.expiry'') (\<lambda>_.
            bindr (epoch_timestamp (oq_observed_at q) ''option.observed_at'') (\<lambda>_.
            case prior_leg st i q of
              None \<Rightarrow> Inl (ChangeOIProvenanceError
                ''referenced accepted snapshot lacks the exact prior security/strike/side'')
            | Some al \<Rightarrow> check_prior key s q d source_us al)))
        | _ \<Rightarrow> Inl (ChangeOIProvenanceError ''change OI requires a bounded interval and prior snapshot ID'')))"

definition verify_change_oi_provenance :: "string \<Rightarrow> atomic_snapshot \<Rightarrow> store \<Rightarrow> unit res" where
  "verify_change_oi_provenance key s st =
    bindr (epoch_timestamp (sn_source_timestamp s) ''source_timestamp'') (\<lambda>us.
    bindr (traverse (check_quote_provenance key s us st) (sn_option_chain s)) (\<lambda>_. Inr ()))"

end
