(* ===== verification/Ingestion.thy ===== *)
theory Ingestion
  imports Repository Validator
begin

text \<open>
  Saving a snapshot with its report, reading accepted snapshots back, manual overrides
  (\<open>persistence/sqlite.py\<close>) and the ingestion service that validates and saves
  (\<open>ingestion/service.py\<close>).
\<close>

subsection \<open>Saving\<close>

definition verify_report_binding :: "atomic_snapshot \<Rightarrow> string \<Rightarrow> validation_report \<Rightarrow> unit res" where
  "verify_report_binding s digest r = (case (vr_snapshot_id r, vr_snapshot_hash r) of
     (Some i, Some h) \<Rightarrow>
       bindr (demand_that (i = sn_snapshot_id s)
         (ValidationBindingError ''ValidationReport snapshot_id does not match snapshot'')) (\<lambda>_.
         demand_that (h = digest) (ValidationBindingError ''ValidationReport snapshot_hash does not match content''))
   | _ \<Rightarrow> Inl (ValidationBindingError ''ValidationReport must carry snapshot_id and snapshot_hash''))"

text \<open>The instants of the envelope: exact for an accepted snapshot, else with a safe substitute.\<close>

definition safe_audit_instant :: "datetime \<Rightarrow> int \<Rightarrow> int" where
  "safe_audit_instant t fallback = (if is_aware t then instant t else fallback)"

definition envelope_times :: "atomic_snapshot \<Rightarrow> bool \<Rightarrow> int \<Rightarrow> ((int \<times> bool) \<times> (int \<times> bool)) res" where
  "envelope_times s accepted recorded_us =
    (if accepted then
       bindr (demand_that (0 \<le> sn_sequence s) (PersistenceError ''accepted snapshot sequence cannot be negative'')) (\<lambda>_.
       bindr (epoch_timestamp (sn_source_timestamp s) ''source_timestamp'') (\<lambda>source_us.
       bindr (epoch_timestamp (sn_received_at s) ''received_at'') (\<lambda>received_us.
         Inr ((source_us, True), (received_us, True)))))
     else
       let receipt = safe_audit_instant (sn_received_at s) recorded_us in
       Inr ((safe_audit_instant (sn_source_timestamp s) receipt, is_aware (sn_source_timestamp s)),
            (receipt, is_aware (sn_received_at s))))"

definition attempt_of :: "store_env \<Rightarrow> atomic_snapshot \<Rightarrow> validation_report \<Rightarrow> (int \<times> bool) \<times> (int \<times> bool) \<Rightarrow> int \<Rightarrow> attempt_row" where
  "attempt_of e s r stamps recorded_us = \<lparr>at_snapshot_id = sn_snapshot_id s,
     at_snapshot_hash = env_snapshot_hash (se_platform e) s,
     at_contract_key = env_contract_key (se_platform e) (sn_contract s), at_source = sn_source s,
     at_sequence = sn_sequence s, at_source_us = fst (fst stamps), at_source_valid = snd (fst stamps),
     at_received_us = fst (snd stamps), at_received_valid = snd (snd stamps),
     at_strategy_version = sn_strategy_version s, at_metadata_json = se_dumps e (se_metadata e (sn_metadata s)),
     at_snapshot_json = se_dumps e (se_snapshot e s),
     at_status = (if report_accepted r then ACCEPTED else REJECTED_SNAPSHOT),
     at_report_hash = se_hash e (se_dumps e (se_report e r)), at_report_json = se_dumps e (se_report e r),
     at_recorded_us = recorded_us\<rparr>"

definition insert_attempt :: "attempt_row \<Rightarrow> store \<Rightarrow> store res" where
  "insert_attempt r st = bindr (bind_int (at_sequence r)) (\<lambda>_.
     bindr (sql_insert attempt_admits r (st_attempts st)) (\<lambda>t. Inr (st\<lparr>st_attempts := t\<rparr>)))"

definition insert_issue :: "string \<Rightarrow> nat \<times> validation_issue \<Rightarrow> store \<Rightarrow> store res" where
  "insert_issue i = (\<lambda>(k, issue) st. bindr (sql_insert (issue_admits st) \<lparr>ir_snapshot_id = i, ir_index = k,
     ir_issue = issue\<rparr> (st_issues st)) (\<lambda>t. Inr (st\<lparr>st_issues := t\<rparr>)))"

definition insert_validation_issues :: "string \<Rightarrow> validation_issue list \<Rightarrow> store \<Rightarrow> store res" where
  "insert_validation_issues i is = fold_res (insert_issue i) (zip [0..<length is] is)"

definition insert_accepted :: "string \<Rightarrow> atomic_snapshot \<Rightarrow> int \<Rightarrow> store \<Rightarrow> store res" where
  "insert_accepted key s source_us st =
    bindr (sql_insert (accepted_admits st) \<lparr>ac_snapshot_id = sn_snapshot_id s, ac_contract_key = key,
      ac_source = sn_source s, ac_sequence = sn_sequence s, ac_source_us = source_us\<rparr> (st_accepted st))
      (\<lambda>t. Inr (st\<lparr>st_accepted := t\<rparr>))"

definition insert_market :: "atomic_snapshot \<Rightarrow> store \<Rightarrow> store res" where
  "insert_market s st =
    bindr (epoch_timestamp (ms_observed_at (sn_market s)) ''market.observed_at'') (\<lambda>_.
    bindr (bind_optional (ms_futures_open_interest (sn_market s))) (\<lambda>_.
    bindr (sql_insert (market_admits st) \<lparr>mk_snapshot_id = sn_snapshot_id s, mk_market = sn_market s\<rparr> (st_markets st))
      (\<lambda>t. Inr (st\<lparr>st_markets := t\<rparr>))))"

definition insert_technicals :: "atomic_snapshot \<Rightarrow> store \<Rightarrow> store res" where
  "insert_technicals s st =
    bindr (epoch_timestamp (ts_observed_at (sn_technicals s)) ''technicals.observed_at'') (\<lambda>_.
    bindr (sql_insert (technical_admits st) \<lparr>tc_snapshot_id = sn_snapshot_id s, tc_technicals = sn_technicals s\<rparr>
      (st_technicals st)) (\<lambda>t. Inr (st\<lparr>st_technicals := t\<rparr>)))"

definition insert_context :: "atomic_snapshot \<Rightarrow> store \<Rightarrow> store res" where
  "insert_context s st =
    bindr (sql_insert (context_admits st) \<lparr>cx_snapshot_id = sn_snapshot_id s, cx_context = sn_context s\<rparr> (st_contexts st))
      (\<lambda>t. Inr (st\<lparr>st_contexts := t\<rparr>))"

text \<open>A REAL column turns NaN into NULL; instants are kept in UTC.\<close>

definition stored_float :: "float64 option \<Rightarrow> float64 option" where
  "stored_float f = (case f of Some FNaN \<Rightarrow> None | _ \<Rightarrow> f)"

definition stored_greeks :: "greeks \<Rightarrow> greeks" where
  "stored_greeks g = g\<lparr>gk_delta := stored_float (gk_delta g), gk_gamma := stored_float (gk_gamma g),
     gk_theta := stored_float (gk_theta g), gk_vega := stored_float (gk_vega g)\<rparr>"

definition stored_quote :: "option_quote \<Rightarrow> option_quote" where
  "stored_quote q = q\<lparr>oq_expiry := at_utc (instant (oq_expiry q)), oq_observed_at := at_utc (instant (oq_observed_at q)),
     oq_greeks := stored_greeks (oq_greeks q)\<rparr>"

definition contract_mapping :: "contract_spec \<Rightarrow> string \<Rightarrow> master_record option" where
  "contract_mapping c i = find (\<lambda>r. in_security_id (mr_instrument r) = i) (rev (cs_option_contracts c))"

definition finite_price :: "decimal option \<Rightarrow> bool" where
  "finite_price p = (case p of None \<Rightarrow> True | Some d \<Rightarrow> dec_is_finite d)"

definition insert_leg :: "string \<Rightarrow> atomic_snapshot \<Rightarrow> option_quote \<Rightarrow> store \<Rightarrow> store res" where
  "insert_leg key s q st = (case contract_mapping (sn_contract s) (oq_security_id q) of
     None \<Rightarrow> Inl (ContractIntegrityError ''option security ID is not in the contract revision'')
   | Some m \<Rightarrow>
      bindr (demand_that (mr_strike m = Some (oq_strike q) \<and> mr_option_type m = Some (oq_option_type q))
        (ContractIntegrityError ''option security ID does not map to the quoted strike and side'')) (\<lambda>_.
      bindr (epoch_timestamp (oq_expiry q) ''option.expiry'') (\<lambda>_.
      bindr (epoch_timestamp (oq_observed_at q) ''option.observed_at'') (\<lambda>_.
      bindr (demand_that (finite_price (gk_theoretical_price (oq_greeks q)))
        (PersistenceError ''persisted decimals must be finite'')) (\<lambda>_.
      bindr (traverse bind_optional [oq_bid_quantity q, oq_ask_quantity q, oq_volume q, oq_open_interest q,
        oq_previous_open_interest q, oq_change_open_interest q]) (\<lambda>_.
      bindr (sql_insert (leg_admits st) \<lparr>ol_snapshot_id = sn_snapshot_id s, ol_contract_key = key,
        ol_exchange = in_exchange (mr_instrument m), ol_segment = in_segment (mr_instrument m),
        ol_quote = stored_quote q\<rparr> (st_legs st)) (\<lambda>t. Inr (st\<lparr>st_legs := t\<rparr>))))))))"

definition insert_accepted_components :: "string \<Rightarrow> atomic_snapshot \<Rightarrow> int \<Rightarrow> store \<Rightarrow> store res" where
  "insert_accepted_components key s source_us st =
    bindr (insert_accepted key s source_us st) (\<lambda>st1.
    bindr (insert_market s st1) (\<lambda>st2.
    bindr (insert_technicals s st2) (\<lambda>st3.
    bindr (insert_context s st3) (\<lambda>st4.
      fold_res (insert_leg key s) (sn_option_chain s) st4))))"

text \<open>\<open>ON CONFLICT (contract_key, source) DO UPDATE\<close>.\<close>

definition upsert_head :: "string \<Rightarrow> atomic_snapshot \<Rightarrow> int \<Rightarrow> store \<Rightarrow> store res" where
  "upsert_head key s source_us st =
    (let h = \<lparr>hd_key = key, hd_source = sn_source s, hd_sequence = sn_sequence s, hd_source_us = source_us,
         hd_snapshot_id = sn_snapshot_id s\<rparr>;
         same = (\<lambda>h. hd_key h = key \<and> hd_source h = sn_source s) in
     if find_head key (sn_source s) st \<noteq> None then Inr (st\<lparr>st_heads := sql_update same (\<lambda>_. h) (st_heads st)\<rparr>)
     else bindr (sql_insert (\<lambda>_ h. hd_key h \<in> set (List.map cv_key (st_revisions st))) h (st_heads st))
       (\<lambda>t. Inr (st\<lparr>st_heads := t\<rparr>)))"

definition status_value :: "SnapshotStatus \<Rightarrow> string" where
  "status_value s = (case s of ACCEPTED \<Rightarrow> ''ACCEPTED'' | REJECTED_SNAPSHOT \<Rightarrow> ''REJECTED'')"

definition admit_accepted :: "store_env \<Rightarrow> atomic_snapshot \<Rightarrow> int \<Rightarrow> int \<Rightarrow> store \<Rightarrow> store res" where
  "admit_accepted e s source_us recorded_us st =
    (let key = env_contract_key (se_platform e) (sn_contract s) in
     bindr (ensure_strategy_exists (sn_strategy_version s) st) (\<lambda>_.
     bindr (ensure_contract e (sn_contract s) recorded_us st) (\<lambda>st1.
     bindr (enforce_order key (sn_source s) (sn_sequence s) source_us st1) (\<lambda>_.
     bindr (verify_change_oi_provenance key s st1) (\<lambda>_. Inr st1)))))"

definition save_body :: "store_env \<Rightarrow> atomic_snapshot \<Rightarrow> validation_report \<Rightarrow> (int \<times> bool) \<times> (int \<times> bool) \<Rightarrow> datetime
    \<Rightarrow> store \<Rightarrow> (SnapshotStatus \<times> store) res" where
  "save_body e s r stamps recorded_at st =
    (let key = env_contract_key (se_platform e) (sn_contract s); accepted = report_accepted r;
         status = (if accepted then ACCEPTED else REJECTED_SNAPSHOT); recorded_us = instant recorded_at;
         source_us = fst (fst stamps) in
     bindr (if accepted then admit_accepted e s source_us recorded_us st else Inr st) (\<lambda>st1.
     bindr (insert_attempt (attempt_of e s r stamps recorded_us) st1) (\<lambda>st2.
     bindr (insert_validation_issues (sn_snapshot_id s) (vr_issues r) st2) (\<lambda>st3.
     bindr (if accepted then insert_accepted_components key s source_us st3 else Inr st3) (\<lambda>st4.
     bindr (if accepted then upsert_head key s source_us st4 else Inr st4) (\<lambda>st5.
     bindr (append_audit e ''SNAPSHOT_INGESTED'' ''snapshot'' (sn_snapshot_id s)
       (JObj [(''contract_key'', JStr key), (''snapshot_hash'', JStr (env_snapshot_hash (se_platform e) s)),
         (''status'', JStr (status_value status))]) recorded_at st5) (\<lambda>st6.
       Inr (status, st6))))))))"

definition save_ingestion :: "store_env \<Rightarrow> atomic_snapshot \<Rightarrow> validation_report \<Rightarrow> datetime \<Rightarrow> store
    \<Rightarrow> SnapshotStatus res \<times> store" where
  "save_ingestion e s r recorded_at =
    guarded (bindr (verify_report_binding s (env_snapshot_hash (se_platform e) s) r) (\<lambda>_.
      bindr (epoch_timestamp recorded_at ''recorded_at'') (\<lambda>recorded_us.
        envelope_times s (report_accepted r) recorded_us))) (\<lambda>stamps.
      in_transaction (save_body e s r stamps recorded_at))"

subsection \<open>Reading\<close>

text \<open>\<open>ORDER BY source_timestamp_us DESC, sequence DESC LIMIT 1\<close>.\<close>

definition latest_of :: "accepted_row list \<Rightarrow> accepted_row option" where
  "latest_of t = (case rev (sort_key (\<lambda>r. (ac_source_us r, ac_sequence r)) t) of [] \<Rightarrow> None | r # _ \<Rightarrow> Some r)"

definition when_open :: "store \<Rightarrow> 'a \<Rightarrow> 'a res" where
  "when_open st x = (if st_closed st then Inl (PersistenceError ''repository is closed'') else Inr x)"

definition latest_accepted_snapshot :: "string \<Rightarrow> store \<Rightarrow> attempt_row option res" where
  "latest_accepted_snapshot key st = when_open st
     (case latest_of (filter (\<lambda>r. ac_contract_key r = key) (st_accepted st)) of None \<Rightarrow> None
      | Some r \<Rightarrow> sql_first (\<lambda>a. at_snapshot_id a = ac_snapshot_id r) (st_attempts st))"

definition snapshot_context :: "string \<Rightarrow> store \<Rightarrow> context_row option res" where
  "snapshot_context i st = when_open st (sql_first (\<lambda>r. cx_snapshot_id r = i) (st_contexts st))"

definition quote_sort :: "option_quote \<Rightarrow> rat \<times> string" where
  "quote_sort q = (oq_strike q, option_type_value (oq_option_type q))"

definition stored_chain :: "string \<Rightarrow> store \<Rightarrow> option_quote list" where
  "stored_chain i st = sort_key quote_sort (List.map ol_quote (filter (\<lambda>l. ol_snapshot_id l = i) (st_legs st)))"

definition previous_of :: "store \<Rightarrow> accepted_row \<Rightarrow> previous_snapshot" where
  "previous_of st r = \<lparr>pv_snapshot_id = ac_snapshot_id r, pv_sequence = ac_sequence r, pv_source = ac_source r,
     pv_source_timestamp = at_utc (ac_source_us r), pv_contract_key = ac_contract_key r,
     pv_option_chain = stored_chain (ac_snapshot_id r) st\<rparr>"

definition accepted_option_snapshot :: "store \<Rightarrow> string \<Rightarrow> previous_snapshot option res" where
  "accepted_option_snapshot st i = when_open st
     (map_option (previous_of st) (sql_first (\<lambda>r. ac_snapshot_id r = i) (st_accepted st)))"

definition before :: "int option \<Rightarrow> int \<Rightarrow> bool" where
  "before limit n = (case limit of None \<Rightarrow> True | Some k \<Rightarrow> n < k)"

definition latest_previous_option_snapshot :: "string \<Rightarrow> DataSource \<Rightarrow> int option \<Rightarrow> datetime option \<Rightarrow> store
    \<Rightarrow> previous_snapshot option res" where
  "latest_previous_option_snapshot key source before_sequence before_time st =
    bindr (optional_timestamp before_time ''before_source_timestamp'') (\<lambda>before_us.
      when_open st (map_option (previous_of st) (latest_of (filter (\<lambda>r. ac_contract_key r = key \<and> ac_source r = source
        \<and> before before_sequence (ac_sequence r) \<and> before before_us (ac_source_us r)) (st_accepted st)))))"

definition ingestion_attempt_count :: "store \<Rightarrow> int res" where
  "ingestion_attempt_count st = when_open st (int (length (st_attempts st)))"

definition accepted_snapshot_count :: "store \<Rightarrow> int res" where
  "accepted_snapshot_count st = when_open st (int (length (st_accepted st)))"

definition audit_event_count :: "store \<Rightarrow> int res" where
  "audit_event_count st = when_open st (int (length (st_audit st)))"

definition contract_revision_count :: "store \<Rightarrow> int res" where
  "contract_revision_count st = when_open st (int (length (st_revisions st)))"

definition close_store :: "store \<Rightarrow> store" where
  "close_store st = st\<lparr>st_closed := True\<rparr>"

subsection \<open>Manual overrides\<close>

fun split_on :: "char \<Rightarrow> string \<Rightarrow> string list" where
  "split_on c [] = [[]]"
| "split_on c (x # xs) = (if x = c then [] # split_on c xs
     else (case split_on c xs of [] \<Rightarrow> [[x]] | y # ys \<Rightarrow> (x # y) # ys))"

fun json_steps :: "json \<Rightarrow> string list \<Rightarrow> json option" where
  "json_steps j [] = Some j"
| "json_steps (JObj entries) (k # ks) = (case map_of entries k of None \<Rightarrow> None | Some j \<Rightarrow> json_steps j ks)"
| "json_steps _ (k # ks) = None"

definition json_path :: "json \<Rightarrow> string \<Rightarrow> json res" where
  "json_path document field_name = (case json_steps document (split_on (CHR ''.'') field_name) of
     None \<Rightarrow> Inl (KeyError field_name) | Some j \<Rightarrow> Inr j)"

definition validate_manual_override :: "json manual_override \<Rightarrow> int res" where
  "validate_manual_override m =
    bindr (demand_that (mo_field_name m \<in> set MANUAL_OVERRIDE_FIELDS)
      (PersistenceError ''unsupported manual-override field'')) (\<lambda>_.
    bindr (demand_that (non_blank (mo_overridden_by m)) (PersistenceError ''manual override requires a non-empty actor'')) (\<lambda>_.
    bindr (demand_that (non_blank (mo_reason m)) (PersistenceError ''manual override requires a non-empty reason'')) (\<lambda>_.
    case mo_overridden_at m of None \<Rightarrow> Inl (PersistenceError ''manual override requires an override timestamp'')
    | Some t \<Rightarrow>
       bindr (epoch_timestamp t ''override.overridden_at'') (\<lambda>us.
       case mo_expires_at m of None \<Rightarrow> Inr us
       | Some x \<Rightarrow>
          bindr (epoch_timestamp x ''override.expires_at'') (\<lambda>expires_us.
          bindr (demand_that (override_active m) (PersistenceError ''inactive manual override cannot expire'')) (\<lambda>_.
          bindr (demand_that (us < expires_us)
            (PersistenceError ''manual-override expiry must follow its override timestamp'')) (\<lambda>_. Inr us)))))))"

definition imported_field :: "store_env \<Rightarrow> string \<Rightarrow> string \<Rightarrow> json res" where
  "imported_field e text field_name = (case bindr (se_loads e text) (\<lambda>j. json_path j field_name) of
     Inr v \<Rightarrow> Inr v
   | Inl _ \<Rightarrow> Inl (PersistenceError ''manual-override field does not resolve in the accepted base snapshot''))"

definition override_body :: "store_env \<Rightarrow> string \<Rightarrow> string \<Rightarrow> json manual_override \<Rightarrow> datetime \<Rightarrow> store
    \<Rightarrow> (string \<times> store) res" where
  "override_body e new_id base m created_at st =
    (case (if is_accepted st base then sql_first (\<lambda>a. at_snapshot_id a = base) (st_attempts st) else None) of
       None \<Rightarrow> Inl (PersistenceError ''manual override requires an accepted base snapshot'')
     | Some a \<Rightarrow>
        bindr (imported_field e (at_snapshot_json a) (mo_field_name m)) (\<lambda>imported.
        bindr (demand_that (se_dumps e (mo_imported_value m) = se_dumps e imported)
          (PersistenceError ''manual override imported_value differs from the immutable base snapshot'')) (\<lambda>_.
        bindr (sql_insert (override_admits st) \<lparr>ov_override_id = new_id, ov_base_snapshot_id = base, ov_override = m,
          ov_created_us = instant created_at\<rparr> (st_overrides st)) (\<lambda>t.
        bindr (append_audit e ''MANUAL_OVERRIDE_RECORDED'' ''snapshot'' base
          (JObj [(''override_id'', JStr new_id), (''field_name'', JStr (mo_field_name m)),
            (''active'', JBool (override_active m))]) created_at (st\<lparr>st_overrides := t\<rparr>)) (\<lambda>st'.
          Inr (new_id, st'))))))"

definition add_manual_override :: "store_env \<Rightarrow> string \<Rightarrow> string \<Rightarrow> json manual_override \<Rightarrow> datetime \<Rightarrow> store
    \<Rightarrow> string res \<times> store" where
  "add_manual_override e new_id base m created_at =
    guarded (bindr (validate_manual_override m) (\<lambda>_. epoch_timestamp created_at ''override.created_at'')) (\<lambda>_.
      in_transaction (override_body e new_id base m created_at))"

subsection \<open>The ingestion service\<close>

record ingestion_result =
  ig_snapshot_id :: string
  ig_status :: SnapshotStatus
  ig_report :: validation_report

text \<open>The validator's loader is the repository's own \<open>accepted_option_snapshot\<close>.\<close>

definition store_validator :: "rat strategy_config \<Rightarrow> hashers \<Rightarrow> store \<Rightarrow> validator" where
  "store_validator c h st = \<lparr>vd_config = c, vd_loader = Some (accepted_option_snapshot st), vd_hashers = h\<rparr>"

definition ingest :: "store_env \<Rightarrow> rat strategy_config \<Rightarrow> hashers \<Rightarrow> atomic_snapshot \<Rightarrow> datetime \<Rightarrow> datetime \<Rightarrow> store
    \<Rightarrow> ingestion_result res \<times> store" where
  "ingest e c h s now recorded_at st =
    (case validate (store_validator c h st) (se_platform e) s now of Inl x \<Rightarrow> (Inl x, st)
     | Inr r \<Rightarrow> (case save_ingestion e s r recorded_at st of
          (Inl x, st') \<Rightarrow> (Inl x, st')
        | (Inr status, st') \<Rightarrow>
            (Inr \<lparr>ig_snapshot_id = sn_snapshot_id s, ig_status = status, ig_report = r\<rparr>, st')))"

end
