(* ===== verification/RepositoryInv.thy ===== *)
theory RepositoryInv
  imports Ingestion Systems
begin

text \<open>
  What each repository operation does to the tables: frame lemmas, the effect of a save, and the
  invariants of a reachable store.
\<close>

subsection \<open>Loops that append to one table\<close>

text \<open>
  The interface of a table inside the state: reading and replacing it.  A loop whose body appends one
  row per element appends the rows of the elements in order.
\<close>

locale table_column =
  fixes get :: "'st \<Rightarrow> 'row list" and put :: "'row list \<Rightarrow> 'st \<Rightarrow> 'st"
  assumes get_put: "get (put t s) = t" and put_get: "put (get s) s = s" and put_put: "put t (put u s) = put t s"
begin

definition appends :: "('a \<Rightarrow> 'st \<Rightarrow> 'row \<Rightarrow> bool) \<Rightarrow> ('a \<Rightarrow> 'st \<Rightarrow> 'st res) \<Rightarrow> bool" where
  "appends R f \<longleftrightarrow> (\<forall>x s t. f x s = Inr t \<longrightarrow> (\<exists>r. t = put (get s @ [r]) s \<and> R x s r))"

lemma fold_appends:
  assumes "appends R f" "fold_res f xs s = Inr t"
  shows "\<exists>rs. length rs = length xs \<and> t = put (get s @ rs) s
    \<and> (\<forall>i<length xs. R (xs ! i) (put (get s @ take i rs) s) (rs ! i))"
  using assms(2)
proof (induction xs arbitrary: s)
  case Nil
  then show ?case by (simp add: put_get)
next
  case (Cons x xs)
  then obtain u where u: "f x s = Inr u" "fold_res f xs u = Inr t" by (auto simp: bindr_eq_Inr)
  with assms(1) obtain r where r: "R x s r" "u = put (get s @ [r]) s" by (metis appends_def)
  from Cons.IH[OF u(2)] obtain rs where rs: "length rs = length xs" "t = put (get u @ rs) u"
    "\<forall>i<length xs. R (xs ! i) (put (get u @ take i rs) u) (rs ! i)" by blast
  show ?case
  proof (intro exI[of _ "r # rs"] conjI allI impI)
    show "t = put (get s @ r # rs) s" using rs(2) by (simp add: r(2) get_put put_put)
    fix i assume "i < length (x # xs)"
    then show "R ((x # xs) ! i) (put (get s @ take i (r # rs)) s) ((r # rs) ! i)"
      using rs(3) r(1) by (cases i) (auto simp: r(2) get_put put_put put_get)
  qed (simp add: rs(1))
qed

end

interpretation legs_column: table_column st_legs "\<lambda>t st. st\<lparr>st_legs := t\<rparr>"
  by unfold_locales simp_all

interpretation issues_column: table_column st_issues "\<lambda>t st. st\<lparr>st_issues := t\<rparr>"
  by unfold_locales simp_all

interpretation mappings_column: table_column st_mappings "\<lambda>t st. st\<lparr>st_mappings := t\<rparr>"
  by unfold_locales simp_all

interpretation listings_column: table_column st_listings "\<lambda>t st. st\<lparr>st_listings := t\<rparr>"
  by unfold_locales simp_all

subsection \<open>Frames\<close>

text \<open>The row a quote of an accepted snapshot is stored as.\<close>

definition stores_leg :: "string \<Rightarrow> atomic_snapshot \<Rightarrow> option_quote \<Rightarrow> store \<Rightarrow> leg_row \<Rightarrow> bool" where
  "stores_leg key s q st r \<longleftrightarrow> ol_snapshot_id r = sn_snapshot_id s \<and> ol_contract_key r = key
     \<and> ol_quote r = stored_quote q \<and> leg_admits st (st_legs st) r \<and> is_aware (oq_expiry q) \<and> is_aware (oq_observed_at q)"

lemma insert_leg_appends: "legs_column.appends (stores_leg key s) (insert_leg key s)"
  by (auto simp: legs_column.appends_def insert_leg_def stores_leg_def bindr_eq_Inr res_simps simp del: traverse.simps
    split: option.splits)

lemma insert_issue_appends:
  "issues_column.appends (\<lambda>x st r. r = \<lparr>ir_snapshot_id = i, ir_index = fst x, ir_issue = snd x\<rparr>) (insert_issue i)"
  by (auto simp: issues_column.appends_def insert_issue_def bindr_eq_Inr res_simps)

lemma insert_mapping_appends: "mappings_column.appends
    (\<lambda>x st r. r = \<lparr>cm_key = key, cm_batch_id = mp_batch_id (cs_master c), cm_record = x\<rparr>) (insert_mapping key c)"
  by (auto simp: mappings_column.appends_def insert_mapping_def bindr_eq_Inr res_simps split: option.splits)

lemma insert_listing_appends: "listings_column.appends
    (\<lambda>x st r. r = \<lparr>ml_batch_id = b, ml_record = x, ml_json = se_dumps e (se_record e x)\<rparr>) (insert_listing e b)"
  by (auto simp: listings_column.appends_def insert_listing_def bindr_eq_Inr res_simps)

lemma append_audit_eq:
  "append_audit e ty agg i payload t st = Inr st' \<longleftrightarrow> is_aware t \<and>
    (let r = audit_row_of e \<lparr>ae_occurred_us = instant t, ae_event_type = ty, ae_aggregate_type = agg,
       ae_aggregate_id = i, ae_payload = payload, ae_previous_hash = last_hash (st_audit st)\<rparr> in
     audit_admits (st_audit st) r \<and> st' = st\<lparr>st_audit := st_audit st @ [r]\<rparr>)"
  by (auto simp: append_audit_def bindr_eq_Inr res_simps Let_def)

lemma append_auditD:
  assumes "append_audit e ty agg i payload t st = Inr st'"
  shows "\<exists>ev. ae_previous_hash ev = last_hash (st_audit st) \<and> ae_event_type ev = ty \<and> ae_aggregate_id ev = i
    \<and> audit_admits (st_audit st) (audit_row_of e ev) \<and> st' = st\<lparr>st_audit := st_audit st @ [audit_row_of e ev]\<rparr>"
  using assms unfolding append_audit_eq Let_def
  by (intro exI[of _ "\<lparr>ae_occurred_us = instant t, ae_event_type = ty, ae_aggregate_type = agg,
       ae_aggregate_id = i, ae_payload = payload, ae_previous_hash = last_hash (st_audit st)\<rparr>"]) simp

lemma ensure_contract_frame:
  assumes "ensure_contract e c us st = Inr st'"
  shows "\<exists>rv mp. st' = st\<lparr>st_revisions := st_revisions st @ rv, st_mappings := st_mappings st @ mp\<rparr>
    \<and> env_contract_key (se_platform e) c \<in> set (List.map cv_key (st_revisions st'))"
proof (cases "sql_first (\<lambda>r. cv_key r = env_contract_key (se_platform e) c) (st_revisions st)")
  case None
  define r where "r = \<lparr>cv_key = env_contract_key (se_platform e) c, cv_hash = se_hash e (se_dumps e (se_contract e c)),
    cv_json = se_dumps e (se_contract e c), cv_contract = c, cv_created_us = us\<rparr>"
  have r: "cv_key r = env_contract_key (se_platform e) c"
    "fold_res (insert_mapping (cv_key r) c) (cs_option_contracts c) (st\<lparr>st_revisions := st_revisions st @ [r]\<rparr>) = Inr st'"
    using None assms by (auto simp: ensure_contract_def insert_contract_def Let_def bindr_eq_Inr res_simps r_def)
  from mappings_column.fold_appends[OF insert_mapping_appends r(2)] obtain rs where
    rs: "st' = st\<lparr>st_revisions := st_revisions st @ [r], st_mappings := st_mappings st @ rs\<rparr>" by auto
  then show ?thesis using r(1) by (intro exI[of _ "[r]"] exI[of _ rs]) simp
next
  case (Some r)
  with assms have "st' = st" by (auto simp: ensure_contract_def Let_def split: if_splits)
  then show ?thesis
    using sql_first_Some[OF Some] by (intro exI[of _ "[]"]) (auto intro!: image_eqI[of _ _ r])
qed

subsection \<open>The effect of a save\<close>

text \<open>What a save leaves behind: the envelope, the issues and, for an accepted snapshot, its components.\<close>

definition saved_envelope :: "store_env \<Rightarrow> atomic_snapshot \<Rightarrow> validation_report \<Rightarrow> datetime \<Rightarrow> store \<Rightarrow> store \<Rightarrow> bool" where
  "saved_envelope e s r t st st' \<longleftrightarrow> \<not> st_closed st \<and> st_closed st' = st_closed st
     \<and> vr_snapshot_id r = Some (sn_snapshot_id s)
     \<and> vr_snapshot_hash r = Some (env_snapshot_hash (se_platform e) s) \<and> is_aware t
     \<and> (\<exists>a. at_snapshot_id a = sn_snapshot_id s \<and> at_snapshot_hash a = env_snapshot_hash (se_platform e) s
          \<and> at_status a = (if report_accepted r then ACCEPTED else REJECTED_SNAPSHOT)
          \<and> at_contract_key a = env_contract_key (se_platform e) (sn_contract s) \<and> at_source a = sn_source s
          \<and> at_sequence a = sn_sequence s \<and> (report_accepted r \<longrightarrow> at_source_us a = instant (sn_source_timestamp s))
          \<and> at_snapshot_json a = se_dumps e (se_snapshot e s)
          \<and> attempt_admits (st_attempts st) a \<and> st_attempts st' = st_attempts st @ [a])
     \<and> st_issues st' = st_issues st @ List.map (\<lambda>(k, i). \<lparr>ir_snapshot_id = sn_snapshot_id s, ir_index = k, ir_issue = i\<rparr>)
          (zip [0..<length (vr_issues r)] (vr_issues r))
     \<and> (\<exists>ev. ae_previous_hash ev = last_hash (st_audit st) \<and> ae_event_type ev = ''SNAPSHOT_INGESTED''
          \<and> ae_aggregate_id ev = sn_snapshot_id s \<and> audit_admits (st_audit st) (audit_row_of e ev)
          \<and> st_audit st' = st_audit st @ [audit_row_of e ev])
     \<and> st_configs st' = st_configs st \<and> st_batches st' = st_batches st \<and> st_listings st' = st_listings st
     \<and> st_overrides st' = st_overrides st"

lemma issue_rows:
  assumes "insert_validation_issues i is st = Inr st'"
  shows "st' = st\<lparr>st_issues := st_issues st @ List.map (\<lambda>(k, x). \<lparr>ir_snapshot_id = i, ir_index = k, ir_issue = x\<rparr>)
    (zip [0..<length is] is)\<rparr>"
proof -
  let ?xs = "zip [0..<length is] is"
  from issues_column.fold_appends[OF insert_issue_appends assms[unfolded insert_validation_issues_def]] obtain rs where
    rs: "length rs = length ?xs" "st' = st\<lparr>st_issues := st_issues st @ rs\<rparr>"
    "\<forall>k<length ?xs. rs ! k = \<lparr>ir_snapshot_id = i, ir_index = fst (?xs ! k), ir_issue = snd (?xs ! k)\<rparr>" by blast
  have "rs = List.map (\<lambda>(k, x). \<lparr>ir_snapshot_id = i, ir_index = k, ir_issue = x\<rparr>) ?xs"
    by (rule nth_equalityI) (use rs in \<open>auto simp: case_prod_beta\<close>)
  with rs(2) show ?thesis by simp
qed

lemma save_binding:
  assumes "save_ingestion e s r t st = (Inr status, st')"
  obtains stamps where "save_body e s r stamps t st = Inr (status, st')" "envelope_times s (report_accepted r) (instant t) = Inr stamps"
    "vr_snapshot_id r = Some (sn_snapshot_id s)" "vr_snapshot_hash r = Some (env_snapshot_hash (se_platform e) s)"
    "is_aware t" "\<not> st_closed st"
proof -
  from assms obtain stamps where g: "bindr (verify_report_binding s (env_snapshot_hash (se_platform e) s) r) (\<lambda>_.
      bindr (epoch_timestamp t ''recorded_at'') (\<lambda>us. envelope_times s (report_accepted r) us)) = Inr stamps"
    "in_transaction (save_body e s r stamps t) st = (Inr status, st')"
    by (auto simp: save_ingestion_def guarded_eq)
  from g(2) have "save_body e s r stamps t st = Inr (status, st')" "\<not> st_closed st"
    by (cases rule: in_transaction_cases; simp)+
  with g(1) show thesis
    by (intro that) (auto simp: bindr_eq_Inr res_simps verify_report_binding_def split: option.splits)
qed

lemma save_rejected:
  assumes "save_ingestion e s r t st = (Inr status, st')" "\<not> report_accepted r"
  shows "saved_envelope e s r t st st' \<and> status = REJECTED_SNAPSHOT
    \<and> st_accepted st' = st_accepted st \<and> st_markets st' = st_markets st \<and> st_technicals st' = st_technicals st
    \<and> st_contexts st' = st_contexts st \<and> st_legs st' = st_legs st \<and> st_heads st' = st_heads st
    \<and> st_revisions st' = st_revisions st \<and> st_mappings st' = st_mappings st"
proof -
  from assms(1) obtain stamps where b: "save_body e s r stamps t st = Inr (status, st')"
    "vr_snapshot_id r = Some (sn_snapshot_id s)" "vr_snapshot_hash r = Some (env_snapshot_hash (se_platform e) s)"
    "is_aware t" "\<not> st_closed st" by (rule save_binding)
  from b(1) assms(2) show ?thesis
    by (auto simp: saved_envelope_def save_body_def Let_def bindr_eq_Inr insert_attempt_def res_simps
      attempt_of_def b(2-) dest!: issue_rows append_auditD)
qed


text \<open>The tables an accepted snapshot adds to.\<close>

definition accepted_row_of :: "string \<Rightarrow> atomic_snapshot \<Rightarrow> accepted_row" where
  "accepted_row_of key s = \<lparr>ac_snapshot_id = sn_snapshot_id s, ac_contract_key = key, ac_source = sn_source s,
     ac_sequence = sn_sequence s, ac_source_us = instant (sn_source_timestamp s)\<rparr>"

definition head_row_of :: "string \<Rightarrow> atomic_snapshot \<Rightarrow> head_row" where
  "head_row_of key s = \<lparr>hd_key = key, hd_source = sn_source s, hd_sequence = sn_sequence s,
     hd_source_us = instant (sn_source_timestamp s), hd_snapshot_id = sn_snapshot_id s\<rparr>"

definition saved_components :: "store_env \<Rightarrow> atomic_snapshot \<Rightarrow> store \<Rightarrow> store \<Rightarrow> bool" where
  "saved_components e s st st' \<longleftrightarrow> (let key = env_contract_key (se_platform e) (sn_contract s) in
     0 \<le> sn_sequence s \<and> is_aware (sn_source_timestamp s)
     \<and> ensure_strategy_exists (sn_strategy_version s) st = Inr ()
     \<and> enforce_order key (sn_source s) (sn_sequence s) (instant (sn_source_timestamp s)) st = Inr ()
     \<and> verify_change_oi_provenance key s st = Inr ()
     \<and> (\<exists>rv mp. st_revisions st' = st_revisions st @ rv \<and> st_mappings st' = st_mappings st @ mp)
     \<and> key \<in> set (List.map cv_key (st_revisions st'))
     \<and> (\<exists>u. accepted_admits u (st_accepted st) (accepted_row_of key s)) \<and> st_accepted st' = st_accepted st @ [accepted_row_of key s]
     \<and> (\<exists>u. market_admits u (st_markets st) \<lparr>mk_snapshot_id = sn_snapshot_id s, mk_market = sn_market s\<rparr>
          \<and> technical_admits u (st_technicals st) \<lparr>tc_snapshot_id = sn_snapshot_id s, tc_technicals = sn_technicals s\<rparr>
          \<and> context_admits u (st_contexts st) \<lparr>cx_snapshot_id = sn_snapshot_id s, cx_context = sn_context s\<rparr>)
     \<and> st_markets st' = st_markets st @ [\<lparr>mk_snapshot_id = sn_snapshot_id s, mk_market = sn_market s\<rparr>]
     \<and> st_technicals st' = st_technicals st @ [\<lparr>tc_snapshot_id = sn_snapshot_id s, tc_technicals = sn_technicals s\<rparr>]
     \<and> st_contexts st' = st_contexts st @ [\<lparr>cx_snapshot_id = sn_snapshot_id s, cx_context = sn_context s\<rparr>]
     \<and> (\<exists>rows u. st_legs st' = st_legs st @ rows \<and> st_legs u = st_legs st \<and> st_mappings u = st_mappings st' \<and> length rows = length (sn_option_chain s)
          \<and> (\<forall>i<length rows. stores_leg key s (sn_option_chain s ! i) (u\<lparr>st_legs := st_legs st @ take i rows\<rparr>) (rows ! i)))
     \<and> st_heads st' = (if find_head key (sn_source s) st \<noteq> None
          then sql_update (\<lambda>h. hd_key h = key \<and> hd_source h = sn_source s) (\<lambda>_. head_row_of key s) (st_heads st)
          else st_heads st @ [head_row_of key s]))"

lemma provenance_frame:
  "verify_change_oi_provenance key s (st\<lparr>st_revisions := rv, st_mappings := mp\<rparr>) = verify_change_oi_provenance key s st"
proof -
  have "prior_leg (st\<lparr>st_revisions := rv, st_mappings := mp\<rparr>) i q = prior_leg st i q" for i q
    by (simp add: prior_leg_def cong: option.case_cong)
  then have "check_quote_provenance key s us (st\<lparr>st_revisions := rv, st_mappings := mp\<rparr>) = check_quote_provenance key s us st" for us
    unfolding check_quote_provenance_def by (simp cong: option.case_cong)
  then show ?thesis by (simp add: verify_change_oi_provenance_def)
qed

lemma admit_acceptedD:
  assumes "admit_accepted e s us rus st = Inr st'"
  obtains rv mp where "st' = st\<lparr>st_revisions := st_revisions st @ rv, st_mappings := st_mappings st @ mp\<rparr>"
    "env_contract_key (se_platform e) (sn_contract s) \<in> set (List.map cv_key (st_revisions st'))"
    "ensure_strategy_exists (sn_strategy_version s) st = Inr ()"
    "enforce_order (env_contract_key (se_platform e) (sn_contract s)) (sn_source s) (sn_sequence s) us st = Inr ()"
    "verify_change_oi_provenance (env_contract_key (se_platform e) (sn_contract s)) s st = Inr ()"
proof -
  let ?key = "env_contract_key (se_platform e) (sn_contract s)"
  from assms have a: "ensure_strategy_exists (sn_strategy_version s) st = Inr ()"
    "ensure_contract e (sn_contract s) rus st = Inr st'"
    "enforce_order ?key (sn_source s) (sn_sequence s) us st' = Inr ()" "verify_change_oi_provenance ?key s st' = Inr ()"
    by (auto simp: admit_accepted_def Let_def bindr_eq_Inr)
  from ensure_contract_frame[OF a(2)] obtain rv mp where
    f: "st' = st\<lparr>st_revisions := st_revisions st @ rv, st_mappings := st_mappings st @ mp\<rparr>"
      "?key \<in> set (List.map cv_key (st_revisions st'))" by blast
  have "enforce_order ?key (sn_source s) (sn_sequence s) us st = Inr ()"
    using a(3) by (simp add: f(1) enforce_order_def find_head_def)
  moreover have "verify_change_oi_provenance ?key s st = Inr ()" using a(4) by (simp add: f(1) provenance_frame)
  ultimately show thesis using that f a(1) by blast
qed

lemma components_frame:
  assumes "insert_accepted_components key s us st = Inr st'"
  obtains rows u where "st' = st\<lparr>st_accepted := st_accepted st @ [\<lparr>ac_snapshot_id = sn_snapshot_id s,
      ac_contract_key = key, ac_source = sn_source s, ac_sequence = sn_sequence s, ac_source_us = us\<rparr>],
      st_markets := st_markets st @ [\<lparr>mk_snapshot_id = sn_snapshot_id s, mk_market = sn_market s\<rparr>],
      st_technicals := st_technicals st @ [\<lparr>tc_snapshot_id = sn_snapshot_id s, tc_technicals = sn_technicals s\<rparr>],
      st_contexts := st_contexts st @ [\<lparr>cx_snapshot_id = sn_snapshot_id s, cx_context = sn_context s\<rparr>],
      st_legs := st_legs st @ rows\<rparr>"
    "accepted_admits st (st_accepted st) \<lparr>ac_snapshot_id = sn_snapshot_id s, ac_contract_key = key,
       ac_source = sn_source s, ac_sequence = sn_sequence s, ac_source_us = us\<rparr>"
    "length rows = length (sn_option_chain s)" "st_legs u = st_legs st" "st_mappings u = st_mappings st"
    "market_admits u (st_markets st) \<lparr>mk_snapshot_id = sn_snapshot_id s, mk_market = sn_market s\<rparr>"
    "technical_admits u (st_technicals st) \<lparr>tc_snapshot_id = sn_snapshot_id s, tc_technicals = sn_technicals s\<rparr>"
    "context_admits u (st_contexts st) \<lparr>cx_snapshot_id = sn_snapshot_id s, cx_context = sn_context s\<rparr>"
    "\<forall>i<length rows. stores_leg key s (sn_option_chain s ! i) (u\<lparr>st_legs := st_legs st @ take i rows\<rparr>) (rows ! i)"
proof -
  from assms obtain u where u: "fold_res (insert_leg key s) (sn_option_chain s) u = Inr st'"
    "u = st\<lparr>st_accepted := st_accepted st @ [\<lparr>ac_snapshot_id = sn_snapshot_id s,
      ac_contract_key = key, ac_source = sn_source s, ac_sequence = sn_sequence s, ac_source_us = us\<rparr>],
      st_markets := st_markets st @ [\<lparr>mk_snapshot_id = sn_snapshot_id s, mk_market = sn_market s\<rparr>],
      st_technicals := st_technicals st @ [\<lparr>tc_snapshot_id = sn_snapshot_id s, tc_technicals = sn_technicals s\<rparr>],
      st_contexts := st_contexts st @ [\<lparr>cx_snapshot_id = sn_snapshot_id s, cx_context = sn_context s\<rparr>]\<rparr>"
    "accepted_admits st (st_accepted st) \<lparr>ac_snapshot_id = sn_snapshot_id s, ac_contract_key = key,
       ac_source = sn_source s, ac_sequence = sn_sequence s, ac_source_us = us\<rparr>"
    "market_admits u (st_markets st) \<lparr>mk_snapshot_id = sn_snapshot_id s, mk_market = sn_market s\<rparr>"
    "technical_admits u (st_technicals st) \<lparr>tc_snapshot_id = sn_snapshot_id s, tc_technicals = sn_technicals s\<rparr>"
    "context_admits u (st_contexts st) \<lparr>cx_snapshot_id = sn_snapshot_id s, cx_context = sn_context s\<rparr>"
    by (auto simp: insert_accepted_components_def bindr_eq_Inr insert_accepted_def insert_market_def insert_technicals_def
      insert_context_def res_simps market_admits_def technical_admits_def context_admits_def is_accepted_def Let_def)
  from legs_column.fold_appends[OF insert_leg_appends u(1)] obtain rows where
    r: "length rows = length (sn_option_chain s)" "st' = u\<lparr>st_legs := st_legs u @ rows\<rparr>"
      "\<forall>i<length rows. stores_leg key s (sn_option_chain s ! i) (u\<lparr>st_legs := st_legs u @ take i rows\<rparr>) (rows ! i)" by auto
  show thesis by (rule that[of rows u]) (use u r in simp_all)
qed

lemma upsert_head_eq:
  assumes "upsert_head key s (instant (sn_source_timestamp s)) st = Inr st'"
  shows "st' = st\<lparr>st_heads := (if find_head key (sn_source s) st \<noteq> None
      then sql_update (\<lambda>h. hd_key h = key \<and> hd_source h = sn_source s) (\<lambda>_. head_row_of key s) (st_heads st)
      else st_heads st @ [head_row_of key s])\<rparr>"
  using assms by (auto simp: upsert_head_def Let_def head_row_of_def bindr_eq_Inr res_simps split: if_splits)

lemma save_accepted:
  assumes "save_ingestion e s r t st = (Inr status, st')" "report_accepted r"
  shows "saved_envelope e s r t st st' \<and> status = ACCEPTED \<and> saved_components e s st st'"
proof -
  let ?key = "env_contract_key (se_platform e) (sn_contract s)"
  let ?us = "instant (sn_source_timestamp s)"
  from assms(1) obtain stamps where b: "save_body e s r stamps t st = Inr (status, st')"
    "envelope_times s (report_accepted r) (instant t) = Inr stamps"
    "vr_snapshot_id r = Some (sn_snapshot_id s)" "vr_snapshot_hash r = Some (env_snapshot_hash (se_platform e) s)"
    "is_aware t" "\<not> st_closed st" by (rule save_binding)
  have stamps: "fst (fst stamps) = ?us" "0 \<le> sn_sequence s" "is_aware (sn_source_timestamp s)"
    using b(2) assms(2) by (auto simp: envelope_times_def bindr_eq_Inr res_simps)
  from b(1) assms(2) obtain st1 st2 st3 st4 st5 p where d: "status = ACCEPTED"
    "admit_accepted e s ?us (instant t) st = Inr st1"
    "insert_attempt (attempt_of e s r stamps (instant t)) st1 = Inr st2"
    "insert_validation_issues (sn_snapshot_id s) (vr_issues r) st2 = Inr st3"
    "insert_accepted_components ?key s ?us st3 = Inr st4" "upsert_head ?key s ?us st4 = Inr st5"
    "append_audit e ''SNAPSHOT_INGESTED'' ''snapshot'' (sn_snapshot_id s) p t st5 = Inr st'"
    by (auto simp: save_body_def Let_def bindr_eq_Inr stamps(1))
  from admit_acceptedD[OF d(2)] obtain rv mp where
    a: "st1 = st\<lparr>st_revisions := st_revisions st @ rv, st_mappings := st_mappings st @ mp\<rparr>"
      "?key \<in> set (List.map cv_key (st_revisions st1))" "ensure_strategy_exists (sn_strategy_version s) st = Inr ()"
      "enforce_order ?key (sn_source s) (sn_sequence s) ?us st = Inr ()" "verify_change_oi_provenance ?key s st = Inr ()"
    by metis
  have st2: "attempt_admits (st_attempts st) (attempt_of e s r stamps (instant t))"
    "st2 = st1\<lparr>st_attempts := st_attempts st @ [attempt_of e s r stamps (instant t)]\<rparr>"
    using d(3) by (auto simp: insert_attempt_def bindr_eq_Inr res_simps a(1))
  note st3 = issue_rows[OF d(4)]
  from components_frame[OF d(5)] obtain rows u where c: "st4 = st3\<lparr>st_accepted := st_accepted st3 @ [accepted_row_of ?key s],
      st_markets := st_markets st3 @ [\<lparr>mk_snapshot_id = sn_snapshot_id s, mk_market = sn_market s\<rparr>],
      st_technicals := st_technicals st3 @ [\<lparr>tc_snapshot_id = sn_snapshot_id s, tc_technicals = sn_technicals s\<rparr>],
      st_contexts := st_contexts st3 @ [\<lparr>cx_snapshot_id = sn_snapshot_id s, cx_context = sn_context s\<rparr>],
      st_legs := st_legs st3 @ rows\<rparr>"
    "accepted_admits st3 (st_accepted st3) (accepted_row_of ?key s)" "length rows = length (sn_option_chain s)"
    "st_legs u = st_legs st3" "st_mappings u = st_mappings st3"
    "market_admits u (st_markets st3) \<lparr>mk_snapshot_id = sn_snapshot_id s, mk_market = sn_market s\<rparr>"
    "technical_admits u (st_technicals st3) \<lparr>tc_snapshot_id = sn_snapshot_id s, tc_technicals = sn_technicals s\<rparr>"
    "context_admits u (st_contexts st3) \<lparr>cx_snapshot_id = sn_snapshot_id s, cx_context = sn_context s\<rparr>"
    "\<forall>i<length rows. stores_leg ?key s (sn_option_chain s ! i) (u\<lparr>st_legs := st_legs st3 @ take i rows\<rparr>) (rows ! i)"
    unfolding accepted_row_of_def by metis
  have h: "find_head ?key (sn_source s) st4 = find_head ?key (sn_source s) st"
    by (simp add: find_head_def c(1) st3 st2(2) a(1))
  note st5 = upsert_head_eq[OF d(6), unfolded h]
  from append_auditD[OF d(7)] obtain ev where ev: "ae_previous_hash ev = last_hash (st_audit st5)"
    "ae_event_type ev = ''SNAPSHOT_INGESTED''" "ae_aggregate_id ev = sn_snapshot_id s"
    "audit_admits (st_audit st5) (audit_row_of e ev)" "st' = st5\<lparr>st_audit := st_audit st5 @ [audit_row_of e ev]\<rparr>" by blast
  note eqs = ev(5) st5 c(1) st3 st2(2) a(1)
  have "saved_envelope e s r t st st'"
    unfolding saved_envelope_def using b(3-6) ev(1-4) st2(1) assms(2) stamps(1)
    by (intro conjI exI[of _ "attempt_of e s r stamps (instant t)"] exI[of _ ev]) (simp_all add: eqs attempt_of_def)
  moreover have "saved_components e s st st'"
    unfolding saved_components_def Let_def using stamps(2,3) a(2-5) c(2-9)
    by (intro conjI exI[of _ rv] exI[of _ mp] exI[of _ st3] exI[of _ rows] exI[of _ u]) (simp_all add: eqs)
  ultimately show ?thesis using d(1) by simp
qed

end
