(* ===== verification/RepositorySystem.thy ===== *)
theory RepositorySystem
  imports RepositoryInv "HOL-Library.Sublist"
begin

text \<open>
  The repository as a state machine: any sequence of its operations from a fresh store, and the
  invariants of the stores it reaches.
\<close>

inductive store_step :: "store_env \<Rightarrow> store \<Rightarrow> store \<Rightarrow> bool" for e where
  step_publish: "publish_strategy_config e c t st = (r, st') \<Longrightarrow> store_step e st st'"
| step_master: "record_instrument_master e p rs st = (r, st') \<Longrightarrow> store_step e st st'"
| step_save: "save_ingestion e s rep t st = (r, st') \<Longrightarrow> store_step e st st'"
| step_override: "add_manual_override e i b m t st = (r, st') \<Longrightarrow> store_step e st st'"
| step_close_store: "store_step e st (close_store st)"

subsection \<open>Steps\<close>

text \<open>A step that leaves the snapshot tables alone, and one that appends at most one audit event.\<close>

definition snapshot_frame :: "store \<Rightarrow> store \<Rightarrow> bool" where
  "snapshot_frame st st' \<longleftrightarrow> st_attempts st' = st_attempts st \<and> st_issues st' = st_issues st
     \<and> st_accepted st' = st_accepted st \<and> st_markets st' = st_markets st \<and> st_technicals st' = st_technicals st
     \<and> st_contexts st' = st_contexts st \<and> st_legs st' = st_legs st \<and> st_heads st' = st_heads st
     \<and> st_revisions st' = st_revisions st \<and> st_mappings st' = st_mappings st"

definition audit_grows :: "store_env \<Rightarrow> store \<Rightarrow> store \<Rightarrow> bool" where
  "audit_grows e st st' \<longleftrightarrow> st_audit st' = st_audit st \<or> (\<exists>ev. ae_previous_hash ev = last_hash (st_audit st)
     \<and> audit_admits (st_audit st) (audit_row_of e ev) \<and> st_audit st' = st_audit st @ [audit_row_of e ev])"

lemma frame_refl [simp]: "snapshot_frame st st" "audit_grows e st st"
  by (simp_all add: snapshot_frame_def audit_grows_def)

lemma publish_frame:
  assumes "publish_strategy_config e c t st = (r, st')"
  shows "snapshot_frame st st' \<and> audit_grows e st st'"
proof -
  from assms consider "st' = st" | us x where "publish_body e c t us st = Inr (x, st')"
    by (auto simp: publish_strategy_config_def guarded_eq elim: in_transaction_cases)
  then show ?thesis
    by cases (auto simp: publish_body_def Let_def bindr_eq_Inr snapshot_frame_def audit_grows_def res_simps
      dest!: append_auditD split: option.splits if_splits)
qed

lemma master_frame:
  assumes "record_instrument_master e p rs st = (r, st')"
  shows "snapshot_frame st st' \<and> audit_grows e st st'"
proof -
  from assms consider "st' = st" | x where "master_body e p rs st = Inr (x, st')"
    by (auto simp: record_instrument_master_def guarded_eq elim: in_transaction_cases)
  then show ?thesis
    by cases (auto simp: master_body_def Let_def bindr_eq_Inr snapshot_frame_def audit_grows_def res_simps
      dest!: append_auditD listings_column.fold_appends[OF insert_listing_appends] split: option.splits if_splits)
qed

lemma override_frame:
  assumes "add_manual_override e i b m t st = (r, st')"
  shows "snapshot_frame st st' \<and> audit_grows e st st'"
proof -
  from assms consider "st' = st" | x where "override_body e i b m t st = Inr (x, st')"
    by (auto simp: add_manual_override_def guarded_eq elim: in_transaction_cases)
  then show ?thesis
    by cases (auto simp: override_body_def Let_def bindr_eq_Inr snapshot_frame_def audit_grows_def res_simps
      dest!: append_auditD split: option.splits if_splits)
qed

lemma save_failed:
  assumes "save_ingestion e s r t st = (Inl x, st')"
  shows "st' = st"
  using assms by (auto simp: save_ingestion_def guarded_eq elim: in_transaction_cases)

lemma store_step_cases [consumes 1, case_names quiet rejected accepted]:
  assumes "store_step e st st'"
  obtains (quiet) "snapshot_frame st st'" "audit_grows e st st'"
  | (rejected) s r t where "saved_envelope e s r t st st'" "\<not> report_accepted r"
      "st_accepted st' = st_accepted st" "st_legs st' = st_legs st" "st_heads st' = st_heads st"
      "st_markets st' = st_markets st" "st_technicals st' = st_technicals st" "st_contexts st' = st_contexts st"
      "st_revisions st' = st_revisions st" "st_mappings st' = st_mappings st"
  | (accepted) s r t where "saved_envelope e s r t st st'" "report_accepted r" "saved_components e s st st'"
  using assms
proof cases
  case (step_save s r t res)
  show thesis
  proof (cases res)
    case (Inl x)
    then show thesis using step_save save_failed quiet by fastforce
  next
    case (Inr status)
    then show thesis
      using step_save save_rejected[of e s r t st status st'] save_accepted[of e s r t st status st'] rejected accepted
      by (cases "report_accepted r") auto
  qed
qed (use publish_frame master_frame override_frame quiet in \<open>auto simp: close_store_def snapshot_frame_def audit_grows_def\<close>)

lemma step_audit:
  assumes "store_step e st st'"
  shows "audit_grows e st st'"
  using assms by (cases rule: store_step_cases) (auto simp: saved_envelope_def audit_grows_def)

subsection \<open>The audit chain\<close>

definition chained :: "store_env \<Rightarrow> audit_row list \<Rightarrow> bool" where
  "chained e t \<longleftrightarrow> (\<forall>i<length t. t ! i = audit_row_of e (audit_event.truncate (t ! i))
     \<and> ae_previous_hash (t ! i) = (if i = 0 then None else Some (ae_event_hash (t ! (i - 1)))))"

lemma last_hash_eq: "last_hash t = (if t = [] then None else Some (ae_event_hash (t ! (length t - 1))))"
  by (cases t rule: rev_cases) (simp_all add: last_hash_def)

lemma audit_row_of_simps [simp]:
  "audit_event.truncate (audit_row_of e ev) = ev" "ae_previous_hash (audit_row_of e ev) = ae_previous_hash ev"
  "ae_event_hash (audit_row_of e ev) = se_event_hash e ev" "ae_event_type (audit_row_of e ev) = ae_event_type ev"
  "ae_aggregate_id (audit_row_of e ev) = ae_aggregate_id ev"
  by (cases ev; simp add: audit_row_of_def audit_event.defs)+

lemma chained_append: "chained e t \<Longrightarrow> ae_previous_hash ev = last_hash t \<Longrightarrow> chained e (t @ [audit_row_of e ev])"
  by (auto simp: chained_def last_hash_eq nth_append less_Suc_eq)

definition audit_ok :: "store_env \<Rightarrow> store \<Rightarrow> bool" where
  "audit_ok e st \<longleftrightarrow> chained e (st_audit st) \<and> distinct (List.map ae_event_hash (st_audit st))"

interpretation audit_system: invariant_system "\<lambda>st. st = fresh_store" "store_step e" "audit_ok e"
proof unfold_locales
  show "audit_ok e st" if "st = fresh_store" for st
    using that by (simp add: audit_ok_def fresh_store_def chained_def)
  show "audit_ok e st'" if "audit_ok e st" "store_step e st st'" for st st'
    using that(1) step_audit[OF that(2)]
    by (auto simp: audit_ok_def audit_grows_def audit_admits_def fresh_key_def intro: chained_append)
qed

subsection \<open>Streams of accepted snapshots\<close>

definition same_stream :: "accepted_row \<Rightarrow> accepted_row \<Rightarrow> bool" where
  "same_stream a b \<longleftrightarrow> ac_contract_key a = ac_contract_key b \<and> ac_source a = ac_source b"

definition advances :: "accepted_row \<Rightarrow> accepted_row \<Rightarrow> bool" where
  "advances a b \<longleftrightarrow> ac_sequence a < ac_sequence b \<and> ac_source_us a < ac_source_us b"

definition streams_ok :: "store \<Rightarrow> bool" where
  "streams_ok st \<longleftrightarrow> sorted_wrt (\<lambda>a b. same_stream a b \<longrightarrow> advances a b) (st_accepted st)"

text \<open>A head is the last row of its stream; a stream without a head is empty.\<close>

definition head_of :: "accepted_row \<Rightarrow> head_row" where
  "head_of a = \<lparr>hd_key = ac_contract_key a, hd_source = ac_source a, hd_sequence = ac_sequence a,
     hd_source_us = ac_source_us a, hd_snapshot_id = ac_snapshot_id a\<rparr>"

definition in_stream :: "string \<Rightarrow> DataSource \<Rightarrow> accepted_row \<Rightarrow> bool" where
  "in_stream key source a \<longleftrightarrow> ac_contract_key a = key \<and> ac_source a = source"

definition heads_ok :: "store \<Rightarrow> bool" where
  "heads_ok st \<longleftrightarrow> (\<forall>key source. find_head key source st =
     (case rev (filter (in_stream key source) (st_accepted st)) of [] \<Rightarrow> None | a # _ \<Rightarrow> Some (head_of a)))"

definition ordered :: "store \<Rightarrow> bool" where
  "ordered st \<longleftrightarrow> streams_ok st \<and> heads_ok st"

lemma sorted_wrt_stream:
  "sorted_wrt (\<lambda>a b. same_stream a b \<longrightarrow> advances a b) t \<Longrightarrow> sorted_wrt advances (filter (in_stream key source) t)"
  by (induction t) (auto simp: same_stream_def in_stream_def)

lemma stream_sorted: "streams_ok st \<Longrightarrow> sorted_wrt advances (filter (in_stream key source) (st_accepted st))"
  unfolding streams_ok_def by (rule sorted_wrt_stream)

text \<open>The order check lets a snapshot through only after every row of its stream.\<close>

lemma order_advances:
  assumes "ordered st" "enforce_order key source n us st = Inr ()" "a \<in> set (st_accepted st)" "in_stream key source a"
  shows "ac_sequence a < n \<and> ac_source_us a < us"
proof -
  let ?t = "filter (in_stream key source) (st_accepted st)"
  have a: "a \<in> set ?t" using assms(3,4) by simp
  then obtain xs l where t: "?t = xs @ [l]" by (cases ?t rule: rev_cases) auto
  have "find_head key source st = Some (head_of l)" using assms(1) t by (simp add: ordered_def heads_ok_def)
  with assms(2) have l: "ac_sequence l < n" "ac_source_us l < us"
    by (auto simp: enforce_order_def head_of_def bindr_eq_Inr res_simps)
  have "sorted_wrt advances (xs @ [l])" using stream_sorted[of st key source] assms(1) t by (simp add: ordered_def)
  with a t have "a = l \<or> advances a l" by (auto simp: sorted_wrt_append)
  with l show ?thesis by (auto simp: advances_def)
qed

lemma find_head_upsert:
  assumes "st_heads st' = (if find_head key source st \<noteq> None
      then sql_update (\<lambda>h. hd_key h = key \<and> hd_source h = source) (\<lambda>_. r) (st_heads st) else st_heads st @ [r])"
    and "hd_key r = key" "hd_source r = source"
  shows "find_head k src st' = (if k = key \<and> src = source then Some r else find_head k src st)"
proof (cases "find_head key source st")
  case None
  then show ?thesis using assms by (auto simp: find_head_def sql_first_append) (auto simp: sql_first_def split: option.splits)
next
  case (Some h)
  define P where "P = (\<lambda>h :: head_row. hd_key h = key \<and> hd_source h = source)"
  define Q where "Q = (\<lambda>h :: head_row. hd_key h = k \<and> hd_source h = src)"
  have f: "find_head k src x = sql_first Q (st_heads x)" for x by (simp add: find_head_def Q_def)
  have "sql_first Q (sql_update P (\<lambda>_. r) (st_heads st)) = map_option (\<lambda>h. if P h then r else h) (sql_first Q (st_heads st))"
    by (rule sql_first_update) (use assms(2,3) in \<open>auto simp: P_def Q_def\<close>)
  then have upd: "find_head k src st' = map_option (\<lambda>h. if P h then r else h) (find_head k src st)"
    using assms(1) Some by (simp add: f P_def)
  show ?thesis
  proof (cases "k = key \<and> src = source")
    case True
    moreover have "P h" using sql_first_Some[OF Some[unfolded find_head_def]] by (simp add: P_def)
    ultimately have "find_head k src st = Some h" "P h" using Some by simp_all
    with upd True show ?thesis by simp
  next
    case False
    then have "\<not> P h" if "find_head k src st = Some h" for h
      using that sql_first_Some[of Q "st_heads st" h] by (auto simp: f P_def Q_def)
    with upd False show ?thesis by (cases "find_head k src st") auto
  qed
qed

lemma ordered_accept:
  assumes "ordered st" "saved_components e s st st'"
  shows "ordered st'"
proof -
  let ?key = "env_contract_key (se_platform e) (sn_contract s)"
  let ?a = "accepted_row_of ?key s"
  from assms(2) have c: "enforce_order ?key (sn_source s) (sn_sequence s) (instant (sn_source_timestamp s)) st = Inr ()"
    "st_accepted st' = st_accepted st @ [?a]"
    "st_heads st' = (if find_head ?key (sn_source s) st \<noteq> None
      then sql_update (\<lambda>h. hd_key h = ?key \<and> hd_source h = sn_source s) (\<lambda>_. head_row_of ?key s) (st_heads st)
      else st_heads st @ [head_row_of ?key s])"
    by (auto simp: saved_components_def Let_def)
  have "advances a ?a" if "a \<in> set (st_accepted st)" "same_stream a ?a" for a
    using order_advances[OF assms(1) c(1) that(1)] that(2)
    by (auto simp: same_stream_def in_stream_def advances_def accepted_row_of_def)
  then have "streams_ok st'" using assms(1) by (simp add: ordered_def streams_ok_def c(2) sorted_wrt_append)
  moreover have "heads_ok st'"
    unfolding heads_ok_def
  proof (intro allI)
    fix k src
    have "find_head k src st' = (if k = ?key \<and> src = sn_source s then Some (head_row_of ?key s) else find_head k src st)"
      by (rule find_head_upsert[OF c(3)]) (simp_all add: head_row_of_def)
    moreover have "in_stream k src ?a \<longleftrightarrow> k = ?key \<and> src = sn_source s" "head_of ?a = head_row_of ?key s"
      by (auto simp: in_stream_def accepted_row_of_def head_row_of_def head_of_def)
    ultimately show "find_head k src st' =
        (case rev (filter (in_stream k src) (st_accepted st')) of [] \<Rightarrow> None | a # _ \<Rightarrow> Some (head_of a))"
      using assms(1) by (simp add: c(2) ordered_def heads_ok_def)
  qed
  ultimately show ?thesis by (simp add: ordered_def)
qed

interpretation order_system: invariant_system "\<lambda>st. st = fresh_store" "store_step e" ordered
proof unfold_locales
  show "ordered st" if "st = fresh_store" for st
    using that by (simp add: ordered_def streams_ok_def heads_ok_def find_head_def sql_first_def fresh_store_def)
  show "ordered st'" if "ordered st" "store_step e st st'" for st st'
    using that(2)
  proof (cases rule: store_step_cases)
    case quiet
    then show ?thesis using that(1) by (simp add: ordered_def streams_ok_def heads_ok_def find_head_def snapshot_frame_def)
  next
    case (rejected s r t)
    then show ?thesis using that(1) by (simp add: ordered_def streams_ok_def heads_ok_def find_head_def)
  next
    case (accepted s r t)
    then show ?thesis using that(1) by (blast intro: ordered_accept)
  qed
qed

subsection \<open>Attempts, accepted snapshots and legs\<close>

definition attempt_agrees :: "accepted_row \<Rightarrow> attempt_row \<Rightarrow> bool" where
  "attempt_agrees a t \<longleftrightarrow> at_snapshot_id t = ac_snapshot_id a \<and> at_status t = ACCEPTED
     \<and> at_contract_key t = ac_contract_key a \<and> at_source t = ac_source a \<and> at_sequence t = ac_sequence a
     \<and> at_source_us t = ac_source_us a"

definition attempts_ok :: "store \<Rightarrow> bool" where
  "attempts_ok st \<longleftrightarrow> distinct (List.map at_snapshot_id (st_attempts st)) \<and> distinct (List.map ac_snapshot_id (st_accepted st))
     \<and> (\<forall>a\<in>set (st_accepted st). 0 \<le> ac_sequence a \<and> (\<exists>t\<in>set (st_attempts st). attempt_agrees a t))
     \<and> (\<forall>t\<in>set (st_attempts st). at_status t = ACCEPTED \<longleftrightarrow> is_accepted st (at_snapshot_id t))"

lemma attempts_save:
  assumes "attempts_ok st" "saved_envelope e s r t st st'"
    and "st_accepted st' = st_accepted st @ (if report_accepted r
      then [accepted_row_of (env_contract_key (se_platform e) (sn_contract s)) s] else [])"
    and "report_accepted r \<Longrightarrow> 0 \<le> sn_sequence s"
  shows "attempts_ok st'"
proof -
  from assms(2) obtain a where a: "at_snapshot_id a = sn_snapshot_id s"
    "at_status a = (if report_accepted r then ACCEPTED else REJECTED_SNAPSHOT)"
    "report_accepted r \<Longrightarrow> attempt_agrees (accepted_row_of (env_contract_key (se_platform e) (sn_contract s)) s) a"
    "sn_snapshot_id s \<notin> at_snapshot_id ` set (st_attempts st)" "st_attempts st' = st_attempts st @ [a]"
    by (auto simp: saved_envelope_def attempt_agrees_def accepted_row_of_def attempt_admits_def fresh_key_def)
  have "sn_snapshot_id s \<notin> ac_snapshot_id ` set (st_accepted st)"
  proof
    assume "sn_snapshot_id s \<in> ac_snapshot_id ` set (st_accepted st)"
    then obtain c where "c \<in> set (st_accepted st)" "ac_snapshot_id c = sn_snapshot_id s" by auto
    moreover then obtain t where "t \<in> set (st_attempts st)" "at_snapshot_id t = ac_snapshot_id c"
      using assms(1) unfolding attempts_ok_def attempt_agrees_def by blast
    ultimately show False using a(4) by (metis image_eqI)
  qed
  with assms(1,4) a show ?thesis
    by (auto simp: attempts_ok_def assms(3) is_accepted_def accepted_row_of_def rev_image_eqI)
qed

definition legs_ok :: "store \<Rightarrow> bool" where
  "legs_ok st \<longleftrightarrow> distinct (List.map leg_strike (st_legs st))
     \<and> (\<forall>l\<in>set (st_legs st). \<exists>a\<in>set (st_accepted st). ac_snapshot_id a = ol_snapshot_id l \<and> ac_contract_key a = ol_contract_key l)"

lemma saved_legs:
  assumes "saved_components e s st st'"
  obtains rows where "st_legs st' = st_legs st @ rows" "length rows = length (sn_option_chain s)"
    "\<And>i. i < length rows \<Longrightarrow> ol_snapshot_id (rows ! i) = sn_snapshot_id s
       \<and> ol_contract_key (rows ! i) = env_contract_key (se_platform e) (sn_contract s)
       \<and> ol_quote (rows ! i) = stored_quote (sn_option_chain s ! i)
       \<and> leg_strike (rows ! i) \<notin> leg_strike ` (set (st_legs st) \<union> set (take i rows))"
  using assms by (fastforce simp: saved_components_def Let_def stores_leg_def leg_admits_def fresh_key_def)

lemma distinct_snoc_take: "(\<And>i. i < length xs \<Longrightarrow> xs ! i \<notin> A \<union> set (take i xs)) \<Longrightarrow> distinct xs \<and> set xs \<inter> A = {}"
proof (induction xs rule: rev_induct)
  case (snoc x xs)
  have "xs ! i \<notin> A \<union> set (take i xs)" if "i < length xs" for i
    using snoc.prems[of i] that by (simp add: nth_append)
  moreover have "x \<notin> A \<union> set xs" using snoc.prems[of "length xs"] by simp
  ultimately show ?case using snoc.IH by auto
qed simp

lemma legs_accept:
  assumes "legs_ok st" "saved_components e s st st'"
  shows "legs_ok st'"
proof -
  from assms(2) obtain rows where r: "st_legs st' = st_legs st @ rows" "length rows = length (sn_option_chain s)"
    "\<And>i. i < length rows \<Longrightarrow> ol_snapshot_id (rows ! i) = sn_snapshot_id s
       \<and> ol_contract_key (rows ! i) = env_contract_key (se_platform e) (sn_contract s)
       \<and> ol_quote (rows ! i) = stored_quote (sn_option_chain s ! i)
       \<and> leg_strike (rows ! i) \<notin> leg_strike ` (set (st_legs st) \<union> set (take i rows))" by (rule saved_legs) blast
  have acc: "st_accepted st' = st_accepted st @ [accepted_row_of (env_contract_key (se_platform e) (sn_contract s)) s]"
    using assms(2) by (auto simp: saved_components_def Let_def)
  have "distinct (List.map leg_strike rows) \<and> set (List.map leg_strike rows) \<inter> leg_strike ` set (st_legs st) = {}"
    by (rule distinct_snoc_take) (use r(3) in \<open>auto simp: take_map\<close>)
  moreover have "ol_snapshot_id l = sn_snapshot_id s \<and> ol_contract_key l = env_contract_key (se_platform e) (sn_contract s)"
    if "l \<in> set rows" for l using that r(3) by (auto simp: in_set_conv_nth)
  ultimately show ?thesis
    using assms(1) by (auto simp: legs_ok_def r(1) acc accepted_row_of_def)
qed

subsection \<open>Changes in open interest\<close>

text \<open>
  A stored change in open interest is the difference to the stored leg it names: the same option in an
  earlier accepted snapshot of the same stream, at most thirty seconds before.
\<close>

definition recomputes :: "store \<Rightarrow> leg_row \<Rightarrow> bool" where
  "recomputes st l \<longleftrightarrow> (\<forall>d. oq_change_open_interest (ol_quote l) = Some d \<longrightarrow>
     (\<exists>a b p x y. a \<in> set (st_accepted st) \<and> b \<in> set (st_accepted st) \<and> p \<in> set (st_legs st)
        \<and> ac_snapshot_id a = ol_snapshot_id l \<and> oq_change_oi_source_snapshot_id (ol_quote l) = Some (ac_snapshot_id b)
        \<and> ol_snapshot_id p = ac_snapshot_id b \<and> oq_security_id (ol_quote p) = oq_security_id (ol_quote l)
        \<and> quote_key (ol_quote p) = quote_key (ol_quote l) \<and> ac_source a = DHAN_REST \<and> same_stream a b \<and> advances b a
        \<and> ac_source_us a - ac_source_us b \<le> seconds 30
        \<and> oq_open_interest (ol_quote p) = Some x \<and> oq_open_interest (ol_quote l) = Some y \<and> d = y - x))"

definition changes_ok :: "store \<Rightarrow> bool" where
  "changes_ok st \<longleftrightarrow> (\<forall>l\<in>set (st_legs st). recomputes st l)"

lemma recomputes_mono:
  "recomputes st l \<Longrightarrow> set (st_accepted st) \<subseteq> set (st_accepted st') \<Longrightarrow> set (st_legs st) \<subseteq> set (st_legs st') \<Longrightarrow> recomputes st' l"
  unfolding recomputes_def by (meson subsetD)

text \<open>Thirty seconds declared, exact to a nanosecond: at most thirty seconds of microseconds.\<close>

lemma interval_bound:
  assumes "d \<le> 30" "\<bar>fsub d (total_seconds n)\<bar> \<le> fround (1 / 1000000000)"
  shows "n \<le> seconds 30"
proof (rule ccontr)
  assume "\<not> n \<le> seconds 30"
  then have "30000001 \<le> n" by (simp add: seconds_def)
  then have "total_seconds 30000001 \<le> total_seconds n" by (rule total_seconds_mono)
  then have "d - total_seconds n \<le> 30 - total_seconds 30000001" using assms(1) by simp
  then have "fsub d (total_seconds n) \<le> fround (30 - total_seconds 30000001)" unfolding fsub_def by (rule flt.rnd_mono)
  moreover have "fround (30 - total_seconds 30000001) < - fround (1 / 1000000000)" by code_simp
  ultimately show False using assms(2) by linarith
qed

lemma stored_quote_simps [simp]:
  "oq_change_open_interest (stored_quote q) = oq_change_open_interest q" "quote_key (stored_quote q) = quote_key q"
  "oq_change_oi_source_snapshot_id (stored_quote q) = oq_change_oi_source_snapshot_id q"
  "oq_security_id (stored_quote q) = oq_security_id q" "oq_open_interest (stored_quote q) = oq_open_interest q"
  "oq_strike (stored_quote q) = oq_strike q" "oq_option_type (stored_quote q) = oq_option_type q"
  "instant (oq_expiry (stored_quote q)) = instant (oq_expiry q)"
  "instant (oq_observed_at (stored_quote q)) = instant (oq_observed_at q)"
  by (simp_all add: stored_quote_def quote_key_def)

lemma provenanceD:
  assumes "verify_change_oi_provenance key s st = Inr ()" "q \<in> set (sn_option_chain s)"
    and "oq_change_open_interest q = Some d"
  obtains b p x y where "b \<in> set (st_accepted st)" "p \<in> set (st_legs st)"
    "oq_change_oi_source_snapshot_id q = Some (ac_snapshot_id b)" "ol_snapshot_id p = ac_snapshot_id b"
    "oq_security_id (ol_quote p) = oq_security_id q" "quote_key (ol_quote p) = quote_key q"
    "sn_source s = DHAN_REST" "ac_source b = DHAN_REST" "ac_contract_key b = key" "ac_sequence b < sn_sequence s"
    "ac_source_us b < instant (sn_source_timestamp s)" "instant (sn_source_timestamp s) - ac_source_us b \<le> seconds 30"
    "oq_open_interest (ol_quote p) = Some x" "oq_open_interest q = Some y" "d = y - x"
proof -
  from assms(1,2) have "check_quote_provenance key s (instant (sn_source_timestamp s)) st q = Inr ()"
    by (auto simp: verify_change_oi_provenance_def bindr_eq_Inr res_simps list_all2_conv_all_nth in_set_conv_nth)
  with assms(3) obtain i n b p where c: "sn_source s = DHAN_REST" "oq_change_oi_source_snapshot_id q = Some i"
    "n \<le> 30" "prior_leg st i q = Some (b, p)" "check_prior key s q n (instant (sn_source_timestamp s)) (b, p) = Inr ()"
    by (auto simp: check_quote_provenance_def bindr_eq_Inr res_simps max_change_oi_seconds_def split: option.splits)
  from c(4) have b: "b \<in> set (st_accepted st)" "ac_snapshot_id b = i" "p \<in> set (st_legs st)" "ol_snapshot_id p = i"
    "oq_security_id (ol_quote p) = oq_security_id q" "quote_key (ol_quote p) = quote_key q"
    by (auto simp: prior_leg_def dest!: sql_first_Some split: option.splits)
  from c(5) have "instant (oq_observed_at q) = instant (sn_source_timestamp s)"
    "\<bar>fsub n (total_seconds (instant (sn_source_timestamp s) - ac_source_us b))\<bar> \<le> fround (1 / 1000000000)"
    and k: "ac_source b = DHAN_REST" "ac_contract_key b = key" "ac_sequence b < sn_sequence s"
      "0 < total_seconds (instant (sn_source_timestamp s) - ac_source_us b)"
      "case (oq_open_interest (ol_quote p), oq_open_interest q) of
          (Some x0, Some y0) \<Rightarrow> oq_change_open_interest q = Some (y0 - x0) | _ \<Rightarrow> False"
    by (auto simp: check_prior_def bindr_eq_Inr res_simps Let_def)
  then have "instant (sn_source_timestamp s) - ac_source_us b \<le> seconds 30" using interval_bound[OF c(3)] by blast
  moreover have "ac_source_us b < instant (sn_source_timestamp s)"
    using k(4) total_seconds_mono[of "instant (sn_source_timestamp s) - ac_source_us b" 0]
    by (cases "ac_source_us b < instant (sn_source_timestamp s)") (auto simp: total_seconds_def flt.rnd_0)
  moreover obtain x y where "oq_open_interest (ol_quote p) = Some x" "oq_open_interest q = Some y" "d = y - x"
    using k(5) assms(3) by (auto split: option.splits)
  ultimately show thesis
    by (intro that[OF b(1,3) _ _ b(5,6) c(1) k(1,2,3)]) (auto simp: b c(2))
qed

end
