(* ===== verification/RepositoryHistory.thy ===== *)
theory RepositoryHistory
  imports RepositorySystem
begin

text \<open>
  The invariant of the snapshot tables over every history of the repository: attempts and accepted
  snapshots agree, legs belong to accepted snapshots, and stored changes in open interest recompute.
\<close>

lemma changes_accept:
  assumes "changes_ok st" "saved_components e s st st'"
  shows "changes_ok st'"
proof -
  let ?key = "env_contract_key (se_platform e) (sn_contract s)"
  let ?a = "accepted_row_of ?key s"
  from assms(2) have acc: "st_accepted st' = st_accepted st @ [?a]"
    and v: "verify_change_oi_provenance ?key s st = Inr ()"
    by (auto simp: saved_components_def Let_def)
  from assms(2) obtain rows where r: "st_legs st' = st_legs st @ rows" "length rows = length (sn_option_chain s)"
    "\<And>i. i < length rows \<Longrightarrow> ol_snapshot_id (rows ! i) = sn_snapshot_id s
       \<and> ol_contract_key (rows ! i) = ?key \<and> ol_quote (rows ! i) = stored_quote (sn_option_chain s ! i)
       \<and> leg_strike (rows ! i) \<notin> leg_strike ` (set (st_legs st) \<union> set (take i rows))" by (rule saved_legs) blast
  have "recomputes st' l" if "l \<in> set (st_legs st)" for l
    using assms(1) that by (auto simp: changes_ok_def acc r(1) intro: recomputes_mono)
  moreover have "recomputes st' l" if "l \<in> set rows" for l
  proof -
    from that r(2,3) obtain q where q: "q \<in> set (sn_option_chain s)" "ol_quote l = stored_quote q"
      "ol_snapshot_id l = sn_snapshot_id s" by (auto simp: in_set_conv_nth)
    show ?thesis
      unfolding recomputes_def
    proof (intro allI impI)
      fix d assume "oq_change_open_interest (ol_quote l) = Some d"
      then have "oq_change_open_interest q = Some d" by (simp add: q(2))
      from provenanceD[OF v q(1) this] obtain b p x y where b: "b \<in> set (st_accepted st)" "p \<in> set (st_legs st)"
        "oq_change_oi_source_snapshot_id q = Some (ac_snapshot_id b)" "ol_snapshot_id p = ac_snapshot_id b"
        "oq_security_id (ol_quote p) = oq_security_id q" "quote_key (ol_quote p) = quote_key q"
        "sn_source s = DHAN_REST" "ac_source b = DHAN_REST" "ac_contract_key b = ?key" "ac_sequence b < sn_sequence s"
        "ac_source_us b < instant (sn_source_timestamp s)" "instant (sn_source_timestamp s) - ac_source_us b \<le> seconds 30"
        "oq_open_interest (ol_quote p) = Some x" "oq_open_interest q = Some y" "d = y - x" by blast
      show "\<exists>a b p x y. a \<in> set (st_accepted st') \<and> b \<in> set (st_accepted st') \<and> p \<in> set (st_legs st')
        \<and> ac_snapshot_id a = ol_snapshot_id l \<and> oq_change_oi_source_snapshot_id (ol_quote l) = Some (ac_snapshot_id b)
        \<and> ol_snapshot_id p = ac_snapshot_id b \<and> oq_security_id (ol_quote p) = oq_security_id (ol_quote l)
        \<and> quote_key (ol_quote p) = quote_key (ol_quote l) \<and> ac_source a = DHAN_REST \<and> same_stream a b \<and> advances b a
        \<and> ac_source_us a - ac_source_us b \<le> seconds 30
        \<and> oq_open_interest (ol_quote p) = Some x \<and> oq_open_interest (ol_quote l) = Some y \<and> d = y - x"
        by (rule exI[of _ ?a], rule exI[of _ b], rule exI[of _ p], rule exI[of _ x], rule exI[of _ y])
          (use b in \<open>simp add: acc r(1) q(2,3) accepted_row_of_def same_stream_def advances_def\<close>)
    qed
  qed
  ultimately show ?thesis by (auto simp: changes_ok_def r(1))
qed

text \<open>The invariant of the snapshot tables.\<close>

definition issues_ok :: "store \<Rightarrow> bool" where
  "issues_ok st \<longleftrightarrow> (\<forall>r\<in>set (st_issues st). ir_snapshot_id r \<in> at_snapshot_id ` set (st_attempts st))"

lemma issues_save:
  assumes "issues_ok st" "saved_envelope e s r t st st'"
  shows "issues_ok st'"
  using assms by (fastforce simp: issues_ok_def saved_envelope_def)

definition snapshots_ok :: "store \<Rightarrow> bool" where
  "snapshots_ok st \<longleftrightarrow> attempts_ok st \<and> issues_ok st \<and> legs_ok st \<and> changes_ok st"

lemma snapshots_quiet: "snapshots_ok st \<Longrightarrow> snapshot_frame st st' \<Longrightarrow> snapshots_ok st'"
  by (simp add: snapshots_ok_def snapshot_frame_def attempts_ok_def issues_ok_def legs_ok_def changes_ok_def recomputes_def is_accepted_def)

lemma snapshots_rejected:
  assumes "snapshots_ok st" "saved_envelope e s r t st st'" "\<not> report_accepted r"
    and "st_accepted st' = st_accepted st" "st_legs st' = st_legs st"
  shows "snapshots_ok st'"
  using assms attempts_save[of st e s r t st'] issues_save[of st e s r t st']
  by (simp add: snapshots_ok_def legs_ok_def changes_ok_def recomputes_def)

lemma snapshots_accepted:
  assumes "snapshots_ok st" "saved_envelope e s r t st st'" "report_accepted r" "saved_components e s st st'"
  shows "snapshots_ok st'"
proof -
  have "0 \<le> sn_sequence s"
    "st_accepted st' = st_accepted st @ [accepted_row_of (env_contract_key (se_platform e) (sn_contract s)) s]"
    using assms(4) by (auto simp: saved_components_def Let_def)
  then show ?thesis
    using assms attempts_save[of st e s r t st'] issues_save[of st e s r t st'] legs_accept[of st e s st'] changes_accept[of st e s st']
    by (simp add: snapshots_ok_def)
qed

interpretation snapshot_system: invariant_system "\<lambda>st. st = fresh_store" "store_step e" snapshots_ok
proof unfold_locales
  show "snapshots_ok st" if "st = fresh_store" for st
    using that by (simp add: snapshots_ok_def attempts_ok_def issues_ok_def legs_ok_def changes_ok_def fresh_store_def is_accepted_def)
  show "snapshots_ok st'" if "snapshots_ok st" "store_step e st st'" for st st'
    using that(2) that(1) by (cases rule: store_step_cases) (blast intro: snapshots_quiet snapshots_rejected snapshots_accepted)+
qed

text \<open>The history of the snapshot and audit tables: rows are only appended, heads aside.\<close>

definition store_grows :: "store \<Rightarrow> store \<Rightarrow> bool" where
  "store_grows st st' \<longleftrightarrow> prefix (st_attempts st) (st_attempts st') \<and> prefix (st_accepted st) (st_accepted st')
     \<and> prefix (st_legs st) (st_legs st') \<and> prefix (st_issues st) (st_issues st') \<and> prefix (st_audit st) (st_audit st')"

lemma store_step_grows:
  assumes "store_step e st st'"
  shows "store_grows st st'"
  using assms step_audit[OF assms]
proof (cases rule: store_step_cases)
  case (accepted s r t)
  then show ?thesis
    using step_audit[OF assms]
    by (auto simp: store_grows_def saved_envelope_def saved_components_def Let_def audit_grows_def)
qed (auto simp: store_grows_def snapshot_frame_def audit_grows_def saved_envelope_def)

interpretation store_history: monotone_system "store_step e" "\<lambda>_. True" store_grows
  by unfold_locales (auto simp: store_grows_def intro: store_step_grows[unfolded store_grows_def] dest: store_step_grows prefix_order.order_trans)

subsection \<open>Well-typed rows\<close>

text \<open>
  Every accepted snapshot has one market, one technical and one context row, in the same order, and a
  contract revision; every row holds values its columns allow, and every leg is mapped by its contract.
\<close>

definition market_typed :: "market_state \<Rightarrow> bool" where
  "market_typed m \<longleftrightarrow> (ms_spot_price m = None \<or> positive_real (ms_spot_price m))
     \<and> list_all positive_real [ms_futures_price m, ms_previous_close m, ms_day_open m, ms_day_high m, ms_day_low m, ms_vwap m]
     \<and> high_above_low (ms_day_high m) (ms_day_low m)"

definition leg_typed :: "option_quote \<Rightarrow> bool" where
  "leg_typed q \<longleftrightarrow> 0 < fround (oq_strike q) \<and> list_all positive_real [oq_bid q, oq_ask q, oq_ltp q]
     \<and> high_above_low (oq_ask q) (oq_bid q) \<and> count_stored (oq_volume q) \<and> count_stored (oq_open_interest q)
     \<and> (case oq_implied_volatility q of None \<Rightarrow> False | Some v \<Rightarrow> real_within (\<lambda>v. 0 < v \<and> v < real_limit) v)"

definition store_typed :: "store \<Rightarrow> bool" where
  "store_typed st \<longleftrightarrow> List.map mk_snapshot_id (st_markets st) = List.map ac_snapshot_id (st_accepted st)
     \<and> List.map tc_snapshot_id (st_technicals st) = List.map ac_snapshot_id (st_accepted st)
     \<and> List.map cx_snapshot_id (st_contexts st) = List.map ac_snapshot_id (st_accepted st)
     \<and> (\<forall>a\<in>set (st_accepted st). ac_contract_key a \<in> cv_key ` set (st_revisions st))
     \<and> (\<forall>m\<in>set (st_markets st). market_typed (mk_market m))
     \<and> (\<forall>x\<in>set (st_technicals st). ts_completed_candle (tc_technicals x))
     \<and> (\<forall>l\<in>set (st_legs st). leg_typed (ol_quote l) \<and> leg_mapped (st_mappings st) l)"

lemma leg_mapped_append: "leg_mapped t l \<Longrightarrow> leg_mapped (t @ u) l"
  by (simp add: leg_mapped_def)

lemma typed_accept:
  assumes "store_typed st" "saved_components e s st st'"
  shows "store_typed st'"
proof -
  let ?key = "env_contract_key (se_platform e) (sn_contract s)"
  from assms(2) obtain rv mp rows u where
    c: "st_revisions st' = st_revisions st @ rv" "st_mappings st' = st_mappings st @ mp"
      "?key \<in> cv_key ` set (st_revisions st')" "st_accepted st' = st_accepted st @ [accepted_row_of ?key s]"
      "st_markets st' = st_markets st @ [\<lparr>mk_snapshot_id = sn_snapshot_id s, mk_market = sn_market s\<rparr>]"
      "st_technicals st' = st_technicals st @ [\<lparr>tc_snapshot_id = sn_snapshot_id s, tc_technicals = sn_technicals s\<rparr>]"
      "st_contexts st' = st_contexts st @ [\<lparr>cx_snapshot_id = sn_snapshot_id s, cx_context = sn_context s\<rparr>]"
      "st_legs st' = st_legs st @ rows" "st_mappings u = st_mappings st'"
      "\<forall>i<length rows. stores_leg ?key s (sn_option_chain s ! i) (u\<lparr>st_legs := st_legs st @ take i rows\<rparr>) (rows ! i)"
    and a: "\<exists>u. market_admits u (st_markets st) \<lparr>mk_snapshot_id = sn_snapshot_id s, mk_market = sn_market s\<rparr>
      \<and> technical_admits u (st_technicals st) \<lparr>tc_snapshot_id = sn_snapshot_id s, tc_technicals = sn_technicals s\<rparr>"
    unfolding saved_components_def Let_def set_map by blast
  have "leg_typed (ol_quote l) \<and> leg_mapped (st_mappings st') l" if "l \<in> set rows" for l
    using that c(9,10) by (fastforce simp: in_set_conv_nth stores_leg_def leg_admits_def Let_def leg_typed_def)
  moreover have "market_typed (sn_market s)" "ts_completed_candle (sn_technicals s)"
    using a by (auto simp: market_admits_def technical_admits_def market_typed_def Let_def)
  ultimately show ?thesis
    using assms(1) c(3) unfolding store_typed_def c(4-8)
    by (auto simp: accepted_row_of_def c(1,2) leg_mapped_append)
qed

interpretation typing_system: invariant_system "\<lambda>st. st = fresh_store" "store_step e" store_typed
proof unfold_locales
  show "store_typed st" if "st = fresh_store" for st using that by (simp add: store_typed_def fresh_store_def)
  show "store_typed st'" if "store_typed st" "store_step e st st'" for st st'
    using that(2)
  proof (cases rule: store_step_cases)
    case quiet
    then show ?thesis using that(1) by (simp add: store_typed_def snapshot_frame_def)
  next
    case (rejected s r t)
    then show ?thesis using that(1) by (simp add: store_typed_def)
  next
    case (accepted s r t)
    then show ?thesis using that(1) by (blast intro: typed_accept)
  qed
qed

subsection \<open>Reading back\<close>

text \<open>What the store knows of an accepted snapshot never changes.\<close>

definition legs_of :: "string \<Rightarrow> store \<Rightarrow> leg_row list" where
  "legs_of i st = filter (\<lambda>l. ol_snapshot_id l = i) (st_legs st)"

definition keeps_accepted :: "store \<Rightarrow> store \<Rightarrow> bool" where
  "keeps_accepted st st' \<longleftrightarrow> (\<forall>i. is_accepted st i \<longrightarrow> is_accepted st' i \<and> legs_of i st' = legs_of i st
     \<and> sql_first (\<lambda>r. ac_snapshot_id r = i) (st_accepted st') = sql_first (\<lambda>r. ac_snapshot_id r = i) (st_accepted st))"

lemma sql_first_keeps: "sql_first P xs \<noteq> None \<Longrightarrow> sql_first P (xs @ ys) = sql_first P xs"
  by (auto simp: sql_first_append)

lemma is_accepted_first: "is_accepted st i \<Longrightarrow> sql_first (\<lambda>r. ac_snapshot_id r = i) (st_accepted st) \<noteq> None"
  by (auto simp: is_accepted_def sql_first_None)

lemma accept_keeps:
  assumes "saved_components e s st st'"
  shows "keeps_accepted st st'"
proof -
  let ?key = "env_contract_key (se_platform e) (sn_contract s)"
  from assms obtain u where acc: "st_accepted st' = st_accepted st @ [accepted_row_of ?key s]"
    and fresh: "accepted_admits u (st_accepted st) (accepted_row_of ?key s)"
    by (auto simp: saved_components_def Let_def)
  from assms obtain rows where r: "st_legs st' = st_legs st @ rows"
    "\<And>i. i < length rows \<Longrightarrow> ol_snapshot_id (rows ! i) = sn_snapshot_id s" by (rule saved_legs) blast
  show ?thesis
    unfolding keeps_accepted_def
  proof (intro allI impI conjI)
    fix i assume i: "is_accepted st i"
    then show "is_accepted st' i" by (simp add: is_accepted_def acc)
    have "sn_snapshot_id s \<notin> set (List.map ac_snapshot_id (st_accepted st))"
      using fresh by (simp add: accepted_admits_def fresh_key_def accepted_row_of_def)
    then have "i \<noteq> sn_snapshot_id s" using i unfolding is_accepted_def by blast
    then show "legs_of i st' = legs_of i st"
      using r(2) by (auto simp: legs_of_def r(1) filter_empty_conv in_set_conv_nth)
    show "sql_first (\<lambda>r. ac_snapshot_id r = i) (st_accepted st') = sql_first (\<lambda>r. ac_snapshot_id r = i) (st_accepted st)"
      unfolding acc by (rule sql_first_keeps[OF is_accepted_first[OF i]])
  qed
qed

lemma step_keeps: "store_step e st st' \<Longrightarrow> keeps_accepted st st'"
  by (erule store_step_cases)
    (auto simp: keeps_accepted_def snapshot_frame_def legs_of_def is_accepted_def dest: accept_keeps[unfolded keeps_accepted_def])

interpretation reading_history: monotone_system "store_step e" "\<lambda>_. True" keeps_accepted
  by unfold_locales (auto simp: keeps_accepted_def dest: step_keeps[unfolded keeps_accepted_def])

end
