(* ===== verification/RepositoryDemo.thy ===== *)
theory RepositoryDemo
  imports ValidationDemo RepositoryHistory
begin

text \<open>
  A history of the repository: the strategy is published, the master recorded, and two snapshots of
  one Dhan stream are ingested, the second continuing two legs of the first.
\<close>

definition demo_env :: store_env where
  "demo_env = \<lparr>se_platform = demo_platform\<lparr>env_snapshot_hash := sn_snapshot_id\<rparr>, se_hash = (\<lambda>s. s),
     se_dumps = (\<lambda>j. case j of JStr s \<Rightarrow> s | _ \<Rightarrow> ''''), se_loads = (\<lambda>s. Inr (JStr s)),
     se_config = (\<lambda>c. JStr (version c)), se_provenance = (\<lambda>p. JStr (mp_batch_id p)),
     se_record = (\<lambda>r. JStr (canonical_key (mr_instrument r))), se_contract = (\<lambda>c. JStr (mp_batch_id (cs_master c))),
     se_snapshot = (\<lambda>s. JStr (sn_snapshot_id s)), se_metadata = (\<lambda>_. JNull), se_report = (\<lambda>_. JNull),
     se_event_hash = (\<lambda>ev. ae_event_type ev @ ae_aggregate_id ev)\<rparr>"

definition demo_underlying :: master_record where
  "demo_underlying = \<lparr>mr_instrument = cs_underlying demo_contract, mr_display_name = ''NIFTY'',
     mr_instrument_type = ''INDEX'', mr_underlying_security_id = None, mr_expiry = None, mr_strike = None,
     mr_option_type = None, mr_lot_size = None, mr_tick_size = None\<rparr>"

text \<open>A contract of one call, two snapshots of its stream two seconds apart.\<close>

definition demo_call_contract :: contract_spec where
  "demo_call_contract = demo_contract\<lparr>cs_option_contracts := [demo_record ''C1'' ''NIFTY20000CE'' 20000 CALL],
     cs_futures := None, cs_master := cs_master demo_contract\<lparr>mp_row_count := 2\<rparr>\<rparr>"

definition demo_leg :: "rat \<Rightarrow> int \<Rightarrow> (int \<times> string) option \<Rightarrow> int \<Rightarrow> option_quote" where
  "demo_leg ltp oi change t = demo_quote ''C1'' 20000 CALL ltp (1 / 2) oi change (at_utc (seconds t))"

definition demo_tick :: "string \<Rightarrow> int \<Rightarrow> int \<Rightarrow> option_quote \<Rightarrow> atomic_snapshot" where
  "demo_tick i n t q = demo_snapshot\<lparr>sn_snapshot_id := i, sn_sequence := n, sn_contract := demo_call_contract,
     sn_source_timestamp := at_utc (seconds t), sn_option_chain := [q]\<rparr>"

definition demo_first :: atomic_snapshot where
  "demo_first = demo_tick ''s1'' 1 58 (demo_leg 80 999900 None 58)"

definition demo_second :: atomic_snapshot where
  "demo_second = demo_tick ''s2'' 2 60 (demo_leg 100 1000000 (Some (100, ''s1'')) 60)"

definition demo_listed :: "master_record list" where
  "demo_listed = demo_underlying # cs_option_contracts demo_call_contract"

definition demo_clean_report :: "string \<Rightarrow> validation_report" where
  "demo_clean_report i = \<lparr>vr_issues = [], vr_snapshot_id = Some i, vr_snapshot_hash = Some i\<rparr>"

text \<open>
  The stores of the history, as the rows they hold: after the strategy and the master, once the
  contract is known, and after each snapshot.
\<close>

definition demo_event :: "string \<Rightarrow> string \<Rightarrow> string \<Rightarrow> json \<Rightarrow> int \<Rightarrow> string option \<Rightarrow> audit_row" where
  "demo_event ty agg i payload us p = audit_row_of demo_env \<lparr>ae_occurred_us = us, ae_event_type = ty,
     ae_aggregate_type = agg, ae_aggregate_id = i, ae_payload = payload, ae_previous_hash = p\<rparr>"

definition demo_opened :: store where
  "demo_opened = fresh_store\<lparr>
     st_configs := [\<lparr>cf_version = ''1.0.0'', cf_hash = ''1.0.0'', cf_json = ''1.0.0'', cf_published_us = 0\<rparr>],
     st_batches := [\<lparr>br_provenance = cs_master demo_call_contract, br_json = ''b''\<rparr>],
     st_listings := List.map (\<lambda>r. \<lparr>ml_batch_id = ''b'', ml_record = r, ml_json = canonical_key (mr_instrument r)\<rparr>) demo_listed,
     st_audit := [demo_event ''STRATEGY_CONFIG_PUBLISHED'' ''strategy_config'' ''1.0.0''
         (JObj [(''config_hash'', JStr ''1.0.0'')]) 0 None,
       demo_event ''INSTRUMENT_MASTER_RECORDED'' ''instrument_master'' ''b''
         (JObj [(''content_hash'', JStr (replicate 64 (CHR ''0''))), (''row_count'', JInt 2)]) 0
         (Some ''STRATEGY_CONFIG_PUBLISHED1.0.0'')]\<rparr>"

definition demo_known :: store where
  "demo_known = demo_opened\<lparr>st_revisions := [\<lparr>cv_key = ''contract:1'', cv_hash = ''b'', cv_json = ''b'',
       cv_contract = demo_call_contract, cv_created_us = seconds 61\<rparr>],
     st_mappings := [\<lparr>cm_key = ''contract:1'', cm_batch_id = ''b'', cm_record = demo_record ''C1'' ''NIFTY20000CE'' 20000 CALL\<rparr>]\<rparr>"

definition demo_attempted :: "atomic_snapshot \<Rightarrow> store \<Rightarrow> store" where
  "demo_attempted s st = st\<lparr>st_attempts := st_attempts st @ [attempt_of demo_env s (demo_clean_report (sn_snapshot_id s))
     ((instant (sn_source_timestamp s), True), (seconds 60, True)) (seconds 61)]\<rparr>"

definition demo_filled :: "atomic_snapshot \<Rightarrow> store \<Rightarrow> store" where
  "demo_filled s st = st\<lparr>st_accepted := st_accepted st @ [accepted_row_of ''contract:1'' s],
     st_markets := st_markets st @ [\<lparr>mk_snapshot_id = sn_snapshot_id s, mk_market = sn_market s\<rparr>],
     st_technicals := st_technicals st @ [\<lparr>tc_snapshot_id = sn_snapshot_id s, tc_technicals = sn_technicals s\<rparr>],
     st_contexts := st_contexts st @ [\<lparr>cx_snapshot_id = sn_snapshot_id s, cx_context = sn_context s\<rparr>],
     st_legs := st_legs st @ List.map (\<lambda>q. \<lparr>ol_snapshot_id = sn_snapshot_id s, ol_contract_key = ''contract:1'',
       ol_exchange = NSE, ol_segment = ''NSE_FNO'', ol_quote = stored_quote q\<rparr>) (sn_option_chain s)\<rparr>"

definition demo_kept :: "atomic_snapshot \<Rightarrow> store \<Rightarrow> store" where
  "demo_kept s st = (demo_filled s (demo_attempted s st))\<lparr>st_heads := [head_row_of ''contract:1'' s],
     st_audit := st_audit st @ [demo_event ''SNAPSHOT_INGESTED'' ''snapshot'' (sn_snapshot_id s)
       (JObj [(''contract_key'', JStr ''contract:1''), (''snapshot_hash'', JStr (sn_snapshot_id s)),
         (''status'', JStr ''ACCEPTED'')]) (seconds 61) (last_hash (st_audit st))]\<rparr>"

definition demo_stored :: store where "demo_stored = demo_kept demo_first demo_known"
definition demo_continued :: store where "demo_continued = demo_kept demo_second demo_stored"

lemma demo_published: "publish_strategy_config demo_env demo_strategy (at_utc 0) fresh_store
    = (Inr ''1.0.0'', fresh_store\<lparr>st_configs := st_configs demo_opened, st_audit := [hd (st_audit demo_opened)]\<rparr>)"
  by code_simp

lemma demo_recorded: "record_instrument_master demo_env (cs_master demo_call_contract) demo_listed
    (fresh_store\<lparr>st_configs := st_configs demo_opened, st_audit := [hd (st_audit demo_opened)]\<rparr>) = (Inr ''b'', demo_opened)"
  by code_simp

lemma demo_first_admitted:
  "admit_accepted demo_env demo_first (seconds 58) (seconds 61) demo_opened = Inr demo_known" by code_simp

lemma demo_first_filled: "insert_accepted_components ''contract:1'' demo_first (seconds 58) (demo_attempted demo_first demo_known)
    = Inr (demo_filled demo_first (demo_attempted demo_first demo_known))" by code_simp

lemma demo_second_admitted:
  "admit_accepted demo_env demo_second (seconds 60) (seconds 61) demo_stored = Inr demo_stored" by code_simp

lemma demo_second_filled: "insert_accepted_components ''contract:1'' demo_second (seconds 60) (demo_attempted demo_second demo_stored)
    = Inr (demo_filled demo_second (demo_attempted demo_second demo_stored))" by code_simp

lemma demo_attempts:
  "insert_attempt (attempt_of demo_env demo_first (demo_clean_report ''s1'') ((seconds 58, True), (seconds 60, True)) (seconds 61)) demo_known
    = Inr (demo_attempted demo_first demo_known)"
  "insert_attempt (attempt_of demo_env demo_second (demo_clean_report ''s2'') ((seconds 60, True), (seconds 60, True)) (seconds 61)) demo_stored
    = Inr (demo_attempted demo_second demo_stored)"
  by code_simp+

lemma demo_heads:
  "upsert_head ''contract:1'' demo_first (seconds 58) (demo_filled demo_first (demo_attempted demo_first demo_known))
    = Inr ((demo_filled demo_first (demo_attempted demo_first demo_known))\<lparr>st_heads := [head_row_of ''contract:1'' demo_first]\<rparr>)"
  "upsert_head ''contract:1'' demo_second (seconds 60) (demo_filled demo_second (demo_attempted demo_second demo_stored))
    = Inr ((demo_filled demo_second (demo_attempted demo_second demo_stored))\<lparr>st_heads := [head_row_of ''contract:1'' demo_second]\<rparr>)"
  by code_simp+

lemma demo_audited:
  "append_audit demo_env ''SNAPSHOT_INGESTED'' ''snapshot'' ''s1''
      (JObj [(''contract_key'', JStr ''contract:1''), (''snapshot_hash'', JStr ''s1''), (''status'', JStr ''ACCEPTED'')]) demo_now
      ((demo_filled demo_first (demo_attempted demo_first demo_known))\<lparr>st_heads := [head_row_of ''contract:1'' demo_first]\<rparr>)
    = Inr demo_stored"
  "append_audit demo_env ''SNAPSHOT_INGESTED'' ''snapshot'' ''s2''
      (JObj [(''contract_key'', JStr ''contract:1''), (''snapshot_hash'', JStr ''s2''), (''status'', JStr ''ACCEPTED'')]) demo_now
      ((demo_filled demo_second (demo_attempted demo_second demo_stored))\<lparr>st_heads := [head_row_of ''contract:1'' demo_second]\<rparr>)
    = Inr demo_continued"
  by code_simp+

text \<open>A save from its stages.\<close>

lemma save_stages:
  assumes "vr_issues r = []" "vr_snapshot_id r = Some i" "vr_snapshot_hash r = Some h"
    and "sn_snapshot_id s = i" "env_snapshot_hash (se_platform e) s = h"
    and "is_aware t" "0 \<le> sn_sequence s" "is_aware (sn_source_timestamp s)" "is_aware (sn_received_at s)" "\<not> st_closed st"
    and "instant (sn_source_timestamp s) = us" "env_contract_key (se_platform e) (sn_contract s) = key"
    and "admit_accepted e s us (instant t) st = Inr st1"
    and "insert_attempt (attempt_of e s r ((us, True), (instant (sn_received_at s), True)) (instant t)) st1 = Inr st2"
    and "insert_accepted_components key s us st2 = Inr st3" "upsert_head key s us st3 = Inr st4"
    and "append_audit e ''SNAPSHOT_INGESTED'' ''snapshot'' i (JObj [(''contract_key'', JStr key), (''snapshot_hash'', JStr h),
         (''status'', JStr ''ACCEPTED'')]) t st4 = Inr st5"
  shows "save_ingestion e s r t st = (Inr ACCEPTED, st5)"
proof -
  have "report_accepted r" using assms(1) by (simp add: report_accepted_clean clean_simps)
  then show ?thesis
    using assms by (simp add: save_ingestion_def guarded_def verify_report_binding_def demand_that_def epoch_timestamp_def
      envelope_times_def in_transaction_def save_body_def Let_def insert_validation_issues_def status_value_def)
qed

lemma demo_times: "is_aware demo_now" "instant demo_now = seconds 61" "is_aware (sn_received_at demo_first)"
  "is_aware (sn_source_timestamp demo_first)" "instant (sn_source_timestamp demo_first) = seconds 58"
  "instant (sn_received_at demo_first) = seconds 60" "is_aware (sn_received_at demo_second)"
  "is_aware (sn_source_timestamp demo_second)" "instant (sn_source_timestamp demo_second) = seconds 60"
  "instant (sn_received_at demo_second) = seconds 60" "st_closed demo_opened = False" "st_closed demo_stored = False"
  "sn_snapshot_id demo_first = ''s1''" "sn_snapshot_id demo_second = ''s2''" "sn_sequence demo_first = 1" "sn_sequence demo_second = 2"
  by code_simp+

lemma demo_keys: "env_contract_key (se_platform demo_env) c = ''contract:1''"
  "env_snapshot_hash (se_platform demo_env) s = sn_snapshot_id s"
  by (simp_all add: demo_env_def demo_platform_def)

lemma demo_saved:
  "save_ingestion demo_env demo_first (demo_clean_report ''s1'') demo_now demo_opened = (Inr ACCEPTED, demo_stored)"
  "save_ingestion demo_env demo_second (demo_clean_report ''s2'') demo_now demo_stored = (Inr ACCEPTED, demo_continued)"
proof -
  note facts = demo_times demo_keys demo_clean_report_def
  show "save_ingestion demo_env demo_first (demo_clean_report ''s1'') demo_now demo_opened = (Inr ACCEPTED, demo_stored)"
    by (rule save_stages[OF _ _ _ _ _ _ _ _ _ _ _ _ _ _ demo_first_filled demo_heads(1) demo_audited(1)])
      (use demo_first_admitted demo_attempts(1) in \<open>simp_all add: facts\<close>)
  show "save_ingestion demo_env demo_second (demo_clean_report ''s2'') demo_now demo_stored = (Inr ACCEPTED, demo_continued)"
    by (rule save_stages[OF _ _ _ _ _ _ _ _ _ _ _ _ _ _ demo_second_filled demo_heads(2) demo_audited(2)])
      (use demo_second_admitted demo_attempts(2) in \<open>simp_all add: facts\<close>)
qed

lemma demo_history:
  "reachable (\<lambda>st. st = fresh_store) (store_step demo_env) demo_opened"
  "reachable (\<lambda>st. st = fresh_store) (store_step demo_env) demo_stored"
  "reachable (\<lambda>st. st = fresh_store) (store_step demo_env) demo_continued"
proof -
  show o: "reachable (\<lambda>st. st = fresh_store) (store_step demo_env) demo_opened"
    by (rule reachable_step[OF reachable_step[OF reachable_init]])
      (auto intro: step_publish[OF demo_published] step_master[OF demo_recorded])
  show s: "reachable (\<lambda>st. st = fresh_store) (store_step demo_env) demo_stored"
    by (rule reachable_step[OF o step_save[OF demo_saved(1)]])
  show "reachable (\<lambda>st. st = fresh_store) (store_step demo_env) demo_continued"
    by (rule reachable_step[OF s step_save[OF demo_saved(2)]])
qed

end
