(* ===== verification/RepositoryClaims.thy ===== *)
theory RepositoryClaims
  imports RepositoryDemo
begin

text \<open>What the repository promises over any history of its operations.\<close>

lemmas reachable_store = audit_system.reachable_inv order_system.reachable_inv snapshot_system.reachable_inv
  typing_system.reachable_inv

text \<open>
  C5: In every store a history can reach, the accepted snapshots of one stream (a contract revision and
  a data source) were accepted in strictly increasing sequence and source time, and the head of the
  stream is its latest accepted snapshot.
\<close>

theorem accepted_streams_advance:
  assumes "reachable (\<lambda>st. st = fresh_store) (store_step e) st"
  shows "sorted_wrt (\<lambda>a b. same_stream a b \<longrightarrow> advances a b) (st_accepted st)
    \<and> find_head key source st =
      (case rev (filter (in_stream key source) (st_accepted st)) of [] \<Rightarrow> None | a # _ \<Rightarrow> Some (head_of a))"
  using order_system.reachable_inv[OF assms] by (simp add: ordered_def streams_ok_def heads_ok_def)

lemma accepted_streams_advance_witness:
  "find_head ''contract:1'' DHAN_REST demo_continued = Some (head_row_of ''contract:1'' demo_second)
    \<and> advances (st_accepted demo_continued ! 0) (st_accepted demo_continued ! 1)"
proof -
  have f: "st_accepted demo_continued = [accepted_row_of ''contract:1'' demo_first, accepted_row_of ''contract:1'' demo_second]"
    "sn_source demo_first = DHAN_REST" "sn_source demo_second = DHAN_REST" by code_simp+
  show ?thesis
    using accepted_streams_advance[OF demo_history(3), of "''contract:1''" DHAN_REST]
    by (simp add: f in_stream_def same_stream_def accepted_row_of_def head_of_def head_row_of_def)
qed



text \<open>
  C6: Every change in open interest in a reachable store recomputes: it is the difference between the
  stored open interest of the leg and that of the same option in the accepted snapshot it names,
  of the same Dhan stream, earlier in sequence and at most thirty seconds earlier in time.
\<close>

theorem stored_changes_recompute:
  assumes "reachable (\<lambda>st. st = fresh_store) (store_step e) st" "l \<in> set (st_legs st)"
    and "oq_change_open_interest (ol_quote l) = Some d"
  shows "\<exists>a b p x y. a \<in> set (st_accepted st) \<and> b \<in> set (st_accepted st) \<and> p \<in> set (st_legs st)
    \<and> ac_snapshot_id a = ol_snapshot_id l \<and> oq_change_oi_source_snapshot_id (ol_quote l) = Some (ac_snapshot_id b)
    \<and> ol_snapshot_id p = ac_snapshot_id b \<and> oq_security_id (ol_quote p) = oq_security_id (ol_quote l)
    \<and> quote_key (ol_quote p) = quote_key (ol_quote l) \<and> ac_source a = DHAN_REST \<and> same_stream a b \<and> advances b a
    \<and> ac_source_us a - ac_source_us b \<le> seconds 30
    \<and> oq_open_interest (ol_quote p) = Some x \<and> oq_open_interest (ol_quote l) = Some y \<and> d = y - x"
  using snapshot_system.reachable_inv[OF assms(1)] assms(2,3) by (simp add: snapshots_ok_def changes_ok_def recomputes_def)

lemma stored_changes_recompute_witness:
  "\<exists>l b. l \<in> set (st_legs demo_continued) \<and> oq_change_open_interest (ol_quote l) = Some 100
    \<and> b \<in> set (st_accepted demo_continued) \<and> oq_change_oi_source_snapshot_id (ol_quote l) = Some (ac_snapshot_id b)"
proof -
  let ?l = "st_legs demo_continued ! 1"
  have "length (st_legs demo_continued) = 2" "oq_change_open_interest (ol_quote ?l) = Some 100" by code_simp+
  then have l: "?l \<in> set (st_legs demo_continued)" "oq_change_open_interest (ol_quote ?l) = Some 100"
    by (simp_all del: One_nat_def)
  with stored_changes_recompute[OF demo_history(3) l] show ?thesis by blast
qed



text \<open>
  C40: What a save does: an error leaves the store as it was; otherwise the status is that of the report,
  one attempt and the report's issues are recorded with it, and the snapshot is accepted, with its
  components and a new head, exactly when the report has no errors.
\<close>

theorem save_outcomes:
  assumes "save_ingestion e s r t st = (res, st')"
  shows "case res of Inl _ \<Rightarrow> st' = st
    | Inr status \<Rightarrow> (status = ACCEPTED \<longleftrightarrow> report_accepted r)
        \<and> vr_snapshot_id r = Some (sn_snapshot_id s) \<and> vr_snapshot_hash r = Some (env_snapshot_hash (se_platform e) s)
        \<and> List.map at_snapshot_id (st_attempts st') = List.map at_snapshot_id (st_attempts st) @ [sn_snapshot_id s]
        \<and> List.map ir_issue (st_issues st') = List.map ir_issue (st_issues st) @ vr_issues r
        \<and> st_accepted st' = st_accepted st @ (if report_accepted r
            then [accepted_row_of (env_contract_key (se_platform e) (sn_contract s)) s] else [])
        \<and> (report_accepted r \<or> st_heads st' = st_heads st \<and> st_legs st' = st_legs st)"
proof (cases res)
  case (Inl x)
  then show ?thesis using assms save_failed by simp
next
  case (Inr status)
  have issues: "List.map ir_issue (List.map (\<lambda>(k, i). \<lparr>ir_snapshot_id = j, ir_index = k, ir_issue = i\<rparr>) (zip [0..<length is] is)) = is"
    for j "is" by (rule nth_equalityI) simp_all
  have "saved_envelope e s r t st st'" "status = (if report_accepted r then ACCEPTED else REJECTED_SNAPSHOT)"
    "st_accepted st' = st_accepted st @ (if report_accepted r
      then [accepted_row_of (env_contract_key (se_platform e) (sn_contract s)) s] else [])"
    "report_accepted r \<or> st_heads st' = st_heads st \<and> st_legs st' = st_legs st"
    using assms save_accepted[of e s r t st status st'] save_rejected[of e s r t st status st']
    by (auto simp: Inr saved_components_def Let_def)
  then show ?thesis
    unfolding Inr sum.case saved_envelope_def by (auto simp del: map_map simp: issues)
qed

lemma save_outcomes_witness: "List.map ac_snapshot_id (st_accepted demo_continued) = [''s1'', ''s2'']"
proof -
  have "report_accepted (demo_clean_report ''s1'')" "report_accepted (demo_clean_report ''s2'')" "st_accepted demo_opened = []" by code_simp+
  then show ?thesis
    using save_outcomes[OF demo_saved(1)] save_outcomes[OF demo_saved(2)] demo_times by (simp add: accepted_row_of_def)
qed

lemma saved_reads_back:
  assumes "snapshots_ok st" "saved_components e s st st'"
  shows "is_accepted st' (sn_snapshot_id s)"
    "sql_first (\<lambda>r. ac_snapshot_id r = sn_snapshot_id s) (st_accepted st')
      = Some (accepted_row_of (env_contract_key (se_platform e) (sn_contract s)) s)"
    "List.map ol_quote (legs_of (sn_snapshot_id s) st') = List.map stored_quote (sn_option_chain s)"
proof -
  let ?a = "accepted_row_of (env_contract_key (se_platform e) (sn_contract s)) s"
  from assms(2) obtain u where acc: "st_accepted st' = st_accepted st @ [?a]" and fresh: "accepted_admits u (st_accepted st) ?a"
    by (auto simp: saved_components_def Let_def)
  have new: "sn_snapshot_id s \<notin> set (List.map ac_snapshot_id (st_accepted st))"
    using fresh by (simp add: accepted_admits_def fresh_key_def accepted_row_of_def)
  show "is_accepted st' (sn_snapshot_id s)" by (simp add: is_accepted_def acc accepted_row_of_def)
  have "sql_first (\<lambda>r. ac_snapshot_id r = i) (t @ [?a]) = Some ?a" if "i = sn_snapshot_id s" "i \<notin> set (List.map ac_snapshot_id t)" for i t
    using that by (induction t) (auto simp: sql_first_def accepted_row_of_def)
  then show "sql_first (\<lambda>r. ac_snapshot_id r = sn_snapshot_id s) (st_accepted st') = Some ?a" using new by (simp add: acc)
  from assms(2) obtain rows where r: "st_legs st' = st_legs st @ rows" "length rows = length (sn_option_chain s)"
    "\<And>i. i < length rows \<Longrightarrow> ol_snapshot_id (rows ! i) = sn_snapshot_id s \<and> ol_quote (rows ! i) = stored_quote (sn_option_chain s ! i)"
    by (rule saved_legs) blast
  have "legs_of (sn_snapshot_id s) st = []"
  proof -
    have "ol_snapshot_id l \<noteq> sn_snapshot_id s" if "l \<in> set (st_legs st)" for l
      using assms(1) new that unfolding snapshots_ok_def legs_ok_def set_map by (metis image_eqI)
    then show ?thesis by (simp add: legs_of_def filter_empty_conv)
  qed
  moreover have "filter (\<lambda>l. ol_snapshot_id l = sn_snapshot_id s) rows = rows"
    using r(3) by (auto simp: filter_id_conv in_set_conv_nth)
  ultimately have "legs_of (sn_snapshot_id s) st' = rows" by (simp add: legs_of_def r(1))
  then show "List.map ol_quote (legs_of (sn_snapshot_id s) st') = List.map stored_quote (sn_option_chain s)"
    using r(2,3) by (auto intro!: nth_equalityI)
qed




text \<open>The snapshot of one leg has no five strikes around the money.\<close>

lemma demo_first_unsound: "\<not> sound_snapshot v pl demo_first now"
proof -
  have "length (positive_strikes (sn_option_chain demo_first)) = 1" by code_simp
  then show ?thesis by (auto simp: sound_snapshot_def sound_chain_def five_strikes_def)
qed


lemma issues_inserted:
  assumes "i \<notin> ir_snapshot_id ` set (st_issues st)" "i \<in> at_snapshot_id ` set (st_attempts st)"
  shows "\<exists>st'. insert_validation_issues i is st = Inr st'"
proof -
  let ?I = "\<lambda>todo u. (\<forall>x\<in>set todo. (i, fst x) \<notin> issue_id ` set (st_issues u)) \<and> distinct (List.map fst todo)
    \<and> i \<in> at_snapshot_id ` set (st_attempts u)"
  have step: "\<exists>w. insert_issue i x u = Inr w \<and> ?I ys w" if "?I (x # ys) u" for x ys u
    using that by (cases x) (auto simp: insert_issue_def sql_insert_def issue_admits_def fresh_key_def issue_id_def)
  have "?I (zip [0..<length is] is) st" using assms by (auto simp: issue_id_def)
  from fold_res_total[where I = ?I and f = "insert_issue i", OF this step] show ?thesis
    by (auto simp: insert_validation_issues_def)
qed



end
