(* ===== verification/Calendar.thy ===== *)
theory Calendar
  imports Clock Json
begin

text \<open>
  Dates of the proleptic Gregorian calendar as \<open>datetime.date\<close> has them: ordinals, ISO texts
  (\<open>date.fromisoformat\<close>) and the \<open>DD/MM/YYYY HH:MM:SS\<close> texts of the provider.
\<close>

definition is_leap :: "int \<Rightarrow> bool" where
  "is_leap y \<longleftrightarrow> y mod 4 = 0 \<and> (y mod 100 \<noteq> 0 \<or> y mod 400 = 0)"

definition days_in_month :: "int \<Rightarrow> int \<Rightarrow> int" where
  "days_in_month y m = (if m = 2 then (if is_leap y then 29 else 28) else if m \<in> {4, 6, 9, 11} then 30 else 31)"

definition days_before_year :: "int \<Rightarrow> int" where
  "days_before_year y = (let z = y - 1 in z * 365 + z div 4 - z div 100 + z div 400)"

definition days_before_month :: "int \<Rightarrow> int \<Rightarrow> int" where
  "days_before_month y m = sum_list (List.map (days_in_month y) [1..m - 1])"

definition valid_date :: "int \<Rightarrow> int \<Rightarrow> int \<Rightarrow> bool" where
  "valid_date y m d \<longleftrightarrow> 1 \<le> y \<and> y \<le> 9999 \<and> 1 \<le> m \<and> m \<le> 12 \<and> 1 \<le> d \<and> d \<le> days_in_month y m"

text \<open>Days since 1 January 1970, whose ordinal is 719163.\<close>

definition epoch_day :: "int \<Rightarrow> int \<Rightarrow> int \<Rightarrow> int" where
  "epoch_day y m d = days_before_year y + days_before_month y m + d - 719163"

text \<open>\<open>datetime.date()\<close>.\<close>

fun local_day :: "datetime \<Rightarrow> int" where
  "local_day (Naive w) = w div day_us"
| "local_day (Aware u off) = (u + off) div day_us"

definition take_number :: "nat \<Rightarrow> string \<Rightarrow> (int \<times> string) option" where
  "take_number n s = (if length (take n s) = n \<and> list_all is_digit (take n s)
     then Some ((digits_value (take n s)), drop n s) else None)"

definition drop_dash :: "bool \<Rightarrow> string \<Rightarrow> string option" where
  "drop_dash sep s = (if \<not> sep then Some s else if take 1 s = ''-'' then Some (tl s) else None)"

text \<open>The Monday of the first ISO week, as days since the epoch, and its weekday of 1 January.\<close>

definition first_weekday :: "int \<Rightarrow> int" where
  "first_weekday y = (epoch_day y 1 1 + 719163 + 6) mod 7"

definition iso_monday :: "int \<Rightarrow> int" where
  "iso_monday y = epoch_day y 1 1 - first_weekday y + (if 3 < first_weekday y then 7 else 0)"

definition iso_week_day :: "int \<Rightarrow> int \<Rightarrow> int \<Rightarrow> int option" where
  "iso_week_day y w d =
    (let long = first_weekday y = 3 \<or> first_weekday y = 2 \<and> is_leap y; n = iso_monday y + (w - 1) * 7 + d - 1 in
     if 1 \<le> y \<and> 1 \<le> w \<and> (w \<le> 52 \<or> w = 53 \<and> long) \<and> 1 \<le> d \<and> d \<le> 7 \<and> epoch_day 1 1 1 \<le> n \<and> n \<le> epoch_day 9999 12 31
     then Some n else None)"

definition parse_week :: "int \<Rightarrow> bool \<Rightarrow> string \<Rightarrow> int option" where
  "parse_week y sep s = (case take_number 2 s of None \<Rightarrow> None
   | Some (w, t) \<Rightarrow> if t = [] then iso_week_day y w 1
      else (case drop_dash sep t of None \<Rightarrow> None
        | Some u \<Rightarrow> (case take_number 1 u of None \<Rightarrow> None | Some (d, _) \<Rightarrow> iso_week_day y w d)))"

definition parse_month_day :: "int \<Rightarrow> bool \<Rightarrow> string \<Rightarrow> int option" where
  "parse_month_day y sep s = (case take_number 2 s of None \<Rightarrow> None
   | Some (m, t) \<Rightarrow> (case drop_dash sep t of None \<Rightarrow> None
      | Some u \<Rightarrow> (case take_number 2 u of None \<Rightarrow> None
        | Some (d, v) \<Rightarrow> if v = [] \<and> valid_date y m d then Some (epoch_day y m d) else None)))"

text \<open>\<open>date.fromisoformat\<close>, as days since the epoch.\<close>

definition iso_date :: "string \<Rightarrow> int option" where
  "iso_date s = (if length s \<notin> {7, 8, 10} then None
     else (case take_number 4 s of None \<Rightarrow> None
       | Some (y, t) \<Rightarrow>
          let sep = take 1 t = ''-''; u = (if sep then tl t else t) in
          if take 1 u = ''W'' then parse_week y sep (tl u) else parse_month_day y sep u))"

lemma epoch_day_checks:
  "epoch_day 1970 1 1 = 0" "epoch_day 2026 8 21 = 20686" "iso_date ''2026-08-21'' = Some 20686"
  "iso_date ''20260821'' = Some 20686" "iso_date ''2026-W34-5'' = Some 20686" "iso_date ''2026-02-30'' = None"
  by code_simp+

text \<open>
  \<open>strptime(text, "%d/%m/%Y %H:%M:%S")\<close> that \<open>strftime\<close> prints back unchanged: two digits for
  each part, four for the year (years below 1000 print fewer), a date of the calendar and a time of the day.
\<close>

definition trade_time_ok :: "string \<Rightarrow> bool" where
  "trade_time_ok s \<longleftrightarrow> length s = 19 \<and> [s ! 2, s ! 5, s ! 10, s ! 13, s ! 16] = ''// ::''
     \<and> list_all is_digit (List.map ((!) s) [0, 1, 3, 4, 6, 7, 8, 9, 11, 12, 14, 15, 17, 18])
     \<and> (let n = (\<lambda>i k. (digits_value (take k (drop i s)))) in
         1000 \<le> n 6 4 \<and> valid_date (n 6 4) (n 3 2) (n 0 2) \<and> n 11 2 \<le> 23 \<and> n 14 2 \<le> 59 \<and> n 17 2 \<le> 59)"

lemma trade_time_checks:
  "trade_time_ok ''21/08/2026 15:29:59''" "\<not> trade_time_ok ''31/04/2026 15:29:59''" "\<not> trade_time_ok ''1/08/2026 15:29:59''"
  by code_simp+

end
