(* ===== verification/Normalization.thy ===== *)
theory Normalization
  imports Ingestion Calendar "HOL-Library.AList"
begin

text \<open>
  Provider payloads in canonical units (\<open>ingestion/normalization.py\<close>): scalar fields, the option
  chain with the change in open interest derived from an earlier snapshot, and market quotes.  A
  decoded JSON value is a \<open>json\<close>; \<open>show\<close> is \<open>str\<close> of a value that is neither text nor an integer.
\<close>

subsection \<open>Scalar fields\<close>

definition absent :: "json \<Rightarrow> bool" where
  "absent v \<longleftrightarrow> v = JNull \<or> v = JStr []"

text \<open>A value that is absent, or a boolean, before it is read as a number.\<close>

definition numeric_field :: "string \<Rightarrow> bool \<Rightarrow> (json \<Rightarrow> 'a res) \<Rightarrow> json \<Rightarrow> 'a option res" where
  "numeric_field path allow_none f v =
    (if absent v then (if allow_none then Inr None else Inl (NormalizationError (path @ '' is required'')))
     else case v of JBool _ \<Rightarrow> Inl (NormalizationError (path @ '' cannot be boolean''))
       | _ \<Rightarrow> bindr (f v) (\<lambda>x. Inr (Some x)))"

text \<open>\<open>Decimal(str(value).strip())\<close>; the text of a list or an object is not a number.\<close>

fun decimal_of_json :: "json \<Rightarrow> decimal option" where
  "decimal_of_json (JStr s) = decimal_of_text s"
| "decimal_of_json (JInt n) = Some (Finite (of_int n))"
| "decimal_of_json (JFloat (FFinite x)) = Some (Finite (float_repr x))"
| "decimal_of_json (JFloat (FInfinite b)) = Some (Infinite b)"
| "decimal_of_json (JFloat FNaN) = Some NaN"
| "decimal_of_json _ = None"

definition read_decimal :: "string \<Rightarrow> json \<Rightarrow> rat res" where
  "read_decimal path v = (case decimal_of_json v of None \<Rightarrow> Inl (NormalizationError (path @ '' is not a valid decimal''))
   | Some (Finite x) \<Rightarrow> Inr x | Some _ \<Rightarrow> Inl (NormalizationError (path @ '' must be finite'')))"

definition decimal_value_of :: "string \<Rightarrow> bool \<Rightarrow> json \<Rightarrow> rat option res" where
  "decimal_value_of path allow_none v = numeric_field path allow_none (read_decimal path) v"

definition read_integer :: "string \<Rightarrow> json \<Rightarrow> int res" where
  "read_integer path v = (case decimal_of_json v of
     Some (Finite x) \<Rightarrow> if x = of_int \<lfloor>x\<rfloor> then Inr \<lfloor>x\<rfloor> else Inl (NormalizationError (path @ '' is not an integer''))
   | _ \<Rightarrow> Inl (NormalizationError (path @ '' is not an integer'')))"

definition integer_value :: "string \<Rightarrow> bool \<Rightarrow> json \<Rightarrow> int option res" where
  "integer_value path allow_none v = numeric_field path allow_none (read_integer path) v"

text \<open>\<open>float(value)\<close>: an integer beyond binary64 raises \<open>OverflowError\<close>, which is not caught.\<close>

fun read_float :: "string \<Rightarrow> json \<Rightarrow> float64 res" where
  "read_float path (JInt n) = (case to_float (of_int n) of FFinite x \<Rightarrow> Inr (FFinite x)
     | _ \<Rightarrow> Inl (OverflowError ''int too large to convert to float''))"
| "read_float path (JFloat f) = (if isfinite f then Inr f else Inl (NormalizationError (path @ '' must be finite'')))"
| "read_float path (JStr s) = (case float_of_text s of None \<Rightarrow> Inl (NormalizationError (path @ '' is not numeric''))
     | Some f \<Rightarrow> if isfinite f then Inr f else Inl (NormalizationError (path @ '' must be finite'')))"
| "read_float path _ = Inl (NormalizationError (path @ '' is not numeric''))"

definition float_value :: "string \<Rightarrow> bool \<Rightarrow> json \<Rightarrow> float64 option res" where
  "float_value path allow_none v = numeric_field path allow_none (read_float path) v"

text \<open>The provider's implied volatility is in percentage points.\<close>

definition dhan_iv_decimal :: "string \<Rightarrow> json \<Rightarrow> float64 option res" where
  "dhan_iv_decimal path v = bindr (float_value path True v) (\<lambda>raw. Inr (case raw of
     Some (FFinite x) \<Rightarrow> Some (FFinite (if x \<le> 0 then x else fdiv x 100)) | r \<Rightarrow> r))"

definition text_of_json :: "(json \<Rightarrow> string) \<Rightarrow> json \<Rightarrow> string" where
  "text_of_json show v = (case v of JStr s \<Rightarrow> s | JInt n \<Rightarrow> int_text n | _ \<Rightarrow> show v)"

definition normalize_option_side :: "string \<Rightarrow> OptionType res" where
  "normalize_option_side v = (let n = py_upper (py_strip v) in
     if n \<in> {''CE'', ''CALL'', ''C''} then Inr CALL else if n \<in> {''PE'', ''PUT'', ''P''} then Inr PUT
     else Inl (NormalizationError ''unsupported option side''))"

subsection \<open>Earlier quotes\<close>

definition strict_interval_seconds :: "datetime \<Rightarrow> datetime \<Rightarrow> int \<Rightarrow> rat option" where
  "strict_interval_seconds current previous max_us =
    (if \<not> is_aware current \<or> \<not> is_aware previous then None
     else let d = total_seconds (instant current - instant previous) in
       if d \<le> 0 \<or> total_seconds max_us < d then None else Some d)"

definition compatible_snapshot :: "platform \<Rightarrow> contract_spec \<Rightarrow> int \<Rightarrow> DataSource \<Rightarrow> datetime \<Rightarrow> int \<Rightarrow> previous_snapshot \<Rightarrow> bool" where
  "compatible_snapshot pl c n source t max_us p \<longleftrightarrow> py_strip (pv_snapshot_id p) \<noteq> [] \<and> source = DHAN_REST
     \<and> pv_source p = DHAN_REST \<and> pv_contract_key p = env_contract_key pl c \<and> pv_sequence p < n
     \<and> strict_interval_seconds t (pv_source_timestamp p) max_us \<noteq> None"

type_synonym prior_quotes = "((rat \<times> OptionType) \<times> option_quote \<times> rat) list"

text \<open>One quote of the earlier chain; a second one of a key makes the key ambiguous.\<close>

definition note_prior :: "datetime \<Rightarrow> int \<Rightarrow> option_quote \<Rightarrow> prior_quotes \<times> (rat \<times> OptionType) list
    \<Rightarrow> prior_quotes \<times> (rat \<times> OptionType) list" where
  "note_prior t max_us q = (\<lambda>(compatible, ambiguous).
    case strict_interval_seconds t (oq_observed_at q) max_us of None \<Rightarrow> (compatible, ambiguous)
    | Some d \<Rightarrow>
       let k = quote_key q in
       if k \<in> set ambiguous then (compatible, ambiguous)
       else if map_of compatible k \<noteq> None then (AList.delete k compatible, k # ambiguous)
       else (AList.update k (q, d) compatible, ambiguous))"

definition compatible_previous_quotes :: "platform \<Rightarrow> contract_spec \<Rightarrow> int \<Rightarrow> DataSource \<Rightarrow> datetime \<Rightarrow> int
    \<Rightarrow> previous_snapshot option \<Rightarrow> prior_quotes" where
  "compatible_previous_quotes pl c n source t max_us previous = (case previous of None \<Rightarrow> []
   | Some p \<Rightarrow> if \<not> compatible_snapshot pl c n source t max_us p then []
       else fst (fold (note_prior t max_us) (pv_option_chain p) ([], [])))"

subsection \<open>The option chain\<close>

text \<open>The change in open interest of a leg, with its source and interval.\<close>

definition derived_change :: "contract_spec \<Rightarrow> string \<Rightarrow> rat \<Rightarrow> OptionType \<Rightarrow> string \<Rightarrow> int option
    \<Rightarrow> (option_quote \<times> rat) option \<Rightarrow> (int \<times> string \<times> rat) option" where
  "derived_change c previous_id strike ty security_id open_interest prior = (case prior of None \<Rightarrow> None
   | Some (q, d) \<Rightarrow>
       if security_id \<noteq> [] \<and> oq_security_id q = security_id \<and> dt_eq (oq_expiry q) (cs_option_expiry c)
         \<and> oq_strike q = strike \<and> oq_option_type q = ty
       then (case (oq_open_interest q, open_interest) of (Some old, Some new) \<Rightarrow> Some (new - old, previous_id, d) | _ \<Rightarrow> None)
       else None)"

definition greek :: "(string \<times> json) list \<Rightarrow> string \<Rightarrow> string \<Rightarrow> float64 option res" where
  "greek g side k = float_value (side @ ''.'' @ k) True (member g k)"

definition normalize_greeks :: "(string \<times> json) list \<Rightarrow> string \<Rightarrow> greeks res" where
  "normalize_greeks g side =
    bindr (greek g side ''delta'') (\<lambda>delta. bindr (greek g side ''gamma'') (\<lambda>gamma.
    bindr (greek g side ''theta'') (\<lambda>theta. bindr (greek g side ''vega'') (\<lambda>vega.
      Inr \<lparr>gk_delta = delta, gk_gamma = gamma, gk_theta = theta, gk_vega = vega, gk_theoretical_price = None\<rparr>))))"

definition normalize_leg :: "(json \<Rightarrow> string) \<Rightarrow> contract_spec \<Rightarrow> datetime \<Rightarrow> string \<Rightarrow> prior_quotes \<Rightarrow> rat \<Rightarrow> string
    \<Rightarrow> OptionType \<Rightarrow> (string \<times> json) list \<Rightarrow> option_quote res" where
  "normalize_leg show c observed_at previous_id priors strike side ty leg =
    bindr (integer_value (side @ ''.oi'') True (member leg ''oi'')) (\<lambda>oi.
    bindr (integer_value (side @ ''.previous_oi'') True (member leg ''previous_oi'')) (\<lambda>previous_oi.
    let raw = member leg ''security_id''; security_id = (if raw = JNull then [] else py_strip (text_of_json show raw));
        change = derived_change c previous_id strike ty security_id oi (map_of priors (strike, ty)) in
    case object_or_empty (member leg ''greeks'') of None \<Rightarrow> Inl (NormalizationError ''Dhan greeks are malformed'')
    | Some g \<Rightarrow>
       bindr (decimal_value_of (side @ ''.bid'') True (member leg ''top_bid_price'')) (\<lambda>bid.
       bindr (decimal_value_of (side @ ''.ask'') True (member leg ''top_ask_price'')) (\<lambda>ask.
       bindr (decimal_value_of (side @ ''.ltp'') True (member leg ''last_price'')) (\<lambda>ltp.
       bindr (integer_value (side @ ''.volume'') True (member leg ''volume'')) (\<lambda>volume.
       bindr (dhan_iv_decimal (side @ ''.iv'') (member leg ''implied_volatility'')) (\<lambda>iv.
       bindr (normalize_greeks g side) (\<lambda>gs.
       bindr (integer_value (side @ ''.bid_quantity'') True (member leg ''top_bid_quantity'')) (\<lambda>bid_quantity.
       bindr (integer_value (side @ ''.ask_quantity'') True (member leg ''top_ask_quantity'')) (\<lambda>ask_quantity.
       bindr (decimal_value_of (side @ ''.previous_close'') True (member leg ''previous_close_price'')) (\<lambda>previous_close.
         Inr \<lparr>oq_security_id = security_id, oq_strike = strike, oq_option_type = ty, oq_expiry = cs_option_expiry c,
           oq_bid = bid, oq_ask = ask, oq_ltp = ltp, oq_volume = volume, oq_open_interest = oi,
           oq_previous_open_interest = previous_oi, oq_change_open_interest = map_option fst change,
           oq_implied_volatility = iv, oq_greeks = gs, oq_observed_at = observed_at, oq_bid_quantity = bid_quantity,
           oq_ask_quantity = ask_quantity, oq_previous_close = previous_close,
           oq_change_oi_source_snapshot_id = map_option (\<lambda>(_, i, _). i) change,
           oq_change_oi_interval_seconds = map_option (\<lambda>(_, _, d). d) change\<rparr>)))))))))))"

definition normalize_side :: "(json \<Rightarrow> string) \<Rightarrow> contract_spec \<Rightarrow> datetime \<Rightarrow> string \<Rightarrow> prior_quotes \<Rightarrow> rat
    \<Rightarrow> (string \<times> json) list \<Rightarrow> string \<times> OptionType \<Rightarrow> option_quote list res" where
  "normalize_side show c observed_at previous_id priors strike sides = (\<lambda>(side, ty). case member sides side of
     JNull \<Rightarrow> Inr []
   | JObj leg \<Rightarrow> bindr (normalize_leg show c observed_at previous_id priors strike side ty leg) (\<lambda>q. Inr [q])
   | _ \<Rightarrow> Inl (NormalizationError (''Dhan '' @ py_upper side @ '' leg is not an object'')))"

definition contract_strikes :: "contract_spec \<Rightarrow> rat list" where
  "contract_strikes c = List.map_filter mr_strike (cs_option_contracts c)"

definition normalize_strike :: "(json \<Rightarrow> string) \<Rightarrow> contract_spec \<Rightarrow> datetime \<Rightarrow> string \<Rightarrow> prior_quotes
    \<Rightarrow> string \<times> json \<Rightarrow> option_quote list res" where
  "normalize_strike show c observed_at previous_id priors = (\<lambda>(strike_text, sides). case sides of
     JObj o' \<Rightarrow>
       bindr (decimal_value_of ''data.oc.strike'' False (JStr strike_text)) (\<lambda>provider_strike.
         case provider_strike of None \<Rightarrow> Inl (AssertionError [])
         | Some strike \<Rightarrow>
             if strike \<notin> set (contract_strikes c) then Inr []
             else bindr (traverse (normalize_side show c observed_at previous_id priors strike o') [(''ce'', CALL), (''pe'', PUT)])
               (\<lambda>qss. Inr (concat qss)))
   | _ \<Rightarrow> Inl (NormalizationError ''Dhan strike is not an object''))"

definition default_max_interval :: int where "default_max_interval = seconds 30"

definition normalize_dhan_option_chain :: "(json \<Rightarrow> string) \<Rightarrow> platform \<Rightarrow> (string \<times> json) list \<Rightarrow> contract_spec
    \<Rightarrow> datetime \<Rightarrow> int \<Rightarrow> DataSource \<Rightarrow> previous_snapshot option \<Rightarrow> int \<Rightarrow> option_quote list res" where
  "normalize_dhan_option_chain show pl payload c observed_at n source previous max_us =
    (if max_us \<le> 0 then Inl (NormalizationError ''max_change_oi_interval must be positive'')
     else case member payload ''data'' of
       JObj data \<Rightarrow> (case member data ''oc'' of
         JObj chain \<Rightarrow>
           let priors = compatible_previous_quotes pl c n source observed_at max_us previous;
               previous_id = (case previous of None \<Rightarrow> [] | Some p \<Rightarrow> pv_snapshot_id p) in
           bindr (traverse (normalize_strike show c observed_at previous_id priors) chain)
             (\<lambda>qss. Inr (sort_key quote_sort (concat qss)))
       | _ \<Rightarrow> Inl (NormalizationError ''Dhan option-chain strike map is missing''))
     | _ \<Rightarrow> Inl (NormalizationError ''Dhan option-chain data object is missing''))"

end
