(* ===== verification/DhanMaster.thy ===== *)
theory DhanMaster
  imports Normalization
begin

text \<open>
  Market quotes, the instrument-master CSV and its records (\<open>ingestion/normalization.py\<close>), and the
  snapshot built from a chain payload (\<open>ingestion/service.py\<close>).  \<open>csv.reader\<close> is modelled with the
  states of its parser for the default dialect; a byte-order mark is not a \<open>char\<close>, so nothing is
  stripped in front of the text.
\<close>

subsection \<open>Market quotes\<close>

record market_quote =
  nq_segment :: string
  nq_security_id :: string
  nq_observed_at :: datetime
  nq_received_at :: datetime
  nq_timestamp_warning :: "string option"
  nq_last_price :: "rat option"
  nq_day_open :: "rat option"
  nq_day_high :: "rat option"
  nq_day_low :: "rat option"
  nq_previous_close :: "rat option"
  nq_volume :: "int option"
  nq_open_interest :: "int option"
  nq_best_bid :: "rat option"
  nq_best_ask :: "rat option"

definition RECEIPT_FALLBACK :: string where "RECEIPT_FALLBACK = ''LAST_TRADE_TIME_ABSENT_RECEIPT_FALLBACK''"

definition default_quote_max_age :: int where "default_quote_max_age = seconds 30"
definition default_quote_future_skew :: int where "default_quote_future_skew = seconds 2"

definition dhan_quote_timestamp :: "(string \<times> json) list \<Rightarrow> datetime \<Rightarrow> (datetime \<times> string option) res" where
  "dhan_quote_timestamp quote received_at = (case map_of quote ''last_trade_time'' of
     None \<Rightarrow> Inr (received_at, Some RECEIPT_FALLBACK)
   | Some (JStr raw) \<Rightarrow>
       if py_strip raw = [] then Inl (NormalizationError ''Dhan quote last_trade_time is malformed'')
       else if \<not> trade_time_ok (py_strip raw)
       then Inl (NormalizationError ''Dhan quote last_trade_time must use DD/MM/YYYY HH:MM:SS IST'')
       else Inr (received_at, None)
   | Some _ \<Rightarrow> Inl (NormalizationError ''Dhan quote last_trade_time is malformed''))"

text \<open>\<open>levels[0].get("price")\<close> of \<open>depth.get(side) or []\<close>, with the errors of indexing another type.\<close>

definition best_price :: "(string \<times> json) list \<Rightarrow> string \<Rightarrow> json res" where
  "best_price depth side = (let levels = member depth side in if \<not> truthy levels then Inr JNull
     else case levels of JList (JObj level # _) \<Rightarrow> Inr (member level ''price'')
       | JList _ \<Rightarrow> Inr JNull | JStr _ \<Rightarrow> Inr JNull | JObj _ \<Rightarrow> Inl (KeyError ''0'')
       | _ \<Rightarrow> Inl (TypeError ''object is not subscriptable''))"

text \<open>The keys of a decoded object are texts, so the lookup by \<open>int\<close> finds nothing.\<close>

definition find_quote :: "(string \<times> json) list \<Rightarrow> string \<Rightarrow> string \<Rightarrow> (string \<times> json) list res" where
  "find_quote payload segment security_id = (case member payload ''data'' of
     JObj data \<Rightarrow> (case member data segment of
       JObj segment_data \<Rightarrow> (case member segment_data security_id of JObj quote \<Rightarrow> Inr quote
         | _ \<Rightarrow> Inl (NormalizationError ''Dhan quote for security is missing''))
     | _ \<Rightarrow> Inl (NormalizationError ''Dhan market-quote segment is missing''))
   | _ \<Rightarrow> Inl (NormalizationError ''Dhan market-quote data object is missing''))"

definition quote_fields :: "string \<Rightarrow> string \<Rightarrow> datetime \<Rightarrow> datetime \<times> string option \<Rightarrow> (string \<times> json) list
    \<Rightarrow> (string \<times> json) list \<Rightarrow> json \<Rightarrow> json \<Rightarrow> market_quote res" where
  "quote_fields segment security_id received_at stamp quote ohlc bid_raw ask_raw =
    bindr (decimal_value_of ''quote.last_price'' True (member quote ''last_price'')) (\<lambda>last_price.
    bindr (decimal_value_of ''quote.ohlc.open'' True (member ohlc ''open'')) (\<lambda>day_open.
    bindr (decimal_value_of ''quote.ohlc.high'' True (member ohlc ''high'')) (\<lambda>day_high.
    bindr (decimal_value_of ''quote.ohlc.low'' True (member ohlc ''low'')) (\<lambda>day_low.
    bindr (decimal_value_of ''quote.ohlc.close'' True (member ohlc ''close'')) (\<lambda>previous_close.
    bindr (integer_value ''quote.volume'' True (member quote ''volume'')) (\<lambda>volume.
    bindr (integer_value ''quote.oi'' True (member quote ''oi'')) (\<lambda>open_interest.
    bindr (decimal_value_of ''quote.best_bid'' True bid_raw) (\<lambda>best_bid.
    bindr (decimal_value_of ''quote.best_ask'' True ask_raw) (\<lambda>best_ask.
      Inr \<lparr>nq_segment = py_upper segment, nq_security_id = security_id, nq_observed_at = fst stamp,
        nq_received_at = received_at, nq_timestamp_warning = snd stamp, nq_last_price = last_price,
        nq_day_open = day_open, nq_day_high = day_high, nq_day_low = day_low, nq_previous_close = previous_close,
        nq_volume = volume, nq_open_interest = open_interest, nq_best_bid = best_bid, nq_best_ask = best_ask\<rparr>)))))))))"

definition normalize_dhan_market_quote :: "(string \<times> json) list \<Rightarrow> string \<Rightarrow> string \<Rightarrow> datetime \<Rightarrow> int \<Rightarrow> int
    \<Rightarrow> market_quote res" where
  "normalize_dhan_market_quote payload segment security_id observed_at maximum_trade_age maximum_future_skew =
    bindr (demand_that (is_aware observed_at)
      (NormalizationError ''Dhan quote HTTP receipt time must be timezone-aware'')) (\<lambda>_.
    bindr (demand_that (0 < maximum_trade_age)
      (NormalizationError ''Dhan quote maximum trade age must be positive'')) (\<lambda>_.
    bindr (demand_that (0 \<le> maximum_future_skew)
      (NormalizationError ''Dhan quote future skew cannot be negative'')) (\<lambda>_.
    bindr (find_quote payload segment security_id) (\<lambda>quote.
    bindr (dhan_quote_timestamp quote observed_at) (\<lambda>stamp.
    case (object_or_empty (member quote ''ohlc''), object_or_empty (member quote ''depth'')) of
      (Some ohlc, Some depth) \<Rightarrow>
        bindr (best_price depth ''buy'') (\<lambda>bid_raw. bindr (best_price depth ''sell'') (\<lambda>ask_raw.
          quote_fields segment security_id observed_at stamp quote ohlc bid_raw ask_raw))
    | _ \<Rightarrow> Inl (NormalizationError ''Dhan quote OHLC/depth objects are malformed''))))))"

subsection \<open>CSV\<close>

datatype csv_mode = StartRecord | StartField | InField | InQuoted | QuoteInQuoted | EatNewline

text \<open>The mode, the characters of the field so far and the fields of the record, both reversed.\<close>

type_synonym csv_state = "csv_mode \<times> string \<times> string list"

definition csv_start :: csv_state where "csv_start = (StartRecord, [], [])"

text \<open>A character, or the end of a line (\<open>None\<close>), in an unquoted position.\<close>

definition csv_end_field :: "char option \<Rightarrow> string \<Rightarrow> string list \<Rightarrow> csv_state" where
  "csv_end_field c field row = ((if c = None then StartRecord else EatNewline), [], rev field # row)"

definition line_end :: "char option \<Rightarrow> bool" where
  "line_end c \<longleftrightarrow> (case c of None \<Rightarrow> True | Some x \<Rightarrow> x = CHR 0x0A \<or> x = CHR 0x0D)"

definition csv_field_start :: "char option \<Rightarrow> string \<Rightarrow> string list \<Rightarrow> csv_state" where
  "csv_field_start c field row = (if line_end c then csv_end_field c field row
     else if c = Some (CHR 0x22) then (InQuoted, field, row)
     else if c = Some (CHR '','') then (StartField, [], rev field # row)
     else (InField, the c # field, row))"

definition csv_step :: "char option \<Rightarrow> csv_state \<Rightarrow> csv_state res" where
  "csv_step c = (\<lambda>(mode, field, row). case mode of
     StartRecord \<Rightarrow> Inr (if c = None then (StartRecord, field, row) else if line_end c then (EatNewline, field, row)
       else csv_field_start c field row)
   | StartField \<Rightarrow> Inr (csv_field_start c field row)
   | InField \<Rightarrow> Inr (if line_end c then csv_end_field c field row
       else if c = Some (CHR '','') then (StartField, [], rev field # row) else (InField, the c # field, row))
   | InQuoted \<Rightarrow> Inr (if c = None then (InQuoted, field, row) else if c = Some (CHR 0x22) then (QuoteInQuoted, field, row)
       else (InQuoted, the c # field, row))
   | QuoteInQuoted \<Rightarrow> Inr (if c = Some (CHR 0x22) then (InQuoted, CHR 0x22 # field, row)
       else if c = Some (CHR '','') then (StartField, [], rev field # row)
       else if line_end c then csv_end_field c field row else (InField, the c # field, row))
   | EatNewline \<Rightarrow> if c = None then Inr (StartRecord, field, row) else if line_end c then Inr (EatNewline, field, row)
       else Inl (OtherException ''new-line character seen in unquoted field''))"

text \<open>The lines of \<open>StringIO\<close>, each with its newline.\<close>

fun text_lines :: "string \<Rightarrow> string list" where
  "text_lines [] = []"
| "text_lines (c # s) = (if c = CHR 0x0A then [c] # text_lines s
     else (case text_lines s of [] \<Rightarrow> [[c]] | l # ls \<Rightarrow> (c # l) # ls))"

text \<open>The records read, and the error that ends the reading.\<close>

fun csv_records :: "string list \<Rightarrow> csv_state \<Rightarrow> string list list \<times> py_error option" where
  "csv_records [] (mode, field, row) = (if field \<noteq> [] \<or> mode = InQuoted then [rev (rev field # row)] else [], None)"
| "csv_records (l # ls) s = (case fold_res csv_step (List.map Some l @ [None]) s of Inl e \<Rightarrow> ([], Some e)
   | Inr (mode, field, row) \<Rightarrow>
       if mode = StartRecord then (case csv_records ls csv_start of (rows, e) \<Rightarrow> (rev row # rows, e))
       else csv_records ls (mode, field, row))"

definition csv_reader :: "string \<Rightarrow> string list list \<times> py_error option" where
  "csv_reader text = csv_records (text_lines text) csv_start"

text \<open>\<open>csv.DictReader\<close>: empty records are skipped, missing fields are \<open>None\<close>, later columns of a name win.\<close>

type_synonym csv_row = "(string \<times> string option) list"

definition dict_row :: "string list \<Rightarrow> string list \<Rightarrow> csv_row" where
  "dict_row names row = rev (zip names (List.map Some row @ replicate (length names - length row) None))"

definition row_first :: "csv_row \<Rightarrow> string list \<Rightarrow> string option" where
  "row_first row names = (case List.map_filter (\<lambda>n. case map_of row n of Some (Some v) \<Rightarrow> if v = [] then None else Some v | _ \<Rightarrow> None) names
     of [] \<Rightarrow> None | v # _ \<Rightarrow> Some v)"

subsection \<open>Instrument masters\<close>

definition DHAN_API_SEGMENTS :: "string list" where
  "DHAN_API_SEGMENTS = [''IDX_I'', ''NSE_EQ'', ''NSE_FNO'', ''NSE_CURRENCY'', ''BSE_EQ'', ''BSE_FNO'', ''BSE_CURRENCY'', ''MCX_COMM'']"

definition raw_segment_exchanges :: "string \<Rightarrow> string list option" where
  "raw_segment_exchanges = map_of [(''E'', [''NSE'', ''BSE'']), (''D'', [''NSE'', ''BSE'']), (''C'', [''NSE'', ''BSE'']), (''M'', [''MCX''])]"

definition canonical_text :: "string \<Rightarrow> string" where
  "canonical_text s = py_upper (py_strip s)"

definition or_empty :: "string option \<Rightarrow> string" where
  "or_empty s = (case s of None \<Rightarrow> [] | Some x \<Rightarrow> x)"

definition unsupported_route :: "string option \<Rightarrow> string option \<Rightarrow> bool" where
  "unsupported_route exchange segment \<longleftrightarrow> (let x = canonical_text (or_empty exchange) in
     x \<noteq> [] \<and> (case raw_segment_exchanges (canonical_text (or_empty segment)) of None \<Rightarrow> False | Some xs \<Rightarrow> x \<notin> set xs))"

definition segment_routes :: "((string \<times> string) \<times> string) list" where
  "segment_routes = [((''NSE'', ''E''), ''NSE_EQ''), ((''NSE'', ''D''), ''NSE_FNO''), ((''NSE'', ''C''), ''NSE_CURRENCY''),
     ((''BSE'', ''E''), ''BSE_EQ''), ((''BSE'', ''D''), ''BSE_FNO''), ((''BSE'', ''C''), ''BSE_CURRENCY''), ((''MCX'', ''M''), ''MCX_COMM'')]"

definition dhan_api_segment :: "string \<Rightarrow> string \<Rightarrow> string \<Rightarrow> string res" where
  "dhan_api_segment exchange segment instrument =
    (let x = canonical_text exchange; g = canonical_text segment in
     if g \<in> set DHAN_API_SEGMENTS then Inr g
     else if canonical_text instrument = ''INDEX'' then
       if x \<in> {''NSE'', ''BSE''} then Inr ''IDX_I'' else Inl (NormalizationError ''Dhan INDEX cannot be mapped for exchange'')
     else (case map_of segment_routes (x, g) of Some r \<Rightarrow> Inr r
       | None \<Rightarrow> Inl (NormalizationError ''unsupported Dhan exchange/segment combination'')))"

record instrument_record =
  nr_exchange :: string
  nr_segment :: string
  nr_security_id :: string
  nr_symbol :: string
  nr_display_name :: string
  nr_instrument :: string
  nr_instrument_type :: string
  nr_underlying_security_id :: "string option"
  nr_underlying_symbol :: "string option"
  nr_expiry :: "string option"
  nr_strike :: "rat option"
  nr_option_type :: "OptionType option"
  nr_lot_size :: "int option"
  nr_tick_size :: "rat option"

definition json_field :: "string option \<Rightarrow> json" where
  "json_field v = (case v of None \<Rightarrow> JNull | Some s \<Rightarrow> JStr s)"

definition row_option_type :: "csv_row \<Rightarrow> OptionType option res" where
  "row_option_type row = (case row_first row [''OPTION_TYPE'', ''SEM_OPTION_TYPE''] of None \<Rightarrow> Inr None
   | Some raw \<Rightarrow> if canonical_text raw \<in> {''NA'', ''XX'', ''-''} then Inr None
       else bindr (normalize_option_side raw) (\<lambda>ty. Inr (Some ty)))"

definition instrument_of_row :: "csv_row \<Rightarrow> string \<Rightarrow> string \<Rightarrow> string \<Rightarrow> string \<Rightarrow> instrument_record res" where
  "instrument_of_row row exchange segment security_id symbol =
    bindr (row_option_type row) (\<lambda>ty.
    let instrument = canonical_text (or_empty (row_first row [''INSTRUMENT'', ''SEM_INSTRUMENT_NAME''])) in
    bindr (dhan_api_segment exchange segment instrument) (\<lambda>api_segment.
    bindr (decimal_value_of ''instrument.strike'' True (json_field (row_first row [''STRIKE_PRICE'', ''SEM_STRIKE_PRICE'']))) (\<lambda>strike.
    bindr (integer_value ''instrument.lot_size'' True (json_field (row_first row [''LOT_SIZE'', ''SEM_LOT_UNITS'']))) (\<lambda>lot_size.
    bindr (decimal_value_of ''instrument.tick_size'' True (json_field (row_first row [''TICK_SIZE'', ''SEM_TICK_SIZE'']))) (\<lambda>tick_size.
      Inr \<lparr>nr_exchange = canonical_text exchange, nr_segment = api_segment, nr_security_id = py_strip security_id,
        nr_symbol = canonical_text symbol,
        nr_display_name = py_strip (case row_first row [''DISPLAY_NAME'', ''SEM_CUSTOM_SYMBOL''] of None \<Rightarrow> symbol | Some d \<Rightarrow> d),
        nr_instrument = instrument,
        nr_instrument_type = canonical_text (or_empty (row_first row [''INSTRUMENT_TYPE'', ''SEM_EXCH_INSTRUMENT_TYPE''])),
        nr_underlying_security_id = map_option py_strip (row_first row [''UNDERLYING_SECURITY_ID'']),
        nr_underlying_symbol = map_option canonical_text (row_first row [''UNDERLYING_SYMBOL'']),
        nr_expiry = map_option py_strip (row_first row [''EXPIRY_DATE'', ''SM_EXPIRY_DATE'', ''SEM_EXPIRY_DATE'']),
        nr_strike = strike, nr_option_type = ty, nr_lot_size = lot_size, nr_tick_size = tick_size\<rparr>)))))"

definition normalize_row :: "csv_row \<Rightarrow> instrument_record list res" where
  "normalize_row row =
    (let exchange = row_first row [''EXCH_ID'', ''SEM_EXM_EXCH_ID'']; segment = row_first row [''SEGMENT'', ''SEM_SEGMENT''] in
     if unsupported_route exchange segment then Inr []
     else (case (row_first row [''SECURITY_ID'', ''SEM_SMST_SECURITY_ID''], exchange, segment,
         row_first row [''SYMBOL_NAME'', ''SM_SYMBOL_NAME'', ''SEM_TRADING_SYMBOL'']) of
       (Some i, Some x, Some g, Some n) \<Rightarrow> bindr (instrument_of_row row x g i n) (\<lambda>r. Inr [r])
     | _ \<Rightarrow> Inl (NormalizationError ''instrument master row lacks identity fields'')))"

definition end_of_csv :: "py_error option \<Rightarrow> 'a \<Rightarrow> 'a res" where
  "end_of_csv e x = (case e of None \<Rightarrow> Inr x | Some x' \<Rightarrow> Inl x')"

definition no_header :: py_error where "no_header = NormalizationError ''instrument master has no header''"

definition normalize_dhan_instrument_master :: "string \<Rightarrow> instrument_record list res" where
  "normalize_dhan_instrument_master csv_text = (case csv_reader csv_text of
     ([], e) \<Rightarrow> bindr (end_of_csv e ()) (\<lambda>_. Inl no_header)
   | (names # records, e) \<Rightarrow> if names = [] then Inl no_header
       else bindr (traverse (\<lambda>row. normalize_row (dict_row names row)) (filter (\<lambda>r. r \<noteq> []) records))
         (\<lambda>rss. end_of_csv e (concat rss)))"

subsection \<open>Batches\<close>

definition padded :: "nat \<Rightarrow> int \<Rightarrow> string" where
  "padded k n = (let t = int_text n in replicate (k - length t) (CHR ''0'') @ t)"

text \<open>Year, month and day of a day since the epoch.\<close>

definition civil :: "int \<Rightarrow> int \<times> int \<times> int" where
  "civil n = (let z = n + 719468; era = z div 146097; doe = z mod 146097;
       yoe = (doe - doe div 1460 + doe div 36524 - doe div 146096) div 365;
       doy = doe - (365 * yoe + yoe div 4 - yoe div 100); mp = (5 * doy + 2) div 153;
       d = doy - (153 * mp + 2) div 5 + 1; m = (if mp < 10 then mp + 3 else mp - 9)
     in (yoe + era * 400 + (if m \<le> 2 then 1 else 0), m, d))"

text \<open>\<open>astimezone(UTC).isoformat()\<close> of an instant.\<close>

definition utc_isoformat :: "int \<Rightarrow> string" where
  "utc_isoformat us = (case civil (us div day_us) of (y, m, d) \<Rightarrow>
     let t = us mod day_us; s = t div 1000000; f = t mod 1000000 in
     padded 4 y @ ''-'' @ padded 2 m @ ''-'' @ padded 2 d @ ''T'' @ padded 2 (s div 3600) @ '':'' @ padded 2 (s div 60 mod 60)
       @ '':'' @ padded 2 (s mod 60) @ (if f = 0 then [] else ''.'' @ padded 6 f) @ ''+00:00'')"

definition joined :: "string \<Rightarrow> string list \<Rightarrow> string" where
  "joined sep ts = (case ts of [] \<Rightarrow> [] | t # us \<Rightarrow> t @ concat (List.map (\<lambda>u. sep @ u) us))"

definition build_dhan_master_batch :: "(string \<Rightarrow> string) \<Rightarrow> string \<Rightarrow> datetime \<Rightarrow> string \<Rightarrow> string
    \<Rightarrow> (master_provenance \<times> instrument_record list) res" where
  "build_dhan_master_batch sha csv_text fetched_at source_url schema_version =
    bindr (demand_that (is_aware fetched_at)
      (NormalizationError ''instrument-master fetched_at must be timezone-aware'')) (\<lambda>_.
    bindr (demand_that (py_strip source_url \<noteq> [] \<and> py_strip schema_version \<noteq> [])
      (NormalizationError ''instrument-master source and schema version are required'')) (\<lambda>_.
    bindr (normalize_dhan_instrument_master csv_text) (\<lambda>rs.
    let digest = sha csv_text;
        attestation = sha (joined [CHR 0x00] [''DHAN'', digest, py_strip source_url, py_strip schema_version,
          utc_isoformat (instant fetched_at)])
    in Inr (\<lparr>mp_batch_id = ''DHAN:'' @ take 16 digest @ '':'' @ take 16 attestation, mp_provider = ''DHAN'',
         mp_source_url = source_url, mp_content_hash = digest, mp_schema_version = schema_version,
         mp_fetched_at = fetched_at, mp_row_count = int (length rs)\<rparr>, rs))))"

definition exchange_of :: "string \<Rightarrow> Exchange option" where
  "exchange_of s = find (\<lambda>x. exchange_value x = s) [NSE, BSE, MCX]"

definition check_resolved_expiry :: "instrument_record \<Rightarrow> datetime option \<Rightarrow> unit res" where
  "check_resolved_expiry r resolved = (case (nr_expiry r, resolved) of
     (None, None) \<Rightarrow> Inr ()
   | (None, Some _) \<Rightarrow> Inl (NormalizationError ''expiry resolver added an expiry'')
   | (Some _, None) \<Rightarrow> Inl (NormalizationError ''expiry resolver must return an aware instant'')
   | (Some text, Some t) \<Rightarrow>
       bindr (demand_that (is_aware t) (NormalizationError ''expiry resolver must return an aware instant'')) (\<lambda>_.
       case iso_date (take 10 (py_strip text)) of None \<Rightarrow> Inl (NormalizationError ''instrument has an invalid expiry date'')
       | Some day \<Rightarrow> demand_that (local_day t = day) (NormalizationError ''resolved expiry date differs'')))"

definition materialize_record :: "(instrument_record \<Rightarrow> datetime option res) \<Rightarrow> instrument_record \<Rightarrow> master_record res" where
  "materialize_record resolver r =
    bindr (resolver r) (\<lambda>resolved.
    bindr (check_resolved_expiry r resolved) (\<lambda>_.
    case exchange_of (nr_exchange r) of None \<Rightarrow> Inl (NormalizationError ''unsupported exchange'')
    | Some x \<Rightarrow> Inr \<lparr>mr_instrument = \<lparr>in_exchange = x, in_segment = nr_segment r, in_security_id = nr_security_id r,
          in_symbol = nr_symbol r\<rparr>,
        mr_display_name = nr_display_name r, mr_instrument_type = nr_instrument_type r,
        mr_underlying_security_id = nr_underlying_security_id r, mr_expiry = resolved, mr_strike = nr_strike r,
        mr_option_type = nr_option_type r, mr_lot_size = nr_lot_size r, mr_tick_size = nr_tick_size r\<rparr>))"

definition materialize_master_records :: "instrument_record list \<Rightarrow> (instrument_record \<Rightarrow> datetime option res)
    \<Rightarrow> master_record list res" where
  "materialize_master_records rs resolver = traverse (materialize_record resolver) rs"

subsection \<open>Snapshots\<close>

text \<open>
  \<open>raw\<close> is \<open>raw_payload_hash\<close>, \<open>canonical\<close> the canonical JSON of a payload, \<open>new_id\<close> the generated id.
\<close>

definition build_dhan_snapshot :: "(json \<Rightarrow> string) \<Rightarrow> (json \<Rightarrow> string) \<Rightarrow> (json \<Rightarrow> string) \<Rightarrow> platform \<Rightarrow> hashers \<Rightarrow> string
    \<Rightarrow> (string \<times> json) list \<Rightarrow> int \<Rightarrow> datetime \<Rightarrow> datetime \<Rightarrow> contract_spec \<Rightarrow> market_state \<Rightarrow> technical_state
    \<Rightarrow> strategy_context \<Rightarrow> previous_snapshot option \<Rightarrow> int \<Rightarrow> string \<Rightarrow> atomic_snapshot res" where
  "build_dhan_snapshot show raw canonical pl h new_id payload n source_timestamp received_at c market technicals context
      previous max_us strategy_version =
    bindr (normalize_dhan_option_chain show pl payload c source_timestamp n DHAN_REST previous max_us) (\<lambda>chain.
      Inr (init_snapshot h \<lparr>sn_snapshot_id = new_id, sn_sequence = n, sn_source = DHAN_REST,
        sn_source_timestamp = source_timestamp, sn_received_at = received_at, sn_contract = c, sn_market = market,
        sn_technicals = technicals, sn_context = context, sn_option_chain = chain, sn_strategy_version = strategy_version,
        sn_metadata = \<lparr>md_raw_payload_hash = Some (raw (JObj payload)), md_component_hashes = None,
          md_raw_option_payload = Some (canonical (JObj payload)), md_raw_option_hash = Some (raw (JObj payload))\<rparr>\<rparr>))"

lemma master_checks:
  "utc_isoformat (20686 * day_us + 5400000001) = ''2026-08-21T01:30:00.000001+00:00''"
  "civil (epoch_day 2024 2 29) = (2024, 2, 29)" "civil (epoch_day 1999 12 31) = (1999, 12, 31)"
  "csv_reader (''a,b'' @ [CHR 0x0A, CHR 0x22] @ ''x,y'' @ [CHR 0x22, CHR 0x22, CHR 0x22] @ '',z'')
     = ([[''a'', ''b''], [''x,y'' @ [CHR 0x22], ''z'']], None)"
  by code_simp+

end
