(* ===== verification/NormalizationInv.thy ===== *)
theory NormalizationInv
  imports DhanMaster RepositoryHistory
begin

text \<open>
  Which earlier quote a change in open interest refers to, and what a normalized chain guarantees.
\<close>

subsection \<open>Earlier quotes\<close>

text \<open>The quotes of a key inside the interval: the key is usable when there is exactly one.\<close>

definition in_interval :: "datetime \<Rightarrow> int \<Rightarrow> rat \<times> OptionType \<Rightarrow> option_quote list \<Rightarrow> option_quote list" where
  "in_interval t m k qs = filter (\<lambda>q. quote_key q = k \<and> strict_interval_seconds t (oq_observed_at q) m \<noteq> None) qs"

definition priors_ok :: "datetime \<Rightarrow> int \<Rightarrow> option_quote list \<Rightarrow> prior_quotes \<times> (rat \<times> OptionType) list \<Rightarrow> bool" where
  "priors_ok t m qs = (\<lambda>(compatible, ambiguous). \<forall>k.
     (k \<in> set ambiguous \<longleftrightarrow> 2 \<le> length (in_interval t m k qs))
     \<and> map_of compatible k = (case in_interval t m k qs of
          [q] \<Rightarrow> map_option (\<lambda>d. (q, d)) (strict_interval_seconds t (oq_observed_at q) m) | _ \<Rightarrow> None))"

lemma in_interval_snoc: "in_interval t m k (qs @ [q]) = in_interval t m k qs
    @ (if quote_key q = k \<and> strict_interval_seconds t (oq_observed_at q) m \<noteq> None then [q] else [])"
  by (simp add: in_interval_def)

lemma in_interval_known: "q \<in> set (in_interval t m k qs) \<Longrightarrow> \<exists>d. strict_interval_seconds t (oq_observed_at q) m = Some d"
  by (auto simp: in_interval_def)

lemma list_by_length:
  obtains "xs = []" | x where "xs = [x]" | x y ys where "xs = x # y # ys"
  by (cases xs rule: list.exhaust; (cases "tl xs"; auto)?) 

lemma note_prior_ok:
  assumes "priors_ok t m qs s"
  shows "priors_ok t m (qs @ [q]) (note_prior t m q s)"
proof -
  obtain compatible ambiguous where s: "s = (compatible, ambiguous)" by (cases s)
  let ?k = "quote_key q"
  note ok = assms[unfolded s priors_ok_def prod.case]
  show ?thesis
  proof (cases "strict_interval_seconds t (oq_observed_at q) m")
    case None
    then show ?thesis using ok by (simp add: s priors_ok_def note_prior_def in_interval_snoc)
  next
    case (Some d)
    consider (none) "in_interval t m ?k qs = []" | (one) x where "in_interval t m ?k qs = [x]"
      | (many) x y ys where "in_interval t m ?k qs = x # y # ys" by (rule list_by_length)
    then show ?thesis
    proof cases
      case none
      then have "?k \<notin> set ambiguous" "map_of compatible ?k = None" using ok[rule_format, of ?k] by auto
      then have "note_prior t m q s = (AList.update ?k (q, d) compatible, ambiguous)"
        by (simp add: s note_prior_def Some Let_def)
      then show ?thesis using ok none Some by (auto simp: priors_ok_def in_interval_snoc update_conv')
    next
      case (one x)
      obtain dx where dx: "strict_interval_seconds t (oq_observed_at x) m = Some dx"
        using in_interval_known[of x t m ?k qs] one by auto
      have "?k \<notin> set ambiguous" "map_of compatible ?k = Some (x, dx)" using ok[rule_format, of ?k] one dx by auto
      then have "note_prior t m q s = (AList.delete ?k compatible, ?k # ambiguous)"
        by (simp add: s note_prior_def Some Let_def)
      then show ?thesis using ok one Some by (auto simp: priors_ok_def in_interval_snoc delete_conv')
    next
      case (many x y ys)
      then have "?k \<in> set ambiguous" "map_of compatible ?k = None" using ok[rule_format, of ?k] by auto
      then have "note_prior t m q s = (compatible, ambiguous)" by (simp add: s note_prior_def Some Let_def)
      then show ?thesis using ok many Some by (auto simp: priors_ok_def in_interval_snoc split: list.splits)
    qed
  qed
qed

lemma priors_fold: "priors_ok t m (ps @ qs) (fold (note_prior t m) qs s)" if "priors_ok t m ps s"
  using that
proof (induction qs arbitrary: ps s)
  case (Cons q qs)
  from Cons.IH[OF note_prior_ok[OF Cons.prems]] show ?case by simp
qed simp

lemma compatible_previous_quotes_spec:
  "map_of (compatible_previous_quotes pl c n source t m previous) k = Some (q, d) \<longleftrightarrow>
    (\<exists>p. previous = Some p \<and> compatible_snapshot pl c n source t m p
       \<and> in_interval t m k (pv_option_chain p) = [q] \<and> strict_interval_seconds t (oq_observed_at q) m = Some d)"
proof -
  have "map_of (fst (fold (note_prior t m) qs ([], []))) k = (case in_interval t m k qs of
      [q] \<Rightarrow> map_option (\<lambda>d. (q, d)) (strict_interval_seconds t (oq_observed_at q) m) | _ \<Rightarrow> None)" for qs
  proof -
    have "priors_ok t m [] ([], [])" by (simp add: priors_ok_def in_interval_def)
    from priors_fold[OF this, of qs] show ?thesis unfolding priors_ok_def case_prod_beta append_Nil by blast
  qed
  then show ?thesis
    by (auto simp: compatible_previous_quotes_def split: option.splits list.splits)
qed

subsection \<open>A normalized chain\<close>

definition normalized_leg :: "contract_spec \<Rightarrow> datetime \<Rightarrow> string \<Rightarrow> prior_quotes \<Rightarrow> option_quote \<Rightarrow> bool" where
  "normalized_leg c t previous_id priors q \<longleftrightarrow> oq_strike q \<in> set (contract_strikes c)
     \<and> oq_expiry q = cs_option_expiry c \<and> oq_observed_at q = t
     \<and> (let ch = derived_change c previous_id (oq_strike q) (oq_option_type q) (oq_security_id q) (oq_open_interest q)
           (map_of priors (quote_key q)) in
         oq_change_open_interest q = map_option fst ch
         \<and> oq_change_oi_source_snapshot_id q = map_option (\<lambda>(_, i, _). i) ch
         \<and> oq_change_oi_interval_seconds q = map_option (\<lambda>(_, _, d). d) ch)"

lemma normalize_legD:
  assumes "normalize_leg show c t previous_id priors strike side ty leg = Inr q" "strike \<in> set (contract_strikes c)"
  shows "normalized_leg c t previous_id priors q"
  using assms by (auto simp: normalize_leg_def bindr_eq_Inr Let_def normalized_leg_def quote_key_def split: option.splits)

lemma normalize_sideD:
  assumes "normalize_side show c t previous_id priors strike sides x = Inr qs" "strike \<in> set (contract_strikes c)"
  shows "list_all (normalized_leg c t previous_id priors) qs"
  using assms by (cases x) (auto simp: normalize_side_def bindr_eq_Inr split: json.splits dest: normalize_legD)

lemma traverse_list_all:
  assumes "traverse f xs = Inr yss" "\<And>x ys. f x = Inr ys \<Longrightarrow> list_all P ys"
  shows "list_all P (concat yss)"
  using assms(1)
proof (induction xs arbitrary: yss)
  case (Cons x xs)
  then show ?case using assms(2) by (auto simp: bindr_eq_Inr)
qed simp

lemma normalize_strikeD:
  assumes "normalize_strike show c t previous_id priors x = Inr qs"
  shows "list_all (normalized_leg c t previous_id priors) qs"
proof -
  obtain key sides where x: "x = (key, sides)" by (cases x)
  from assms consider "qs = []" | strike o' qss where "strike \<in> set (contract_strikes c)"
      "traverse (normalize_side show c t previous_id priors strike o') [(''ce'', CALL), (''pe'', PUT)] = Inr qss" "qs = concat qss"
    by (auto simp: x normalize_strike_def bindr_eq_Inr simp del: traverse.simps split: json.splits option.splits if_splits)
  then show ?thesis
  proof cases
    case (2 strike o' qss)
    from traverse_list_all[OF 2(2), of "normalized_leg c t previous_id priors"] normalize_sideD[OF _ 2(1)] 2(3)
    show ?thesis by blast
  qed simp
qed

lemma normalized_chain:
  assumes "normalize_dhan_option_chain show pl payload c t n source previous m = Inr qs"
  shows "sorted (List.map quote_sort qs) \<and> list_all (normalized_leg c t
    (case previous of None \<Rightarrow> [] | Some p \<Rightarrow> pv_snapshot_id p) (compatible_previous_quotes pl c n source t m previous)) qs"
proof -
  from assms obtain chain qss where
    "traverse (normalize_strike show c t (case previous of None \<Rightarrow> [] | Some p \<Rightarrow> pv_snapshot_id p)
      (compatible_previous_quotes pl c n source t m previous)) chain = Inr qss" "qs = sort_key quote_sort (concat qss)"
    by (auto simp: normalize_dhan_option_chain_def bindr_eq_Inr Let_def split: if_splits json.splits)
  then show ?thesis
    using traverse_list_all[OF _ normalize_strikeD] by (fastforce simp: list_all_iff)
qed

text \<open>A change in open interest, traced to its earlier quote.\<close>

lemma derived_change_Some:
  "derived_change c i strike ty sec oi prior = Some (x, j, d) \<longleftrightarrow> (\<exists>q old new. prior = Some (q, d) \<and> j = i \<and> sec \<noteq> []
     \<and> oq_security_id q = sec \<and> dt_eq (oq_expiry q) (cs_option_expiry c) \<and> oq_strike q = strike \<and> oq_option_type q = ty
     \<and> oq_open_interest q = Some old \<and> oi = Some new \<and> x = new - old)"
  by (auto simp: derived_change_def split: option.splits)

lemma normalized_change:
  assumes "normalized_leg c t i (compatible_previous_quotes pl c n source t m previous) q" "oq_change_open_interest q = Some x"
    and "i = (case previous of None \<Rightarrow> [] | Some p \<Rightarrow> pv_snapshot_id p)"
  obtains p old d a b where "previous = Some p" "compatible_snapshot pl c n source t m p"
    "in_interval t m (quote_key q) (pv_option_chain p) = [old]" "strict_interval_seconds t (oq_observed_at old) m = Some d"
    "oq_change_oi_source_snapshot_id q = Some (pv_snapshot_id p)" "oq_change_oi_interval_seconds q = Some d"
    "oq_security_id q \<noteq> []" "oq_security_id old = oq_security_id q" "dt_eq (oq_expiry old) (cs_option_expiry c)"
    "oq_open_interest old = Some a" "oq_open_interest q = Some b" "x = b - a"
proof -
  let ?ch = "derived_change c i (oq_strike q) (oq_option_type q) (oq_security_id q) (oq_open_interest q)
    (map_of (compatible_previous_quotes pl c n source t m previous) (quote_key q))"
  have fields: "oq_change_open_interest q = map_option fst ?ch"
    "oq_change_oi_source_snapshot_id q = map_option (\<lambda>(_, i, _). i) ?ch"
    "oq_change_oi_interval_seconds q = map_option (\<lambda>(_, _, d). d) ?ch"
    using assms(1) unfolding normalized_leg_def Let_def by blast+
  with assms(2) obtain j d where ch: "?ch = Some (x, j, d)" by (cases ?ch) auto
  with fields have f: "oq_change_oi_source_snapshot_id q = Some j" "oq_change_oi_interval_seconds q = Some d" by simp_all
  from ch obtain old a b where o: "map_of (compatible_previous_quotes pl c n source t m previous) (quote_key q) = Some (old, d)"
    "j = i" "oq_security_id q \<noteq> []" "oq_security_id old = oq_security_id q" "dt_eq (oq_expiry old) (cs_option_expiry c)"
    "oq_open_interest old = Some a" "oq_open_interest q = Some b" "x = b - a"
    unfolding derived_change_Some by blast
  from o(1) obtain p where "previous = Some p" "compatible_snapshot pl c n source t m p"
    "in_interval t m (quote_key q) (pv_option_chain p) = [old]" "strict_interval_seconds t (oq_observed_at old) m = Some d"
    unfolding compatible_previous_quotes_spec by blast
  with o f assms(3) show thesis by (intro that) auto
qed

end
