(* ===== verification/NormalizationClaims.thy ===== *)
theory NormalizationClaims
  imports NormalizationInv RepositoryDemo
begin

text \<open>What normalization promises to the validator and the repository behind it.\<close>

subsection \<open>A payload\<close>

text \<open>The chain of the provider two seconds after the stored snapshot, with a strike that is not in the contract.\<close>

definition demo_payload :: "(string \<times> json) list" where
  "demo_payload = [(''data'', JObj [(''oc'', JObj [
     (''20000.000000'', JObj [(''ce'', JObj [(''security_id'', JStr '' C1 ''), (''oi'', JStr ''1000000''), (''last_price'', JInt 100),
        (''top_bid_price'', JStr ''100''), (''top_ask_price'', JStr ''1.01e2''), (''implied_volatility'', JInt 25),
        (''volume'', JInt 1000000), (''greeks'', JNull)])]),
     (''90000'', JObj [])])])]"

definition demo_prior :: previous_snapshot where
  "demo_prior = previous_of demo_stored (hd (st_accepted demo_stored))"

lemma demo_prior_read: "accepted_option_snapshot demo_stored ''s1'' = Inr (Some demo_prior)"
  "list_all (\<lambda>q. instant (oq_observed_at q) = instant (pv_source_timestamp demo_prior)) (pv_option_chain demo_prior)"
  by code_simp+

text \<open>Its leg, and what the fields of the leg read as.\<close>

definition demo_provider_leg :: "(string \<times> json) list" where
  "demo_provider_leg = [(''security_id'', JStr '' C1 ''), (''oi'', JStr ''1000000''), (''last_price'', JInt 100),
     (''top_bid_price'', JStr ''100''), (''top_ask_price'', JStr ''1.01e2''), (''implied_volatility'', JInt 25),
     (''volume'', JInt 1000000), (''greeks'', JNull)]"

definition demo_chain_leg :: option_quote where
  "demo_chain_leg = \<lparr>oq_security_id = ''C1'', oq_strike = 20000, oq_option_type = CALL, oq_expiry = demo_expiry,
     oq_bid = Some 100, oq_ask = Some 101, oq_ltp = Some 100, oq_volume = Some 1000000, oq_open_interest = Some 1000000,
     oq_previous_open_interest = None, oq_change_open_interest = Some 100, oq_implied_volatility = Some (FFinite (1 / 4)),
     oq_greeks = \<lparr>gk_delta = None, gk_gamma = None, gk_theta = None, gk_vega = None, gk_theoretical_price = None\<rparr>,
     oq_observed_at = at_utc (seconds 60), oq_bid_quantity = None, oq_ask_quantity = None, oq_previous_close = None,
     oq_change_oi_source_snapshot_id = Some ''s1'', oq_change_oi_interval_seconds = Some 2\<rparr>"

lemma demo_fields:
  "integer_value w True (JStr ''1000000'') = Inr (Some 1000000)" "integer_value w True (JInt 1000000) = Inr (Some 1000000)"
  "decimal_value_of w True (JStr ''100'') = Inr (Some 100)" "decimal_value_of w True (JStr ''1.01e2'') = Inr (Some 101)"
  "decimal_value_of w True (JInt 100) = Inr (Some 100)" "dhan_iv_decimal w (JInt 25) = Inr (Some (FFinite (1 / 4)))"
  "decimal_value_of w False (JStr ''20000.000000'') = Inr (Some 20000)" "decimal_value_of w False (JStr ''90000'') = Inr (Some 90000)"
  "py_strip '' C1 '' = ''C1''" "contract_strikes demo_call_contract = [20000]"
  by code_simp+

lemma demo_absent: "integer_value w True JNull = Inr None" "decimal_value_of w True JNull = Inr None" "float_value w True JNull = Inr None"
  by (simp_all add: integer_value_def decimal_value_of_def float_value_def numeric_field_def absent_def)

definition demo_priors :: prior_quotes where
  "demo_priors = compatible_previous_quotes demo_platform demo_call_contract 2 DHAN_REST (at_utc (seconds 60)) default_max_interval (Some demo_prior)"

lemma demo_change_derived:
  "derived_change demo_call_contract ''s1'' 20000 CALL ''C1'' (Some 1000000) (map_of demo_priors (20000, CALL)) = Some (100, ''s1'', 2)"
  "cs_option_expiry demo_call_contract = demo_expiry" "pv_snapshot_id demo_prior = ''s1''"
  by code_simp+

lemma demo_leg_normalized:
  "normalize_leg (\<lambda>_. []) demo_call_contract (at_utc (seconds 60)) ''s1'' demo_priors 20000 ''ce'' CALL demo_provider_leg
    = Inr demo_chain_leg"
  by (simp add: normalize_leg_def demo_provider_leg_def member_def demo_fields demo_absent text_of_json_def demo_change_derived
    object_or_empty_def normalize_greeks_def greek_def demo_chain_leg_def Let_def)

lemma demo_normalized:
  "normalize_dhan_option_chain (\<lambda>_. []) demo_platform demo_payload demo_call_contract (at_utc (seconds 60)) 2 DHAN_REST
      (Some demo_prior) default_max_interval = Inr [demo_chain_leg]"
  using demo_leg_normalized
  by (simp add: normalize_dhan_option_chain_def demo_payload_def member_def normalize_strike_def demo_fields normalize_side_def
    demo_change_derived flip: demo_priors_def demo_provider_leg_def) (simp add: default_max_interval_def seconds_def)



text \<open>The leg the repository finds for a stored quote.\<close>

lemma prior_leg_stored:
  assumes "snapshots_ok st" "sql_first (\<lambda>r. ac_snapshot_id r = i) (st_accepted st) = Some a"
    and "q' \<in> set (stored_chain i st)" "quote_key q' = quote_key q" "oq_security_id q' = oq_security_id q"
  shows "\<exists>l. prior_leg st i q = Some (a, l) \<and> ol_quote l = q'"
proof -
  from assms(3) obtain l where l: "l \<in> set (st_legs st)" "ol_snapshot_id l = i" "ol_quote l = q'"
    by (auto simp: stored_chain_def)
  let ?P = "\<lambda>l. ol_snapshot_id l = i \<and> oq_security_id (ol_quote l) = oq_security_id q \<and> quote_key (ol_quote l) = quote_key q"
  have "?P l" using l assms(4,5) by simp
  then obtain l' where l': "sql_first ?P (st_legs st) = Some l'" using l(1) sql_first_None[of ?P "st_legs st"] by fastforce
  from sql_first_Some[OF l'] have "l' \<in> set (st_legs st)" "leg_strike l' = leg_strike l"
    using l assms(4) by (auto simp: leg_strike_def)
  moreover have "distinct (List.map leg_strike (st_legs st))" using assms(1) by (simp add: snapshots_ok_def legs_ok_def)
  ultimately have "l' = l" using l(1) by (auto simp: distinct_map dest: inj_onD)
  then show ?thesis using l' l(3) assms(2) by (simp add: prior_leg_def)
qed



end
