(* ===== verification/Catalog.thy ===== *)
theory Catalog
  imports DhanMaster
begin

text \<open>
  The instrument catalog (\<open>ingestion/dhan_catalog.py\<close>): the supported universe, the closure of a
  master under it, expiry instants, and the contract family and the five strikes of a symbol.
\<close>

subsection \<open>The universe\<close>

record universe_definition =
  ud_symbol :: string
  ud_aliases :: "string list"
  ud_exchange :: Exchange
  ud_market_kind :: MarketKind
  ud_underlying_segment :: string
  ud_derivative_segment :: string
  ud_underlying_instrument :: string
  ud_future_instrument :: string
  ud_option_instrument :: string
  ud_pricing_model :: PricingModel

definition index_definition :: "string \<Rightarrow> string list \<Rightarrow> Exchange \<Rightarrow> string \<Rightarrow> universe_definition" where
  "index_definition symbol aliases x derivatives = \<lparr>ud_symbol = symbol, ud_aliases = aliases, ud_exchange = x,
     ud_market_kind = INDEX, ud_underlying_segment = ''IDX_I'', ud_derivative_segment = derivatives,
     ud_underlying_instrument = ''INDEX'', ud_future_instrument = ''FUTIDX'', ud_option_instrument = ''OPTIDX'',
     ud_pricing_model = BLACK_SCHOLES\<rparr>"

definition stock_definition :: "string \<Rightarrow> string list \<Rightarrow> universe_definition" where
  "stock_definition symbol aliases = \<lparr>ud_symbol = symbol, ud_aliases = aliases, ud_exchange = NSE,
     ud_market_kind = STOCK, ud_underlying_segment = ''NSE_EQ'', ud_derivative_segment = ''NSE_FNO'',
     ud_underlying_instrument = ''EQUITY'', ud_future_instrument = ''FUTSTK'', ud_option_instrument = ''OPTSTK'',
     ud_pricing_model = BLACK_SCHOLES\<rparr>"

definition commodity_definition :: "string \<Rightarrow> string list \<Rightarrow> universe_definition" where
  "commodity_definition symbol aliases = \<lparr>ud_symbol = symbol, ud_aliases = aliases, ud_exchange = MCX,
     ud_market_kind = COMMODITY, ud_underlying_segment = ''MCX_COMM'', ud_derivative_segment = ''MCX_COMM'',
     ud_underlying_instrument = ''FUTCOM'', ud_future_instrument = ''FUTCOM'', ud_option_instrument = ''OPTFUT'',
     ud_pricing_model = BLACK_76\<rparr>"

definition SUPPORTED_UNIVERSE :: "universe_definition list" where
  "SUPPORTED_UNIVERSE = [index_definition ''NIFTY'' [''NIFTY'', ''NIFTY 50''] NSE ''NSE_FNO'',
     index_definition ''BANKNIFTY'' [''BANKNIFTY'', ''NIFTY BANK''] NSE ''NSE_FNO'',
     index_definition ''SENSEX'' [''SENSEX'', ''BSE SENSEX''] BSE ''BSE_FNO'',
     stock_definition ''RELIANCE'' [''RELIANCE'', ''RELIANCE INDUSTRIES'', ''RELIANCE INDUSTRIES LTD''],
     stock_definition ''TCS'' [''TCS'', ''TATA CONSULTANCY SERVICES'', ''TATA CONSULTANCY SERVICES LTD''],
     stock_definition ''INFY'' [''INFY'', ''INFOSYS''],
     commodity_definition ''GOLD'' [''GOLD''], commodity_definition ''CRUDEOIL'' [''CRUDEOIL'', ''CRUDE OIL''],
     commodity_definition ''SILVER'' [''SILVER'']]"

subsection \<open>Names\<close>

definition is_upper_alnum :: "char \<Rightarrow> bool" where
  "is_upper_alnum c \<longleftrightarrow> is_digit c \<or> CHR ''A'' \<le> c \<and> c \<le> CHR ''Z''"

definition token :: "string \<Rightarrow> string" where
  "token s = filter is_upper_alnum (py_upper s)"

text \<open>The first word of \<open>re.findall(r"[A-Z0-9]+", value.upper())\<close>, or nothing.\<close>

definition first_word :: "string \<Rightarrow> string" where
  "first_word s = takeWhile is_upper_alnum (dropWhile (\<lambda>c. \<not> is_upper_alnum c) (py_upper s))"

definition alias_tokens :: "universe_definition \<Rightarrow> string list" where
  "alias_tokens u = List.map token (ud_aliases u)"

definition related_to_definition :: "instrument_record \<Rightarrow> universe_definition \<Rightarrow> bool" where
  "related_to_definition r u \<longleftrightarrow>
     list_ex (\<lambda>v. v \<noteq> [] \<and> token v \<in> set (alias_tokens u)) [or_empty (nr_underlying_symbol r), nr_symbol r, nr_display_name r]
     \<or> list_ex (\<lambda>v. first_word v \<noteq> [] \<and> token (first_word v) \<in> set (alias_tokens u)) [nr_symbol r, nr_display_name r]"

definition record_name_matches :: "instrument_record \<Rightarrow> universe_definition \<Rightarrow> bool" where
  "record_name_matches r u \<longleftrightarrow> token (nr_symbol r) \<in> set (alias_tokens u) \<or> token (nr_display_name r) \<in> set (alias_tokens u)"

definition record_name_has_token :: "instrument_record \<Rightarrow> string \<Rightarrow> bool" where
  "record_name_has_token r t \<longleftrightarrow> token (nr_symbol r) = t \<or> token (nr_display_name r) = t"

definition instrument_matches :: "instrument_record \<Rightarrow> string \<Rightarrow> bool" where
  "instrument_matches r expected \<longleftrightarrow> expected \<in> {py_upper (nr_instrument r), py_upper (nr_instrument_type r)}"

definition universe_of :: "string \<Rightarrow> universe_definition res" where
  "universe_of symbol = (case find (\<lambda>u. token symbol = token (ud_symbol u) \<or> token symbol \<in> set (alias_tokens u)) SUPPORTED_UNIVERSE of
     Some u \<Rightarrow> Inr u | None \<Rightarrow> Inl (DhanCatalogError ''unsupported universe symbol''))"

subsection \<open>The supported subset\<close>

type_synonym master_id = "string \<times> string"

definition record_id :: "instrument_record \<Rightarrow> master_id" where
  "record_id r = (nr_exchange r, nr_security_id r)"

definition underlying_ids_of :: "instrument_record \<Rightarrow> master_id list" where
  "underlying_ids_of r = (case nr_underlying_security_id r of None \<Rightarrow> []
     | Some i \<Rightarrow> if i = [] then [] else [(nr_exchange r, i)])"

definition record_ids :: "instrument_record \<Rightarrow> master_id list" where
  "record_ids r = record_id r # underlying_ids_of r"

definition is_seed :: "instrument_record \<Rightarrow> bool" where
  "is_seed r \<longleftrightarrow> list_ex (\<lambda>u. nr_exchange r = exchange_value (ud_exchange u) \<and> related_to_definition r u) SUPPORTED_UNIVERSE"

text \<open>The indices selected and the ids related to them.\<close>

type_synonym selection = "nat list \<times> master_id list"

definition add_seed :: "instrument_record list \<Rightarrow> nat \<Rightarrow> selection \<Rightarrow> selection" where
  "add_seed rs i s = (if is_seed (rs ! i) then (i # fst s, record_ids (rs ! i) @ snd s) else s)"

definition add_related :: "instrument_record list \<Rightarrow> nat \<Rightarrow> selection \<Rightarrow> selection" where
  "add_related rs i s = (if i \<in> set (fst s) then s
     else if list_ex (\<lambda>x. x \<in> set (snd s)) (record_ids (rs ! i)) then (i # fst s, record_ids (rs ! i) @ snd s) else s)"

definition selection_pass :: "instrument_record list \<Rightarrow> selection \<Rightarrow> selection" where
  "selection_pass rs s = fold (add_related rs) [0..<length rs] s"

text \<open>A pass only adds indices of records that are not selected yet, so the loop ends.\<close>

lemma pass_adds:
  "set (fst s) \<subseteq> set (fst (fold (add_related rs) is s))
   \<and> (fst (fold (add_related rs) is s) \<noteq> fst s \<longrightarrow> (\<exists>i\<in>set is. i \<notin> set (fst s) \<and> i \<in> set (fst (fold (add_related rs) is s))))"
proof (induction "is" arbitrary: s)
  case (Cons i "is")
  have step: "add_related rs i s = s \<or> i \<notin> set (fst s) \<and> fst (add_related rs i s) = i # fst s"
    by (auto simp: add_related_def)
  with Cons.IH[of "add_related rs i s"] show ?case by auto
qed simp

function grow_selection :: "instrument_record list \<Rightarrow> selection \<Rightarrow> selection" where
  "grow_selection rs s = (let s' = selection_pass rs s in if fst s' = fst s then s' else grow_selection rs s')"
  by auto
termination
proof (relation "measure (\<lambda>(rs, s). card ({..<length rs} - set (fst s)))")
  fix rs s s' assume s': "s' = selection_pass rs s" "fst s' \<noteq> fst s"
  then obtain i where "set (fst s) \<subseteq> set (fst s')" "i < length rs" "i \<notin> set (fst s)" "i \<in> set (fst s')"
    using pass_adds[of s rs "[0..<length rs]"] by (auto simp: selection_pass_def)
  then have "{..<length rs} - set (fst s') \<subset> {..<length rs} - set (fst s)" by auto
  then show "((rs, s'), rs, s) \<in> measure (\<lambda>(rs, s). card ({..<length rs} - set (fst s)))"
    by (simp add: psubset_card_mono)
qed simp

declare grow_selection.simps [simp del]

definition record_order :: "instrument_record \<Rightarrow> string \<times> string \<times> string" where
  "record_order r = (nr_exchange r, nr_segment r, nr_security_id r)"

definition supported_indices :: "instrument_record list \<Rightarrow> nat list" where
  "supported_indices rs = fst (grow_selection rs (fold (add_seed rs) [0..<length rs] ([], [])))"

text \<open>The order of equal keys follows the indices here; the code iterates over a set of them.\<close>

definition filter_supported_instruments :: "instrument_record list \<Rightarrow> instrument_record list" where
  "filter_supported_instruments rs = sort_key record_order (List.map ((!) rs) (sort (supported_indices rs)))"

subsection \<open>Expiries and batches\<close>

definition ist_offset :: int where "ist_offset = 19800000000"

text \<open>\<open>datetime.combine(date, close, tzinfo=IST)\<close>.\<close>

definition ist_instant :: "int \<Rightarrow> int \<Rightarrow> int \<Rightarrow> datetime" where
  "ist_instant day hour minute = Aware (day * day_us + (hour * 60 + minute) * 60000000 - ist_offset) ist_offset"

definition resolve_expiry_ist :: "instrument_record \<Rightarrow> datetime option res" where
  "resolve_expiry_ist r = (case nr_expiry r of None \<Rightarrow> Inr None
   | Some e \<Rightarrow> if py_strip e = [] then Inr None
      else (case iso_date (take 10 (py_strip e)) of None \<Rightarrow> Inl (NormalizationError ''instrument has an invalid ISO expiry date'')
        | Some day \<Rightarrow>
            if nr_exchange r \<in> {exchange_value NSE, exchange_value BSE} then Inr (Some (ist_instant day 15 30))
            else if nr_exchange r = exchange_value MCX then Inr (Some (ist_instant day 23 30))
            else Inl (NormalizationError ''unsupported expiry exchange'')))"

definition SUPPORTED_SUBSET_SCHEMA :: string where
  "SUPPORTED_SUBSET_SCHEMA = ''dhan-detailed-v2-supported-universe-v1''"

record catalog_batch =
  cb_provenance :: master_provenance
  cb_normalized :: "instrument_record list"
  cb_records :: "master_record list"
  cb_source_hash :: string

text \<open>\<open>records_hash\<close> is \<open>content_hash\<close> of the subset.\<close>

definition build_supported_dhan_catalog_batch :: "(string \<Rightarrow> string) \<Rightarrow> (instrument_record list \<Rightarrow> string) \<Rightarrow> string
    \<Rightarrow> datetime \<Rightarrow> string \<Rightarrow> catalog_batch res" where
  "build_supported_dhan_catalog_batch sha records_hash csv_text fetched_at source_url =
    bindr (demand_that (is_aware fetched_at) (NormalizationError ''master fetched_at must be timezone-aware'')) (\<lambda>_.
    bindr (demand_that (py_strip source_url \<noteq> []) (NormalizationError ''instrument-master source URL is required'')) (\<lambda>_.
    bindr (normalize_dhan_instrument_master csv_text) (\<lambda>all_records.
    let filtered = filter_supported_instruments all_records in
    bindr (demand_that (filtered \<noteq> []) (NormalizationError ''Dhan master contains no supported-universe records'')) (\<lambda>_.
    bindr (materialize_master_records filtered resolve_expiry_ist) (\<lambda>materialized.
    let subset_hash = records_hash filtered; source_hash = sha csv_text;
        attestation = sha (joined [CHR 0x00] [subset_hash, source_hash, py_strip source_url,
          utc_isoformat (instant fetched_at), SUPPORTED_SUBSET_SCHEMA])
    in Inr \<lparr>cb_provenance = \<lparr>mp_batch_id = ''DHAN-SUPPORTED:'' @ take 16 subset_hash @ '':'' @ take 16 attestation,
           mp_provider = ''DHAN'', mp_source_url = py_strip source_url, mp_content_hash = subset_hash,
           mp_schema_version = SUPPORTED_SUBSET_SCHEMA, mp_fetched_at = fetched_at, mp_row_count = int (length materialized)\<rparr>,
         cb_normalized = filtered, cb_records = materialized, cb_source_hash = source_hash\<rparr>)))))"

end
