(* ===== verification/CatalogFamily.thy ===== *)
theory CatalogFamily
  imports Catalog
begin

text \<open>
  The resolver of \<open>ingestion/dhan_catalog.py\<close>: a catalog of matched records, the contract family of
  a symbol, and the contract with five strikes at a price.
\<close>

subsection \<open>The catalog\<close>

type_synonym catalog_entry = "instrument_record \<times> master_record"

record instrument_catalog =
  ic_provenance :: master_provenance
  ic_entries :: "catalog_entry list"

definition check_entry :: "catalog_entry \<Rightarrow> (string \<times> string \<times> string) list \<Rightarrow> (string \<times> string \<times> string) list res" where
  "check_entry = (\<lambda>(normalized, materialized) keys.
    bindr (demand_that (record_order normalized \<notin> set keys) (DhanCatalogError ''duplicate master identity'')) (\<lambda>_.
    bindr (demand_that (canonical_key (mr_instrument materialized) = exchange_value (in_exchange (mr_instrument materialized))
        @ '':'' @ nr_segment normalized @ '':'' @ nr_security_id normalized)
      (DhanCatalogError ''normalized/materialized master identity mismatch'')) (\<lambda>_.
      Inr (record_order normalized # keys))))"

definition init_catalog :: "catalog_batch \<Rightarrow> instrument_catalog res" where
  "init_catalog b =
    bindr (demand_that (mp_row_count (cb_provenance b) = int (length (cb_records b)))
      (DhanCatalogError ''catalog provenance does not cover its complete record set'')) (\<lambda>_.
    bindr (demand_that (length (cb_normalized b) = length (cb_records b))
      (DhanCatalogError ''normalized and materialized master lengths differ'')) (\<lambda>_.
    bindr (fold_res check_entry (zip (cb_normalized b) (cb_records b)) []) (\<lambda>_.
      Inr \<lparr>ic_provenance = cb_provenance b, ic_entries = zip (cb_normalized b) (cb_records b)\<rparr>)))"

definition catalog_records :: "instrument_catalog \<Rightarrow> Exchange \<Rightarrow> string \<Rightarrow> string \<Rightarrow> string option \<Rightarrow> catalog_entry list" where
  "catalog_records ic x segment instrument security_id = filter (\<lambda>(n, _). nr_exchange n = exchange_value x \<and> nr_segment n = segment
     \<and> (case security_id of None \<Rightarrow> True | Some i \<Rightarrow> nr_security_id n = i) \<and> instrument_matches n instrument) (ic_entries ic)"

subsection \<open>Contract families\<close>

record contract_family =
  cf_definition :: universe_definition
  cf_provenance :: master_provenance
  cf_underlying :: master_record
  cf_future :: master_record
  cf_option_expiry :: datetime
  cf_option_records :: "master_record list"
  cf_option_chain_security_id :: string
  cf_option_chain_segment :: string
  cf_historical_instrument :: string

text \<open>A comprehension whose condition may raise.\<close>

fun filter_res :: "('a \<Rightarrow> bool res) \<Rightarrow> 'a list \<Rightarrow> 'a list res" where
  "filter_res f [] = Inr []"
| "filter_res f (x # xs) = bindr (f x) (\<lambda>keep. bindr (filter_res f xs) (\<lambda>ys. Inr (if keep then x # ys else ys)))"

text \<open>The first element of every key, in order: the members of a set, or of an order-preserving list.\<close>

definition distinct_by :: "('a \<Rightarrow> 'b) \<Rightarrow> 'a list \<Rightarrow> 'a list" where
  "distinct_by f xs = rev (fold (\<lambda>x acc. if list_ex (\<lambda>y. f y = f x) acc then acc else x # acc) xs [])"

definition covers :: "datetime \<Rightarrow> master_record \<Rightarrow> bool res" where
  "covers expiry r = (case mr_expiry r of None \<Rightarrow> Inr False
   | Some e \<Rightarrow> bindr (dt_less e expiry) (\<lambda>earlier. Inr (\<not> earlier)))"

definition expiry_instant :: "master_record \<Rightarrow> int" where
  "expiry_instant r = (case mr_expiry r of None \<Rightarrow> 0 | Some e \<Rightarrow> instant e)"

definition same_underlying :: "string \<Rightarrow> master_record \<Rightarrow> bool" where
  "same_underlying uid r \<longleftrightarrow> mr_underlying_security_id r = Some uid"

definition instrument_or_type :: "instrument_record \<Rightarrow> string" where
  "instrument_or_type n = (if nr_instrument n \<noteq> [] then nr_instrument n else nr_instrument_type n)"

text \<open>Commodities: the option is on the nearest future that covers it.\<close>

definition commodity_candidate :: "universe_definition \<Rightarrow> datetime \<Rightarrow> string \<Rightarrow> catalog_entry \<Rightarrow> bool res" where
  "commodity_candidate u expiry uid = (\<lambda>(n, r).
     if (in_security_id (mr_instrument r) = uid \<or> same_underlying uid r) \<and> record_name_matches n u
     then covers expiry r else Inr False)"

definition commodity_future :: "instrument_catalog \<Rightarrow> universe_definition \<Rightarrow> datetime \<Rightarrow> string \<Rightarrow> catalog_entry res" where
  "commodity_future ic u expiry uid =
    bindr (filter_res (commodity_candidate u expiry uid)
      (catalog_records ic (ud_exchange u) (ud_derivative_segment u) (ud_future_instrument u) None)) (\<lambda>candidates.
    bindr (demand_that (candidates \<noteq> []) (DhanCatalogError ''commodity option does not map to a covering future'')) (\<lambda>_.
    let nearest = Min (set (List.map (\<lambda>(_, r). expiry_instant r) candidates)) in
    case filter (\<lambda>(_, r). expiry_instant r = nearest) candidates of [x] \<Rightarrow> Inr x
    | _ \<Rightarrow> Inl (DhanCatalogError ''commodity option maps ambiguously to its nearest covering future'')))"

text \<open>Indices and stocks: the record with the id of the underlying, or else the one the alias names.\<close>

definition underlying_candidates :: "instrument_catalog \<Rightarrow> universe_definition \<Rightarrow> string \<Rightarrow> string option \<Rightarrow> catalog_entry list" where
  "underlying_candidates ic u uid alias =
    (let named = catalog_records ic (ud_exchange u) (ud_underlying_segment u) (ud_underlying_instrument u) (Some uid) in
     if named \<noteq> [] then filter (\<lambda>(n, _). record_name_matches n u) named
     else (case alias of None \<Rightarrow> []
       | Some t \<Rightarrow> if t \<notin> set (alias_tokens u) then []
           else filter (\<lambda>(n, _). record_name_has_token n t)
             (catalog_records ic (ud_exchange u) (ud_underlying_segment u) (ud_underlying_instrument u) None)))"

definition covering_future :: "instrument_catalog \<Rightarrow> universe_definition \<Rightarrow> datetime \<Rightarrow> string \<Rightarrow> master_record res" where
  "covering_future ic u expiry uid =
    bindr (filter_res (\<lambda>(_, r). if same_underlying uid r then covers expiry r else Inr False)
      (catalog_records ic (ud_exchange u) (ud_derivative_segment u) (ud_future_instrument u) None)) (\<lambda>futures.
    case sort_key (\<lambda>(_, r). (expiry_instant r, in_security_id (mr_instrument r))) futures of
      [] \<Rightarrow> Inl (DhanCatalogError ''no covering future found'')
    | (_, r) # _ \<Rightarrow> Inr r)"

definition underlying_and_future :: "instrument_catalog \<Rightarrow> universe_definition \<Rightarrow> datetime \<Rightarrow> string \<Rightarrow> string option
    \<Rightarrow> (catalog_entry \<times> master_record) res" where
  "underlying_and_future ic u expiry uid alias = (if ud_market_kind u = COMMODITY
     then bindr (commodity_future ic u expiry uid) (\<lambda>x. Inr (x, snd x))
     else (case underlying_candidates ic u uid alias of
       [x] \<Rightarrow> bindr (covering_future ic u expiry uid) (\<lambda>future. Inr (x, future))
     | _ \<Rightarrow> Inl (DhanCatalogError ''options do not map to one exact underlying record'')))"

type_synonym leg_key = "rat \<times> OptionType"

definition leg_key_of :: "master_record \<Rightarrow> leg_key option" where
  "leg_key_of r = (case (mr_strike r, mr_option_type r) of (Some k, Some ty) \<Rightarrow> Some (k, ty) | _ \<Rightarrow> None)"

definition check_option :: "master_record \<Rightarrow> leg_key list \<times> string list \<Rightarrow> (leg_key list \<times> string list) res" where
  "check_option r = (\<lambda>(keys, ids). case leg_key_of r of None \<Rightarrow> Inl (DhanCatalogError ''option record lacks strike or side'')
     | Some k \<Rightarrow> if k \<in> set keys \<or> in_security_id (mr_instrument r) \<in> set ids
         then Inl (DhanCatalogError ''option master mapping is ambiguous'')
         else Inr (k # keys, in_security_id (mr_instrument r) # ids))"

definition ensure_unambiguous :: "master_record list \<Rightarrow> unit res" where
  "ensure_unambiguous rs = bindr (fold_res check_option rs ([], [])) (\<lambda>_. Inr ())"

definition option_order :: "master_record \<Rightarrow> rat \<times> string" where
  "option_order r = (case mr_strike r of None \<Rightarrow> 0 | Some k \<Rightarrow> k,
     case mr_option_type r of None \<Rightarrow> [] | Some ty \<Rightarrow> option_type_value ty)"

definition family_for_group :: "instrument_catalog \<Rightarrow> universe_definition \<Rightarrow> datetime \<Rightarrow> string \<Rightarrow> master_record list
    \<Rightarrow> string option \<Rightarrow> contract_family res" where
  "family_for_group ic u expiry uid options alias =
    bindr (underlying_and_future ic u expiry uid alias) (\<lambda>((n, underlying), future).
    bindr (ensure_unambiguous options) (\<lambda>_.
      Inr \<lparr>cf_definition = u, cf_provenance = ic_provenance ic, cf_underlying = underlying, cf_future = future,
        cf_option_expiry = expiry, cf_option_records = sort_key option_order options,
        cf_option_chain_security_id = in_security_id (mr_instrument underlying),
        cf_option_chain_segment = in_segment (mr_instrument underlying), cf_historical_instrument = instrument_or_type n\<rparr>))"

definition unanimous_alias :: "catalog_entry list \<Rightarrow> string option" where
  "unanimous_alias entries =
    (let ts = List.map token (filter (\<lambda>v. v \<noteq> []) (List.map (\<lambda>(n, _). or_empty (nr_underlying_symbol n)) entries)) in
     if length ts \<noteq> length entries \<or> length (remdups ts) \<noteq> 1 then None else Some (hd ts))"

text \<open>The active options of a universe member.\<close>

definition active_option :: "universe_definition \<Rightarrow> datetime \<Rightarrow> int list option \<Rightarrow> catalog_entry \<Rightarrow> bool res" where
  "active_option u as_of days = (\<lambda>(n, r).
     if \<not> (nr_exchange n = exchange_value (ud_exchange u) \<and> nr_segment n = ud_derivative_segment u
        \<and> nr_option_type n \<noteq> None \<and> instrument_matches n (ud_option_instrument u)) then Inr False
     else (case mr_expiry r of None \<Rightarrow> Inr False
       | Some e \<Rightarrow> bindr (dt_less as_of e) (\<lambda>later. Inr (later \<and> (case days of None \<Rightarrow> True | Some ds \<Rightarrow> local_day e \<in> set ds)
           \<and> related_to_definition n u))))"

definition expires :: "datetime \<Rightarrow> catalog_entry \<Rightarrow> bool" where
  "expires e = (\<lambda>(_, r). case mr_expiry r of None \<Rightarrow> False | Some e' \<Rightarrow> dt_eq e' e)"

definition expiries_of :: "catalog_entry list \<Rightarrow> datetime list" where
  "expiries_of options = sort_key instant (distinct_by instant (List.map_filter (\<lambda>(_, r). mr_expiry r) options))"

definition underlyings_of :: "catalog_entry list \<Rightarrow> string list" where
  "underlyings_of options = sort (remdups (filter (\<lambda>i. i \<noteq> []) (List.map_filter (\<lambda>(_, r). mr_underlying_security_id r) options)))"

text \<open>The expiries in order, and the underlyings of each in order.\<close>

definition option_groups :: "catalog_entry list \<Rightarrow> (datetime \<times> string) list" where
  "option_groups options = concat (List.map (\<lambda>e. List.map (Pair e) (underlyings_of (filter (expires e) options))) (expiries_of options))"

definition group_of :: "catalog_entry list \<Rightarrow> datetime \<times> string \<Rightarrow> catalog_entry list" where
  "group_of options = (\<lambda>(e, uid). filter (\<lambda>x. expires e x \<and> same_underlying uid (snd x)) options)"

text \<open>The first group that resolves; a \<open>DhanCatalogError\<close> moves on to the next one.\<close>

fun first_resolved :: "('a \<Rightarrow> 'b res) \<Rightarrow> 'a list \<Rightarrow> 'b res" where
  "first_resolved f [] = Inl (DhanCatalogError ''cannot resolve the symbol'')"
| "first_resolved f (x # xs) = (case f x of Inr y \<Rightarrow> Inr y | Inl (DhanCatalogError m) \<Rightarrow> first_resolved f xs | Inl e \<Rightarrow> Inl e)"

definition family :: "instrument_catalog \<Rightarrow> string \<Rightarrow> datetime \<Rightarrow> int list option \<Rightarrow> contract_family res" where
  "family ic symbol as_of days =
    bindr (demand_that (is_aware as_of) (NormalizationError ''catalog as_of must be timezone-aware'')) (\<lambda>_.
    bindr (universe_of symbol) (\<lambda>u.
    bindr (filter_res (active_option u as_of days) (ic_entries ic)) (\<lambda>options.
    bindr (demand_that (options \<noteq> []) (DhanCatalogError ''no active option contracts found'')) (\<lambda>_.
      first_resolved (\<lambda>(e, uid). family_for_group ic u e uid (List.map snd (group_of options (e, uid)))
        (unanimous_alias (group_of options (e, uid)))) (option_groups options)))))"

subsection \<open>Five strikes\<close>

definition leg_records :: "master_record list \<Rightarrow> (leg_key \<times> master_record) list" where
  "leg_records rs = List.map_filter (\<lambda>r. map_option (\<lambda>k. (k, r)) (leg_key_of r)) rs"

definition complete_strikes :: "(leg_key \<times> master_record) list \<Rightarrow> rat list" where
  "complete_strikes d = filter (\<lambda>k. map_of d (k, CALL) \<noteq> None \<and> map_of d (k, PUT) \<noteq> None) (remdups (List.map (fst \<circ> fst) d))"

fun gaps :: "rat list \<Rightarrow> rat list" where
  "gaps (a # b # ks) = (if a < b then [dsub b a] else []) @ gaps (b # ks)"
| "gaps _ = []"

definition window_legs :: "rat \<Rightarrow> rat \<Rightarrow> leg_key list" where
  "window_legs atm interval = concat (List.map (\<lambda>i. let k = dadd atm (dmul i interval) in [(k, CALL), (k, PUT)]) [- 2, - 1, 0, 1, 2])"

definition select_five_strikes :: "master_record list \<Rightarrow> rat \<Rightarrow> (master_record list \<times> rat) res" where
  "select_five_strikes rs price =
    (let d = leg_records rs; ks = complete_strikes d in
     if \<not> distinct (List.map fst d) then Inl (DhanCatalogError ''duplicate option strike/side in master'')
     else if length ks < 5 then Inl (DhanCatalogError ''fewer than five complete option strikes are listed'')
     else bindr (nearest_atm price ks) (\<lambda>atm.
       case find (\<lambda>i. list_all (\<lambda>k. map_of d k \<noteq> None) (window_legs atm i)) (sort (remdups (gaps (sort ks)))) of
         None \<Rightarrow> Inl (DhanCatalogError ''master does not contain exact ATM-2..ATM+2 CE/PE records'')
       | Some i \<Rightarrow> Inr (List.map (\<lambda>k. the (map_of d k)) (window_legs atm i), i)))"

definition unique_subscriptions :: "(string \<times> string) list \<Rightarrow> (string \<times> string) list" where
  "unique_subscriptions xs = distinct_by id (List.map (\<lambda>(segment, i). (py_upper (py_strip segment), py_strip i)) xs)"

record resolved_contract =
  rv_symbol :: string
  rv_contract :: contract_spec
  rv_option_chain_security_id :: string
  rv_option_chain_segment :: string
  rv_historical_security_id :: string
  rv_historical_segment :: string
  rv_historical_instrument :: string
  rv_subscriptions :: "(string \<times> string) list"

text \<open>The one value all records have.\<close>

definition common_value :: "'a option list \<Rightarrow> string \<Rightarrow> 'a res" where
  "common_value xs message = (case remdups xs of [Some x] \<Rightarrow> Inr x | _ \<Rightarrow> Inl (DhanCatalogError message))"

definition route_of :: "master_record \<Rightarrow> string \<times> string" where
  "route_of r = (in_segment (mr_instrument r), in_security_id (mr_instrument r))"

definition contract_at :: "contract_family \<Rightarrow> decimal \<Rightarrow> resolved_contract res" where
  "contract_at f underlying_price = (case underlying_price of
     Finite price \<Rightarrow>
       if price \<le> 0 then Inl (DhanCatalogError ''pricing underlying must be a positive finite Decimal'')
       else bindr (select_five_strikes (cf_option_records f) price) (\<lambda>(selected, interval).
         bindr (common_value (List.map mr_lot_size selected) ''selected option contracts have inconsistent lot sizes'') (\<lambda>lot_size.
         bindr (common_value (List.map mr_tick_size selected) ''selected option contracts have inconsistent tick sizes'') (\<lambda>tick_size.
         let u = cf_definition f; underlying = mr_instrument (cf_underlying f) in
         Inr \<lparr>rv_symbol = ud_symbol u,
           rv_contract = \<lparr>cs_underlying = underlying, cs_market_kind = ud_market_kind u, cs_pricing_model = ud_pricing_model u,
             cs_option_expiry = cf_option_expiry f, cs_lot_size = lot_size, cs_strike_interval = interval, cs_tick_size = tick_size,
             cs_master = cf_provenance f, cs_option_contracts = selected, cs_futures = Some (cf_future f)\<rparr>,
           rv_option_chain_security_id = cf_option_chain_security_id f, rv_option_chain_segment = cf_option_chain_segment f,
           rv_historical_security_id = in_security_id underlying, rv_historical_segment = in_segment underlying,
           rv_historical_instrument = cf_historical_instrument f,
           rv_subscriptions = unique_subscriptions ((if ud_market_kind u \<noteq> INDEX then [route_of (cf_underlying f)] else [])
             @ route_of (cf_future f) # List.map route_of selected)\<rparr>)))
   | _ \<Rightarrow> Inl (DhanCatalogError ''pricing underlying must be a positive finite Decimal''))"

definition execution_registry :: "resolved_contract \<Rightarrow> (string \<times> string) list" where
  "execution_registry rv = fold (\<lambda>r. AList.update (in_symbol (mr_instrument r)) (in_security_id (mr_instrument r)))
     (cs_option_contracts (rv_contract rv)) []"

end
