(* ===== verification/CatalogInv.thy ===== *)
theory CatalogInv
  imports CatalogFamily
begin

text \<open>
  What the catalog promises: the supported subset as the records connected to a supported one, and
  the facts of the group and the ladder a symbol resolves to.
\<close>

subsection \<open>Connected records\<close>

inductive connected_record :: "instrument_record list \<Rightarrow> nat \<Rightarrow> bool" for rs where
  seed: "i < length rs \<Longrightarrow> is_seed (rs ! i) \<Longrightarrow> connected_record rs i"
| link: "connected_record rs i \<Longrightarrow> j < length rs \<Longrightarrow> x \<in> set (record_ids (rs ! i)) \<Longrightarrow> x \<in> set (record_ids (rs ! j))
    \<Longrightarrow> connected_record rs j"

definition selected_ok :: "instrument_record list \<Rightarrow> selection \<Rightarrow> bool" where
  "selected_ok rs s \<longleftrightarrow> distinct (fst s) \<and> (\<forall>i\<in>set (fst s). connected_record rs i)
     \<and> set (snd s) = (\<Union>i\<in>set (fst s). set (record_ids (rs ! i)))"

lemma seeds_selected:
  assumes "k \<le> length rs"
  shows "selected_ok rs (fold (add_seed rs) [0..<k] ([], []))
    \<and> set (fst (fold (add_seed rs) [0..<k] ([], []))) = {i. i < k \<and> is_seed (rs ! i)}"
  using assms
proof (induction k)
  case (Suc k)
  let ?s = "fold (add_seed rs) [0..<k] ([], [])"
  from Suc have s: "selected_ok rs ?s" "set (fst ?s) = {i. i < k \<and> is_seed (rs ! i)}" by simp_all
  then have k: "k \<notin> set (fst ?s)" by simp
  show ?case
  proof (cases "is_seed (rs ! k)")
    case True
    with Suc.prems have "connected_record rs k" by (intro connected_record.seed) simp_all
    with s k True have "selected_ok rs (k # fst ?s, record_ids (rs ! k) @ snd ?s)"
      "set (k # fst ?s) = {i. i < Suc k \<and> is_seed (rs ! i)}" by (auto simp: selected_ok_def less_Suc_eq)
    with True show ?thesis by (simp add: add_seed_def[of rs k ?s])
  next
    case False
    with s have "set (fst ?s) = {i. i < Suc k \<and> is_seed (rs ! i)}" by (auto simp: less_Suc_eq)
    with s(1) False show ?thesis by (simp add: add_seed_def[of rs k ?s])
  qed
qed (simp add: selected_ok_def)

lemma add_related_ok:
  assumes "selected_ok rs s" "i < length rs"
  shows "selected_ok rs (add_related rs i s)"
proof (cases "i \<notin> set (fst s) \<and> list_ex (\<lambda>x. x \<in> set (snd s)) (record_ids (rs ! i))")
  case True
  then obtain x where x: "x \<in> set (record_ids (rs ! i))" "x \<in> set (snd s)" by (auto simp: list_ex_iff)
  with assms(1) obtain j where "j \<in> set (fst s)" "connected_record rs j" "x \<in> set (record_ids (rs ! j))"
    by (auto simp: selected_ok_def)
  then have "connected_record rs i" by (blast intro: connected_record.link assms(2) x(1))
  with True assms(1) show ?thesis by (auto simp: add_related_def selected_ok_def)
qed (use assms in \<open>auto simp: add_related_def\<close>)

lemma pass_ok: "selected_ok rs s \<Longrightarrow> set is \<subseteq> {..<length rs} \<Longrightarrow> selected_ok rs (fold (add_related rs) is s)"
  by (induction "is" arbitrary: s) (simp_all add: add_related_ok)

lemma pass_length: "length (fst s) \<le> length (fst (fold (add_related rs) is s))"
proof (induction "is" arbitrary: s)
  case (Cons i "is")
  have "length (fst s) \<le> length (fst (add_related rs i s))" by (simp add: add_related_def)
  with Cons.IH[of "add_related rs i s"] show ?case by simp
qed simp

lemma idle_pass:
  assumes "fst (fold (add_related rs) is s) = fst s"
  shows "fold (add_related rs) is s = s \<and> (\<forall>i\<in>set is. add_related rs i s = s)"
  using assms
proof (induction "is")
  case (Cons i "is")
  have "add_related rs i s = s"
  proof (rule ccontr)
    assume "add_related rs i s \<noteq> s"
    then have "length (fst (add_related rs i s)) = Suc (length (fst s))" by (auto simp: add_related_def split: if_splits)
    with pass_length[of "add_related rs i s" rs "is"] Cons.prems show False by simp
  qed
  with Cons show ?case by simp
qed simp

lemma grow_ok:
  assumes "selected_ok rs s"
  shows "selected_ok rs (grow_selection rs s) \<and> set (fst s) \<subseteq> set (fst (grow_selection rs s))
    \<and> (\<forall>i<length rs. add_related rs i (grow_selection rs s) = grow_selection rs s)"
  using assms
proof (induction rs s rule: grow_selection.induct)
  case (1 rs s)
  let ?s = "selection_pass rs s"
  have ok: "selected_ok rs ?s" unfolding selection_pass_def by (rule pass_ok[OF 1(2)]) auto
  have sub: "set (fst s) \<subseteq> set (fst ?s)" using pass_adds[of s rs] by (simp add: selection_pass_def)
  show ?case
  proof (cases "fst ?s = fst s")
    case True
    then have "?s = s" "\<forall>i<length rs. add_related rs i s = s"
      using idle_pass[of rs "[0..<length rs]" s] by (simp_all add: selection_pass_def)
    with True 1(2) show ?thesis by (simp add: grow_selection.simps[of rs s])
  next
    case False
    with 1(1)[OF refl False ok] sub show ?thesis by (auto simp: grow_selection.simps[of rs s])
  qed
qed

lemma supported_indices_connected: "distinct (supported_indices rs) \<and> set (supported_indices rs) = {i. connected_record rs i}"
proof -
  define s0 where "s0 = fold (add_seed rs) [0..<length rs] ([], [])"
  define s where "s = grow_selection rs s0"
  have s0: "selected_ok rs s0" "set (fst s0) = {i. i < length rs \<and> is_seed (rs ! i)}"
    unfolding s0_def using seeds_selected[OF order_refl, of rs] by (blast, blast)
  from grow_ok[OF s0(1)] have ok: "selected_ok rs s" and sub: "set (fst s0) \<subseteq> set (fst s)"
    and idle: "\<forall>i<length rs. add_related rs i s = s" by (simp_all add: s_def)
  have "i \<in> set (fst s)" if "connected_record rs i" for i
    using that
  proof (induction rule: connected_record.induct)
    case (seed i)
    with s0(2) sub show ?case by auto
  next
    case (link i j x)
    from link.IH link.hyps(3) ok have "x \<in> set (snd s)" by (auto simp: selected_ok_def)
    with link.hyps(4) have "list_ex (\<lambda>y. y \<in> set (snd s)) (record_ids (rs ! j))" by (auto simp: list_ex_iff)
    moreover have "fst (add_related rs j s) = fst s" using idle link.hyps(2) by simp
    ultimately show ?case by (auto simp: add_related_def split: if_splits)
  qed
  with ok have "distinct (fst s) \<and> set (fst s) = {i. connected_record rs i}" by (auto simp: selected_ok_def)
  then show ?thesis by (simp add: supported_indices_def s_def s0_def)
qed

subsection \<open>Families\<close>

lemma filter_res_eq_Inr: "filter_res f xs = Inr ys \<Longrightarrow> ys = filter (\<lambda>x. f x = Inr True) xs \<and> (\<forall>x\<in>set xs. is_ok (f x))"
  by (induction xs arbitrary: ys) (auto simp: bindr_eq_Inr is_ok_iff)

lemma first_resolvedD:
  assumes "first_resolved f xs = Inr y"
  shows "\<exists>ys x zs. xs = ys @ x # zs \<and> f x = Inr y \<and> (\<forall>w\<in>set ys. \<exists>m. f w = Inl (DhanCatalogError m))"
  using assms
proof (induction xs)
  case (Cons x xs)
  show ?case
  proof (cases "\<exists>m. f x = Inl (DhanCatalogError m)")
    case True
    with Cons obtain ys x' zs where "xs = ys @ x' # zs" "f x' = Inr y" "\<forall>w\<in>set ys. \<exists>m. f w = Inl (DhanCatalogError m)"
      by auto
    with True show ?thesis by (intro exI[of _ "x # ys"] exI[of _ x'] exI[of _ zs]) auto
  next
    case False
    with Cons.prems have "f x = Inr y" by (auto split: sum.splits py_error.splits)
    then show ?thesis by fastforce
  qed
qed simp

lemma covers_iff: "covers expiry r = Inr True \<longleftrightarrow> (\<exists>e. mr_expiry r = Some e \<and> is_aware e = is_aware expiry \<and> instant expiry \<le> instant e)"
  by (auto simp: covers_def dt_less_def split: option.splits)

lemma catalog_recordsD:
  "(n, r) \<in> set (catalog_records ic x segment instrument i) \<longleftrightarrow> (n, r) \<in> set (ic_entries ic) \<and> nr_exchange n = exchange_value x
     \<and> nr_segment n = segment \<and> (case i of None \<Rightarrow> True | Some j \<Rightarrow> nr_security_id n = j) \<and> instrument_matches n instrument"
  by (auto simp: catalog_records_def)

text \<open>A future of the family of an underlying that covers an expiry.\<close>

definition future_of :: "instrument_catalog \<Rightarrow> universe_definition \<Rightarrow> datetime \<Rightarrow> string \<Rightarrow> catalog_entry \<Rightarrow> bool" where
  "future_of ic u expiry uid = (\<lambda>(n, r). (n, r) \<in> set (ic_entries ic) \<and> nr_exchange n = exchange_value (ud_exchange u)
     \<and> nr_segment n = ud_derivative_segment u \<and> instrument_matches n (ud_future_instrument u)
     \<and> (if ud_market_kind u = COMMODITY
        then (in_security_id (mr_instrument r) = uid \<or> mr_underlying_security_id r = Some uid) \<and> record_name_matches n u
        else mr_underlying_security_id r = Some uid)
     \<and> (\<exists>e. mr_expiry r = Some e \<and> is_aware e = is_aware expiry \<and> instant expiry \<le> instant e))"

lemma commodity_futureD:
  assumes "commodity_future ic u expiry uid = Inr x" "ud_market_kind u = COMMODITY"
  shows "future_of ic u expiry uid x \<and> (\<forall>y. future_of ic u expiry uid y \<longrightarrow> y = x \<or> expiry_instant (snd x) < expiry_instant (snd y))"
proof -
  let ?i = "\<lambda>(y::catalog_entry). expiry_instant (snd y)"
  from assms(1) obtain ys where ys: "filter_res (commodity_candidate u expiry uid)
      (catalog_records ic (ud_exchange u) (ud_derivative_segment u) (ud_future_instrument u) None) = Inr ys"
    and f: "(case filter (\<lambda>y. ?i y = Min (set (List.map ?i ys))) ys of [y] \<Rightarrow> Inr y
      | _ \<Rightarrow> Inl (DhanCatalogError ''commodity option maps ambiguously to its nearest covering future'')) = Inr x"
    unfolding commodity_future_def Let_def case_prod_unfold bindr_eq_Inr demand_that_eq_Inr by blast
  from f have x: "filter (\<lambda>y. ?i y = Min (set (List.map ?i ys))) ys = [x]"
    by (cases "filter (\<lambda>y. ?i y = Min (set (List.map ?i ys))) ys" rule: remdups_adj.cases) simp_all
  have mem: "y \<in> set ys \<longleftrightarrow> future_of ic u expiry uid y" for y
    using filter_res_eq_Inr[OF ys(1)] assms(2)
    by (cases y) (auto simp: future_of_def catalog_recordsD commodity_candidate_def covers_iff same_underlying_def)
  have "x \<in> set (filter (\<lambda>y. ?i y = Min (set (List.map ?i ys))) ys)" by (simp only: x list.set insertI1)
  then have "x \<in> set ys" "?i x = Min (set (List.map ?i ys))" by simp_all
  moreover have "?i x \<le> ?i y" "?i y = ?i x \<Longrightarrow> y = x" if "y \<in> set ys" for y
  proof -
    show "?i x \<le> ?i y" using \<open>?i x = _\<close> that by simp
    assume "?i y = ?i x"
    with that \<open>?i x = _\<close> have "y \<in> set (filter (\<lambda>y. ?i y = Min (set (List.map ?i ys))) ys)" by simp
    then show "y = x" unfolding x by simp
  qed
  ultimately show ?thesis unfolding mem by (metis order_le_neq_trans)
qed

lemma covering_futureD:
  assumes "covering_future ic u expiry uid = Inr r" "ud_market_kind u \<noteq> COMMODITY"
  shows "(\<exists>n. future_of ic u expiry uid (n, r)) \<and> (\<forall>y. future_of ic u expiry uid y \<longrightarrow> expiry_instant r \<le> expiry_instant (snd y))"
proof -
  let ?k = "\<lambda>(y::catalog_entry). (expiry_instant (snd y), in_security_id (mr_instrument (snd y)))"
  from assms(1) obtain ys where ys: "filter_res (\<lambda>x. if same_underlying uid (snd x) then covers expiry (snd x) else Inr False)
      (catalog_records ic (ud_exchange u) (ud_derivative_segment u) (ud_future_instrument u) None) = Inr ys"
    and f: "(case sort_key ?k ys of [] \<Rightarrow> Inl (DhanCatalogError ''no covering future found'') | x # _ \<Rightarrow> Inr (snd x)) = Inr r"
    unfolding covering_future_def case_prod_unfold bindr_eq_Inr by blast
  from f obtain n zs where s: "sort_key ?k ys = (n, r) # zs" by (cases "sort_key ?k ys") auto
  have mem: "y \<in> set ys \<longleftrightarrow> future_of ic u expiry uid y" for y
    using filter_res_eq_Inr[OF ys] assms(2)
    by (cases y) (auto simp: future_of_def catalog_recordsD covers_iff same_underlying_def)
  have "set ys = insert (n, r) (set zs)" using s by (metis list.simps(15) set_sort)
  moreover have "sorted (List.map ?k ((n, r) # zs))" by (metis s sorted_sort_key)
  ultimately have "(n, r) \<in> set ys" "\<forall>y\<in>set ys. ?k (n, r) \<le> ?k y" by auto
  then show ?thesis by (auto simp: mem[symmetric] less_eq_prod_def)
qed

lemma check_options:
  assumes "fold_res check_option rs (keys, ids) = Inr z"
  shows "(\<forall>r\<in>set rs. \<exists>k. leg_key_of r = Some k \<and> k \<notin> set keys) \<and> distinct (List.map leg_key_of rs)
    \<and> (\<forall>r\<in>set rs. in_security_id (mr_instrument r) \<notin> set ids) \<and> distinct (List.map (\<lambda>r. in_security_id (mr_instrument r)) rs)"
  using assms
proof (induction rs arbitrary: keys ids)
  case (Cons r rs)
  from Cons.prems obtain k where k: "leg_key_of r = Some k" "k \<notin> set keys" "in_security_id (mr_instrument r) \<notin> set ids"
    and tl: "fold_res check_option rs (k # keys, in_security_id (mr_instrument r) # ids) = Inr z"
    by (auto simp: check_option_def[of r] bindr_eq_Inr split: option.splits if_splits)
  from Cons.IH[OF tl] k show ?case by fastforce
qed simp

lemma ensure_unambiguousD:
  "ensure_unambiguous rs = Inr x \<Longrightarrow> (\<forall>r\<in>set rs. leg_key_of r \<noteq> None) \<and> distinct (List.map leg_key_of rs)
    \<and> distinct (List.map (\<lambda>r. in_security_id (mr_instrument r)) rs)"
  by (auto simp: ensure_unambiguous_def bindr_eq_Inr dest!: check_options)

lemma grouped_sorted:
  "sorted (List.map f es) \<Longrightarrow> sorted (List.map (\<lambda>x. f (fst x)) (concat (List.map (\<lambda>e. List.map (Pair e) (g e)) es)))"
  by (induction es) (auto simp: sorted_append comp_def map_replicate_const)

lemma option_groups_sorted: "sorted (List.map (\<lambda>x. instant (fst x)) (option_groups options))"
  unfolding option_groups_def by (rule grouped_sorted) (simp add: expiries_of_def)

text \<open>An option of a universe member that is listed, expires later and is on an allowed day.\<close>

definition tradable :: "universe_definition \<Rightarrow> datetime \<Rightarrow> int list option \<Rightarrow> catalog_entry \<Rightarrow> bool" where
  "tradable u as_of days = (\<lambda>(n, r). nr_exchange n = exchange_value (ud_exchange u) \<and> nr_segment n = ud_derivative_segment u
     \<and> nr_option_type n \<noteq> None \<and> instrument_matches n (ud_option_instrument u) \<and> related_to_definition n u
     \<and> (\<exists>e. mr_expiry r = Some e \<and> is_aware e = is_aware as_of \<and> instant as_of < instant e
          \<and> (case days of None \<Rightarrow> True | Some ds \<Rightarrow> local_day e \<in> set ds)))"

lemma active_option_iff: "active_option u as_of days x = Inr True \<longleftrightarrow> tradable u as_of days x"
  by (cases x) (auto simp: active_option_def tradable_def dt_less_def split: option.splits)

definition underlying_of :: "instrument_catalog \<Rightarrow> universe_definition \<Rightarrow> catalog_entry \<Rightarrow> bool" where
  "underlying_of ic u = (\<lambda>(n, r). (n, r) \<in> set (ic_entries ic) \<and> nr_exchange n = exchange_value (ud_exchange u)
     \<and> nr_segment n = ud_underlying_segment u \<and> instrument_matches n (ud_underlying_instrument u) \<and> record_name_matches n u)"

lemma underlying_candidatesD: "x \<in> set (underlying_candidates ic u uid alias) \<Longrightarrow> underlying_of ic u x"
  by (cases x) (auto simp: underlying_candidates_def underlying_of_def catalog_recordsD record_name_has_token_def
    record_name_matches_def Let_def split: option.splits if_splits)

lemma family_for_groupD:
  assumes "family_for_group ic u expiry uid options alias = Inr f"
  shows "cf_definition f = u \<and> cf_option_expiry f = expiry \<and> mset (cf_option_records f) = mset options
    \<and> sorted (List.map option_order (cf_option_records f))
    \<and> (\<forall>r\<in>set options. leg_key_of r \<noteq> None) \<and> distinct (List.map leg_key_of options)
    \<and> distinct (List.map (\<lambda>r. in_security_id (mr_instrument r)) options)
    \<and> (\<exists>n. future_of ic u expiry uid (n, cf_future f))
    \<and> (\<forall>y. future_of ic u expiry uid y \<longrightarrow> expiry_instant (cf_future f) \<le> expiry_instant (snd y))
    \<and> (if ud_market_kind u = COMMODITY then cf_underlying f = cf_future f else \<exists>n. underlying_of ic u (n, cf_underlying f))"
proof -
  from assms obtain n r future where uf: "underlying_and_future ic u expiry uid alias = Inr ((n, r), future)"
    and e: "ensure_unambiguous options = Inr ()" and f: "cf_definition f = u" "cf_option_expiry f = expiry"
      "cf_option_records f = sort_key option_order options" "cf_underlying f = r" "cf_future f = future"
    by (auto simp: family_for_group_def bindr_eq_Inr)
  have "(\<exists>m. future_of ic u expiry uid (m, future)) \<and> (\<forall>y. future_of ic u expiry uid y \<longrightarrow> expiry_instant future \<le> expiry_instant (snd y))
    \<and> (if ud_market_kind u = COMMODITY then r = future else \<exists>m. underlying_of ic u (m, r))"
  proof (cases "ud_market_kind u = COMMODITY")
    case True
    with uf have "commodity_future ic u expiry uid = Inr (n, r)" "future = r"
      by (auto simp: underlying_and_future_def bindr_eq_Inr)
    with commodity_futureD[OF this(1) True] True show ?thesis by (auto intro: less_imp_le)
  next
    case False
    with uf have c: "underlying_candidates ic u uid alias = [(n, r)]" "covering_future ic u expiry uid = Inr future"
      by (auto simp: underlying_and_future_def bindr_eq_Inr split: list.splits)
    with covering_futureD[OF c(2) False] underlying_candidatesD[of "(n, r)" ic u uid "alias"] False show ?thesis by auto
  qed
  with ensure_unambiguousD[OF e] show ?thesis by (simp add: f)
qed

subsection \<open>Ladders\<close>

lemma leg_recordsD: "map_of (leg_records rs) k = Some r \<Longrightarrow> r \<in> set rs \<and> leg_key_of r = Some k"
  by (auto simp: leg_records_def List.map_filter_def dest!: map_of_SomeD split: option.splits)

lemma common_valueD: "common_value xs m = Inr x \<Longrightarrow> \<forall>y\<in>set xs. y = Some x"
  by (auto simp: common_value_def split: list.splits option.splits dest: arg_cong[where f = set])

lemma distinct_by_id: "distinct (distinct_by id xs) \<and> set (distinct_by id xs) = set xs"
proof -
  have "distinct acc \<Longrightarrow> distinct (fold (\<lambda>x acc. if list_ex (\<lambda>y. id y = id x) acc then acc else x # acc) xs acc)
    \<and> set (fold (\<lambda>x acc. if list_ex (\<lambda>y. id y = id x) acc then acc else x # acc) xs acc) = set xs \<union> set acc" for acc
    by (induction xs arbitrary: acc) (auto simp: list_ex_iff)
  from this[of "[]"] show ?thesis by (simp add: distinct_by_def)
qed

lemma find_least: "find P xs = Some x \<Longrightarrow> sorted xs \<Longrightarrow> x \<in> set xs \<and> P x \<and> (\<forall>y\<in>set xs. P y \<longrightarrow> x \<le> y)"
  by (induction xs) (auto split: if_splits)

definition window_listed :: "master_record list \<Rightarrow> rat \<Rightarrow> rat \<Rightarrow> bool" where
  "window_listed rs atm interval \<longleftrightarrow> (\<forall>k\<in>set (window_legs atm interval). map_of (leg_records rs) k \<noteq> None)"

definition ladder :: "master_record list \<Rightarrow> rat list" where
  "ladder rs = complete_strikes (leg_records rs)"

lemma select_five_strikesD:
  assumes "select_five_strikes rs price = Inr (selected, interval)"
  shows "\<exists>atm. nearest_atm price (ladder rs) = Inr atm \<and> 5 \<le> length (ladder rs) \<and> set selected \<subseteq> set rs
    \<and> List.map leg_key_of selected = List.map Some (window_legs atm interval)
    \<and> interval \<in> set (gaps (sort (ladder rs))) \<and> window_listed rs atm interval
    \<and> (\<forall>i\<in>set (gaps (sort (ladder rs))). window_listed rs atm i \<longrightarrow> interval \<le> i)"
proof -
  let ?d = "leg_records rs"
  from assms obtain atm where atm: "nearest_atm price (ladder rs) = Inr atm" "5 \<le> length (ladder rs)"
    and f: "find (\<lambda>i. list_all (\<lambda>k. map_of ?d k \<noteq> None) (window_legs atm i)) (sort (remdups (gaps (sort (ladder rs))))) = Some interval"
    and sel: "selected = List.map (\<lambda>k. the (map_of ?d k)) (window_legs atm interval)"
    unfolding select_five_strikes_def ladder_def Let_def by (auto simp: bindr_eq_Inr split: if_splits option.splits)
  from find_least[OF f] have least: "interval \<in> set (gaps (sort (ladder rs)))" "window_listed rs atm interval"
    "\<forall>i\<in>set (gaps (sort (ladder rs))). window_listed rs atm i \<longrightarrow> interval \<le> i"
    by (simp_all add: window_listed_def list_all_iff)
  have "the (map_of ?d k) \<in> set rs \<and> leg_key_of (the (map_of ?d k)) = Some k" if "k \<in> set (window_legs atm interval)" for k
    using least(2) that leg_recordsD[of rs k] unfolding window_listed_def by (cases "map_of ?d k") auto
  with atm least show ?thesis unfolding sel by auto
qed

end
