(* ===== verification/CatalogClaims.thy ===== *)
theory CatalogClaims
  imports CatalogInv
begin

text \<open>Properties of the instrument catalog (\<open>ingestion/dhan_catalog.py\<close>).\<close>

subsection \<open>The supported subset\<close>

text \<open>
  C20: The supported subset holds every record of the master that is connected to a record of the
  supported universe through shared instrument and underlying ids, once, and nothing else, in the
  order of exchange, segment and id.
\<close>

theorem supported_subset_is_closure:
  "mset (filter_supported_instruments rs) = mset (List.map ((!) rs) (filter (connected_record rs) [0..<length rs]))
   \<and> sorted (List.map record_order (filter_supported_instruments rs))"
proof -
  have "i < length rs" if "connected_record rs i" for i using that by cases auto
  then have "set (sort (supported_indices rs)) = set (filter (connected_record rs) [0..<length rs])"
    using supported_indices_connected[of rs] by auto
  then have "mset (sort (supported_indices rs)) = mset (filter (connected_record rs) [0..<length rs])"
    using supported_indices_connected[of rs] by (subst set_eq_iff_mset_eq_distinct[symmetric]) simp_all
  then show ?thesis by (simp add: filter_supported_instruments_def)
qed

subsection \<open>A demonstration catalog\<close>

definition catalog_expiry :: datetime where "catalog_expiry = ist_instant 20700 15 30"

definition demo_entry :: "string \<Rightarrow> string \<Rightarrow> string \<Rightarrow> string option \<Rightarrow> string \<Rightarrow> datetime option \<Rightarrow> (rat \<times> OptionType) option \<Rightarrow> catalog_entry" where
  "demo_entry segment i instrument uid symbol e leg =
    (\<lparr>nr_exchange = ''NSE'', nr_segment = segment, nr_security_id = i, nr_symbol = symbol, nr_display_name = symbol,
       nr_instrument = instrument, nr_instrument_type = [], nr_underlying_security_id = uid,
       nr_underlying_symbol = Some ''NIFTY'', nr_expiry = None, nr_strike = map_option fst leg,
       nr_option_type = map_option snd leg, nr_lot_size = Some 75, nr_tick_size = Some 5\<rparr>,
     \<lparr>mr_instrument = \<lparr>in_exchange = NSE, in_segment = segment, in_security_id = i, in_symbol = symbol\<rparr>,
       mr_display_name = symbol, mr_instrument_type = [], mr_underlying_security_id = uid, mr_expiry = e,
       mr_strike = map_option fst leg, mr_option_type = map_option snd leg, mr_lot_size = Some 75, mr_tick_size = Some 5\<rparr>)"

definition demo_option :: "string \<Rightarrow> rat \<Rightarrow> OptionType \<Rightarrow> catalog_entry" where
  "demo_option i k ty = demo_entry ''NSE_FNO'' i ''OPTIDX'' (Some ''26'') ''N'' (Some catalog_expiry) (Some (k, ty))"

definition demo_index :: catalog_entry where
  "demo_index = demo_entry ''IDX_I'' ''13'' ''INDEX'' None ''NIFTY'' None None"

definition catalog_future :: catalog_entry where
  "catalog_future = demo_entry ''NSE_FNO'' ''9'' ''FUTIDX'' (Some ''26'') ''N'' (Some catalog_expiry) None"

definition demo_provenance :: master_provenance where
  "demo_provenance = \<lparr>mp_batch_id = ''B'', mp_provider = ''DHAN'', mp_source_url = ''u'', mp_content_hash = ''h'',
     mp_schema_version = ''s'', mp_fetched_at = at_utc 0, mp_row_count = 3\<rparr>"

definition demo_catalog :: instrument_catalog where
  "demo_catalog = \<lparr>ic_provenance = demo_provenance, ic_entries = [demo_index, catalog_future, demo_option ''1'' 100 CALL]\<rparr>"

definition demo_family :: "master_record list \<Rightarrow> contract_family" where
  "demo_family rs = \<lparr>cf_definition = hd SUPPORTED_UNIVERSE, cf_provenance = demo_provenance, cf_underlying = snd demo_index,
     cf_future = snd catalog_future, cf_option_expiry = catalog_expiry, cf_option_records = rs,
     cf_option_chain_security_id = ''13'', cf_option_chain_segment = ''IDX_I'', cf_historical_instrument = ''INDEX''\<rparr>"

lemma demo_family_found: "family demo_catalog ''NIFTY'' (at_utc 0) None = Inr (demo_family [snd (demo_option ''1'' 100 CALL)])"
  by code_simp

definition demo_ladder :: "master_record list" where
  "demo_ladder = List.map snd [demo_option ''1'' 100 CALL, demo_option ''2'' 100 PUT, demo_option ''3'' 110 CALL,
     demo_option ''4'' 110 PUT, demo_option ''5'' 120 CALL, demo_option ''6'' 120 PUT, demo_option ''7'' 130 CALL,
     demo_option ''8'' 130 PUT, demo_option ''9'' 140 CALL, demo_option ''10'' 140 PUT]"

lemma demo_selected: "select_five_strikes demo_ladder 121 = Inr (demo_ladder, 10)"
  by code_simp

subsection \<open>Families\<close>

text \<open>
  C18: A symbol resolves to the options of one expiry and one underlying id: all tradable ones of
  them, each strike and side once, under distinct ids; with the nearest future of that underlying
  that covers the expiry, and the named underlying record; and no group of an earlier expiry
  resolves.
\<close>

theorem family_is_first_resolvable:
  assumes "family ic symbol as_of days = Inr f"
  shows "\<exists>u uid options. universe_of symbol = Inr u \<and> cf_definition f = u
    \<and> options = filter (tradable u as_of days) (ic_entries ic)
    \<and> mset (cf_option_records f) = mset (List.map snd
        (filter (\<lambda>x. expires (cf_option_expiry f) x \<and> mr_underlying_security_id (snd x) = Some uid) options))
    \<and> (\<forall>r\<in>set (cf_option_records f). leg_key_of r \<noteq> None) \<and> distinct (List.map leg_key_of (cf_option_records f))
    \<and> distinct (List.map (\<lambda>r. in_security_id (mr_instrument r)) (cf_option_records f))
    \<and> (\<exists>n. future_of ic u (cf_option_expiry f) uid (n, cf_future f))
    \<and> (\<forall>y. future_of ic u (cf_option_expiry f) uid y \<longrightarrow> expiry_instant (cf_future f) \<le> expiry_instant (snd y))
    \<and> (if ud_market_kind u = COMMODITY then cf_underlying f = cf_future f else \<exists>n. underlying_of ic u (n, cf_underlying f))
    \<and> (\<forall>g\<in>set (option_groups options). instant (fst g) < instant (cf_option_expiry f)
        \<longrightarrow> (\<exists>m. family_for_group ic u (fst g) (snd g) (List.map snd (group_of options g)) (unanimous_alias (group_of options g))
              = Inl (DhanCatalogError m)))"
proof -
  from assms obtain u options where u: "universe_of symbol = Inr u"
    and options: "filter_res (active_option u as_of days) (ic_entries ic) = Inr options"
    and r: "first_resolved (\<lambda>(e, uid). family_for_group ic u e uid (List.map snd (group_of options (e, uid)))
        (unanimous_alias (group_of options (e, uid)))) (option_groups options) = Inr f" (is "first_resolved ?f _ = _")
    unfolding family_def bindr_eq_Inr demand_that_eq_Inr by blast
  have opts: "options = filter (tradable u as_of days) (ic_entries ic)"
    using filter_res_eq_Inr[OF options] by (simp add: active_option_iff)
  from first_resolvedD[OF r] obtain ys e uid zs where split: "option_groups options = ys @ (e, uid) # zs"
    and f: "?f (e, uid) = Inr f" and fail: "\<forall>w\<in>set ys. \<exists>m. ?f w = Inl (DhanCatalogError m)" by auto
  note fam = family_for_groupD[OF f[simplified]]
  let ?rs = "cf_option_records f" and ?g = "List.map snd (group_of options (e, uid))"
  from fam have e: "cf_option_expiry f = e" "cf_definition f = u" and perm: "mset ?rs = mset ?g" by blast+
  have group: "group_of options (e, uid) = filter (\<lambda>x. expires e x \<and> mr_underlying_security_id (snd x) = Some uid) options"
    by (simp add: group_of_def same_underlying_def)
  have distinct: "distinct (List.map k ?g) \<Longrightarrow> distinct (List.map k ?rs)" for k :: "master_record \<Rightarrow> 'k"
    using perm by (metis mset_eq_imp_distinct_iff mset_map)
  from fam have options_ok: "\<forall>r\<in>set ?g. leg_key_of r \<noteq> None" "distinct (List.map leg_key_of ?g)"
    "distinct (List.map (\<lambda>r. in_security_id (mr_instrument r)) ?g)" by blast+
  have legs: "(\<forall>r\<in>set ?rs. leg_key_of r \<noteq> None) \<and> distinct (List.map leg_key_of ?rs)
      \<and> distinct (List.map (\<lambda>r. in_security_id (mr_instrument r)) ?rs)"
    using options_ok(1) distinct[OF options_ok(2)] distinct[OF options_ok(3)] by (simp add: mset_eq_setD[OF perm])
  have "g \<in> set ys" if "g \<in> set (option_groups options)" "instant (fst g) < instant e" for g
    using that option_groups_sorted[of options] unfolding split by (auto simp: sorted_append)
  with fail have earlier: "\<forall>g\<in>set (option_groups options). instant (fst g) < instant e
      \<longrightarrow> (\<exists>m. family_for_group ic u (fst g) (snd g) (List.map snd (group_of options g)) (unanimous_alias (group_of options g))
            = Inl (DhanCatalogError m))"
    by (metis (no_types, lifting) case_prod_unfold prod.collapse)
  from u e opts perm[unfolded group] legs earlier fam show ?thesis unfolding e by blast
qed

lemma family_is_first_resolvable_witness:
  "\<exists>uid n m. future_of demo_catalog (hd SUPPORTED_UNIVERSE) catalog_expiry uid (n, snd catalog_future)
     \<and> underlying_of demo_catalog (hd SUPPORTED_UNIVERSE) (m, snd demo_index)"
proof -
  have u: "universe_of ''NIFTY'' = Inr (hd SUPPORTED_UNIVERSE)" "ud_market_kind (hd SUPPORTED_UNIVERSE) \<noteq> COMMODITY"
    by code_simp+
  from family_is_first_resolvable[OF demo_family_found] u show ?thesis by (auto simp: demo_family_def)
qed

subsection \<open>Contracts\<close>



end
