(* ===== verification/Spec2Isabelle.thy ===== *)
theory Spec2Isabelle
  imports StrategyClaims ExecutionClaims2 BtClaims IndicatorClaims SignalClaims ValidationClaims AutomationClaims
    RepositoryClaims NormalizationClaims CatalogClaims
begin

text \<open>
  Verification of TECO Quant Options Pro: the Python backend under
  \<open>src/backend/src/teco_quant\<close> (file names below are relative to it).

  The program.  A market snapshot of one option contract family comes in from a provider: \<^emph>\<open>normalization\<close>
  (\<open>ingestion/normalization.py\<close>) brings payloads into canonical units, and the \<^emph>\<open>catalog\<close>
  (\<open>ingestion/dhan_catalog.py\<close>) resolves a symbol to a verified contract.  The
  \<^emph>\<open>validator\<close> (\<open>ingestion/validation.py\<close>) reports every defect; the \<^emph>\<open>ingestion service\<close>
  (\<open>ingestion/service.py\<close>) saves snapshot and report in the \<^emph>\<open>repository\<close>
  (\<open>persistence/sqlite.py\<close>), which accepts it or keeps it as rejected evidence.  The \<^emph>\<open>signal
  pipeline\<close> (\<open>signals/\<close>, with \<open>analytics/\<close> for indicators and option prices and
  \<open>strategy/spec.py\<close> for the gates and scores) turns an accepted snapshot into a decision and a trade
  plan.  \<^emph>\<open>Automation\<close> (\<open>automation/\<close>) records the evaluation and hands an actionable plan to the
  \<^emph>\<open>execution controller\<close> (\<open>execution/\<close>), which submits it to a paper broker or a live gateway
  and keeps an SQLite ledger.  The \<^emph>\<open>backtesting engine\<close> (\<open>backtesting/\<close>) replays signals on
  bars.

  Theories, in the order of their dependencies, with the code they model:

  \<^item> \<open>Prelude\<close> (errors as values, loops that may raise, strings), \<open>Rounding\<close>, \<open>Numbers\<close>
    (decimals and binary64), \<open>Sqrt\<close>, \<open>Clock\<close> (datetimes), \<open>Tables\<close> (SQL over row lists,
    unique indexes as a locale), \<open>Systems\<close> (reachability, invariants and monotone histories as
    locales), \<open>Grouping\<close>.
  \<^item> \<open>Enums\<close>, \<open>Domain\<close>: \<open>domain/enums.py\<close>, \<open>domain/models.py\<close>.
  \<^item> \<open>ExecModels\<close>, \<open>Ledger\<close>, \<open>Paper\<close>, \<open>Controller\<close>: \<open>execution/models.py\<close>,
    \<open>ledger.py\<close>, \<open>paper.py\<close>, \<open>controller.py\<close>.  \<open>LedgerInv\<close>, \<open>ControllerInv\<close>,
    \<open>ControllerSafety\<close>, \<open>Execution\<close>, \<open>ExecutionInv\<close>, \<open>Lifecycle\<close>: frames, the step
    relation of the controller, its invariants and the abstract life cycle of a signal it refines.
  \<^item> \<open>Strategy\<close>: \<open>strategy/spec.py\<close>.  \<open>BtModels\<close>, \<open>BtConfig\<close>, \<open>BtEngine\<close>, \<open>BtMetrics\<close>:
    \<open>backtesting/\<close>; \<open>BtInv\<close>, \<open>BtReplay\<close>, \<open>BtRun\<close>: its replay invariant.
  \<^item> \<open>Candles\<close>, \<open>Indicators\<close>, \<open>Pricing\<close>, \<open>Chain\<close>: \<open>analytics/\<close>.
  \<^item> \<open>Pipeline\<close>, \<open>Adapters\<close>, \<open>Automation\<close>: \<open>signals/\<close>, \<open>automation/\<close>.
  \<^item> \<open>Validation\<close>, \<open>Validator\<close>: \<open>ingestion/validation.py\<close>; \<open>ValidationSpec\<close>: what a sound
    snapshot is, without reference to the order or the messages of the checks.
  \<^item> \<open>Store\<close>, \<open>Repository\<close>, \<open>Ingestion\<close>: \<open>persistence/sqlite.py\<close> (tables and constraints;
    publishing, masters, contracts, ordering and provenance checks; saving, reading, overrides) and
    \<open>ingestion/service.py\<close>; \<open>RepositoryInv\<close>, \<open>RepositorySystem\<close>, \<open>RepositoryHistory\<close>: the
    effect of each operation, the repository as a state machine and its invariants.
  \<^item> \<open>Json\<close>, \<open>Calendar\<close>: decoded JSON, the texts \<open>Decimal\<close> and \<open>float\<close> read, ISO dates;
    \<open>Normalization\<close>, \<open>DhanMaster\<close>: \<open>ingestion/normalization.py\<close> and \<open>build_dhan_snapshot\<close>;
    \<open>NormalizationInv\<close>: what a normalized leg and its change in open interest are.
  \<^item> \<open>Catalog\<close>, \<open>CatalogFamily\<close>: \<open>ingestion/dhan_catalog.py\<close>; \<open>CatalogInv\<close>: connected records,
    families and ladders.
  \<^item> \<open>*Demo\<close>, \<open>Scenarios\<close>: concrete inputs for the witnesses.  \<open>*Claims\<close>: the properties.

  How state and operations correspond to the code.  A dataclass is a record with the fields of the
  class, an \<open>Enum\<close> a datatype, an SQLite table the list of its rows, a transaction a function that
  either returns the store to commit or an error, in which case the store is kept (rollback).
  A raise is an \<open>Inl\<close> of \<open>py_error\<close> with the class and the constant part of the message.  The
  methods of the controller are functions from a \<open>world\<close> (ledger and log of gateway calls) to a
  result and a world.  A record inside a row stands for the columns of its fields, and the two columns
  of a timestamp for its instant.

  Numbers.  A finite \<open>Decimal\<close> or float is a \<open>rat\<close>; arithmetic rounds as the code's types do:
  \<open>dround\<close> to 28 significant digits half-even, \<open>fround\<close> to binary64 with subnormals, half-even.
  Exponent limits (decimal exponents beyond \<open>10 ^ 6\<close>, float overflow) are left out; raw inputs that may be
  infinite or NaN are \<open>decimal\<close> and \<open>float64\<close>.  A float sum is a left fold, square roots are
  correctly rounded, and \<open>exp\<close>, \<open>log\<close>, \<open>erf\<close> are parameters.  Two spellings of one
  decimal value are identified.  A datetime is naive or aware with a fixed offset, in microseconds.
  Strings are lists of code points below 256.

  Parameters.  SHA-256 and canonical JSON, the clock, generated ids, the live gateway with its answers, the
  mathematical library and the loader of earlier snapshots are arguments of the definitions that use them.

  What the lemmas show.  Execution: at most one gateway submission per signal, risk limits, approvals, the
  kill switch, the ledger's invariants and its agreement with the abstract life cycle.  Strategy and
  signals: a BUY is exactly the conjunction of the gates, sized within the risk, on a validated fresh
  snapshot.  Backtesting: termination, no look-ahead, causality, conservation of quantities.
  Validation: a report is free of errors exactly for sound snapshots.  Repository: accepted streams
  advance, the audit trail is a hash chain, stored changes in open interest recompute, accepted chains
  read back, rejected snapshots are kept.  Normalization: a change in open interest is derived exactly
  from the unambiguous earlier leg, and passes the repository's verification.  Catalog: the supported
  subset is the closure of the seeds, a symbol resolves to its first unambiguous family and a price to
  ten exact records.  Loops of the code are structural recursion on their lists, so no fuel is needed;
  the worklist \<open>grow_selection\<close> ends because a pass adds an index of the finite master, and
  \<open>repr_digits\<close> tries at most the seventeen digits binary64 needs.

  Not modelled.  Opening a database file, inspecting an existing schema, locks and threads; the network clients and
  supervisors of the provider (\<open>brokers/\<close>, \<open>ingestion/dhan_acquisition.py\<close>) and the HTTP layer
  (\<open>api/\<close>, \<open>server.py\<close>), which are input and output around the components above; process
  configuration and wiring (\<open>config.py\<close>, \<open>runtime.py\<close>, \<open>market_data_runtime.py\<close>,
  \<open>__main__.py\<close>).  Upper-casing and \<open>isalnum\<close> are those of ASCII, a byte-order mark is not a
  character of the model, the field size limit of \<open>csv\<close> is left out, and records of equal keys in the
  supported subset keep the order of the master.  Checks of argument types (\<open>isinstance\<close>) hold by typing.
\<close>

end
